(* ===== verification/Prelude.thy ===== *)
theory Prelude
  imports Main "HOL-Library.Word" "HOL-Library.Sublist"
begin

text \<open>
  Shared vocabulary of the development: the Rust types the sources use (machine integers, byte
  strings, \<open>Result\<close>), the standard-library operations they call on them (saturating and checked
  addition, integer conversions, decimal and big-endian printing, UTF-8 \<open>chars\<close>), and the generic
  lemmas every component relies on.

  A Rust \<open>str\<close> is a sequence of bytes that is valid UTF-8. HOL's \<open>char\<close> is an eight-bit value, so
  a \<open>string\<close> (a \<open>char list\<close>) is the byte sequence itself: \<open>len\<close> is \<open>length\<close>, \<open>as_bytes\<close> is the
  identity, and \<open>chars\<close> decodes the scalar values.
\<close>

named_theorems wf_intros \<open>introduction rules for well-formedness predicates\<close>
named_theorems result_simps \<open>evaluation of the Result combinators\<close>

section \<open>Machine integers\<close>

type_synonym u8 = "8 word"
type_synonym u16 = "16 word"
type_synonym u32 = "32 word"
type_synonym u64 = "64 word"
type_synonym i64 = int
type_synonym bytes = "char list"

definition u64_max :: u64 where
  "u64_max = - 1"

definition i64_max :: i64 where
  "i64_max = 2 ^ 63 - 1"

definition i64_min :: i64 where
  "i64_min = - (2 ^ 63)"

definition is_i64 :: "i64 \<Rightarrow> bool" where
  "is_i64 n \<longleftrightarrow> i64_min \<le> n \<and> n \<le> i64_max"

definition saturating_add :: "u64 \<Rightarrow> u64 \<Rightarrow> u64" where
  "saturating_add a b = (if unat a + unat b < 2 ^ 64 then a + b else u64_max)"

definition checked_add :: "u64 \<Rightarrow> u64 \<Rightarrow> u64 option" where
  "checked_add a b = (if unat a + unat b < 2 ^ 64 then Some (a + b) else None)"

definition usize_saturating_add :: "nat \<Rightarrow> nat \<Rightarrow> nat" where
  "usize_saturating_add a b = min (a + b) (2 ^ 64 - 1)"

text \<open>\<open>i64::try_from(u64)\<close> and \<open>u64::try_from(i64)\<close>: \<open>None\<close> is the conversion error.\<close>

definition i64_try_from_u64 :: "u64 \<Rightarrow> i64 option" where
  "i64_try_from_u64 n = (if uint n \<le> i64_max then Some (uint n) else None)"

definition u64_try_from_i64 :: "i64 \<Rightarrow> u64 option" where
  "u64_try_from_i64 n = (if 0 \<le> n then Some (word_of_int n) else None)"

definition unwrap_or :: "'a option \<Rightarrow> 'a \<Rightarrow> 'a" where
  "unwrap_or x d = (case x of Some y \<Rightarrow> y | None \<Rightarrow> d)"

section \<open>Results\<close>

text \<open>\<open>Result<A, E>\<close> is \<open>E + A\<close>: \<open>Inl\<close> is \<open>Err\<close>, \<open>Inr\<close> is \<open>Ok\<close>.\<close>

type_synonym ('e, 'a) result = "'e + 'a"

definition rbind :: "('e, 'a) result \<Rightarrow> ('a \<Rightarrow> ('e, 'b) result) \<Rightarrow> ('e, 'b) result" where
  "rbind m f = (case m of Inl e \<Rightarrow> Inl e | Inr a \<Rightarrow> f a)"

definition map_err :: "('e \<Rightarrow> 'f) \<Rightarrow> ('e, 'a) result \<Rightarrow> ('f, 'a) result" where
  "map_err g m = (case m of Inl e \<Rightarrow> Inl (g e) | Inr a \<Rightarrow> Inr a)"

definition map_ok :: "('a \<Rightarrow> 'b) \<Rightarrow> ('e, 'a) result \<Rightarrow> ('e, 'b) result" where
  "map_ok g m = (case m of Inl e \<Rightarrow> Inl e | Inr a \<Rightarrow> Inr (g a))"

definition ok_or :: "'e \<Rightarrow> 'a option \<Rightarrow> ('e, 'a) result" where
  "ok_or e x = (case x of Some a \<Rightarrow> Inr a | None \<Rightarrow> Inl e)"

definition ensure :: "'e \<Rightarrow> bool \<Rightarrow> ('e, unit) result" where
  "ensure e b = (if b then Inr () else Inl e)"

definition is_ok :: "('e, 'a) result \<Rightarrow> bool" where
  "is_ok m = (case m of Inl _ \<Rightarrow> False | Inr _ \<Rightarrow> True)"

section \<open>Strings\<close>

text \<open>Strict UTF-8 decoding into Unicode scalar values: \<open>None\<close> exactly where
  \<open>std::str::from_utf8\<close> fails (over-long forms, surrogates and values above 10FFFF included).\<close>

definition is_cont :: "char \<Rightarrow> bool" where
  "is_cont c \<longleftrightarrow> 128 \<le> (of_char c :: nat) \<and> (of_char c :: nat) < 192"

fun utf8_decode :: "bytes \<Rightarrow> nat list option" where
  "utf8_decode [] = Some []"
| "utf8_decode (a # r) =
     (let n = (of_char a :: nat) in
      if n < 128 then map_option (Cons n) (utf8_decode r)
      else if 194 \<le> n \<and> n < 224 then
        (case r of b # r' \<Rightarrow>
           if is_cont b
           then map_option (Cons ((n - 192) * 64 + (of_char b - 128))) (utf8_decode r')
           else None
         | _ \<Rightarrow> None)
      else if 224 \<le> n \<and> n < 240 then
        (case r of b # c # r' \<Rightarrow>
           (let v = (n - 224) * 4096 + (of_char b - 128) * 64 + (of_char c - 128) in
            if is_cont b \<and> is_cont c \<and> 2048 \<le> v \<and> \<not> (55296 \<le> v \<and> v < 57344)
            then map_option (Cons v) (utf8_decode r') else None)
         | _ \<Rightarrow> None)
      else if 240 \<le> n \<and> n < 245 then
        (case r of b # c # d # r' \<Rightarrow>
           (let v = (n - 240) * 262144 + (of_char b - 128) * 4096 + (of_char c - 128) * 64
                    + (of_char d - 128) in
            if is_cont b \<and> is_cont c \<and> is_cont d \<and> 65536 \<le> v \<and> v < 1114112
            then map_option (Cons v) (utf8_decode r') else None)
         | _ \<Rightarrow> None)
      else None)"

definition from_utf8 :: "bytes \<Rightarrow> string option" where
  "from_utf8 b = (if utf8_decode b = None then None else Some b)"

text \<open>\<open>str::chars\<close>. A Rust \<open>str\<close> always decodes, so the default is never reached from code.\<close>

definition chars :: "string \<Rightarrow> nat list" where
  "chars s = unwrap_or (utf8_decode s) []"

definition is_control :: "nat \<Rightarrow> bool" where
  "is_control c \<longleftrightarrow> c < 32 \<or> (127 \<le> c \<and> c < 160)"

definition is_whitespace :: "nat \<Rightarrow> bool" where
  "is_whitespace c \<longleftrightarrow> (9 \<le> c \<and> c \<le> 13) \<or> c = 32 \<or> c = 133 \<or> c = 160 \<or> c = 5760
     \<or> (8192 \<le> c \<and> c \<le> 8202) \<or> c = 8232 \<or> c = 8233 \<or> c = 8239 \<or> c = 8287 \<or> c = 12288"

definition trim_chars :: "nat list \<Rightarrow> nat list" where
  "trim_chars cs = rev (dropWhile is_whitespace (rev (dropWhile is_whitespace cs)))"

definition str_contains :: "string \<Rightarrow> string \<Rightarrow> bool" where
  "str_contains s pat = list_ex (\<lambda>t. prefix pat t) (suffixes s)"

definition starts_with :: "string \<Rightarrow> string \<Rightarrow> bool" where
  "starts_with s pat = prefix pat s"

text \<open>Decimal \<open>Display\<close> of an unsigned integer and \<open>to_be_bytes\<close>.\<close>

definition digit_char :: "nat \<Rightarrow> char" where
  "digit_char d = char_of (48 + d)"

fun show_nat :: "nat \<Rightarrow> string" where
  "show_nat n = (if n < 10 then [digit_char n] else show_nat (n div 10) @ [digit_char (n mod 10)])"

declare show_nat.simps [simp del]

definition show_u64 :: "u64 \<Rightarrow> string" where
  "show_u64 n = show_nat (unat n)"

primrec be_bytes :: "nat \<Rightarrow> nat \<Rightarrow> bytes" where
  "be_bytes 0 n = []"
| "be_bytes (Suc k) n = be_bytes k (n div 256) @ [char_of (n mod 256)]"

definition u64_be_bytes :: "u64 \<Rightarrow> bytes" where
  "u64_be_bytes n = be_bytes 8 (unat n)"

section \<open>Iterators and vectors\<close>

text \<open>\<open>Iterator::find_map\<close>, \<open>Iterator::position\<close> and \<open>Vec::remove\<close>.\<close>

fun find_map :: "('a \<Rightarrow> 'b option) \<Rightarrow> 'a list \<Rightarrow> 'b option" where
  "find_map f [] = None"
| "find_map f (x # xs) = (case f x of Some y \<Rightarrow> Some y | None \<Rightarrow> find_map f xs)"

fun iter_position :: "('a \<Rightarrow> bool) \<Rightarrow> 'a list \<Rightarrow> nat option" where
  "iter_position P [] = None"
| "iter_position P (x # xs) = (if P x then Some 0 else map_option Suc (iter_position P xs))"

definition remove_at :: "nat \<Rightarrow> 'a list \<Rightarrow> 'a list" where
  "remove_at i xs = take i xs @ drop (Suc i) xs"

section \<open>Lemmas on machine integers\<close>

lemma u64_max_greatest [simp]: "a \<le> u64_max"
  by (simp add: u64_max_def)

lemma unat_saturating_add: "unat (saturating_add a b) = min (unat a + unat b) (2 ^ 64 - 1)"
proof (cases "unat a + unat b < 2 ^ 64")
  case True
  then show ?thesis by (simp add: saturating_add_def unat_word_ariths)
next
  case False
  then have "saturating_add a b = - 1" by (simp add: saturating_add_def u64_max_def)
  moreover have "unat (- 1 :: u64) = 2 ^ 64 - 1" by (simp add: unsigned_minus_1_eq_mask mask_eq_exp_minus_1)
  ultimately show ?thesis using False by simp
qed

lemma saturating_add_mono [simp]: "a \<le> saturating_add a b"
proof -
  have "unat a < 2 ^ 64" using unsigned_less [of a] by simp
  then show ?thesis by (simp add: word_le_nat_alt unat_saturating_add)
qed

lemma saturating_add_less: "unat a + unat b < 2 ^ 64 \<Longrightarrow> 0 < b \<Longrightarrow> a < saturating_add a b"
  by (simp add: word_less_nat_alt unat_saturating_add)

lemma saturating_add_pos: "0 < b \<Longrightarrow> 0 < saturating_add a b"
  by (simp add: word_less_nat_alt unat_saturating_add)

lemma checked_add_Some: "checked_add a b = Some c \<longleftrightarrow> unat a + unat b < 2 ^ 64 \<and> c = a + b"
  by (auto simp: checked_add_def)

lemma checked_add_unat: "checked_add a b = Some c \<Longrightarrow> unat c = unat a + unat b"
  by (auto simp: checked_add_Some unat_word_ariths)

lemma usize_saturating_add_le:
  "k < 2 ^ 64 - 1 \<Longrightarrow> usize_saturating_add a b \<le> k \<longleftrightarrow> a + b \<le> k"
  by (auto simp: usize_saturating_add_def min_def)

lemma i64_roundtrip: "i64_try_from_u64 n = Some m \<Longrightarrow> u64_try_from_i64 m = Some n"
  by (auto simp: i64_try_from_u64_def u64_try_from_i64_def split: if_splits)

lemma i64_clamp_nonneg: "0 \<le> unwrap_or (i64_try_from_u64 n) i64_max"
  by (simp add: unwrap_or_def i64_try_from_u64_def i64_max_def)

lemma unwrap_or_simps [simp]: "unwrap_or (Some x) d = x" "unwrap_or None d = d"
  by (simp_all add: unwrap_or_def)

section \<open>Lemmas on results\<close>

lemma rbind_simps [simp, result_simps]: "rbind (Inl e) f = Inl e" "rbind (Inr a) f = f a"
  by (simp_all add: rbind_def)

lemma map_err_simps [simp, result_simps]:
  "map_err g (Inl e) = Inl (g e)" "map_err g (Inr a) = Inr a"
  by (simp_all add: map_err_def)

lemma map_ok_simps [simp, result_simps]:
  "map_ok g (Inl e) = Inl e" "map_ok g (Inr a) = Inr (g a)"
  by (simp_all add: map_ok_def)

lemma ok_or_simps [simp, result_simps]: "ok_or e None = Inl e" "ok_or e (Some a) = Inr a"
  by (simp_all add: ok_or_def)

lemma ensure_simps [simp, result_simps]: "ensure e True = Inr ()" "ensure e False = Inl e"
  by (simp_all add: ensure_def)

lemma is_ok_simps [simp, result_simps]: "is_ok (Inl e) = False" "is_ok (Inr a) = True"
  by (simp_all add: is_ok_def)

lemma rbind_Inr [simp]: "rbind m f = Inr b \<longleftrightarrow> (\<exists>a. m = Inr a \<and> f a = Inr b)"
  by (cases m) auto

lemma rbind_Inl: "rbind m f = Inl e \<longleftrightarrow> m = Inl e \<or> (\<exists>a. m = Inr a \<and> f a = Inl e)"
  by (cases m) auto

lemma map_err_Inr [simp]: "map_err g m = Inr a \<longleftrightarrow> m = Inr a"
  by (cases m) auto

lemma map_ok_Inr [simp]: "map_ok g m = Inr b \<longleftrightarrow> (\<exists>a. m = Inr a \<and> b = g a)"
  by (cases m) auto

lemma map_ok_Inl [simp]: "map_ok g m = Inl e \<longleftrightarrow> m = Inl e"
  by (cases m) auto

lemma ok_or_Inr [simp]: "ok_or e x = Inr a \<longleftrightarrow> x = Some a"
  by (cases x) auto

lemma ok_or_Inl [simp]: "ok_or e x = Inl e' \<longleftrightarrow> x = None \<and> e' = e"
  by (cases x) auto

lemma ensure_Inr [simp]: "ensure e b = Inr u \<longleftrightarrow> b"
  by (cases b) auto

lemma ensure_Inl [simp]: "ensure e b = Inl e' \<longleftrightarrow> \<not> b \<and> e' = e"
  by (cases b) auto

lemma is_ok_iff: "is_ok m \<longleftrightarrow> (\<exists>a. m = Inr a)"
  by (cases m) auto

section \<open>Lemmas on strings and encodings\<close>

lemma dropWhile_all_iff: "(\<forall>x \<in> set (dropWhile P xs). P x) \<longleftrightarrow> list_all P xs"
  by (induction xs) auto

lemma trim_chars_empty: "trim_chars cs = [] \<longleftrightarrow> list_all is_whitespace cs"
  by (simp add: trim_chars_def dropWhile_all_iff)

lemma length_be_bytes [simp]: "length (be_bytes k n) = k"
  by (induction k arbitrary: n) auto

lemma be_bytes_inj: "be_bytes k m = be_bytes k n \<Longrightarrow> m < 256 ^ k \<Longrightarrow> n < 256 ^ k \<Longrightarrow> m = n"
proof (induction k arbitrary: m n)
  case 0
  then show ?case by simp
next
  case (Suc k)
  from Suc.prems(1) have bs: "be_bytes k (m div 256) = be_bytes k (n div 256)"
    and c: "char_of (m mod 256) = (char_of (n mod 256) :: char)" by auto
  have "m div 256 < 256 ^ k" "n div 256 < 256 ^ k"
    using Suc.prems(2,3) by (auto simp: less_mult_imp_div_less mult.commute)
  then have "m div 256 = n div 256" using Suc.IH [OF bs] by simp
  moreover from c have "m mod 256 = n mod 256"
    by (metis mod_mod_trivial of_char_of)
  ultimately show ?case by (metis div_mult_mod_eq)
qed

lemma length_u64_be_bytes [simp]: "length (u64_be_bytes n) = 8"
  by (simp add: u64_be_bytes_def)

lemma u64_be_bytes_inj [simp]: "u64_be_bytes m = u64_be_bytes n \<longleftrightarrow> m = n"
proof
  assume "u64_be_bytes m = u64_be_bytes n"
  moreover have "unat m < 256 ^ 8" "unat n < 256 ^ 8"
    using unsigned_less [of m] unsigned_less [of n] by simp_all
  ultimately have "unat m = unat n" unfolding u64_be_bytes_def by (rule be_bytes_inj)
  then show "m = n" by (simp add: word_unat_eq_iff)
qed simp

lemma digit_char_inj: "a < 10 \<Longrightarrow> b < 10 \<Longrightarrow> digit_char a = digit_char b \<longleftrightarrow> a = b"
proof -
  assume "a < 10" "b < 10"
  then have "of_char (digit_char a) = 48 + a" "of_char (digit_char b) = 48 + b"
    by (simp_all add: digit_char_def)
  then show ?thesis by (metis add_left_imp_eq)
qed

lemma show_nat_nonempty [simp]: "show_nat n \<noteq> []"
  by (subst show_nat.simps) simp

lemma Nil_neq_show_nat [simp]: "[] \<noteq> show_nat n"
  using show_nat_nonempty [of n] by metis

lemma show_nat_inj: "show_nat m = show_nat n \<Longrightarrow> m = n"
proof (induction m arbitrary: n rule: show_nat.induct)
  case (1 m)
  show ?case
  proof (cases "m < 10 \<or> n < 10")
    case True
    with "1.prems" show ?thesis
      by (auto simp: show_nat.simps [of m] show_nat.simps [of n] digit_char_inj split: if_splits)
  next
    case False
    with "1.prems" have "show_nat (m div 10) = show_nat (n div 10)"
      and "digit_char (m mod 10) = digit_char (n mod 10)"
      by (auto simp: show_nat.simps [of m] show_nat.simps [of n])
    with False "1.IH" have "m div 10 = n div 10" "m mod 10 = n mod 10"
      by (auto simp: digit_char_inj)
    then show ?thesis by (metis div_mult_mod_eq)
  qed
qed

lemma show_u64_inj [simp]: "show_u64 m = show_u64 n \<longleftrightarrow> m = n"
  by (auto simp: show_u64_def word_unat_eq_iff dest: show_nat_inj)

lemma show_nat_digits: "c \<in> set (show_nat n) \<Longrightarrow> \<exists>d < 10. c = digit_char d"
proof (induction n rule: show_nat.induct)
  case (1 n)
  show ?case
  proof (cases "n < 10")
    case True
    with "1.prems" show ?thesis by (auto simp: show_nat.simps [of n])
  next
    case False
    with "1.prems" have "c \<in> set (show_nat (n div 10)) \<or> c = digit_char (n mod 10)"
      by (auto simp: show_nat.simps [of n])
    with False "1.IH" show ?thesis by (auto intro: exI [of _ "n mod 10"])
  qed
qed

lemma show_u64_no_slash: "CHR ''/'' \<notin> set (show_u64 n)"
proof
  assume "CHR ''/'' \<in> set (show_u64 n)"
  then obtain d where "d < 10" and "CHR ''/'' = digit_char d"
    by (auto simp: show_u64_def dest: show_nat_digits)
  then have "of_char (CHR ''/'') = 48 + d" by (simp add: digit_char_def)
  then show False by simp
qed

text \<open>Splitting a string at the first occurrence of a separator that its first part avoids.\<close>

lemma append_sep_inject:
  assumes "a @ c # r = a' @ c # r'" and "c \<notin> set a" and "c \<notin> set a'"
  shows "a = a' \<and> r = r'"
  using assms
proof (induction a arbitrary: a')
  case Nil
  then show ?case by (cases a') auto
next
  case (Cons x a)
  then show ?case by (cases a') auto
qed

lemma distinct_map_append_one:
  "distinct (map f (xs @ [x])) \<longleftrightarrow> distinct (map f xs) \<and> f x \<notin> f ` set xs"
  by auto

lemma starts_with_iff_take: "starts_with s p \<longleftrightarrow> take (length p) s = p"
  by (metis append_eq_conv_conj prefixE prefixI append_take_drop_id starts_with_def)

lemma find_Some_set: "find P xs = Some x \<Longrightarrow> x \<in> set xs \<and> P x"
  by (induction xs) (auto split: if_splits)

lemma find_Some_ex: "x \<in> set xs \<Longrightarrow> P x \<Longrightarrow> \<exists>y. find P xs = Some y"
  by (induction xs) auto

section \<open>Lemmas on iterators and vectors\<close>

lemma find_map_Some:
  "find_map f xs = Some y \<Longrightarrow>
     \<exists>us x vs. xs = us @ x # vs \<and> f x = Some y \<and> (\<forall>u \<in> set us. f u = None)"
proof (induction xs)
  case Nil
  then show ?case by simp
next
  case (Cons x xs)
  show ?case
  proof (cases "f x")
    case None
    with Cons obtain us z vs where "xs = us @ z # vs" "f z = Some y" "\<forall>u \<in> set us. f u = None"
      by auto
    with None show ?thesis by (intro exI [of _ "x # us"]) auto
  next
    case (Some z)
    with Cons.prems show ?thesis by (intro exI [of _ "[]"]) auto
  qed
qed

lemma find_map_None: "find_map f xs = None \<longleftrightarrow> (\<forall>x \<in> set xs. f x = None)"
  by (induction xs) (auto split: option.splits)

lemma iter_position_Some:
  "iter_position P xs = Some i \<Longrightarrow>
     i < length xs \<and> P (xs ! i) \<and> xs = take i xs @ xs ! i # drop (Suc i) xs
     \<and> (\<forall>u \<in> set (take i xs). \<not> P u)"
  by (induction xs arbitrary: i) (auto split: if_splits)

lemma iter_position_None: "iter_position P xs = None \<longleftrightarrow> (\<forall>x \<in> set xs. \<not> P x)"
  by (induction xs) auto

lemma set_remove_at: "set (remove_at i xs) \<subseteq> set xs"
  by (auto simp: remove_at_def dest: in_set_takeD in_set_dropD)

lemma distinct_remove_at: "distinct (map f xs) \<Longrightarrow> distinct (map f (remove_at i xs))"
proof -
  assume d: "distinct (map f xs)"
  have "map f (remove_at i xs) = take i (map f xs) @ drop (Suc i) (map f xs)"
    by (simp add: remove_at_def take_map drop_map)
  moreover have "set (take i (map f xs)) \<inter> set (drop (Suc i) (map f xs)) = {}"
    using d by (intro set_take_disj_set_drop_if_distinct) auto
  ultimately show ?thesis using d by simp
qed

lemma length_remove_at: "i < length xs \<Longrightarrow> length (remove_at i xs) = length xs - 1"
  by (simp add: remove_at_def)

lemma length_filter_remove_at:
  "k < length xs \<Longrightarrow>
     length (filter P xs) = length (filter P (remove_at k xs)) + (if P (xs ! k) then 1 else 0)"
  by (subst id_take_nth_drop [of k xs]) (simp_all add: remove_at_def)

lemma short_list_unique: "length xs \<le> 1 \<Longrightarrow> a \<in> set xs \<Longrightarrow> b \<in> set xs \<Longrightarrow> a = b"
  by (cases xs) auto

lemma set_remove_at_distinct:
  assumes "distinct xs" "k < length xs"
  shows "set (remove_at k xs) = set xs - {xs ! k}"
proof -
  have s: "xs = take k xs @ xs ! k # drop (Suc k) xs" by (rule id_take_nth_drop [OF assms(2)])
  with assms(1) have "distinct (take k xs @ xs ! k # drop (Suc k) xs)" by simp
  moreover have "set xs = set (take k xs) \<union> {xs ! k} \<union> set (drop (Suc k) xs)"
    using arg_cong [OF s, of set] by auto
  ultimately show ?thesis by (auto simp: remove_at_def)
qed

text \<open>A zero byte decodes to the zero scalar: no multi-byte form contains one.\<close>

lemma utf8_decode_Cons:
  assumes "utf8_decode (a # r) = Some cs"
  shows "\<exists>pre r1 v ds. r = pre @ r1 \<and> list_all is_cont pre \<and> utf8_decode r1 = Some ds \<and> cs = v # ds
    \<and> (of_char a = (0 :: nat) \<longrightarrow> v = 0)"
proof -
  let ?n = "of_char a :: nat"
  have one: ?thesis if "?n < 128"
    using assms that by (intro exI [of _ "[]"] exI [of _ r]) auto
  have two: ?thesis if "194 \<le> ?n" "?n < 224"
  proof -
    from assms that obtain b r1 ds v where "r = b # r1" "is_cont b" "utf8_decode r1 = Some ds" "cs = v # ds"
      by (auto simp: Let_def split: list.splits if_splits)
    with that show ?thesis by (intro exI [of _ "[b]"] exI [of _ r1]) auto
  qed
  have three: ?thesis if "224 \<le> ?n" "?n < 240"
  proof -
    from assms that obtain b c r1 ds v where "r = b # c # r1" "is_cont b" "is_cont c"
      "utf8_decode r1 = Some ds" "cs = v # ds"
      by (auto simp: Let_def split: list.splits if_splits)
    with that show ?thesis by (intro exI [of _ "[b, c]"] exI [of _ r1]) auto
  qed
  have four: ?thesis if "240 \<le> ?n" "?n < 245"
  proof -
    from assms that obtain b c d r1 ds v where "r = b # c # d # r1" "is_cont b" "is_cont c" "is_cont d"
      "utf8_decode r1 = Some ds" "cs = v # ds"
      by (auto simp: Let_def split: list.splits if_splits)
    with that show ?thesis by (intro exI [of _ "[b, c, d]"] exI [of _ r1]) auto
  qed
  have "\<not> (128 \<le> ?n \<and> ?n < 194) \<and> \<not> 245 \<le> ?n" using assms by (auto simp: Let_def)
  then have "?n < 128 \<or> 194 \<le> ?n \<and> ?n < 224 \<or> 224 \<le> ?n \<and> ?n < 240 \<or> 240 \<le> ?n \<and> ?n < 245"
    by linarith
  then show ?thesis using one two three four by blast
qed

lemma utf8_decode_nul: "utf8_decode s = Some cs \<Longrightarrow> CHR 0x00 \<in> set s \<Longrightarrow> 0 \<in> set cs"
proof (induction s arbitrary: cs rule: length_induct)
  case (1 s)
  from "1.prems" obtain a r where s: "s = a # r" by (cases s) auto
  from utf8_decode_Cons [OF "1.prems"(1) [unfolded s]] obtain pre r1 v ds where
    r: "r = pre @ r1" "list_all is_cont pre" and d: "utf8_decode r1 = Some ds" "cs = v # ds"
    and v: "of_char a = (0 :: nat) \<longrightarrow> v = 0" by auto
  have pre: "CHR 0x00 \<notin> set pre" using r(2) by (auto simp: list_all_iff is_cont_def)
  show ?case
  proof (cases "a = CHR 0x00")
    case True
    then show ?thesis using v d(2) by simp
  next
    case False
    then have "CHR 0x00 \<in> set r1" using "1.prems"(2) s r(1) pre by auto
    moreover have "length r1 < length s" using s r(1) by simp
    ultimately show ?thesis using "1.IH" d by auto
  qed
qed

end
