(* ===== verification/Externals.thy ===== *)
theory Externals
  imports Prelude
begin

text \<open>
  Third-party functions the product code calls and this development does not define: the
  \<^verbatim>\<open>uuid\<close> crate's formatting and the \<^verbatim>\<open>sha2\<close> crate's digest. They are fields of a record that
  every definition using them takes as an argument. The predicates below state their documented
  behaviour; \<open>sample_externals\<close> is a concrete instance that meets them, on which the witnesses
  evaluate.
\<close>

text \<open>A \<open>Uuid\<close> is a 128-bit value.\<close>

type_synonym uuid = "128 word"

record externals =
  uuid_is_nil :: "uuid \<Rightarrow> bool"           \<comment> \<open>\<open>Uuid::is_nil\<close>\<close>
  uuid_hyphenated :: "uuid \<Rightarrow> string"     \<comment> \<open>\<open>Uuid::hyphenated\<close>, also its \<open>Display\<close>\<close>
  uuid_as_bytes :: "uuid \<Rightarrow> bytes"        \<comment> \<open>\<open>Uuid::as_bytes\<close>\<close>
  sha256_raw :: "bytes \<Rightarrow> bytes"          \<comment> \<open>\<open>Sha256::digest\<close>\<close>
  sha256_hex :: "bytes \<Rightarrow> string"         \<comment> \<open>its \<open>{:x}\<close> formatting\<close>

section \<open>Documented behaviour\<close>

definition is_lower_hex :: "char \<Rightarrow> bool" where
  "is_lower_hex c \<longleftrightarrow> (48 \<le> (of_char c :: nat) \<and> (of_char c :: nat) \<le> 57)
     \<or> (97 \<le> (of_char c :: nat) \<and> (of_char c :: nat) \<le> 102)"

definition uuid_contract :: "'z externals_scheme \<Rightarrow> bool" where
  "uuid_contract x \<longleftrightarrow>
     inj (uuid_hyphenated x)
     \<and> (\<forall>u. length (uuid_hyphenated x u) = 36
          \<and> list_all (\<lambda>c. is_lower_hex c \<or> c = CHR ''-'') (uuid_hyphenated x u))
     \<and> inj (uuid_as_bytes x) \<and> (\<forall>u. length (uuid_as_bytes x u) = 16)"

text \<open>A digest is 32 bytes; its hexadecimal form is 64 lower-case digits. Freedom from collisions
  is only ever assumed on an explicit set of messages: no function with this range is injective.\<close>

definition digest_contract :: "'z externals_scheme \<Rightarrow> bool" where
  "digest_contract x \<longleftrightarrow> (\<forall>m. length (sha256_raw x m) = 32
     \<and> length (sha256_hex x m) = 64 \<and> list_all is_lower_hex (sha256_hex x m))"

definition collision_free_on :: "'z externals_scheme \<Rightarrow> bytes set \<Rightarrow> bool" where
  "collision_free_on x M \<longleftrightarrow> inj_on (sha256_hex x) M"

section \<open>A concrete instance\<close>

definition hex_char :: "nat \<Rightarrow> char" where
  "hex_char d = (if d < 10 then char_of (48 + d) else char_of (87 + d))"

primrec hex_digits :: "nat \<Rightarrow> nat \<Rightarrow> string" where
  "hex_digits 0 n = []"
| "hex_digits (Suc k) n = hex_digits k (n div 16) @ [hex_char (n mod 16)]"

definition hyphenate :: "string \<Rightarrow> string" where
  "hyphenate h = take 8 h @ [CHR ''-''] @ take 4 (drop 8 h) @ [CHR ''-''] @ take 4 (drop 12 h)
     @ [CHR ''-''] @ take 4 (drop 16 h) @ [CHR ''-''] @ drop 20 h"

definition sample_hyphenated :: "uuid \<Rightarrow> string" where
  "sample_hyphenated u = hyphenate (hex_digits 32 (unat u))"

text \<open>A stand-in digest: a positional checksum. It keeps the short messages of the witnesses apart.\<close>

definition sample_checksum :: "bytes \<Rightarrow> nat" where
  "sample_checksum m = foldl (\<lambda>acc c. (acc * 257 + of_char c + 1) mod 340282366920938463463374607431768211297) 0 m"

definition sample_externals :: externals where
  "sample_externals = \<lparr>
     uuid_is_nil = (\<lambda>u. u = 0),
     uuid_hyphenated = sample_hyphenated,
     uuid_as_bytes = (\<lambda>u. be_bytes 16 (unat u)),
     sha256_raw = (\<lambda>m. be_bytes 32 (sample_checksum m)),
     sha256_hex = (\<lambda>m. hex_digits 64 (sample_checksum m)) \<rparr>"

section \<open>Lemmas\<close>

lemma length_hex_digits [simp]: "length (hex_digits k n) = k"
  by (induction k arbitrary: n) auto

lemma of_char_hex_char: "d < 16 \<Longrightarrow> of_char (hex_char d) = (if d < 10 then 48 + d else 87 + d)"
  by (simp add: hex_char_def)

lemma hex_char_lower: "d < 16 \<Longrightarrow> is_lower_hex (hex_char d)"
  by (simp add: is_lower_hex_def of_char_hex_char)

lemma hex_char_inj: "a < 16 \<Longrightarrow> b < 16 \<Longrightarrow> hex_char a = hex_char b \<longleftrightarrow> a = b"
proof
  assume "a < 16" "b < 16" "hex_char a = hex_char b"
  then have "(if a < 10 then 48 + a else 87 + a) = (if b < 10 then 48 + b else 87 + b)"
    by (metis of_char_hex_char)
  then show "a = b" using \<open>a < 16\<close> \<open>b < 16\<close> by (auto split: if_splits)
qed simp

lemma hex_digits_lower: "list_all is_lower_hex (hex_digits k n)"
  by (induction k arbitrary: n) (auto simp: hex_char_lower)

lemma hex_digits_inj:
  "hex_digits k m = hex_digits k n \<Longrightarrow> m < 16 ^ k \<Longrightarrow> n < 16 ^ k \<Longrightarrow> m = n"
proof (induction k arbitrary: m n)
  case 0
  then show ?case by simp
next
  case (Suc k)
  then have "hex_digits k (m div 16) = hex_digits k (n div 16)" and "m mod 16 = n mod 16"
    by (auto simp: hex_char_inj)
  moreover have "m div 16 < 16 ^ k" "n div 16 < 16 ^ k"
    using Suc.prems(2,3) by (auto simp: less_mult_imp_div_less mult.commute)
  ultimately have "m div 16 = n div 16" using Suc.IH by simp
  with \<open>m mod 16 = n mod 16\<close> show ?case by (metis div_mult_mod_eq)
qed

lemma hyphenate_inj:
  assumes "length h = 32" "length h' = 32" and "hyphenate h = hyphenate h'"
  shows "h = h'"
proof -
  from assms have "take 8 h = take 8 h'" "take 4 (drop 8 h) = take 4 (drop 8 h')"
    "take 4 (drop 12 h) = take 4 (drop 12 h')" "take 4 (drop 16 h) = take 4 (drop 16 h')"
    "drop 20 h = drop 20 h'"
    by (auto simp: hyphenate_def)
  moreover have "g = take 8 g @ take 4 (drop 8 g) @ take 4 (drop 12 g) @ take 4 (drop 16 g)
                       @ drop 20 g" for g :: string
  proof -
    have "g = take 8 g @ drop 8 g" by simp
    also have "drop 8 g = take 4 (drop 8 g) @ drop 12 g"
      using append_take_drop_id [of 4 "drop 8 g"] by simp
    also have "drop 12 g = take 4 (drop 12 g) @ drop 16 g"
      using append_take_drop_id [of 4 "drop 12 g"] by simp
    also have "drop 16 g = take 4 (drop 16 g) @ drop 20 g"
      using append_take_drop_id [of 4 "drop 16 g"] by simp
    finally show ?thesis by simp
  qed
  ultimately show ?thesis by metis
qed

lemma sample_hyphenated_inj: "inj sample_hyphenated"
proof (rule injI)
  fix u v assume "sample_hyphenated u = sample_hyphenated v"
  then have "hex_digits 32 (unat u) = hex_digits 32 (unat v)"
    unfolding sample_hyphenated_def by (rule hyphenate_inj [OF length_hex_digits length_hex_digits])
  moreover have "unat u < 16 ^ 32" "unat v < 16 ^ 32"
    using unsigned_less [of u] unsigned_less [of v] by simp_all
  ultimately have "unat u = unat v" by (rule hex_digits_inj)
  then show "u = v" by (simp add: word_unat_eq_iff)
qed

lemma sample_bytes_inj: "inj (\<lambda>u :: uuid. be_bytes 16 (unat u))"
proof (rule injI)
  fix u v :: uuid assume "be_bytes 16 (unat u) = be_bytes 16 (unat v)"
  moreover have "unat u < 256 ^ 16" "unat v < 256 ^ 16"
    using unsigned_less [of u] unsigned_less [of v] by simp_all
  ultimately have "unat u = unat v" by (rule be_bytes_inj)
  then show "u = v" by (simp add: word_unat_eq_iff)
qed

lemma length_hyphenate: "length h = 32 \<Longrightarrow> length (hyphenate h) = 36"
  by (simp add: hyphenate_def)

lemma hyphenate_chars:
  "list_all is_lower_hex h \<Longrightarrow> list_all (\<lambda>c. is_lower_hex c \<or> c = CHR ''-'') (hyphenate h)"
  by (auto simp: hyphenate_def list_all_iff dest: in_set_takeD in_set_dropD)

lemma sample_uuid_contract: "uuid_contract sample_externals"
proof -
  have "length (sample_hyphenated u) = 36" for u
    unfolding sample_hyphenated_def by (rule length_hyphenate) (rule length_hex_digits)
  moreover have "list_all (\<lambda>c. is_lower_hex c \<or> c = CHR ''-'') (sample_hyphenated u)" for u
    unfolding sample_hyphenated_def by (rule hyphenate_chars) (rule hex_digits_lower)
  ultimately show ?thesis
    using sample_hyphenated_inj sample_bytes_inj
    by (simp add: uuid_contract_def sample_externals_def del: be_bytes.simps)
qed

lemma sample_digest_contract: "digest_contract sample_externals"
  by (simp add: digest_contract_def sample_externals_def hex_digits_lower)

lemma lower_hex_not_slash: "is_lower_hex c \<Longrightarrow> c \<noteq> CHR ''/''"
  by (auto simp: is_lower_hex_def)

lemma lower_hex_not_nul: "is_lower_hex c \<Longrightarrow> c \<noteq> CHR 0x00"
  by (auto simp: is_lower_hex_def)

end
