(* ===== verification/Rotation_Model.thy ===== *)
theory Rotation_Model
  imports Prelude
begin

text \<open>
  The transport-neutral product model, \<^verbatim>\<open>crates/rotation-model/src/lib.rs\<close>: validated opaque
  references, positive generations, the rotation policy and the projections of acceptance,
  acknowledgement, report and application receipt. A struct is a record whose constructor is the
  source's \<open>new\<close> and whose selectors are its accessors; a newtype is a one-constructor datatype, so
  that values of different newtypes stay apart as they do in Rust.
\<close>

section \<open>Errors and opaque references\<close>

datatype rotation_model_error =
    EmptyReference string
  | ControlCharacter string
  | ZeroGeneration
  | ZeroFenceEpoch
  | ZeroCredentialRevision
  | InvalidPolicy

definition rotation_model_error_display :: "rotation_model_error \<Rightarrow> string" where
  "rotation_model_error_display e = (case e of
     EmptyReference kind \<Rightarrow> kind @ '' must not be empty''
   | ControlCharacter kind \<Rightarrow> kind @ '' must not contain control characters''
   | ZeroGeneration \<Rightarrow> ''generation must be greater than zero''
   | ZeroFenceEpoch \<Rightarrow> ''fence epoch must be greater than zero''
   | ZeroCredentialRevision \<Rightarrow> ''credential revision must be greater than zero''
   | InvalidPolicy \<Rightarrow> ''rotation policy violates product constraints'')"

definition validate_reference :: "string \<Rightarrow> string \<Rightarrow> (rotation_model_error, unit) result" where
  "validate_reference value kind =
     (if trim_chars (chars value) = [] then Inl (EmptyReference kind)
      else if list_ex is_control (chars value) then Inl (ControlCharacter kind)
      else Inr ())"

text \<open>The macro \<open>opaque_reference!\<close>: one newtype per invocation, all with the same fallible
  constructor.\<close>

definition opaque_reference ::
  "(string \<Rightarrow> 'r) \<Rightarrow> string \<Rightarrow> string \<Rightarrow> (rotation_model_error, 'r) result" where
  "opaque_reference mk kind value =
     rbind (validate_reference value kind) (\<lambda>_. Inr (mk value))"

datatype rotation_id = RotationId (rotation_id_expose: string)
datatype request_id = RequestId (request_id_expose: string)
datatype correlation_id = CorrelationId (correlation_id_expose: string)
datatype tenant_ref = TenantRef (tenant_ref_expose: string)
datatype device_ref = DeviceRef (device_ref_expose: string)
datatype principal_ref = PrincipalRef (principal_ref_expose: string)
datatype authorization_receipt_ref =
  AuthorizationReceiptRef (authorization_receipt_ref_expose: string)
datatype command_ref = CommandRef (command_ref_expose: string)
datatype event_ref = EventRef (event_ref_expose: string)
datatype ingress_envelope_ref = IngressEnvelopeRef (ingress_envelope_ref_expose: string)
datatype state_hash_ref = StateHash (state_hash_expose: string)
datatype artifact_digest_ref = ArtifactDigest (artifact_digest_expose: string)

definition rotation_id_try_from :: "string \<Rightarrow> (rotation_model_error, rotation_id) result" where
  "rotation_id_try_from = opaque_reference RotationId ''rotation_id''"

definition request_id_try_from :: "string \<Rightarrow> (rotation_model_error, request_id) result" where
  "request_id_try_from = opaque_reference RequestId ''request_id''"

definition correlation_id_try_from ::
  "string \<Rightarrow> (rotation_model_error, correlation_id) result" where
  "correlation_id_try_from = opaque_reference CorrelationId ''correlation_id''"

definition tenant_ref_try_from :: "string \<Rightarrow> (rotation_model_error, tenant_ref) result" where
  "tenant_ref_try_from = opaque_reference TenantRef ''tenant_ref''"

definition device_ref_try_from :: "string \<Rightarrow> (rotation_model_error, device_ref) result" where
  "device_ref_try_from = opaque_reference DeviceRef ''device_ref''"

definition principal_ref_try_from ::
  "string \<Rightarrow> (rotation_model_error, principal_ref) result" where
  "principal_ref_try_from = opaque_reference PrincipalRef ''principal_ref''"

definition authorization_receipt_ref_try_from ::
  "string \<Rightarrow> (rotation_model_error, authorization_receipt_ref) result" where
  "authorization_receipt_ref_try_from =
     opaque_reference AuthorizationReceiptRef ''authorization_receipt_ref''"

definition command_ref_try_from :: "string \<Rightarrow> (rotation_model_error, command_ref) result" where
  "command_ref_try_from = opaque_reference CommandRef ''command_ref''"

definition event_ref_try_from :: "string \<Rightarrow> (rotation_model_error, event_ref) result" where
  "event_ref_try_from = opaque_reference EventRef ''event_ref''"

definition ingress_envelope_ref_try_from ::
  "string \<Rightarrow> (rotation_model_error, ingress_envelope_ref) result" where
  "ingress_envelope_ref_try_from = opaque_reference IngressEnvelopeRef ''ingress_envelope_ref''"

definition state_hash_try_from :: "string \<Rightarrow> (rotation_model_error, state_hash_ref) result" where
  "state_hash_try_from = opaque_reference StateHash ''state_hash''"

definition artifact_digest_try_from ::
  "string \<Rightarrow> (rotation_model_error, artifact_digest_ref) result" where
  "artifact_digest_try_from = opaque_reference ArtifactDigest ''artifact_digest''"

section \<open>The rotation policy\<close>

datatype key_usage = ClientAuth | ServerAuth

definition key_usage_as_str :: "key_usage \<Rightarrow> string" where
  "key_usage_as_str u = (case u of ClientAuth \<Rightarrow> ''clientAuth'' | ServerAuth \<Rightarrow> ''serverAuth'')"

record rotation_policy =
  rp_key_usages :: "key_usage list"
  rp_renew_before_seconds :: u64
  rp_sans :: "string list"
  rp_validity_seconds :: u64

text \<open>\<open>unique_usages\<close> and \<open>unique_sans\<close> are \<open>BTreeSet\<close>s, whose \<open>len\<close> is the cardinality.\<close>

definition rotation_policy_try_new ::
  "key_usage list \<Rightarrow> u64 \<Rightarrow> string list \<Rightarrow> u64 \<Rightarrow> (rotation_model_error, rotation_policy) result"
where
  "rotation_policy_try_new key_usages renew_before_seconds sans validity_seconds =
     (if key_usages = []
         \<or> card (set key_usages) \<noteq> length key_usages
         \<or> \<not> (300 \<le> validity_seconds \<and> validity_seconds \<le> 31536000)
         \<or> \<not> (60 \<le> renew_before_seconds \<and> renew_before_seconds < validity_seconds)
         \<or> length sans > 32
         \<or> card (set sans) \<noteq> length sans
         \<or> list_ex (\<lambda>san. san = [] \<or> length (chars san) > 253 \<or> list_ex is_control (chars san)) sans
      then Inl InvalidPolicy
      else Inr \<lparr> rp_key_usages = key_usages, rp_renew_before_seconds = renew_before_seconds,
                 rp_sans = sans, rp_validity_seconds = validity_seconds \<rparr>)"

record operation_correlation =
  oc_request_id :: request_id
  oc_correlation_id :: correlation_id

section \<open>Positive integers\<close>

datatype generation = Generation (generation_get: u64)
datatype fence_epoch = FenceEpoch (fence_epoch_get: u64)
datatype credential_revision = CredentialRevision (credential_revision_get: u64)
datatype device_sequence = DeviceSequence (device_sequence_get: u64)
datatype unix_timestamp = UnixTimestamp (unix_timestamp_get: i64)

definition generation_try_from :: "u64 \<Rightarrow> (rotation_model_error, generation) result" where
  "generation_try_from value = (if value = 0 then Inl ZeroGeneration else Inr (Generation value))"

definition fence_epoch_try_from :: "u64 \<Rightarrow> (rotation_model_error, fence_epoch) result" where
  "fence_epoch_try_from value = (if value = 0 then Inl ZeroFenceEpoch else Inr (FenceEpoch value))"

definition credential_revision_try_from ::
  "u64 \<Rightarrow> (rotation_model_error, credential_revision) result" where
  "credential_revision_try_from value =
     (if value = 0 then Inl ZeroCredentialRevision else Inr (CredentialRevision value))"

text \<open>The three newtypes derive \<open>Ord\<close> from the number they wrap.\<close>

instantiation generation :: linorder
begin
definition less_eq_generation :: "generation \<Rightarrow> generation \<Rightarrow> bool" where
  "a \<le> b \<longleftrightarrow> generation_get a \<le> generation_get b"
definition less_generation :: "generation \<Rightarrow> generation \<Rightarrow> bool" where
  "a < b \<longleftrightarrow> generation_get a < generation_get b"
instance
  by standard (auto simp: less_eq_generation_def less_generation_def generation.expand)
end

instantiation fence_epoch :: linorder
begin
definition less_eq_fence_epoch :: "fence_epoch \<Rightarrow> fence_epoch \<Rightarrow> bool" where
  "a \<le> b \<longleftrightarrow> fence_epoch_get a \<le> fence_epoch_get b"
definition less_fence_epoch :: "fence_epoch \<Rightarrow> fence_epoch \<Rightarrow> bool" where
  "a < b \<longleftrightarrow> fence_epoch_get a < fence_epoch_get b"
instance
  by standard (auto simp: less_eq_fence_epoch_def less_fence_epoch_def fence_epoch.expand)
end

instantiation credential_revision :: linorder
begin
definition less_eq_credential_revision :: "credential_revision \<Rightarrow> credential_revision \<Rightarrow> bool" where
  "a \<le> b \<longleftrightarrow> credential_revision_get a \<le> credential_revision_get b"
definition less_credential_revision :: "credential_revision \<Rightarrow> credential_revision \<Rightarrow> bool" where
  "a < b \<longleftrightarrow> credential_revision_get a < credential_revision_get b"
instance
  by standard
    (auto simp: less_eq_credential_revision_def less_credential_revision_def
      credential_revision.expand)
end

record installed_credential_position =
  ip_desired_generation :: generation
  ip_fence_epoch :: fence_epoch
  ip_credential_revision :: credential_revision

section \<open>Coordinates, intent and the observed projections\<close>

record rotation_coordinates =
  rc_rotation_id :: rotation_id
  rc_tenant :: tenant_ref
  rc_device :: device_ref

record rotation_intent =
  ri_coordinates :: rotation_coordinates
  ri_requested_by :: principal_ref

datatype acceptance_condition = AcceptReconciling | AcceptPendingDevice

record rotation_accepted =
  ra_coordinates :: rotation_coordinates
  ra_authorization_receipt :: authorization_receipt_ref
  ra_accepted_generation :: generation
  ra_condition :: acceptance_condition

datatype command_rejection_reason =
    ReasonArtifactUnavailable
  | ReasonArtifactDigestMismatch
  | ReasonPolicyRejected
  | ReasonGenerationStale
  | ReasonFenceEpochStale
  | ReasonMalformedCommand
  | ReasonDeviceFailure

datatype command_acknowledgement_outcome =
    AckReceived
  | AckRejected command_rejection_reason

record command_ack_position =
  ap_desired_generation :: generation
  ap_fence_epoch :: fence_epoch
  ap_device_sequence :: device_sequence
  ap_observed_at :: unix_timestamp

record command_acknowledgement =
  ca_coordinates :: rotation_coordinates
  ca_event :: event_ref
  ca_command :: command_ref
  ca_position :: command_ack_position
  ca_outcome :: command_acknowledgement_outcome

definition ca_desired_generation :: "command_acknowledgement \<Rightarrow> generation" where
  "ca_desired_generation a = ap_desired_generation (ca_position a)"

definition ca_fence_epoch :: "command_acknowledgement \<Rightarrow> fence_epoch" where
  "ca_fence_epoch a = ap_fence_epoch (ca_position a)"

definition ca_device_sequence :: "command_acknowledgement \<Rightarrow> device_sequence" where
  "ca_device_sequence a = ap_device_sequence (ca_position a)"

definition ca_observed_at :: "command_acknowledgement \<Rightarrow> unix_timestamp" where
  "ca_observed_at a = ap_observed_at (ca_position a)"

record report_position =
  rpos_observed_generation :: generation
  rpos_fence_epoch :: fence_epoch
  rpos_device_sequence :: device_sequence
  rpos_observed_at :: unix_timestamp

record credential_report =
  cr_coordinates :: rotation_coordinates
  cr_event :: event_ref
  cr_position :: report_position
  cr_state_hash :: state_hash_ref
  cr_artifact_digest :: artifact_digest_ref
  cr_expires_at :: "unix_timestamp option"

definition cr_observed_generation :: "credential_report \<Rightarrow> generation" where
  "cr_observed_generation r = rpos_observed_generation (cr_position r)"

definition cr_fence_epoch :: "credential_report \<Rightarrow> fence_epoch" where
  "cr_fence_epoch r = rpos_fence_epoch (cr_position r)"

definition cr_device_sequence :: "credential_report \<Rightarrow> device_sequence" where
  "cr_device_sequence r = rpos_device_sequence (cr_position r)"

definition cr_observed_at :: "credential_report \<Rightarrow> unix_timestamp" where
  "cr_observed_at r = rpos_observed_at (cr_position r)"

datatype application_stale_reason =
  StaleGeneration | StaleFenceEpoch | StaleDeviceSequence

datatype application_rejection_reason =
  RejectNotAccepted | RejectSchemaRejected | RejectProtocolViolation

record receipt_lineage =
  rl_authorization_receipt :: authorization_receipt_ref
  rl_desired_generation :: generation

datatype application_receipt_outcome =
    Committed receipt_lineage
  | DuplicateReceipt receipt_lineage
  | StaleReceipt receipt_lineage application_stale_reason
  | RejectedReceipt application_rejection_reason

record application_receipt_observation =
  ar_coordinates :: rotation_coordinates
  ar_event :: event_ref
  ar_ingress_envelope :: ingress_envelope_ref
  ar_outcome :: application_receipt_outcome
  ar_committed_at :: unix_timestamp

section \<open>Well-formedness: what the fallible constructors guarantee\<close>

definition wf_reference :: "string \<Rightarrow> bool" where
  "wf_reference value \<longleftrightarrow>
     \<not> list_all is_whitespace (chars value) \<and> \<not> list_ex is_control (chars value)"

definition wf_policy :: "rotation_policy \<Rightarrow> bool" where
  "wf_policy p \<longleftrightarrow>
     rp_key_usages p \<noteq> [] \<and> distinct (rp_key_usages p)
     \<and> 300 \<le> rp_validity_seconds p \<and> rp_validity_seconds p \<le> 31536000
     \<and> 60 \<le> rp_renew_before_seconds p \<and> rp_renew_before_seconds p < rp_validity_seconds p
     \<and> length (rp_sans p) \<le> 32 \<and> distinct (rp_sans p)
     \<and> (\<forall>san \<in> set (rp_sans p). san \<noteq> [] \<and> length (chars san) \<le> 253
          \<and> \<not> list_ex is_control (chars san))"

definition wf_position :: "installed_credential_position \<Rightarrow> bool" where
  "wf_position p \<longleftrightarrow> generation_get (ip_desired_generation p) \<noteq> 0
     \<and> fence_epoch_get (ip_fence_epoch p) \<noteq> 0
     \<and> credential_revision_get (ip_credential_revision p) \<noteq> 0"

lemma wf_reference_nonempty [wf_intros]: "wf_reference value \<Longrightarrow> value \<noteq> []"
  by (auto simp: wf_reference_def chars_def)

lemma validate_reference_Inr: "validate_reference value kind = Inr () \<longleftrightarrow> wf_reference value"
  by (auto simp: validate_reference_def wf_reference_def trim_chars_empty)

lemma opaque_reference_Inr:
  "opaque_reference mk kind value = Inr r \<longleftrightarrow> wf_reference value \<and> r = mk value"
  by (auto simp: opaque_reference_def validate_reference_Inr)

lemmas opaque_try_from_defs =
  rotation_id_try_from_def request_id_try_from_def correlation_id_try_from_def
  tenant_ref_try_from_def device_ref_try_from_def principal_ref_try_from_def
  authorization_receipt_ref_try_from_def command_ref_try_from_def event_ref_try_from_def
  ingress_envelope_ref_try_from_def state_hash_try_from_def artifact_digest_try_from_def

lemma generation_try_from_Inr [simp]:
  "generation_try_from v = Inr g \<longleftrightarrow> v \<noteq> 0 \<and> g = Generation v"
  by (auto simp: generation_try_from_def)

lemma fence_epoch_try_from_Inr [simp]:
  "fence_epoch_try_from v = Inr g \<longleftrightarrow> v \<noteq> 0 \<and> g = FenceEpoch v"
  by (auto simp: fence_epoch_try_from_def)

lemma credential_revision_try_from_Inr [simp]:
  "credential_revision_try_from v = Inr g \<longleftrightarrow> v \<noteq> 0 \<and> g = CredentialRevision v"
  by (auto simp: credential_revision_try_from_def)

lemma card_set_length: "card (set xs) = length xs \<longleftrightarrow> distinct xs"
  using card_distinct distinct_card by blast

lemma rotation_policy_try_new_Inr:
  "rotation_policy_try_new usages renew sans validity = Inr p \<longleftrightarrow> wf_policy p
     \<and> p = \<lparr> rp_key_usages = usages, rp_renew_before_seconds = renew, rp_sans = sans, rp_validity_seconds = validity \<rparr>"
    (is "_ = Inr p \<longleftrightarrow> _ \<and> p = ?p")
proof -
  have "rotation_policy_try_new usages renew sans validity = (if wf_policy ?p then Inr ?p else Inl InvalidPolicy)"
    by (simp add: rotation_policy_try_new_def wf_policy_def list_ex_iff card_set_length not_less
        flip: not_le de_Morgan_disj cong: conj_cong)
  then show ?thesis by auto
qed

end
