(* ===== verification/Agent_Types.thy ===== *)
theory Agent_Types
  imports Externals Rotation_Model
begin

text \<open>
  The value types of the device agent, \<^verbatim>\<open>crates/reference-device-agent-core/src/types.rs\<close>: the
  authenticated identity and its MQTT names, the validated command fields, the decoded command and
  the outbound facts. The lemmas show what each fallible constructor accepts and that the topic of
  one identity is never the topic of another.
\<close>

section \<open>Identity\<close>

definition COMMAND_CONTRACT :: string where
  "COMMAND_CONTRACT = ''identity.commands.apply-device-certificate''"

definition ACK_CONTRACT :: string where
  "ACK_CONTRACT = ''identity.device-command-acked''"

definition REPORT_CONTRACT :: string where
  "REPORT_CONTRACT = ''identity.device-certificate-reported''"

datatype value_error =
    Zero
  | InvalidArtifactId
  | InvalidClientId
  | InvalidHost
  | InvalidPort
  | InvalidCommandId
  | InvalidDigest
  | NilTenant
  | NilDevice

datatype credential_generation = CredentialGeneration (credential_generation_get: u64)

definition credential_generation_try_from ::
  "u64 \<Rightarrow> (value_error, credential_generation) result" where
  "credential_generation_try_from value =
     (if value = 0 then Inl Zero else Inr (CredentialGeneration value))"

record device_identity =
  di_tenant :: uuid
  di_device :: uuid
  di_credential_generation :: credential_generation

definition device_identity_try_new ::
  "'z externals_scheme \<Rightarrow> uuid \<Rightarrow> uuid \<Rightarrow> credential_generation
     \<Rightarrow> (value_error, device_identity) result" where
  "device_identity_try_new x tenant device credential_generation =
     (if uuid_is_nil x tenant then Inl NilTenant
      else if uuid_is_nil x device then Inl NilDevice
      else Inr \<lparr> di_tenant = tenant, di_device = device,
                 di_credential_generation = credential_generation \<rparr>)"

definition principal_urn :: "'z externals_scheme \<Rightarrow> device_identity \<Rightarrow> string" where
  "principal_urn x i = ''urn:rss:mqtt-device:v1:'' @ uuid_hyphenated x (di_tenant i) @ '':''
     @ uuid_hyphenated x (di_device i) @ '':''
     @ show_u64 (credential_generation_get (di_credential_generation i))"

definition mqtt_client_id :: "'z externals_scheme \<Rightarrow> device_identity \<Rightarrow> string" where
  "mqtt_client_id x i = ''rss-reference-device-'' @ uuid_hyphenated x (di_tenant i) @ ''-''
     @ uuid_hyphenated x (di_device i)"

section \<open>Topics\<close>

record topic_set =
  ts_identity :: device_identity
  ts_command :: string
  ts_command_acknowledged :: string
  ts_certificate_reported :: string

definition topic_prefix :: "'z externals_scheme \<Rightarrow> device_identity \<Rightarrow> string" where
  "topic_prefix x i = ''rss/v1/'' @ uuid_hyphenated x (di_tenant i) @ ''/''
     @ uuid_hyphenated x (di_device i) @ ''/''
     @ show_u64 (credential_generation_get (di_credential_generation i)) @ ''/''"

definition topic_set_new :: "'z externals_scheme \<Rightarrow> device_identity \<Rightarrow> topic_set" where
  "topic_set_new x i = \<lparr>
     ts_identity = i,
     ts_command = topic_prefix x i @ ''downlink/'' @ COMMAND_CONTRACT,
     ts_command_acknowledged = topic_prefix x i @ ''uplink/'' @ ACK_CONTRACT,
     ts_certificate_reported = topic_prefix x i @ ''uplink/'' @ REPORT_CONTRACT \<rparr>"

definition accepts_command :: "topic_set \<Rightarrow> string \<Rightarrow> bool" where
  "accepts_command ts topic \<longleftrightarrow> topic = ts_command ts"

record recovery_command_scope =
  rs_identity :: device_identity
  rs_topic :: string
  rs_command_id :: string

section \<open>Validated command fields\<close>

datatype artifact_id = ArtifactId (artifact_id_expose: string)
datatype sha256_digest = Sha256Digest (sha256_digest_expose: string)
datatype command_id = CommandId (command_id_expose: string)

definition artifact_id_try_from :: "string \<Rightarrow> (value_error, artifact_id) result" where
  "artifact_id_try_from value =
     (let valid_length = (16 \<le> length (chars value) \<and> length (chars value) \<le> 256);
          invalid_character =
            list_ex (\<lambda>c. is_control c \<or> c = of_char CHR ''/'' \<or> c = of_char (CHR 0x5C)) (chars value)
      in if \<not> valid_length \<or> invalid_character \<or> str_contains value ''..''
         then Inl InvalidArtifactId
         else Inr (ArtifactId value))"

definition sha256_digest_try_from :: "string \<Rightarrow> (value_error, sha256_digest) result" where
  "sha256_digest_try_from value =
     (if length value = 71 \<and> starts_with value ''sha256:'' \<and> list_all is_lower_hex (drop 7 value)
      then Inr (Sha256Digest value) else Inl InvalidDigest)"

definition command_id_try_from :: "string \<Rightarrow> (value_error, command_id) result" where
  "command_id_try_from value =
     (if 1 \<le> length (chars value) \<and> length (chars value) \<le> 256 \<and> \<not> list_ex is_control (chars value)
      then Inr (CommandId value) else Inl InvalidCommandId)"

section \<open>Commands and outbound facts\<close>

record device_command =
  dc_command_id :: command_id
  dc_device_id :: uuid
  dc_artifact_id :: artifact_id
  dc_artifact_digest :: sha256_digest
  dc_authorization_receipt_id :: uuid
  dc_deadline_epoch_seconds :: u64
  dc_desired_generation :: generation
  dc_fence_epoch :: fence_epoch
  dc_intent_digest :: sha256_digest
  dc_policy_hash :: sha256_digest

datatype command_rejection =
    ArtifactUnavailable
  | ArtifactDigestMismatch
  | PolicyRejected
  | GenerationStale
  | FenceEpochStale
  | MalformedCommand
  | DeviceFailure

datatype apply_outcome = Accepted | Duplicate | Rejected command_rejection

record ack_fact =
  af_command_id :: string
  af_desired_generation :: u64
  af_fence_epoch :: u64
  af_device_sequence :: u64
  af_observed_at :: i64
  af_rejection :: "command_rejection option"

record report_fact =
  rf_observed_generation :: u64
  rf_fence_epoch :: u64
  rf_device_sequence :: u64
  rf_observed_at :: i64
  rf_state_hash :: string
  rf_artifact_digest :: string
  rf_expires_at :: "i64 option"

datatype outbound_fact =
    CommandAcknowledged string ack_fact
  | CertificateReported string report_fact

fun outbound_fact_event_id :: "outbound_fact \<Rightarrow> string" where
  "outbound_fact_event_id (CommandAcknowledged event_id _) = event_id"
| "outbound_fact_event_id (CertificateReported event_id _) = event_id"

text \<open>Paths are lists of components below the file system's root.\<close>

type_synonym path = "string list"

record credential_files =
  cf_ca_certificate :: path
  cf_certificate_chain :: path
  cf_private_key :: path

section \<open>Well-formedness: what the fallible constructors guarantee\<close>

definition wf_identity :: "'z externals_scheme \<Rightarrow> device_identity \<Rightarrow> bool" where
  "wf_identity x i \<longleftrightarrow> \<not> uuid_is_nil x (di_tenant i) \<and> \<not> uuid_is_nil x (di_device i)
     \<and> credential_generation_get (di_credential_generation i) \<noteq> 0"

definition wf_digest :: "string \<Rightarrow> bool" where
  "wf_digest value \<longleftrightarrow>
     length value = 71 \<and> take 7 value = ''sha256:'' \<and> list_all is_lower_hex (drop 7 value)"

definition wf_command_id :: "string \<Rightarrow> bool" where
  "wf_command_id value \<longleftrightarrow>
     1 \<le> length (chars value) \<and> length (chars value) \<le> 256 \<and> \<not> list_ex is_control (chars value)"

definition wf_artifact_id :: "string \<Rightarrow> bool" where
  "wf_artifact_id value \<longleftrightarrow> is_ok (artifact_id_try_from value)"

definition wf_command :: "device_command \<Rightarrow> bool" where
  "wf_command c \<longleftrightarrow> wf_command_id (command_id_expose (dc_command_id c))
     \<and> wf_artifact_id (artifact_id_expose (dc_artifact_id c))
     \<and> wf_digest (sha256_digest_expose (dc_artifact_digest c))
     \<and> dc_deadline_epoch_seconds c \<noteq> 0
     \<and> generation_get (dc_desired_generation c) \<noteq> 0
     \<and> fence_epoch_get (dc_fence_epoch c) \<noteq> 0
     \<and> wf_digest (sha256_digest_expose (dc_intent_digest c))
     \<and> wf_digest (sha256_digest_expose (dc_policy_hash c))"

section \<open>Lemmas\<close>

lemma credential_generation_try_from_Inr [simp]:
  "credential_generation_try_from v = Inr g \<longleftrightarrow> v \<noteq> 0 \<and> g = CredentialGeneration v"
  by (auto simp: credential_generation_try_from_def)

lemma device_identity_try_new_Inr:
  "device_identity_try_new x t d g = Inr i \<longleftrightarrow>
     \<not> uuid_is_nil x t \<and> \<not> uuid_is_nil x d
     \<and> i = \<lparr> di_tenant = t, di_device = d, di_credential_generation = g \<rparr>"
  by (auto simp: device_identity_try_new_def)

lemma sha256_digest_try_from_Inr:
  "sha256_digest_try_from v = Inr d \<longleftrightarrow> wf_digest v \<and> d = Sha256Digest v"
  by (auto simp: sha256_digest_try_from_def wf_digest_def starts_with_iff_take numeral_eq_Suc)

lemma sha256_digest_is_ok: "is_ok (sha256_digest_try_from v) \<longleftrightarrow> wf_digest v"
  by (auto simp: is_ok_iff sha256_digest_try_from_Inr)

lemma command_id_try_from_Inr:
  "command_id_try_from v = Inr d \<longleftrightarrow> wf_command_id v \<and> d = CommandId v"
  by (auto simp: command_id_try_from_def wf_command_id_def)

lemma artifact_id_try_from_Inr:
  "artifact_id_try_from v = Inr d \<longleftrightarrow> wf_artifact_id v \<and> d = ArtifactId v"
  by (auto simp: artifact_id_try_from_def wf_artifact_id_def Let_def)

lemma wf_command_id_nonempty [wf_intros]: "wf_command_id v \<Longrightarrow> v \<noteq> []"
  by (auto simp: wf_command_id_def chars_def)

lemma hex_digest_wf: "digest_contract x \<Longrightarrow> wf_digest (''sha256:'' @ sha256_hex x m)"
  by (simp add: wf_digest_def digest_contract_def)

lemma uuid_hyphenated_no_slash:
  "uuid_contract x \<Longrightarrow> CHR ''/'' \<notin> set (uuid_hyphenated x u)"
  by (fastforce simp: uuid_contract_def list_all_iff is_lower_hex_def)

lemma uuid_hyphenated_eq [simp]:
  "uuid_contract x \<Longrightarrow> uuid_hyphenated x u = uuid_hyphenated x v \<longleftrightarrow> u = v"
  by (auto simp: uuid_contract_def dest: injD)

lemma length_uuid_hyphenated [simp]: "uuid_contract x \<Longrightarrow> length (uuid_hyphenated x u) = 36"
  by (simp add: uuid_contract_def)

lemma uuid_as_bytes_eq [simp]:
  "uuid_contract x \<Longrightarrow> uuid_as_bytes x u = uuid_as_bytes x v \<longleftrightarrow> u = v"
  by (auto simp: uuid_contract_def dest: injD)

lemma length_uuid_as_bytes [simp]: "uuid_contract x \<Longrightarrow> length (uuid_as_bytes x u) = 16"
  by (simp add: uuid_contract_def)

lemma topic_prefix_inj:
  assumes "uuid_contract x" and "topic_prefix x i @ r = topic_prefix x j @ r'"
  shows "i = j \<and> r = r'"
proof -
  from assms have "di_tenant i = di_tenant j" and "di_device i = di_device j"
    and "show_u64 (credential_generation_get (di_credential_generation i)) @ CHR ''/'' # r
       = show_u64 (credential_generation_get (di_credential_generation j)) @ CHR ''/'' # r'"
    by (auto simp: topic_prefix_def)
  moreover from this(3) have
    "show_u64 (credential_generation_get (di_credential_generation i))
       = show_u64 (credential_generation_get (di_credential_generation j)) \<and> r = r'"
    by (rule append_sep_inject) (simp_all add: show_u64_no_slash)
  ultimately show ?thesis by (auto intro: device_identity.equality credential_generation.expand)
qed

lemma topic_prefix_neq:
  "uuid_contract x \<Longrightarrow> i \<noteq> j \<Longrightarrow> topic_prefix x i @ r \<noteq> topic_prefix x j @ r'"
  by (auto dest: topic_prefix_inj)

lemma topic_prefix_eq [simp]: "uuid_contract x \<Longrightarrow> topic_prefix x i = topic_prefix x j \<longleftrightarrow> i = j"
  by (auto dest: topic_prefix_inj [of x i "[]" j "[]"])

text \<open>The set of topic names an identity may publish or receive on.\<close>

definition topic_names :: "topic_set \<Rightarrow> string list" where
  "topic_names ts = [ts_command ts, ts_command_acknowledged ts, ts_certificate_reported ts]"

lemma topic_names_distinct: "distinct (topic_names (topic_set_new x i))"
  by (simp add: topic_names_def topic_set_new_def COMMAND_CONTRACT_def ACK_CONTRACT_def
      REPORT_CONTRACT_def)

lemma topic_names_disjoint:
  assumes "uuid_contract x" and "i \<noteq> j"
  shows "set (topic_names (topic_set_new x i)) \<inter> set (topic_names (topic_set_new x j)) = {}"
  using topic_prefix_neq [OF assms] topic_prefix_neq [OF assms(1) assms(2) [symmetric]]
    assms
  by (simp add: topic_names_def topic_set_new_def)

lemma ts_command_eq [simp]:
  "uuid_contract x \<Longrightarrow> ts_command (topic_set_new x i) = ts_command (topic_set_new x j) \<longleftrightarrow> i = j"
  by (auto simp: topic_set_new_def dest: topic_prefix_inj)

end
