(* ===== verification/File_System.thy ===== *)
theory File_System
  imports Agent_Types
begin

text \<open>
  The part of \<open>std::fs\<close> and \<open>rustix\<close> the agent uses, with failures and crashes. A disk is an
  association list from absolute paths to nodes. Every system call consults a script: it may
  proceed, fail, or be the one during which the machine stops; a failing or interrupted write may
  leave a part of its effect. The world also keeps the disks a crash may fall back to: metadata
  changes since the last directory synchronisation may be lost, in reverse order, and the contents
  of a file that was not synchronised are arbitrary after a crash.
\<close>

section \<open>Disks\<close>

text \<open>The flag of a file tells whether its contents have been synchronised.\<close>

datatype node = Dir | File bytes u32 bool | Symlink path

type_synonym fs = "(path \<times> node) list"

definition fs_get :: "fs \<Rightarrow> path \<Rightarrow> node option" where
  "fs_get fs p = (if p = [] then Some Dir else map_of fs p)"

definition fs_put :: "path \<Rightarrow> node \<Rightarrow> fs \<Rightarrow> fs" where
  "fs_put p n fs = (p, n) # filter (\<lambda>(q, _). q \<noteq> p) fs"

definition fs_del :: "path \<Rightarrow> fs \<Rightarrow> fs" where
  "fs_del p fs = filter (\<lambda>(q, _). q \<noteq> p) fs"

definition fs_del_tree :: "path \<Rightarrow> fs \<Rightarrow> fs" where
  "fs_del_tree p fs = filter (\<lambda>(q, _). \<not> prefix p q) fs"

fun fs_del_some :: "nat \<Rightarrow> path \<Rightarrow> fs \<Rightarrow> fs" where
  "fs_del_some n p [] = []"
| "fs_del_some n p ((q, m) # fs) =
     (if n = 0 then (q, m) # fs
      else if strict_prefix p q then fs_del_some (n - 1) p (fs_del q fs)
      else (q, m) # fs_del_some n p fs)"

definition fs_move :: "path \<Rightarrow> path \<Rightarrow> fs \<Rightarrow> fs" where
  "fs_move src dst fs =
     map (\<lambda>(q, n). (if prefix src q then dst @ drop (length src) q else q, n))
       (filter (\<lambda>(q, _). \<not> prefix dst q) fs)"

definition fs_children :: "path \<Rightarrow> fs \<Rightarrow> string list" where
  "fs_children p fs = map (\<lambda>(q, _). last q) (filter (\<lambda>(q, _). q \<noteq> [] \<and> butlast q = p) fs)"

text \<open>Path resolution follows at most forty symbolic links; targets are absolute.\<close>

function fs_walk :: "nat \<Rightarrow> fs \<Rightarrow> path \<Rightarrow> path \<Rightarrow> path option" where
  "fs_walk links fs done [] = Some done"
| "fs_walk links fs done (c # cs) =
     (case fs_get fs (done @ [c]) of
        Some (Symlink target) \<Rightarrow>
          (case links of 0 \<Rightarrow> None | Suc k \<Rightarrow> fs_walk k fs [] (target @ cs))
      | _ \<Rightarrow> fs_walk links fs (done @ [c]) cs)"
  by pat_completeness auto
termination by (relation "measures [\<lambda>(links, _, _, _). links, \<lambda>(_, _, _, todo). length todo]") auto

definition fs_resolve :: "fs \<Rightarrow> path \<Rightarrow> path option" where
  "fs_resolve fs p = fs_walk 40 fs [] p"

definition fs_stat :: "fs \<Rightarrow> path \<Rightarrow> node option" where
  "fs_stat fs p = (case fs_resolve fs p of None \<Rightarrow> None | Some q \<Rightarrow> fs_get fs q)"

section \<open>The world\<close>

datatype io_error = NotFound | LoopOrNotDir | OtherIo

datatype outcome = Proceed | Fail nat | Crash nat

record world =
  w_fs :: fs
  w_log :: "fs list"            \<comment> \<open>disks a crash may fall back to\<close>
  w_script :: "outcome list"
  w_dead :: bool
  w_locks :: "path list"        \<comment> \<open>lock files held by another process\<close>

type_synonym 'a io = "world \<Rightarrow> world \<times> (io_error, 'a) result"

definition set_fs :: "fs \<Rightarrow> world \<Rightarrow> world" where
  "set_fs fs w = w\<lparr> w_fs := fs, w_log := w_fs w # w_log w \<rparr>"

text \<open>One system call: \<open>act\<close> is its effect, \<open>part n\<close> what a failure after \<open>n\<close> units leaves.\<close>

definition syscall :: "(fs \<Rightarrow> (io_error, fs \<times> 'a) result) \<Rightarrow> (nat \<Rightarrow> fs \<Rightarrow> fs) \<Rightarrow> 'a io" where
  "syscall act part w =
     (if w_dead w then (w, Inl OtherIo)
      else let w1 = w\<lparr> w_script := tl (w_script w) \<rparr> in
        case w_script w of
          Fail n # _ \<Rightarrow> (set_fs (part n (w_fs w)) w1, Inl OtherIo)
        | Crash n # _ \<Rightarrow> ((set_fs (part n (w_fs w)) w1)\<lparr> w_dead := True \<rparr>, Inl OtherIo)
        | _ \<Rightarrow>
            (case act (w_fs w) of
               Inl e \<Rightarrow> (w1, Inl e)
             | Inr (fs, a) \<Rightarrow> (set_fs fs w1, Inr a)))"

definition no_part :: "nat \<Rightarrow> fs \<Rightarrow> fs" where
  "no_part n fs = fs"

definition read_call :: "(fs \<Rightarrow> (io_error, 'a) result) \<Rightarrow> 'a io" where
  "read_call query w =
     (if w_dead w then (w, Inl OtherIo)
      else let w1 = w\<lparr> w_script := tl (w_script w) \<rparr> in
        case w_script w of
          Fail n # _ \<Rightarrow> (w1, Inl OtherIo)
        | Crash n # _ \<Rightarrow> (w1\<lparr> w_dead := True \<rparr>, Inl OtherIo)
        | _ \<Rightarrow> (w1, query (w_fs w)))"

section \<open>Calls\<close>

text \<open>\<open>fs::read\<close>, \<open>Path::exists\<close>, \<open>fs::metadata\<close>.\<close>

definition read_node :: "fs \<Rightarrow> path \<Rightarrow> (io_error, bytes) result" where
  "read_node fs p = (case fs_stat fs p of
     Some (File b _ _) \<Rightarrow> Inr b | None \<Rightarrow> Inl NotFound | _ \<Rightarrow> Inl OtherIo)"

definition fs_read :: "path \<Rightarrow> bytes io" where
  "fs_read p = read_call (\<lambda>fs. read_node fs p)"

definition path_exists :: "path \<Rightarrow> world \<Rightarrow> world \<times> bool" where
  "path_exists p w = (let (w1, r) = read_call (\<lambda>fs. Inr (fs_stat fs p \<noteq> None)) w
     in (w1, case r of Inr b \<Rightarrow> b | Inl _ \<Rightarrow> False))"

definition fs_metadata :: "path \<Rightarrow> node io" where
  "fs_metadata p = read_call (\<lambda>fs. case fs_stat fs p of Some n \<Rightarrow> Inr n | None \<Rightarrow> Inl NotFound)"

definition fs_read_dir :: "path \<Rightarrow> string list io" where
  "fs_read_dir p = read_call (\<lambda>fs. case fs_stat fs p of
     Some Dir \<Rightarrow> Inr (fs_children (unwrap_or (fs_resolve fs p) p) fs)
   | None \<Rightarrow> Inl NotFound | Some _ \<Rightarrow> Inl OtherIo)"

text \<open>Changes are made on paths that hold no symbolic link above their last component.\<close>

definition parent_ok :: "fs \<Rightarrow> path \<Rightarrow> (io_error, unit) result" where
  "parent_ok fs p = (if p = [] then Inl OtherIo else case fs_get fs (butlast p) of
     Some Dir \<Rightarrow> Inr () | None \<Rightarrow> Inl NotFound | Some _ \<Rightarrow> Inl OtherIo)"

definition create_new :: "path \<Rightarrow> u32 \<Rightarrow> unit io" where
  "create_new p mode = syscall (\<lambda>fs. rbind (parent_ok fs p) (\<lambda>_.
     if fs_get fs p \<noteq> None then Inl OtherIo
     else Inr (fs_put p (File [] mode False) fs, ()))) no_part"

definition put_contents :: "path \<Rightarrow> bytes \<Rightarrow> fs \<Rightarrow> fs" where
  "put_contents p b fs = (case fs_get fs p of
     Some (File _ m _) \<Rightarrow> fs_put p (File b m False) fs | _ \<Rightarrow> fs)"

definition write_all :: "path \<Rightarrow> bytes \<Rightarrow> unit io" where
  "write_all p b = syscall (\<lambda>fs. Inr (put_contents p b fs, ()))
     (\<lambda>n fs. put_contents p (take n b) fs)"

definition sync_file :: "path \<Rightarrow> unit io" where
  "sync_file p = syscall (\<lambda>fs. Inr (case fs_get fs p of
     Some (File b m _) \<Rightarrow> fs_put p (File b m True) fs | _ \<Rightarrow> fs, ())) no_part"

definition sync_dir :: "path \<Rightarrow> unit io" where
  "sync_dir p w = (let (w1, r) = read_call (\<lambda>fs. if fs_get fs p = None then Inl NotFound else Inr ()) w
     in (case r of Inr _ \<Rightarrow> w1\<lparr> w_log := [] \<rparr> | Inl _ \<Rightarrow> w1, r))"

definition remove_file :: "path \<Rightarrow> unit io" where
  "remove_file p = syscall (\<lambda>fs. case fs_get fs p of
     None \<Rightarrow> Inl NotFound | Some Dir \<Rightarrow> Inl OtherIo | Some _ \<Rightarrow> Inr (fs_del p fs, ())) no_part"

definition remove_dir_all :: "path \<Rightarrow> unit io" where
  "remove_dir_all p = syscall (\<lambda>fs. case fs_get fs p of
     None \<Rightarrow> Inl NotFound
   | Some Dir \<Rightarrow> if p = [] then Inl OtherIo else Inr (fs_del_tree p fs, ())
   | Some (Symlink _) \<Rightarrow> Inr (fs_del p fs, ())
   | Some (File _ _ _) \<Rightarrow> Inl OtherIo) (\<lambda>n fs. fs_del_some n p fs)"

definition create_dir :: "path \<Rightarrow> unit io" where
  "create_dir p = syscall (\<lambda>fs. rbind (parent_ok fs p) (\<lambda>_.
     if fs_get fs p \<noteq> None then Inl OtherIo else Inr (fs_put p Dir fs, ()))) no_part"

definition add_dirs :: "path \<Rightarrow> fs \<Rightarrow> (io_error, fs) result" where
  "add_dirs p fs = foldl (\<lambda>acc q. rbind acc (\<lambda>fs. case fs_get fs q of
     None \<Rightarrow> Inr (fs_put q Dir fs) | Some Dir \<Rightarrow> Inr fs | Some _ \<Rightarrow> Inl OtherIo)) (Inr fs) (prefixes p)"

definition create_dir_all :: "path \<Rightarrow> unit io" where
  "create_dir_all p = syscall (\<lambda>fs. map_ok (\<lambda>fs. (fs, ())) (add_dirs p fs)) no_part"

definition rename_ok :: "path \<Rightarrow> path \<Rightarrow> fs \<Rightarrow> (io_error, unit) result" where
  "rename_ok src dst fs = rbind (parent_ok fs dst) (\<lambda>_.
     case fs_get fs src of
       None \<Rightarrow> Inl NotFound
     | Some Dir \<Rightarrow>
         if prefix src dst \<or> prefix dst src then Inl OtherIo
         else (case fs_get fs dst of
                 None \<Rightarrow> Inr ()
               | Some Dir \<Rightarrow> ensure OtherIo (fs_children dst fs = [])
               | Some _ \<Rightarrow> Inl OtherIo)
     | Some _ \<Rightarrow> ensure OtherIo (fs_get fs dst \<noteq> Some Dir))"

definition rename :: "path \<Rightarrow> path \<Rightarrow> unit io" where
  "rename src dst = syscall (\<lambda>fs. map_ok (\<lambda>_. (if src = dst then fs else fs_move src dst fs, ()))
     (rename_ok src dst fs)) no_part"

text \<open>A non-blocking exclusive \<open>flock\<close> fails when another process holds the lock.\<close>

datatype lock_error = WouldBlock | LockFailed

definition flock :: "path \<Rightarrow> world \<Rightarrow> world \<times> (lock_error, unit) result" where
  "flock p w = (let (w1, r) = read_call (\<lambda>_. Inr (p \<notin> set (w_locks w))) w
     in (w1, case r of Inl _ \<Rightarrow> Inl LockFailed | Inr free \<Rightarrow> ensure WouldBlock free))"

section \<open>Recovery\<close>

definition torn_node :: "node option \<Rightarrow> node option \<Rightarrow> bool" where
  "torn_node before after = (case before of
     Some (File b m False) \<Rightarrow> (\<exists>b'. after = Some (File b' m True)) | _ \<Rightarrow> after = before)"

definition may_recover :: "world \<Rightarrow> fs \<Rightarrow> bool" where
  "may_recover w f \<longleftrightarrow> (\<exists>g \<in> set (w_fs w # w_log w). \<forall>p. torn_node (fs_get g p) (fs_get f p))"

text \<open>The world in which the machine starts again from a recovered disk.\<close>

definition reboot :: "fs \<Rightarrow> outcome list \<Rightarrow> world" where
  "reboot f script = \<lparr> w_fs = f, w_log = [], w_script = script, w_dead = False, w_locks = [] \<rparr>"

section \<open>Sequencing\<close>

type_synonym ('w, 'e, 'a) proc = "'w \<Rightarrow> 'w \<times> ('e, 'a) result"

definition pbind :: "('w, 'e, 'a) proc \<Rightarrow> ('a \<Rightarrow> ('w, 'e, 'b) proc) \<Rightarrow> ('w, 'e, 'b) proc" where
  "pbind m f w = (case m w of (w1, Inl e) \<Rightarrow> (w1, Inl e) | (w1, Inr a) \<Rightarrow> f a w1)"

definition preturn :: "'a \<Rightarrow> ('w, 'e, 'a) proc" where
  "preturn a w = (w, Inr a)"

definition plift :: "('e, 'a) result \<Rightarrow> ('w, 'e, 'a) proc" where
  "plift r w = (w, r)"

definition pmap_err :: "('e \<Rightarrow> 'f) \<Rightarrow> ('w, 'e, 'a) proc \<Rightarrow> ('w, 'f, 'a) proc" where
  "pmap_err g m w = (let (w1, r) = m w in (w1, map_err g r))"

definition pquery :: "('w \<Rightarrow> 'w \<times> 'a) \<Rightarrow> ('w, 'e, 'a) proc" where
  "pquery q w = (let (w1, a) = q w in (w1, Inr a))"

section \<open>Lemmas on disks\<close>

lemma map_of_filter_key: "map_of (filter (\<lambda>(q, _). P q) fs) p = (if P p then map_of fs p else None)"
  by (induction fs) auto

lemma fs_get_put [simp]:
  "fs_get (fs_put p n fs) q = (if q = [] then Some Dir else if q = p then Some n else fs_get fs q)"
  by (auto simp: fs_get_def fs_put_def map_of_filter_key)

lemma fs_get_del: "fs_get (fs_del p fs) q = (if q = [] then Some Dir else if q = p then None else fs_get fs q)"
  by (auto simp: fs_get_def fs_del_def map_of_filter_key)

lemma fs_get_del_tree:
  "fs_get (fs_del_tree p fs) q =
     (if q = [] then Some Dir else if prefix p q then None else fs_get fs q)"
  by (auto simp: fs_get_def fs_del_tree_def map_of_filter_key)

lemma fs_get_del_some: "\<not> strict_prefix p q \<Longrightarrow> fs_get (fs_del_some n p fs) q = fs_get fs q"
proof (induction n p fs rule: fs_del_some.induct)
  case (2 n p r m fs)
  then show ?case
    by (cases "q = []") (auto simp: fs_get_def fs_del_def map_of_filter_key)
qed simp

lemma map_of_move_other:
  "\<not> prefix src q \<Longrightarrow> \<not> prefix dst q \<Longrightarrow> map_of (fs_move src dst fs) q = map_of fs q"
  by (induction fs) (auto simp: fs_move_def)

lemma map_of_move_dst:
  "\<not> prefix src dst \<Longrightarrow> \<not> prefix dst src \<Longrightarrow>
     map_of (fs_move src dst fs) (dst @ r) = map_of fs (src @ r)"
proof (induction fs)
  case Nil
  then show ?case by (simp add: fs_move_def)
next
  case (Cons a fs)
  obtain q n where a: "a = (q, n)" by (cases a)
  have par: "\<not> prefix dst (src @ r)" "\<not> prefix src (dst @ r)"
    using Cons.prems by (metis prefix_append prefix_order.order_refl prefix_same_cases prefixI)+
  show ?case
  proof (cases "prefix dst q")
    case True
    then have "q \<noteq> src @ r" using par(1) by auto
    with True Cons show ?thesis by (simp add: a fs_move_def)
  next
    case False
    have "prefix src q \<Longrightarrow> dst @ drop (length src) q = dst @ r \<longleftrightarrow> q = src @ r"
      by (auto simp: prefix_def)
    moreover have "\<not> prefix src q \<Longrightarrow> q \<noteq> src @ r \<and> q \<noteq> dst @ r" using False by auto
    ultimately show ?thesis using False Cons by (auto simp: a fs_move_def)
  qed
qed

lemma fs_get_move_other:
  "\<not> prefix src q \<Longrightarrow> \<not> prefix dst q \<Longrightarrow> fs_get (fs_move src dst fs) q = fs_get fs q"
  by (simp add: fs_get_def map_of_move_other)

lemma fs_get_move_dst:
  "\<not> prefix src dst \<Longrightarrow> \<not> prefix dst src \<Longrightarrow> fs_get (fs_move src dst fs) (dst @ r) = fs_get fs (src @ r)"
  by (auto simp: fs_get_def map_of_move_dst)

lemma fs_get_move_src:
  assumes "\<not> prefix src dst" "\<not> prefix dst src"
  shows "fs_get (fs_move src dst fs) src = (if src = [] then Some Dir else None)"
proof -
  have "map_of (fs_move src dst fs) src = None"
    using assms by (induction fs) (auto simp: fs_move_def split: if_splits, metis prefixI)
  then show ?thesis by (simp add: fs_get_def)
qed

lemma fs_walk_plain:
  assumes "\<forall>k \<le> length todo. \<forall>t. fs_get fs (done @ take k todo) \<noteq> Some (Symlink t)"
  shows "fs_walk links fs done todo = Some (done @ todo)"
  using assms
proof (induction todo arbitrary: "done")
  case Nil
  then show ?case by simp
next
  case (Cons c cs)
  from Cons.prems have "\<forall>t. fs_get fs (done @ [c]) \<noteq> Some (Symlink t)" by force
  moreover have "fs_walk links fs (done @ [c]) cs = Some ((done @ [c]) @ cs)"
  proof (rule Cons.IH, intro allI impI)
    fix k t assume "k \<le> length cs"
    then show "fs_get fs ((done @ [c]) @ take k cs) \<noteq> Some (Symlink t)"
      using Cons.prems [rule_format, of "Suc k" t] by simp
  qed
  ultimately show ?case by (auto split: option.splits node.splits)
qed

text \<open>A path none of whose prefixes is a symbolic link.\<close>

definition plain_path :: "fs \<Rightarrow> path \<Rightarrow> bool" where
  "plain_path fs p \<longleftrightarrow> (\<forall>q t. prefix q p \<longrightarrow> fs_get fs q \<noteq> Some (Symlink t))"

lemma plain_path_resolve: "plain_path fs p \<Longrightarrow> fs_resolve fs p = Some p"
  unfolding fs_resolve_def plain_path_def
  by (subst fs_walk_plain) (auto simp: take_is_prefix)

lemma plain_path_stat: "plain_path fs p \<Longrightarrow> fs_stat fs p = fs_get fs p"
  by (simp add: fs_stat_def plain_path_resolve)

section \<open>Lemmas on calls\<close>

text \<open>A property of every disk the world may present after a crash, torn files aside.\<close>

definition all_disks :: "(fs \<Rightarrow> bool) \<Rightarrow> world \<Rightarrow> bool" where
  "all_disks Q w \<longleftrightarrow> (\<forall>g \<in> set (w_fs w # w_log w). Q g)"

lemma all_disksD: "all_disks Q w \<Longrightarrow> Q (w_fs w)"
  by (simp add: all_disks_def)

lemma all_disks_mono: "all_disks Q w \<Longrightarrow> (\<And>g. Q g \<Longrightarrow> R g) \<Longrightarrow> all_disks R w"
  by (simp add: all_disks_def)

lemma all_disks_set_fs: "all_disks Q w \<Longrightarrow> Q fs \<Longrightarrow> all_disks Q (set_fs fs w)"
  by (simp add: all_disks_def set_fs_def)

lemma all_disks_upd [simp]:
  "all_disks Q (w\<lparr> w_script := sc \<rparr>) = all_disks Q w" "all_disks Q (w\<lparr> w_dead := d \<rparr>) = all_disks Q w"
  by (simp_all add: all_disks_def)

lemma all_disks_syscall:
  assumes "all_disks Q w" and "\<And>fs fs' a. Q fs \<Longrightarrow> act fs = Inr (fs', a) \<Longrightarrow> Q fs'"
    and "\<And>n fs. Q fs \<Longrightarrow> Q (part n fs)"
  shows "all_disks Q (fst (syscall act part w))"
  using assms all_disksD [OF assms(1)]
  by (auto simp: syscall_def Let_def split: list.splits outcome.splits sum.splits
      intro!: all_disks_set_fs)

lemma all_disks_read: "all_disks Q w \<Longrightarrow> all_disks Q (fst (read_call q w))"
  by (auto simp: read_call_def Let_def split: list.splits outcome.splits)

lemma read_call_fs [simp]:
  "w_fs (fst (read_call q w)) = w_fs w" "w_log (fst (read_call q w)) = w_log w"
  by (auto simp: read_call_def Let_def split: list.splits outcome.splits)

lemma read_call_pair: "read_call q w = (w', r) \<Longrightarrow> w_fs w' = w_fs w \<and> w_log w' = w_log w"
  using read_call_fs [of q w] by simp

lemma read_call_Inr: "read_call q w = (w', Inr a) \<Longrightarrow> q (w_fs w) = Inr a"
  by (auto simp: read_call_def Let_def split: list.splits outcome.splits if_splits)

lemma syscall_Inr:
  "syscall act part w = (w', Inr a) \<Longrightarrow> act (w_fs w) = Inr (w_fs w', a)"
  by (auto simp: syscall_def Let_def set_fs_def split: list.splits outcome.splits sum.splits
      if_splits)

lemma sync_dir_facts:
  "w_fs (fst (sync_dir p w)) = w_fs w"
  "sync_dir p w = (w', Inr u) \<Longrightarrow> w_log w' = []"
  "all_disks Q w \<Longrightarrow> all_disks Q (fst (sync_dir p w))"
proof -
  obtain w1 r where c: "read_call (\<lambda>fs. if fs_get fs p = None then Inl NotFound else Inr ()) w = (w1, r)"
    by fastforce
  then have "w_fs w1 = w_fs w" "w_log w1 = w_log w" by (metis fst_conv read_call_fs)+
  with c show "w_fs (fst (sync_dir p w)) = w_fs w" "sync_dir p w = (w', Inr u) \<Longrightarrow> w_log w' = []"
    "all_disks Q w \<Longrightarrow> all_disks Q (fst (sync_dir p w))"
    by (auto simp: sync_dir_def all_disks_def split: sum.splits)
qed

lemma put_contents_other: "q \<noteq> p \<Longrightarrow> fs_get (put_contents p b fs) q = fs_get fs q"
  by (auto simp: put_contents_def fs_get_def split: option.splits node.splits)
    (auto simp: fs_put_def map_of_filter_key)

section \<open>Lemmas on sequencing\<close>

lemma pbind_Inr:
  "pbind m f w = (w2, Inr b) \<longleftrightarrow> (\<exists>w1 a. m w = (w1, Inr a) \<and> f a w1 = (w2, Inr b))"
  by (auto simp: pbind_def split: prod.splits sum.splits)

lemma pbind_ok: "m w = (w1, Inr a) \<Longrightarrow> pbind m f w = f a w1"
  by (simp add: pbind_def)

lemma pmap_err_Inr [simp]: "pmap_err g m w = (w1, Inr a) \<longleftrightarrow> m w = (w1, Inr a)"
  by (auto simp: pmap_err_def split: prod.splits)

lemma fst_pmap_err [simp]: "fst (pmap_err g m w) = fst (m w)"
  by (simp add: pmap_err_def split: prod.splits)

lemma preturn_simps [simp]: "preturn a w = (w1, r) \<longleftrightarrow> w1 = w \<and> r = Inr a"
  by (auto simp: preturn_def)

lemma plift_simps [simp]: "plift r w = (w1, r1) \<longleftrightarrow> w1 = w \<and> r = r1"
  by (auto simp: plift_def)

text \<open>A property of the world kept by both parts is kept by their sequence.\<close>

lemma pbind_keeps:
  assumes "P (fst (m w))" and "\<And>w1 a. m w = (w1, Inr a) \<Longrightarrow> P w1 \<Longrightarrow> P (fst (f a w1))"
  shows "P (fst (pbind m f w))"
  using assms by (auto simp: pbind_def split: prod.splits sum.splits)

lemma all_disks_pbind:
  assumes "all_disks Q (fst (m w))"
    and "\<And>w1 a. m w = (w1, Inr a) \<Longrightarrow> all_disks Q w1 \<Longrightarrow> all_disks Q (fst (f a w1))"
  shows "all_disks Q (fst (pbind m f w))"
  by (rule pbind_keeps [where P = "all_disks Q"]) (use assms in auto)

lemma all_disks_pbind_weaken:
  assumes "all_disks Q (fst (m w))" and "\<And>g. Q g \<Longrightarrow> R g"
    and "\<And>w1 a. m w = (w1, Inr a) \<Longrightarrow> all_disks Q w1 \<Longrightarrow> all_disks R (fst (f a w1))"
  shows "all_disks R (fst (pbind m f w))"
  using assms all_disks_mono [OF assms(1,2)] by (auto simp: pbind_def split: prod.splits sum.splits)

lemma pbind_plift [simp]: "pbind (plift (Inr a)) f w = f a w" "pbind (plift (Inl e)) f w = (w, Inl e)"
  by (simp_all add: pbind_def plift_def)

text \<open>Procedures that read the disk and change nothing on it.\<close>

named_theorems reads_only_intros \<open>procedures that only read\<close>

definition reads_only :: "(world, 'e, 'a) proc \<Rightarrow> bool" where
  "reads_only m \<longleftrightarrow> (\<forall>w. w_fs (fst (m w)) = w_fs w \<and> w_log (fst (m w)) = w_log w)"

lemma reads_onlyD: "reads_only m \<Longrightarrow> m w = (w', r) \<Longrightarrow> w_fs w' = w_fs w \<and> w_log w' = w_log w"
  by (metis fst_conv reads_only_def)

lemma reads_only_read_call [reads_only_intros]: "reads_only (read_call q)"
  by (simp add: reads_only_def)

lemma reads_only_plift [reads_only_intros]: "reads_only (plift r)"
  by (simp add: reads_only_def plift_def)

lemma reads_only_preturn [reads_only_intros]: "reads_only (preturn a)"
  by (simp add: reads_only_def preturn_def)

lemma reads_only_pmap_err [reads_only_intros]: "reads_only m \<Longrightarrow> reads_only (pmap_err g m)"
  by (simp add: reads_only_def)

lemma reads_only_pbind [reads_only_intros]:
  "reads_only m \<Longrightarrow> (\<And>a. reads_only (f a)) \<Longrightarrow> reads_only (pbind m f)"
  unfolding reads_only_def pbind_def by (auto split: prod.splits sum.splits) (metis fst_conv)+

lemma reads_only_if [reads_only_intros]:
  "reads_only m \<Longrightarrow> reads_only n \<Longrightarrow> reads_only (if b then m else n)"
  by simp

end
