(* ===== verification/Material.thy ===== *)
theory Material
  imports File_System
begin

text \<open>
  Credential material, \<^verbatim>\<open>crates/reference-device-agent-core/src/material.rs\<close>: the files of a
  credential, their validation against the device identity and the clock. PEM and X.509 parsing,
  key matching and chain verification belong to \<^verbatim>\<open>rustls\<close> and \<^verbatim>\<open>x509-parser\<close> and are fields of
  \<open>tls_externals\<close>.
\<close>

section \<open>Third-party calls\<close>

datatype general_name = URI string | OtherGeneralName

datatype san_extension = SanMalformed | SanAbsent | SanNames "general_name list"

record x509_certificate =
  x5_subject_alternative_name :: san_extension
  x5_not_after :: i64

record tls_externals = externals +
  pemfile_certs :: "bytes \<Rightarrow> bytes list option"
  pemfile_private_key :: "bytes \<Rightarrow> bytes option option"   \<comment> \<open>\<open>None\<close>: parse error\<close>
  certified_keys_match :: "bytes list \<Rightarrow> bytes \<Rightarrow> bool"
  add_parsable_certificates :: "bytes list \<Rightarrow> nat"
  client_verifier_build :: "bytes list \<Rightarrow> bool"
  verify_client_cert :: "bytes list \<Rightarrow> bytes \<Rightarrow> bytes list \<Rightarrow> u64 \<Rightarrow> bool"
  x509_from_der :: "bytes \<Rightarrow> x509_certificate option"

section \<open>Validation\<close>

record validated_credential =
  vc_ca :: bytes
  vc_certificate :: bytes
  vc_private_key :: bytes
  vc_expires_at :: i64

datatype credential_error =
    CredentialUnavailable
  | CredentialMalformed
  | Untrusted
  | InsecurePrivateKey
  | IdentityMismatch

definition parse_certificates ::
  "'z tls_externals_scheme \<Rightarrow> bytes \<Rightarrow> (credential_error, bytes list) result" where
  "parse_certificates x bytes =
     rbind (ok_or CredentialMalformed (pemfile_certs x bytes)) (\<lambda>certificates.
       if certificates = [] then Inl CredentialMalformed else Inr certificates)"

definition parse_private_key ::
  "'z tls_externals_scheme \<Rightarrow> bytes \<Rightarrow> (credential_error, bytes) result" where
  "parse_private_key x bytes =
     rbind (ok_or CredentialMalformed (pemfile_private_key x bytes)) (ok_or CredentialMalformed)"

definition verify_key_matches ::
  "'z tls_externals_scheme \<Rightarrow> bytes list \<Rightarrow> bytes \<Rightarrow> (credential_error, unit) result" where
  "verify_key_matches x chain key = ensure CredentialMalformed (certified_keys_match x chain key)"

definition verify_chain ::
  "'z tls_externals_scheme \<Rightarrow> bytes list \<Rightarrow> bytes \<Rightarrow> bytes list \<Rightarrow> u64
     \<Rightarrow> (credential_error, unit) result" where
  "verify_chain x roots end_entity intermediates now =
     (if add_parsable_certificates x roots = 0 then Inl CredentialMalformed
      else if \<not> client_verifier_build x roots then Inl CredentialMalformed
      else ensure Untrusted (verify_client_cert x roots end_entity intermediates now))"

definition verify_identity ::
  "'z tls_externals_scheme \<Rightarrow> bytes \<Rightarrow> device_identity \<Rightarrow> (credential_error, i64) result" where
  "verify_identity x end_entity identity =
     rbind (ok_or CredentialMalformed (x509_from_der x end_entity)) (\<lambda>certificate.
     let expected = principal_urn x identity in
     case x5_subject_alternative_name certificate of
       SanMalformed \<Rightarrow> Inl CredentialMalformed
     | SanAbsent \<Rightarrow> Inl IdentityMismatch
     | SanNames general_names \<Rightarrow>
         if list_ex (\<lambda>name. case name of URI uri \<Rightarrow> uri = expected | _ \<Rightarrow> False) general_names
         then Inr (x5_not_after certificate) else Inl IdentityMismatch)"

definition validate_credential_bytes ::
  "'z tls_externals_scheme \<Rightarrow> bytes \<Rightarrow> bytes \<Rightarrow> bytes \<Rightarrow> device_identity \<Rightarrow> u64
     \<Rightarrow> (credential_error, validated_credential) result" where
  "validate_credential_bytes x ca certificate private_key identity now =
     rbind (parse_certificates x ca) (\<lambda>roots.
     rbind (parse_certificates x certificate) (\<lambda>chain.
     rbind (parse_private_key x private_key) (\<lambda>key.
     rbind (case chain of [] \<Rightarrow> Inl CredentialMalformed | end_entity # _ \<Rightarrow> Inr end_entity)
       (\<lambda>end_entity.
     rbind (verify_key_matches x chain key) (\<lambda>_.
     rbind (verify_chain x roots end_entity (tl chain) now) (\<lambda>_.
     rbind (verify_identity x end_entity identity) (\<lambda>expires_at.
     Inr \<lparr> vc_ca = ca, vc_certificate = certificate, vc_private_key = private_key,
           vc_expires_at = expires_at \<rparr>)))))))"

text \<open>\<open>mode & 0o077\<close>. Directories have the default creation mode, which is not private.\<close>

definition private_mode :: "u32 \<Rightarrow> bool" where
  "private_mode mode \<longleftrightarrow> and mode 0x3F = 0"

definition require_private_key_mode :: "path \<Rightarrow> (world, credential_error, unit) proc" where
  "require_private_key_mode path =
     pbind (pmap_err (\<lambda>_. CredentialUnavailable) (fs_metadata path)) (\<lambda>metadata.
       plift (case metadata of
         File _ mode _ \<Rightarrow> ensure InsecurePrivateKey (private_mode mode)
       | _ \<Rightarrow> Inl InsecurePrivateKey))"

definition validate_credential ::
  "'z tls_externals_scheme \<Rightarrow> credential_files \<Rightarrow> device_identity \<Rightarrow> u64
     \<Rightarrow> (world, credential_error, validated_credential) proc" where
  "validate_credential x files identity now =
     pbind (require_private_key_mode (cf_private_key files)) (\<lambda>_.
     pbind (pmap_err (\<lambda>_. CredentialUnavailable) (fs_read (cf_ca_certificate files))) (\<lambda>ca.
     pbind (pmap_err (\<lambda>_. CredentialUnavailable) (fs_read (cf_certificate_chain files)))
       (\<lambda>certificate.
     pbind (pmap_err (\<lambda>_. CredentialUnavailable) (fs_read (cf_private_key files)))
       (\<lambda>private_key.
     plift (validate_credential_bytes x ca certificate private_key identity now)))))"

section \<open>Lemmas\<close>

text \<open>What an accepted credential has passed.\<close>

definition credential_sound ::
  "'z tls_externals_scheme \<Rightarrow> device_identity \<Rightarrow> u64 \<Rightarrow> validated_credential \<Rightarrow> bool" where
  "credential_sound x identity now v \<longleftrightarrow> (\<exists>roots end_entity intermediates key certificate names.
     pemfile_certs x (vc_ca v) = Some roots
     \<and> pemfile_certs x (vc_certificate v) = Some (end_entity # intermediates)
     \<and> pemfile_private_key x (vc_private_key v) = Some (Some key)
     \<and> certified_keys_match x (end_entity # intermediates) key
     \<and> add_parsable_certificates x roots > 0
     \<and> verify_client_cert x roots end_entity intermediates now
     \<and> x509_from_der x end_entity = Some certificate
     \<and> x5_subject_alternative_name certificate = SanNames names
     \<and> URI (principal_urn x identity) \<in> set names
     \<and> x5_not_after certificate = vc_expires_at v)"

lemma list_ex_uri:
  "list_ex (\<lambda>name. case name of URI uri \<Rightarrow> uri = e | _ \<Rightarrow> False) ns \<longleftrightarrow> URI e \<in> set ns"
  by (induction ns) (auto split: general_name.splits)

lemma parse_certificates_Inr:
  "parse_certificates x b = Inr cs \<longleftrightarrow> pemfile_certs x b = Some cs \<and> cs \<noteq> []"
  by (auto simp: parse_certificates_def split: if_splits)

lemma parse_private_key_Inr:
  "parse_private_key x b = Inr k \<longleftrightarrow> pemfile_private_key x b = Some (Some k)"
  by (auto simp: parse_private_key_def)

lemma first_Inr:
  "(case chain of [] \<Rightarrow> Inl e | c # _ \<Rightarrow> Inr c) = Inr d \<longleftrightarrow> chain \<noteq> [] \<and> d = hd chain"
  by (cases chain) auto

lemma verify_identity_Inr:
  "verify_identity x e i = Inr t \<longleftrightarrow> (\<exists>c names. x509_from_der x e = Some c
     \<and> x5_subject_alternative_name c = SanNames names \<and> URI (principal_urn x i) \<in> set names
     \<and> x5_not_after c = t)"
proof (cases "x509_from_der x e")
  case (Some c)
  then show ?thesis
    by (cases "x5_subject_alternative_name c") (auto simp: verify_identity_def list_ex_uri Let_def)
qed (simp add: verify_identity_def)

lemma validate_credential_bytes_sound:
  assumes "validate_credential_bytes x ca cert key i now = Inr v"
  shows "credential_sound x i now v" and "vc_ca v = ca" and "vc_certificate v = cert"
    and "vc_private_key v = key"
proof -
  from assms obtain roots chain k expires where
    p: "pemfile_certs x ca = Some roots" "pemfile_certs x cert = Some chain"
      "pemfile_private_key x key = Some (Some k)" and "chain \<noteq> []"
    and c: "certified_keys_match x chain k" "verify_chain x roots (hd chain) (tl chain) now = Inr ()"
    and i: "verify_identity x (hd chain) i = Inr expires"
    and v: "v = \<lparr> vc_ca = ca, vc_certificate = cert, vc_private_key = key, vc_expires_at = expires \<rparr>"
    by (auto simp: validate_credential_bytes_def parse_certificates_Inr parse_private_key_Inr
        first_Inr verify_key_matches_def)
  then obtain end_entity rest where chain: "chain = end_entity # rest" by (cases chain) auto
  show "vc_ca v = ca" "vc_certificate v = cert" "vc_private_key v = key" using v by simp_all
  show "credential_sound x i now v"
    using p c i unfolding credential_sound_def v chain
    by (auto simp: verify_identity_Inr verify_chain_def split: if_splits)
qed

end
