(* ===== verification/State_V1.thy ===== *)
theory State_V1
  imports Agent_Types
begin

text \<open>
  The durable protocol state of the device agent, \<^verbatim>\<open>StateV1\<close> of
  \<^verbatim>\<open>crates/reference-device-agent-core/src/state.rs\<close>: its stored records, the check \<open>verify\<close> that
  every loaded and every candidate state passes, and one function per transition. A \<open>&mut self\<close>
  method returns the new state.
\<close>

section \<open>Stored records\<close>

definition OUTBOX_LIMIT :: nat where
  "OUTBOX_LIMIT = 128"

definition COMMAND_JOURNAL_LIMIT :: nat where
  "COMMAND_JOURNAL_LIMIT = 1024"

record accepted_command =
  ac_command_id :: string
  ac_fingerprint :: string
  ac_generation :: u64
  ac_fence :: u64
  ac_credential_generation :: u64
  ac_revision :: u64
  ac_artifact_digest :: string
  ac_expires_at :: i64
  ac_observed_at :: i64
  ac_retain_until_epoch_seconds :: u64

record rejected_command =
  rj_command_id :: string
  rj_fingerprint :: string
  rj_generation :: u64
  rj_fence :: u64
  rj_rejection :: command_rejection
  rj_observed_at :: i64
  rj_retain_until_epoch_seconds :: u64

datatype store_error =
    StoreUnavailable
  | InvalidState
  | OutboxFull
  | RevisionConflict
  | AlreadyOpen
  | CommandJournalFull

record stored_inbound_settlement =
  pi_topic :: string
  pi_command_id :: string
  pi_fingerprint :: string
  pi_credential_generation :: u64
  pi_settlement_token :: string
  pi_settled :: bool

record stored_identity =
  si_tenant_id :: uuid
  si_device_id :: uuid
  si_credential_generation :: u64

record stored_current =
  sc_desired_generation :: u64
  sc_fence_epoch :: u64
  sc_credential_revision :: u64
  sc_artifact_digest :: string
  sc_expires_at :: i64

datatype stored_rejection =
    StoredArtifactUnavailable
  | StoredArtifactDigestMismatch
  | StoredPolicyRejected
  | StoredGenerationStale
  | StoredFenceEpochStale
  | StoredMalformedCommand
  | StoredDeviceFailure

record stored_ack =
  ak_command_id :: string
  ak_event_cause :: string
  ak_desired_generation :: u64
  ak_fence_epoch :: u64
  ak_device_sequence :: u64
  ak_observed_at :: i64
  ak_rejection :: "stored_rejection option"
  ak_activates_revision :: "u64 option"
  ak_settled_replay :: bool

record stored_report =
  rr_command_id :: string
  rr_observed_generation :: u64
  rr_fence_epoch :: u64
  rr_device_sequence :: u64
  rr_observed_at :: i64
  rr_state_hash :: string
  rr_artifact_digest :: string
  rr_expires_at :: "i64 option"
  rr_credential_generation :: u64
  rr_credential_revision :: u64

datatype stored_outbound =
    Ack string stored_ack
  | ReportBlocked string stored_report
  | ReportReady string stored_report

record stored_command =
  cm_command_id :: string
  cm_fingerprint :: string
  cm_acknowledgement :: stored_ack
  cm_retain_until_epoch_seconds :: u64

record state_v1 =
  st_schema_version :: u8
  st_identity :: stored_identity
  st_current :: stored_current
  st_device_sequence :: u64
  st_command_journal :: "stored_command list"
  st_outbox :: "stored_outbound list"
  st_reconnect_revision :: "u64 option"
  st_pending_inbound :: "stored_inbound_settlement option"

section \<open>Derived identifiers\<close>

definition event_id_preimage :: "string \<Rightarrow> string \<Rightarrow> bytes" where
  "event_id_preimage kind command_id =
     ''rss.reference-device-agent.event.v1'' @ [CHR 0x00] @ kind @ [CHR 0x00] @ command_id"

definition event_id :: "'z externals_scheme \<Rightarrow> string \<Rightarrow> string \<Rightarrow> string" where
  "event_id x kind command_id =
     ''reference-'' @ kind @ ''-'' @ sha256_hex x (event_id_preimage kind command_id)"

definition settlement_source :: "string \<Rightarrow> string \<Rightarrow> string \<Rightarrow> string" where
  "settlement_source topic command_id fingerprint =
     topic @ [CHR 0x00] @ command_id @ [CHR 0x00] @ fingerprint"

definition settlement_token ::
  "'z externals_scheme \<Rightarrow> string \<Rightarrow> string \<Rightarrow> string \<Rightarrow> string" where
  "settlement_token x topic command_id fingerprint =
     event_id x ''settlement'' (settlement_source topic command_id fingerprint)"

definition state_hash_preimage ::
  "'z externals_scheme \<Rightarrow> uuid \<Rightarrow> uuid \<Rightarrow> u64 \<Rightarrow> u64 \<Rightarrow> u64 \<Rightarrow> u64 \<Rightarrow> string \<Rightarrow> bytes" where
  "state_hash_preimage x tenant device credential_generation desired_generation fence revision
       artifact_digest =
     ''rss.reference-device-agent.state.v1'' @ [CHR 0x00] @ uuid_as_bytes x tenant
     @ uuid_as_bytes x device @ u64_be_bytes credential_generation
     @ u64_be_bytes desired_generation @ u64_be_bytes fence @ u64_be_bytes revision
     @ artifact_digest"

definition state_hash ::
  "'z externals_scheme \<Rightarrow> uuid \<Rightarrow> uuid \<Rightarrow> u64 \<Rightarrow> u64 \<Rightarrow> u64 \<Rightarrow> u64 \<Rightarrow> string \<Rightarrow> string" where
  "state_hash x tenant device credential_generation desired_generation fence revision
       artifact_digest =
     ''sha256:'' @ sha256_hex x (state_hash_preimage x tenant device credential_generation
       desired_generation fence revision artifact_digest)"

section \<open>Per-entry functions\<close>

definition stored_rejection_of :: "command_rejection \<Rightarrow> stored_rejection" where
  "stored_rejection_of r = (case r of
     ArtifactUnavailable \<Rightarrow> StoredArtifactUnavailable
   | ArtifactDigestMismatch \<Rightarrow> StoredArtifactDigestMismatch
   | PolicyRejected \<Rightarrow> StoredPolicyRejected
   | GenerationStale \<Rightarrow> StoredGenerationStale
   | FenceEpochStale \<Rightarrow> StoredFenceEpochStale
   | MalformedCommand \<Rightarrow> StoredMalformedCommand
   | DeviceFailure \<Rightarrow> StoredDeviceFailure)"

definition command_rejection_of :: "stored_rejection \<Rightarrow> command_rejection" where
  "command_rejection_of r = (case r of
     StoredArtifactUnavailable \<Rightarrow> ArtifactUnavailable
   | StoredArtifactDigestMismatch \<Rightarrow> ArtifactDigestMismatch
   | StoredPolicyRejected \<Rightarrow> PolicyRejected
   | StoredGenerationStale \<Rightarrow> GenerationStale
   | StoredFenceEpochStale \<Rightarrow> FenceEpochStale
   | StoredMalformedCommand \<Rightarrow> MalformedCommand
   | StoredDeviceFailure \<Rightarrow> DeviceFailure)"

definition stored_ack_semantic_valid :: "stored_ack \<Rightarrow> bool" where
  "stored_ack_semantic_valid a \<longleftrightarrow>
     ak_command_id a \<noteq> [] \<and> ak_event_cause a \<noteq> []
     \<and> ak_desired_generation a > 0 \<and> ak_fence_epoch a > 0 \<and> ak_device_sequence a > 0
     \<and> ak_observed_at a \<ge> 0
     \<and> (case ak_activates_revision a of None \<Rightarrow> True | Some revision \<Rightarrow> revision > 0)
     \<and> (case (ak_rejection a, ak_activates_revision a, ak_settled_replay a) of
          (Some _, None, False) \<Rightarrow> True
        | (None, Some _, False) \<Rightarrow> True
        | (None, None, True) \<Rightarrow> True
        | _ \<Rightarrow> False)"

definition ack_fact_of :: "stored_ack \<Rightarrow> ack_fact" where
  "ack_fact_of a = \<lparr>
     af_command_id = ak_command_id a,
     af_desired_generation = ak_desired_generation a,
     af_fence_epoch = ak_fence_epoch a,
     af_device_sequence = ak_device_sequence a,
     af_observed_at = ak_observed_at a,
     af_rejection = map_option command_rejection_of (ak_rejection a) \<rparr>"

definition stored_report_semantic_valid :: "stored_report \<Rightarrow> bool" where
  "stored_report_semantic_valid r \<longleftrightarrow>
     rr_command_id r \<noteq> []
     \<and> rr_observed_generation r > 0 \<and> rr_fence_epoch r > 0 \<and> rr_device_sequence r > 0
     \<and> rr_observed_at r \<ge> 0
     \<and> (case rr_expires_at r of None \<Rightarrow> False | Some expires_at \<Rightarrow> expires_at > 0)
     \<and> rr_credential_generation r > 0 \<and> rr_credential_revision r > 0
     \<and> is_ok (sha256_digest_try_from (rr_artifact_digest r))
     \<and> is_ok (sha256_digest_try_from (rr_state_hash r))"

definition report_fact_of :: "stored_report \<Rightarrow> report_fact" where
  "report_fact_of r = \<lparr>
     rf_observed_generation = rr_observed_generation r,
     rf_fence_epoch = rr_fence_epoch r,
     rf_device_sequence = rr_device_sequence r,
     rf_observed_at = rr_observed_at r,
     rf_state_hash = rr_state_hash r,
     rf_artifact_digest = rr_artifact_digest r,
     rf_expires_at = rr_expires_at r \<rparr>"

definition stored_command_semantic_valid :: "stored_command \<Rightarrow> bool" where
  "stored_command_semantic_valid c \<longleftrightarrow>
     cm_command_id c = ak_command_id (cm_acknowledgement c)
     \<and> cm_command_id c \<noteq> []
     \<and> is_ok (sha256_digest_try_from (cm_fingerprint c))
     \<and> stored_ack_semantic_valid (cm_acknowledgement c)
     \<and> cm_retain_until_epoch_seconds c > 0"

fun outbound_event_id :: "stored_outbound \<Rightarrow> string" where
  "outbound_event_id (Ack eid _) = eid"
| "outbound_event_id (ReportBlocked eid _) = eid"
| "outbound_event_id (ReportReady eid _) = eid"

fun ready_fact :: "stored_outbound \<Rightarrow> outbound_fact option" where
  "ready_fact (Ack eid payload) = Some (CommandAcknowledged eid (ack_fact_of payload))"
| "ready_fact (ReportReady eid payload) =
     Some (CertificateReported eid (report_fact_of payload))"
| "ready_fact (ReportBlocked eid payload) = None"

fun outbound_sequence :: "stored_outbound \<Rightarrow> u64" where
  "outbound_sequence (Ack _ payload) = ak_device_sequence payload"
| "outbound_sequence (ReportBlocked _ payload) = rr_device_sequence payload"
| "outbound_sequence (ReportReady _ payload) = rr_device_sequence payload"

fun outbound_semantic_valid :: "'z externals_scheme \<Rightarrow> stored_outbound \<Rightarrow> bool" where
  "outbound_semantic_valid x (Ack actual payload) =
     (actual = event_id x
        (if ak_event_cause payload = ak_command_id payload then ''ack'' else ''rejected'')
        (ak_event_cause payload)
      \<and> stored_ack_semantic_valid payload)"
| "outbound_semantic_valid x (ReportBlocked actual payload) =
     (actual = event_id x ''report'' (rr_command_id payload) \<and> stored_report_semantic_valid payload)"
| "outbound_semantic_valid x (ReportReady actual payload) =
     (actual = event_id x ''report'' (rr_command_id payload) \<and> stored_report_semantic_valid payload)"

fun report_payload :: "stored_outbound \<Rightarrow> stored_report option" where
  "report_payload (Ack _ _) = None"
| "report_payload (ReportBlocked _ payload) = Some payload"
| "report_payload (ReportReady _ payload) = Some payload"

section \<open>Initial state and verification\<close>

definition stored_identity_from :: "device_identity \<Rightarrow> stored_identity" where
  "stored_identity_from i = \<lparr>
     si_tenant_id = di_tenant i,
     si_device_id = di_device i,
     si_credential_generation = credential_generation_get (di_credential_generation i) \<rparr>"

definition state_initial ::
  "device_identity \<Rightarrow> installed_credential_position \<Rightarrow> sha256_digest \<Rightarrow> i64 \<Rightarrow> state_v1" where
  "state_initial identity position digest expires_at = \<lparr>
     st_schema_version = 1,
     st_identity = stored_identity_from identity,
     st_current = \<lparr>
       sc_desired_generation = generation_get (ip_desired_generation position),
       sc_fence_epoch = fence_epoch_get (ip_fence_epoch position),
       sc_credential_revision = credential_revision_get (ip_credential_revision position),
       sc_artifact_digest = sha256_digest_expose digest,
       sc_expires_at = expires_at \<rparr>,
     st_device_sequence = 0,
     st_command_journal = [],
     st_outbox = [],
     st_reconnect_revision = None,
     st_pending_inbound = None \<rparr>"

definition coordinates_valid :: "state_v1 \<Rightarrow> device_identity \<Rightarrow> bool" where
  "coordinates_valid s identity \<longleftrightarrow>
     st_schema_version s = 1
     \<and> si_tenant_id (st_identity s) = di_tenant identity
     \<and> si_device_id (st_identity s) = di_device identity
     \<and> si_credential_generation (st_identity s) > 0
     \<and> sc_desired_generation (st_current s) > 0
     \<and> sc_fence_epoch (st_current s) > 0
     \<and> sc_credential_revision (st_current s) > 0
     \<and> sc_expires_at (st_current s) > 0
     \<and> is_ok (sha256_digest_try_from (sc_artifact_digest (st_current s)))
     \<and> length (st_outbox s) \<le> OUTBOX_LIMIT
     \<and> length (st_command_journal s) \<le> COMMAND_JOURNAL_LIMIT"

definition report_matches_current :: "'z externals_scheme \<Rightarrow> state_v1 \<Rightarrow> stored_report \<Rightarrow> bool" where
  "report_matches_current x s report \<longleftrightarrow>
     rr_state_hash report =
       state_hash x (si_tenant_id (st_identity s)) (si_device_id (st_identity s))
         (rr_credential_generation report) (rr_observed_generation report)
         (rr_fence_epoch report) (rr_credential_revision report) (rr_artifact_digest report)
     \<and> rr_credential_revision report = sc_credential_revision (st_current s)
     \<and> rr_observed_generation report = sc_desired_generation (st_current s)
     \<and> rr_fence_epoch report = sc_fence_epoch (st_current s)
     \<and> rr_artifact_digest report = sc_artifact_digest (st_current s)"

text \<open>The loop over the outbox; the accumulators are the two hash sets.\<close>

fun verify_outbox ::
  "'z externals_scheme \<Rightarrow> state_v1 \<Rightarrow> string set \<Rightarrow> u64 set \<Rightarrow> stored_outbound list
     \<Rightarrow> (store_error, unit) result" where
  "verify_outbox x s event_ids sequences [] = Inr ()"
| "verify_outbox x s event_ids sequences (entry # rest) =
     (if outbound_event_id entry \<in> event_ids then Inl InvalidState
      else if outbound_sequence entry = 0
              \<or> outbound_sequence entry > st_device_sequence s
              \<or> outbound_sequence entry \<in> sequences
              \<or> \<not> outbound_semantic_valid x entry
      then Inl InvalidState
      else if (case report_payload entry of
                 None \<Rightarrow> False | Some report \<Rightarrow> \<not> report_matches_current x s report)
      then Inl InvalidState
      else verify_outbox x s (insert (outbound_event_id entry) event_ids)
             (insert (outbound_sequence entry) sequences) rest)"

fun verify_journal :: "string set \<Rightarrow> stored_command list \<Rightarrow> (store_error, unit) result" where
  "verify_journal command_ids [] = Inr ()"
| "verify_journal command_ids (command # rest) =
     (if cm_command_id command \<in> command_ids \<or> \<not> stored_command_semantic_valid command
      then Inl InvalidState
      else verify_journal (insert (cm_command_id command) command_ids) rest)"

definition verify_pending :: "'z externals_scheme \<Rightarrow> state_v1 \<Rightarrow> (store_error, unit) result" where
  "verify_pending x s = (case st_pending_inbound s of None \<Rightarrow> Inr ()
   | Some pending \<Rightarrow>
       rbind (map_err (\<lambda>_. InvalidState)
                (credential_generation_try_from (pi_credential_generation pending))) (\<lambda>generation.
       rbind (map_err (\<lambda>_. InvalidState)
                (device_identity_try_new x (si_tenant_id (st_identity s))
                   (si_device_id (st_identity s)) generation)) (\<lambda>identity.
       ensure InvalidState
         (pi_command_id pending \<noteq> []
          \<and> is_ok (sha256_digest_try_from (pi_fingerprint pending))
          \<and> pi_topic pending = ts_command (topic_set_new x identity)
          \<and> pi_settlement_token pending =
              settlement_token x (pi_topic pending) (pi_command_id pending) (pi_fingerprint pending)
          \<and> list_ex (\<lambda>command. cm_command_id command = pi_command_id pending
                \<and> cm_fingerprint command = pi_fingerprint pending) (st_command_journal s)))))"

definition report_count :: "state_v1 \<Rightarrow> nat" where
  "report_count s = length (filter (\<lambda>entry. report_payload entry \<noteq> None) (st_outbox s))"

definition is_blocked_report_for :: "u64 \<Rightarrow> string \<Rightarrow> stored_outbound \<Rightarrow> bool" where
  "is_blocked_report_for revision command_id candidate = (case candidate of
     ReportBlocked _ report \<Rightarrow>
       rr_credential_revision report = revision \<and> rr_command_id report = command_id
   | _ \<Rightarrow> False)"

definition is_activation_for :: "u64 \<Rightarrow> string \<Rightarrow> stored_outbound \<Rightarrow> bool" where
  "is_activation_for revision command_id candidate = (case candidate of
     Ack _ ack \<Rightarrow> ak_activates_revision ack = Some revision \<and> ak_command_id ack = command_id
   | _ \<Rightarrow> False)"

text \<open>One iteration of the last loop of \<open>verify\<close>: the phase of the rotation in flight.\<close>

definition verify_phase_entry :: "state_v1 \<Rightarrow> stored_outbound \<Rightarrow> (store_error, unit) result" where
  "verify_phase_entry s entry = (case entry of
     Ack _ payload \<Rightarrow>
       (case ak_activates_revision payload of None \<Rightarrow> Inr ()
        | Some revision \<Rightarrow>
            ensure InvalidState
              (revision = sc_credential_revision (st_current s)
               \<and> list_ex (is_blocked_report_for revision (ak_command_id payload)) (st_outbox s)
               \<and> st_reconnect_revision s = None))
   | ReportBlocked _ payload \<Rightarrow>
       (let has_activation =
          list_ex (is_activation_for (rr_credential_revision payload) (rr_command_id payload))
            (st_outbox s)
        in if has_activation = (st_reconnect_revision s \<noteq> None)
              \<or> (case st_reconnect_revision s of None \<Rightarrow> False
                 | Some revision \<Rightarrow> revision \<noteq> rr_credential_revision payload)
           then Inl InvalidState else Inr ())
   | ReportReady _ _ \<Rightarrow> ensure InvalidState (st_reconnect_revision s = None))"

fun verify_phase ::
  "state_v1 \<Rightarrow> stored_outbound list \<Rightarrow> (store_error, unit) result" where
  "verify_phase s [] = Inr ()"
| "verify_phase s (entry # rest) = rbind (verify_phase_entry s entry) (\<lambda>_. verify_phase s rest)"

definition verify ::
  "'z externals_scheme \<Rightarrow> state_v1 \<Rightarrow> device_identity \<Rightarrow> (store_error, unit) result" where
  "verify x s identity =
     (if \<not> coordinates_valid s identity then Inl InvalidState
      else rbind (verify_outbox x s {} {} (st_outbox s)) (\<lambda>_.
           rbind (verify_journal {} (st_command_journal s)) (\<lambda>_.
           rbind (verify_pending x s) (\<lambda>_.
           if report_count s > 1 then Inl InvalidState
           else if (st_pending_inbound s \<noteq> None) \<noteq> (report_count s = 1) then Inl InvalidState
           else rbind (verify_phase s (st_outbox s)) (\<lambda>_.
           if st_reconnect_revision s \<noteq> None \<and> report_count s \<noteq> 1 then Inl InvalidState
           else (case st_reconnect_revision s of
                   Some revision \<Rightarrow>
                     if revision \<noteq> sc_credential_revision (st_current s)
                     then Inl InvalidState else Inr ()
                 | None \<Rightarrow> Inr ()))))))"

definition current_identity ::
  "'z externals_scheme \<Rightarrow> state_v1 \<Rightarrow> (store_error, device_identity) result" where
  "current_identity x s =
     rbind (map_err (\<lambda>_. InvalidState)
              (credential_generation_try_from (si_credential_generation (st_identity s))))
       (\<lambda>generation. map_err (\<lambda>_. InvalidState)
          (device_identity_try_new x (si_tenant_id (st_identity s)) (si_device_id (st_identity s))
             generation))"

definition validate :: "'z externals_scheme \<Rightarrow> state_v1 \<Rightarrow> (store_error, unit) result" where
  "validate x s = rbind (current_identity x s) (verify x s)"

section \<open>Queries\<close>

definition current_generation :: "state_v1 \<Rightarrow> u64" where
  "current_generation s = sc_desired_generation (st_current s)"

definition current_fence :: "state_v1 \<Rightarrow> u64" where
  "current_fence s = sc_fence_epoch (st_current s)"

definition current_revision :: "state_v1 \<Rightarrow> u64" where
  "current_revision s = sc_credential_revision (st_current s)"

definition current_artifact_digest :: "state_v1 \<Rightarrow> string" where
  "current_artifact_digest s = sc_artifact_digest (st_current s)"

definition current_credential_generation :: "state_v1 \<Rightarrow> u64" where
  "current_credential_generation s = si_credential_generation (st_identity s)"

definition rotation_in_flight :: "state_v1 \<Rightarrow> bool" where
  "rotation_in_flight s = list_ex (\<lambda>entry. report_payload entry \<noteq> None) (st_outbox s)"

definition pending_inbound ::
  "state_v1 \<Rightarrow> (string \<times> string \<times> u64 \<times> string \<times> bool) option" where
  "pending_inbound s = map_option (\<lambda>pending.
     (pi_topic pending, pi_command_id pending, pi_credential_generation pending,
      pi_settlement_token pending, pi_settled pending)) (st_pending_inbound s)"

definition pending_settlement_token :: "state_v1 \<Rightarrow> string \<Rightarrow> string \<Rightarrow> string option" where
  "pending_settlement_token s command_id fingerprint =
     (case st_pending_inbound s of None \<Rightarrow> None
      | Some pending \<Rightarrow>
          if pi_command_id pending = command_id \<and> pi_fingerprint pending = fingerprint
          then Some (pi_settlement_token pending) else None)"

definition command_match :: "state_v1 \<Rightarrow> string \<Rightarrow> string \<Rightarrow> u64 \<Rightarrow> bool option" where
  "command_match s command_id fingerprint now =
     map_option (\<lambda>command. cm_fingerprint command = fingerprint)
       (find (\<lambda>command. cm_command_id command = command_id
                \<and> cm_retain_until_epoch_seconds command > now) (st_command_journal s))"

definition expire_command_journal :: "state_v1 \<Rightarrow> u64 \<Rightarrow> state_v1" where
  "expire_command_journal s now =
     (let pending_command = map_option pi_command_id (st_pending_inbound s)
      in s\<lparr> st_command_journal :=
              filter (\<lambda>command. cm_retain_until_epoch_seconds command > now
                        \<or> pending_command = Some (cm_command_id command))
                (st_command_journal s) \<rparr>)"

definition reserve_command_journal :: "state_v1 \<Rightarrow> (store_error, unit) result" where
  "reserve_command_journal s =
     ensure CommandJournalFull (length (st_command_journal s) < COMMAND_JOURNAL_LIMIT)"

definition command_journal_has_capacity :: "state_v1 \<Rightarrow> u64 \<Rightarrow> bool" where
  "command_journal_has_capacity s now \<longleftrightarrow>
     length (st_command_journal s) < COMMAND_JOURNAL_LIMIT
     \<or> list_ex (\<lambda>command. cm_retain_until_epoch_seconds command \<le> now
          \<and> (case st_pending_inbound s of None \<Rightarrow> True
             | Some pending \<Rightarrow> pi_command_id pending \<noteq> cm_command_id command))
         (st_command_journal s)"

definition reserve_outbox :: "state_v1 \<Rightarrow> nat \<Rightarrow> (store_error, unit) result" where
  "reserve_outbox s count =
     ensure OutboxFull (usize_saturating_add (length (st_outbox s)) count \<le> OUTBOX_LIMIT)"

section \<open>Transitions\<close>

definition accept ::
  "'z externals_scheme \<Rightarrow> accepted_command \<Rightarrow> state_v1 \<Rightarrow> (store_error, state_v1) result" where
  "accept x command s =
     rbind (current_identity x s) (\<lambda>previous_identity.
     let ack_sequence = saturating_add (st_device_sequence s) 1;
         report_sequence = saturating_add ack_sequence 1;
         cid = ac_command_id command;
         hash = state_hash x (si_tenant_id (st_identity s)) (si_device_id (st_identity s))
                  (ac_credential_generation command) (ac_generation command) (ac_fence command)
                  (ac_revision command) (ac_artifact_digest command);
         acknowledgement = \<lparr>
           ak_command_id = cid, ak_event_cause = cid,
           ak_desired_generation = ac_generation command, ak_fence_epoch = ac_fence command,
           ak_device_sequence = ack_sequence, ak_observed_at = ac_observed_at command,
           ak_rejection = None, ak_activates_revision = Some (ac_revision command),
           ak_settled_replay = False \<rparr>;
         pending_topic = ts_command (topic_set_new x previous_identity)
     in Inr (s\<lparr>
       st_identity := (st_identity s)\<lparr> si_credential_generation := ac_credential_generation command \<rparr>,
       st_current := \<lparr>
         sc_desired_generation = ac_generation command, sc_fence_epoch = ac_fence command,
         sc_credential_revision = ac_revision command,
         sc_artifact_digest = ac_artifact_digest command,
         sc_expires_at = ac_expires_at command \<rparr>,
       st_device_sequence := report_sequence,
       st_command_journal := st_command_journal s @ [\<lparr>
         cm_command_id = cid, cm_fingerprint = ac_fingerprint command,
         cm_acknowledgement = acknowledgement,
         cm_retain_until_epoch_seconds = ac_retain_until_epoch_seconds command \<rparr>],
       st_pending_inbound := Some \<lparr>
         pi_topic = pending_topic, pi_command_id = cid,
         pi_fingerprint = ac_fingerprint command,
         pi_credential_generation =
           credential_generation_get (di_credential_generation previous_identity),
         pi_settlement_token = settlement_token x pending_topic cid (ac_fingerprint command),
         pi_settled = False \<rparr>,
       st_outbox := st_outbox s @ [
         Ack (event_id x ''ack'' cid) acknowledgement,
         ReportBlocked (event_id x ''report'' cid) \<lparr>
           rr_command_id = cid, rr_observed_generation = ac_generation command,
           rr_fence_epoch = ac_fence command, rr_device_sequence = report_sequence,
           rr_observed_at = ac_observed_at command, rr_state_hash = hash,
           rr_artifact_digest = ac_artifact_digest command,
           rr_expires_at = Some (ac_expires_at command),
           rr_credential_generation = ac_credential_generation command,
           rr_credential_revision = ac_revision command \<rparr>] \<rparr>))"

definition reject :: "'z externals_scheme \<Rightarrow> rejected_command \<Rightarrow> state_v1 \<Rightarrow> state_v1" where
  "reject x command s =
     (let sequence = saturating_add (st_device_sequence s) 1;
          acknowledgement = \<lparr>
            ak_command_id = rj_command_id command, ak_event_cause = rj_command_id command,
            ak_desired_generation = rj_generation command, ak_fence_epoch = rj_fence command,
            ak_device_sequence = sequence, ak_observed_at = rj_observed_at command,
            ak_rejection = Some (stored_rejection_of (rj_rejection command)),
            ak_activates_revision = None, ak_settled_replay = False \<rparr>
      in s\<lparr>
        st_device_sequence := sequence,
        st_command_journal := st_command_journal s @ [\<lparr>
          cm_command_id = rj_command_id command, cm_fingerprint = rj_fingerprint command,
          cm_acknowledgement = acknowledgement,
          cm_retain_until_epoch_seconds = rj_retain_until_epoch_seconds command \<rparr>],
        st_outbox := st_outbox s
          @ [Ack (event_id x ''ack'' (rj_command_id command)) acknowledgement] \<rparr>)"

definition conflict_source :: "string \<Rightarrow> string \<Rightarrow> string" where
  "conflict_source command_id fingerprint = command_id @ [CHR 0x00] @ fingerprint"

definition reject_conflicting_replay ::
  "'z externals_scheme \<Rightarrow> string \<Rightarrow> string \<Rightarrow> u64 \<Rightarrow> u64 \<Rightarrow> i64 \<Rightarrow> state_v1 \<Rightarrow> state_v1" where
  "reject_conflicting_replay x command_id fingerprint generation fence observed_at s =
     (let sequence = saturating_add (st_device_sequence s) 1;
          event_source = conflict_source command_id fingerprint
      in s\<lparr>
        st_device_sequence := sequence,
        st_outbox := st_outbox s @ [Ack (event_id x ''rejected'' event_source) \<lparr>
          ak_command_id = command_id, ak_event_cause = event_source,
          ak_desired_generation = generation, ak_fence_epoch = fence,
          ak_device_sequence = sequence, ak_observed_at = observed_at,
          ak_rejection = Some StoredMalformedCommand, ak_activates_revision = None,
          ak_settled_replay = False \<rparr>] \<rparr>)"

definition has_conflicting_replay ::
  "'z externals_scheme \<Rightarrow> string \<Rightarrow> string \<Rightarrow> state_v1 \<Rightarrow> bool" where
  "has_conflicting_replay x command_id fingerprint s =
     list_ex (\<lambda>entry. outbound_event_id entry =
         event_id x ''rejected'' (conflict_source command_id fingerprint)) (st_outbox s)"

definition is_ack_of :: "string \<Rightarrow> stored_outbound \<Rightarrow> bool" where
  "is_ack_of command_id entry =
     (case entry of Ack _ payload \<Rightarrow> ak_command_id payload = command_id | _ \<Rightarrow> False)"

definition has_command_ack :: "string \<Rightarrow> state_v1 \<Rightarrow> bool" where
  "has_command_ack command_id s = list_ex (is_ack_of command_id) (st_outbox s)"

definition replayed_ack :: "stored_ack \<Rightarrow> stored_ack" where
  "replayed_ack a = (if ak_rejection a = None
     then a\<lparr> ak_activates_revision := None, ak_settled_replay := True \<rparr> else a)"

definition replay_command ::
  "'z externals_scheme \<Rightarrow> string \<Rightarrow> string \<Rightarrow> state_v1 \<Rightarrow> (store_error, state_v1) result" where
  "replay_command x command_id fingerprint s =
     rbind (ok_or InvalidState (find (\<lambda>command. cm_command_id command = command_id
              \<and> cm_fingerprint command = fingerprint) (st_command_journal s))) (\<lambda>command.
     Inr (s\<lparr> st_outbox := st_outbox s
       @ [Ack (event_id x ''ack'' (cm_command_id command))
            (replayed_ack (cm_acknowledgement command))] \<rparr>))"

definition pending_settled :: "state_v1 \<Rightarrow> bool" where
  "pending_settled s =
     (case st_pending_inbound s of None \<Rightarrow> False | Some pending \<Rightarrow> pi_settled pending)"

definition is_ready_report :: "stored_outbound \<Rightarrow> bool" where
  "is_ready_report entry = (case entry of ReportReady _ _ \<Rightarrow> True | _ \<Rightarrow> False)"

definition next_outbound :: "state_v1 \<Rightarrow> outbound_fact option" where
  "next_outbound s = find_map (\<lambda>entry.
     if is_ready_report entry \<and> \<not> pending_settled s then None else ready_fact entry) (st_outbox s)"

definition is_blocked_with_revision :: "u64 \<Rightarrow> stored_outbound \<Rightarrow> bool" where
  "is_blocked_with_revision revision item =
     (case item of ReportBlocked _ payload \<Rightarrow> rr_credential_revision payload = revision | _ \<Rightarrow> False)"

text \<open>\<open>confirm_outbound\<close> answers whether the event was confirmable; the state changes only if so.\<close>

definition confirm_outbound :: "string \<Rightarrow> state_v1 \<Rightarrow> bool \<times> state_v1" where
  "confirm_outbound event s =
     (case iter_position (\<lambda>item. outbound_event_id item = event) (st_outbox s) of
        None \<Rightarrow> (False, s)
      | Some index \<Rightarrow>
          if is_ready_report (st_outbox s ! index) \<and> \<not> pending_settled s then (False, s)
          else
            let confirmed = st_outbox s ! index;
                s1 = s\<lparr> st_outbox := remove_at index (st_outbox s) \<rparr>;
                s2 = (case confirmed of
                        Ack _ payload \<Rightarrow>
                          (case ak_activates_revision payload of
                             Some revision \<Rightarrow>
                               if list_ex (is_blocked_with_revision revision) (st_outbox s1)
                               then s1\<lparr> st_reconnect_revision := Some revision \<rparr> else s1
                           | None \<Rightarrow> s1)
                      | _ \<Rightarrow> s1);
                s3 = (if is_ready_report confirmed then s2\<lparr> st_pending_inbound := None \<rparr> else s2)
            in (True, s3))"

fun unblock_report :: "stored_outbound \<Rightarrow> stored_outbound" where
  "unblock_report (ReportBlocked eid payload) = ReportReady eid payload"
| "unblock_report (Ack eid payload) = Ack eid payload"
| "unblock_report (ReportReady eid payload) = ReportReady eid payload"

definition mark_reconnected :: "u64 \<Rightarrow> state_v1 \<Rightarrow> bool \<times> state_v1" where
  "mark_reconnected revision s =
     (if st_reconnect_revision s \<noteq> Some revision then (False, s)
      else (True, s\<lparr> st_outbox := map unblock_report (st_outbox s),
                     st_reconnect_revision := None \<rparr>))"

definition mark_inbound_settled :: "string option \<Rightarrow> state_v1 \<Rightarrow> bool \<times> state_v1" where
  "mark_inbound_settled token s =
     (case st_pending_inbound s of None \<Rightarrow> (False, s)
      | Some pending \<Rightarrow>
          if (case token of Some t \<Rightarrow> t \<noteq> pi_settlement_token pending | None \<Rightarrow> False)
          then (False, s)
          else (True, s\<lparr> st_pending_inbound := Some (pending\<lparr> pi_settled := True \<rparr>) \<rparr>))"

definition next_revision :: "state_v1 \<Rightarrow> (store_error, credential_revision) result" where
  "next_revision s =
     rbind (ok_or InvalidState (checked_add (current_revision s) 1)) (\<lambda>revision.
       map_err (\<lambda>_. InvalidState) (credential_revision_try_from revision))"

end
