(* ===== verification/State_Invariant.thy ===== *)
theory State_Invariant
  imports State_V1
begin

text \<open>
  What \<open>StateV1::verify\<close> checks, stated without its loops, and the preservation of it by every
  transition of the protocol state.
\<close>

named_theorems state_simps \<open>unfolding of the components of a valid state\<close>

section \<open>The invariant\<close>

definition entry_valid :: "'z externals_scheme \<Rightarrow> state_v1 \<Rightarrow> stored_outbound \<Rightarrow> bool" where
  "entry_valid x s e \<longleftrightarrow> outbound_sequence e \<noteq> 0 \<and> outbound_sequence e \<le> st_device_sequence s
     \<and> outbound_semantic_valid x e
     \<and> (\<forall>r. report_payload e = Some r \<longrightarrow> report_matches_current x s r)"

definition outbox_valid :: "'z externals_scheme \<Rightarrow> state_v1 \<Rightarrow> bool" where
  "outbox_valid x s \<longleftrightarrow> distinct (map outbound_event_id (st_outbox s))
     \<and> distinct (map outbound_sequence (st_outbox s))
     \<and> (\<forall>e \<in> set (st_outbox s). entry_valid x s e)"

definition journal_valid :: "state_v1 \<Rightarrow> bool" where
  "journal_valid s \<longleftrightarrow> distinct (map cm_command_id (st_command_journal s))
     \<and> (\<forall>c \<in> set (st_command_journal s). stored_command_semantic_valid c)"

definition scope_identity :: "state_v1 \<Rightarrow> u64 \<Rightarrow> device_identity" where
  "scope_identity s g = \<lparr> di_tenant = si_tenant_id (st_identity s),
     di_device = si_device_id (st_identity s), di_credential_generation = CredentialGeneration g \<rparr>"

definition pending_valid :: "'z externals_scheme \<Rightarrow> state_v1 \<Rightarrow> bool" where
  "pending_valid x s \<longleftrightarrow> (\<forall>p. st_pending_inbound s = Some p \<longrightarrow>
     wf_identity x (scope_identity s (pi_credential_generation p))
     \<and> pi_command_id p \<noteq> [] \<and> wf_digest (pi_fingerprint p)
     \<and> pi_topic p = ts_command (topic_set_new x (scope_identity s (pi_credential_generation p)))
     \<and> pi_settlement_token p = settlement_token x (pi_topic p) (pi_command_id p) (pi_fingerprint p)
     \<and> (\<exists>c \<in> set (st_command_journal s).
          cm_command_id c = pi_command_id p \<and> cm_fingerprint c = pi_fingerprint p))"

definition phase_entry_valid :: "state_v1 \<Rightarrow> stored_outbound \<Rightarrow> bool" where
  "phase_entry_valid s e = (case e of
     Ack _ a \<Rightarrow> (\<forall>revision. ak_activates_revision a = Some revision \<longrightarrow>
       revision = sc_credential_revision (st_current s)
       \<and> (\<exists>b \<in> set (st_outbox s). is_blocked_report_for revision (ak_command_id a) b)
       \<and> st_reconnect_revision s = None)
   | ReportBlocked _ r \<Rightarrow>
       ((\<exists>b \<in> set (st_outbox s).
           is_activation_for (rr_credential_revision r) (rr_command_id r) b)
         \<longleftrightarrow> st_reconnect_revision s = None)
       \<and> (\<forall>revision. st_reconnect_revision s = Some revision \<longrightarrow>
            revision = rr_credential_revision r)
   | ReportReady _ _ \<Rightarrow> st_reconnect_revision s = None)"

definition phase_valid :: "state_v1 \<Rightarrow> bool" where
  "phase_valid s \<longleftrightarrow> report_count s \<le> 1
     \<and> (st_pending_inbound s \<noteq> None \<longleftrightarrow> report_count s = 1)
     \<and> (\<forall>e \<in> set (st_outbox s). phase_entry_valid s e)
     \<and> (\<forall>revision. st_reconnect_revision s = Some revision \<longrightarrow>
          report_count s = 1 \<and> revision = sc_credential_revision (st_current s))"

definition valid_state :: "'z externals_scheme \<Rightarrow> device_identity \<Rightarrow> state_v1 \<Rightarrow> bool" where
  "valid_state x i s \<longleftrightarrow> coordinates_valid s i \<and> outbox_valid x s \<and> journal_valid s
     \<and> pending_valid x s \<and> phase_valid s"

text \<open>The identity a state carries.\<close>

definition state_identity :: "state_v1 \<Rightarrow> device_identity" where
  "state_identity s = scope_identity s (si_credential_generation (st_identity s))"

section \<open>\<open>verify\<close> decides the invariant\<close>

lemma verify_outbox_iff:
  "verify_outbox x s ids seqs es = Inr () \<longleftrightarrow>
     distinct (map outbound_event_id es) \<and> distinct (map outbound_sequence es)
     \<and> set (map outbound_event_id es) \<inter> ids = {} \<and> set (map outbound_sequence es) \<inter> seqs = {}
     \<and> (\<forall>e \<in> set es. entry_valid x s e)"
proof (induction es arbitrary: ids seqs)
  case Nil
  then show ?case by simp
next
  case (Cons e es)
  have "verify_outbox x s ids seqs (e # es) = Inr () \<longleftrightarrow>
      outbound_event_id e \<notin> ids \<and> outbound_sequence e \<notin> seqs \<and> entry_valid x s e
      \<and> verify_outbox x s (insert (outbound_event_id e) ids) (insert (outbound_sequence e) seqs) es
          = Inr ()"
    by (auto simp: entry_valid_def not_less split: option.splits)
  then show ?case by (auto simp: Cons.IH)
qed

lemma verify_journal_iff:
  "verify_journal ids cs = Inr () \<longleftrightarrow> distinct (map cm_command_id cs)
     \<and> set (map cm_command_id cs) \<inter> ids = {} \<and> (\<forall>c \<in> set cs. stored_command_semantic_valid c)"
  by (induction cs arbitrary: ids) auto

lemma verify_pending_iff: "verify_pending x s = Inr () \<longleftrightarrow> pending_valid x s"
  by (auto simp: verify_pending_def pending_valid_def wf_identity_def scope_identity_def
      device_identity_try_new_Inr sha256_digest_is_ok list_ex_iff split: option.splits)

lemma verify_phase_entry_iff: "verify_phase_entry s e = Inr () \<longleftrightarrow> phase_entry_valid s e"
  by (auto simp: verify_phase_entry_def phase_entry_valid_def list_ex_iff Let_def
      split: stored_outbound.splits option.splits)

lemma verify_phase_iff: "verify_phase s es = Inr () \<longleftrightarrow> (\<forall>e \<in> set es. phase_entry_valid s e)"
  by (induction es) (auto simp: verify_phase_entry_iff)

lemma verify_iff_valid: "verify x s i = Inr () \<longleftrightarrow> valid_state x i s"
  by (auto simp: verify_def valid_state_def outbox_valid_def journal_valid_def phase_valid_def
      verify_outbox_iff verify_journal_iff verify_pending_iff verify_phase_iff
      split: if_splits option.splits)

lemma verify_only_InvalidState: "verify x s i = Inl e \<Longrightarrow> e = InvalidState"
proof -
  have o: "verify_outbox x s a b es = Inl e \<Longrightarrow> e = InvalidState" for a b es
    by (induction es arbitrary: a b) (auto split: if_splits)
  have j: "verify_journal a cs = Inl e \<Longrightarrow> e = InvalidState" for a cs
    by (induction cs arbitrary: a) (auto split: if_splits)
  have p: "verify_pending x s = Inl e \<Longrightarrow> e = InvalidState"
    by (auto simp: verify_pending_def rbind_def map_err_def split: option.splits sum.splits)
  have f: "verify_phase s es = Inl e \<Longrightarrow> e = InvalidState" for es
    by (induction es) (auto simp: verify_phase_entry_def Let_def rbind_def
        split: stored_outbound.splits option.splits if_splits sum.splits)
  assume "verify x s i = Inl e"
  then show ?thesis
    by (auto simp: verify_def rbind_Inl dest: o j p f split: if_splits option.splits)
qed

lemma current_identity_Inr:
  "current_identity x s = Inr i \<longleftrightarrow> wf_identity x (state_identity s) \<and> i = state_identity s"
  by (auto simp: current_identity_def wf_identity_def state_identity_def scope_identity_def
      device_identity_try_new_Inr)

lemma current_identity_Inl: "current_identity x s = Inl e \<Longrightarrow> e = InvalidState"
  by (auto simp: current_identity_def rbind_Inl map_err_def split: sum.splits)

lemma validate_iff:
  "validate x s = Inr () \<longleftrightarrow>
     wf_identity x (state_identity s) \<and> valid_state x (state_identity s) s"
  by (auto simp: validate_def current_identity_Inr verify_iff_valid)

lemma validate_cases: "validate x s = Inr () \<or> validate x s = Inl InvalidState"
proof (cases "validate x s")
  case (Inl e)
  then show ?thesis
    by (auto simp: validate_def rbind_Inl dest: current_identity_Inl verify_only_InvalidState)
qed auto

section \<open>Introduction and elimination\<close>

lemma valid_stateI:
  assumes "coordinates_valid s i" "outbox_valid x s" "journal_valid s" "pending_valid x s"
    "phase_valid s"
  shows "valid_state x i s"
  using assms by (simp add: valid_state_def)

lemma valid_stateD:
  assumes "valid_state x i s"
  shows "coordinates_valid s i" "outbox_valid x s" "journal_valid s" "pending_valid x s"
    "phase_valid s"
  using assms by (simp_all add: valid_state_def)

lemma valid_entryD:
  assumes "valid_state x i s" and "e \<in> set (st_outbox s)"
  shows "entry_valid x s e" and "phase_entry_valid s e"
  using assms by (simp_all add: valid_state_def outbox_valid_def phase_valid_def)

lemma is_blocked_report_for_iff:
  "is_blocked_report_for rv c e \<longleftrightarrow>
     (\<exists>eid r. e = ReportBlocked eid r \<and> rr_credential_revision r = rv \<and> rr_command_id r = c)"
  by (cases e) (auto simp: is_blocked_report_for_def)

lemma is_activation_for_iff:
  "is_activation_for rv c e \<longleftrightarrow>
     (\<exists>eid a. e = Ack eid a \<and> ak_activates_revision a = Some rv \<and> ak_command_id a = c)"
  by (cases e) (auto simp: is_activation_for_def)

text \<open>Each part of the invariant reads only some of the fields.\<close>

lemma entry_valid_cong:
  assumes "st_identity t = st_identity s" "st_current t = st_current s"
    "st_device_sequence t = st_device_sequence s"
  shows "entry_valid x t e = entry_valid x s e"
  using assms by (simp add: entry_valid_def report_matches_current_def)

lemma outbox_valid_cong:
  assumes "st_identity t = st_identity s" "st_current t = st_current s"
    "st_device_sequence t = st_device_sequence s" "st_outbox t = st_outbox s"
  shows "outbox_valid x t = outbox_valid x s"
  using assms by (simp add: outbox_valid_def entry_valid_cong [OF assms(1-3)])

lemma pending_valid_cong:
  assumes "st_identity t = st_identity s" "st_pending_inbound t = st_pending_inbound s"
    "st_command_journal t = st_command_journal s"
  shows "pending_valid x t = pending_valid x s"
  using assms by (simp add: pending_valid_def scope_identity_def)

lemma report_count_cong: "st_outbox t = st_outbox s \<Longrightarrow> report_count t = report_count s"
  by (simp add: report_count_def)

lemma phase_entry_valid_cong:
  assumes "st_outbox t = st_outbox s" "st_current t = st_current s"
    "st_reconnect_revision t = st_reconnect_revision s"
  shows "phase_entry_valid t = phase_entry_valid s"
  by (rule ext) (simp only: phase_entry_valid_def assms)

lemma phase_valid_cong:
  assumes "st_outbox t = st_outbox s" "st_current t = st_current s"
    "st_reconnect_revision t = st_reconnect_revision s"
    "(st_pending_inbound t = None) = (st_pending_inbound s = None)"
  shows "phase_valid t = phase_valid s"
  unfolding phase_valid_def
  by (simp only: assms report_count_cong [OF assms(1)] phase_entry_valid_cong [OF assms(1-3)])

lemma report_count_pos: "0 < report_count s \<longleftrightarrow> rotation_in_flight s"
  by (auto simp: report_count_def rotation_in_flight_def list_ex_iff filter_empty_conv)

lemma valid_in_flight:
  assumes "valid_state x i s"
  shows "rotation_in_flight s \<longleftrightarrow> st_pending_inbound s \<noteq> None"
  using assms report_count_pos [of s] by (auto simp: valid_state_def phase_valid_def)

lemma valid_idle:
  assumes "valid_state x i s" and "\<not> rotation_in_flight s"
  shows "st_pending_inbound s = None" and "st_reconnect_revision s = None"
    and "\<And>e a. Ack e a \<in> set (st_outbox s) \<Longrightarrow> ak_activates_revision a = None"
    and "\<And>e. e \<in> set (st_outbox s) \<Longrightarrow> report_payload e = None"
proof -
  show no: "\<And>e. e \<in> set (st_outbox s) \<Longrightarrow> report_payload e = None"
    using assms(2) by (auto simp: rotation_in_flight_def list_ex_iff)
  show "st_pending_inbound s = None" using assms valid_in_flight [OF assms(1)] by auto
  have "report_count s = 0" using assms(2) report_count_pos by auto
  then show "st_reconnect_revision s = None"
    using assms(1) by (auto simp: valid_state_def phase_valid_def)
  show "ak_activates_revision a = None" if "Ack e a \<in> set (st_outbox s)" for e a
  proof (rule ccontr)
    assume "ak_activates_revision a \<noteq> None"
    with that assms(1) obtain r b where "b \<in> set (st_outbox s)"
      and "is_blocked_report_for r (ak_command_id a) b"
      by (fastforce simp: valid_state_def phase_valid_def phase_entry_valid_def)
    with no [of b] show False
      by (auto simp: is_blocked_report_for_def split: stored_outbound.splits)
  qed
qed

lemma sequence_bound:
  "valid_state x i s \<Longrightarrow> e \<in> set (st_outbox s) \<Longrightarrow> outbound_sequence e \<le> st_device_sequence s"
  by (auto simp: valid_state_def outbox_valid_def entry_valid_def)

end
