(* ===== verification/State_Transitions.thy ===== *)
theory State_Transitions
  imports State_Invariant
begin

text \<open>
  The transitions of the protocol state keep its invariant: each lemma says that the state an
  operation produces passes \<open>verify\<close> again, so that the check made before every write never
  refuses a state the agent computed itself.
\<close>

section \<open>Appending to the outbox and the journal\<close>

lemma entry_valid_mono:
  assumes "entry_valid x s e" "st_device_sequence s \<le> st_device_sequence t"
    "st_identity t = st_identity s" "st_current t = st_current s"
  shows "entry_valid x t e"
  using assms by (auto simp: entry_valid_def report_matches_current_def)

text \<open>An acknowledgement that activates nothing can join any valid outbox.\<close>

lemma phase_entry_transfer:
  assumes "phase_entry_valid s e" and "st_current t = st_current s"
    "st_reconnect_revision t = st_reconnect_revision s"
    and "\<And>r c. (\<exists>b \<in> set (st_outbox t). is_blocked_report_for r c b)
        = (\<exists>b \<in> set (st_outbox s). is_blocked_report_for r c b)"
    and "\<And>r c. (\<exists>b \<in> set (st_outbox t). is_activation_for r c b)
        = (\<exists>b \<in> set (st_outbox s). is_activation_for r c b)"
  shows "phase_entry_valid t e"
  using assms(1) unfolding phase_entry_valid_def assms(2,3,4,5) .

lemma phase_entry_push_ack:
  assumes "phase_entry_valid s e" and "ak_activates_revision a = None"
    and "st_outbox t = st_outbox s @ [Ack eid a]" "st_current t = st_current s"
    "st_reconnect_revision t = st_reconnect_revision s"
  shows "phase_entry_valid t e"
  using assms(2,3)
  by (intro phase_entry_transfer [OF assms(1,4,5)])
    (auto simp: is_blocked_report_for_iff is_activation_for_iff)

lemma valid_push_ack:
  assumes v: "valid_state x i s" and room: "length (st_outbox s) < OUTBOX_LIMIT"
    and grow: "st_device_sequence s \<le> n" and seq: "ak_device_sequence a \<le> n"
    and fresh_seq: "ak_device_sequence a \<notin> outbound_sequence ` set (st_outbox s)"
    and fresh_id: "eid \<notin> outbound_event_id ` set (st_outbox s)"
    and sem: "outbound_semantic_valid x (Ack eid a)" and plain: "ak_activates_revision a = None"
  shows "valid_state x i (s\<lparr> st_device_sequence := n, st_outbox := st_outbox s @ [Ack eid a] \<rparr>)"
    (is "valid_state x i ?t")
proof (rule valid_stateI)
  have "entry_valid x ?t e" if "e \<in> set (st_outbox s)" for e
    using entry_valid_mono [OF valid_entryD(1) [OF v that], of ?t] grow by simp
  moreover have "entry_valid x ?t (Ack eid a)"
    using sem seq by (auto simp: entry_valid_def stored_ack_semantic_valid_def)
  ultimately show "outbox_valid x ?t"
    using valid_stateD(2) [OF v] fresh_seq fresh_id by (auto simp: outbox_valid_def)
  show "coordinates_valid ?t i"
    using valid_stateD(1) [OF v] room by (simp add: coordinates_valid_def)
  show "journal_valid ?t" using valid_stateD(3) [OF v] by (simp add: journal_valid_def)
  show "pending_valid x ?t"
    using valid_stateD(4) [OF v] by (simp add: pending_valid_def scope_identity_def)
  have rc: "report_count ?t = report_count s" by (simp add: report_count_def)
  have "phase_entry_valid ?t e" if "e \<in> set (st_outbox s)" for e
    using phase_entry_push_ack [OF valid_entryD(2) [OF v that] plain, of ?t eid] by simp
  moreover have "phase_entry_valid ?t (Ack eid a)" using plain by (simp add: phase_entry_valid_def)
  ultimately show "phase_valid ?t"
    using valid_stateD(5) [OF v] by (auto simp: phase_valid_def rc)
qed

text \<open>Only the journal changes.\<close>

lemma valid_journal_update:
  assumes v: "valid_state x i s" and "length cs \<le> COMMAND_JOURNAL_LIMIT"
    and "distinct (map cm_command_id cs)" and "\<forall>c \<in> set cs. stored_command_semantic_valid c"
    and "\<And>c p. c \<in> set (st_command_journal s) \<Longrightarrow> st_pending_inbound s = Some p
           \<Longrightarrow> cm_command_id c = pi_command_id p \<Longrightarrow> c \<in> set cs"
  shows "valid_state x i (s\<lparr> st_command_journal := cs \<rparr>)" (is "valid_state x i ?t")
proof (rule valid_stateI)
  show "coordinates_valid ?t i"
    using valid_stateD(1) [OF v] assms(2) by (simp add: coordinates_valid_def)
  show "outbox_valid x ?t" using valid_stateD(2) [OF v] by (subst outbox_valid_cong [of _ s]) simp_all
  show "journal_valid ?t" using assms(3,4) by (simp add: journal_valid_def)
  show "pending_valid x ?t"
    using valid_stateD(4) [OF v] assms(5) by (fastforce simp: pending_valid_def scope_identity_def)
  show "phase_valid ?t" using valid_stateD(5) [OF v] by (subst phase_valid_cong [of _ s]) simp_all
qed

lemma valid_push_journal:
  assumes "valid_state x i s" and "length (st_command_journal s) < COMMAND_JOURNAL_LIMIT"
    and "stored_command_semantic_valid c"
    and "cm_command_id c \<notin> cm_command_id ` set (st_command_journal s)"
  shows "valid_state x i (s\<lparr> st_command_journal := st_command_journal s @ [c] \<rparr>)"
  using assms valid_stateD(3) [OF assms(1)]
  by (intro valid_journal_update) (auto simp: journal_valid_def)

lemma valid_expire:
  assumes "valid_state x i s"
  shows "valid_state x i (expire_command_journal s now)"
  unfolding expire_command_journal_def Let_def
  using assms valid_stateD(1,3) [OF assms]
  by (intro valid_journal_update)
    (auto simp: journal_valid_def coordinates_valid_def distinct_map_filter
      intro: order_trans [OF length_filter_le])

section \<open>The linked invariant\<close>

text \<open>
  What holds of every state the agent computes beyond what \<open>verify\<close> checks: a journal entry keeps
  the sequence number its acknowledgement was given, no two entries share one, the outbox uses it
  only for that command's acknowledgement, and only a command's own acknowledgement activates a
  revision. \<open>replay_command\<close> and \<open>confirm_outbound\<close> rely on it.
\<close>

abbreviation journal_sequence :: "stored_command \<Rightarrow> u64" where
  "journal_sequence c \<equiv> ak_device_sequence (cm_acknowledgement c)"

definition journal_linked :: "state_v1 \<Rightarrow> bool" where
  "journal_linked s \<longleftrightarrow>
     distinct (map journal_sequence (st_command_journal s))
     \<and> (\<forall>c \<in> set (st_command_journal s). journal_sequence c \<le> st_device_sequence s
          \<and> ak_event_cause (cm_acknowledgement c) = cm_command_id c
          \<and> (\<forall>e \<in> set (st_outbox s). outbound_sequence e = journal_sequence c \<longrightarrow>
               is_ack_of (cm_command_id c) e))"

definition activation_linked :: "state_v1 \<Rightarrow> bool" where
  "activation_linked s \<longleftrightarrow> (\<forall>e a. Ack e a \<in> set (st_outbox s) \<longrightarrow>
     ak_activates_revision a \<noteq> None \<longrightarrow> ak_event_cause a = ak_command_id a)"

definition linked_state :: "'z externals_scheme \<Rightarrow> device_identity \<Rightarrow> state_v1 \<Rightarrow> bool" where
  "linked_state x i s \<longleftrightarrow> valid_state x i s \<and> journal_linked s \<and> activation_linked s"

lemma linked_stateD:
  assumes "linked_state x i s"
  shows "valid_state x i s" "journal_linked s" "activation_linked s"
  using assms by (simp_all add: linked_state_def)

text \<open>\<open>sequence_room s k\<close>: the device sequence can be advanced \<open>k\<close> times before it saturates.\<close>

definition sequence_room :: "state_v1 \<Rightarrow> nat \<Rightarrow> bool" where
  "sequence_room s k \<longleftrightarrow> unat (st_device_sequence s) + k < 2 ^ 64"

lemma sequence_room_mono: "sequence_room s k \<Longrightarrow> j \<le> k \<Longrightarrow> sequence_room s j"
  by (simp add: sequence_room_def)

lemma next_sequence_greater: "sequence_room s 1 \<Longrightarrow> st_device_sequence s < saturating_add (st_device_sequence s) 1"
  by (rule saturating_add_less) (simp_all add: sequence_room_def)

lemma fresh_sequence:
  assumes "valid_state x i s" "st_device_sequence s < n"
  shows "n \<notin> outbound_sequence ` set (st_outbox s)"
  using assms(2) sequence_bound [OF assms(1)] by force

lemma expire_simps [simp]:
  "st_device_sequence (expire_command_journal s now) = st_device_sequence s"
  "st_outbox (expire_command_journal s now) = st_outbox s"
  "st_current (expire_command_journal s now) = st_current s"
  "st_identity (expire_command_journal s now) = st_identity s"
  "st_pending_inbound (expire_command_journal s now) = st_pending_inbound s"
  "st_reconnect_revision (expire_command_journal s now) = st_reconnect_revision s"
  by (simp_all add: expire_command_journal_def Let_def)

lemma expire_journal_subset:
  "set (st_command_journal (expire_command_journal s now)) \<subseteq> set (st_command_journal s)"
  by (auto simp: expire_command_journal_def Let_def)

lemma linked_expire:
  assumes "linked_state x i s"
  shows "linked_state x i (expire_command_journal s now)"
proof -
  have "journal_linked (expire_command_journal s now)"
    using linked_stateD(2) [OF assms]
    by (auto simp: journal_linked_def expire_command_journal_def Let_def distinct_map_filter)
  then show ?thesis
    using valid_expire linked_stateD [OF assms] by (simp add: linked_state_def activation_linked_def)
qed

section \<open>The initial state\<close>

lemma linked_initial:
  assumes "wf_identity x i" and "wf_position p" and "wf_digest (sha256_digest_expose d)" and "0 < e"
  shows "linked_state x i (state_initial i p d e)"
proof -
  have "valid_state x i (state_initial i p d e)"
    using assms
    by (auto simp: valid_state_def coordinates_valid_def outbox_valid_def journal_valid_def
        pending_valid_def phase_valid_def report_count_def state_initial_def stored_identity_from_def
        wf_identity_def wf_position_def sha256_digest_is_ok word_gt_0)
  then show ?thesis
    by (simp add: linked_state_def journal_linked_def activation_linked_def state_initial_def)
qed

section \<open>Rejections\<close>

text \<open>A new acknowledgement takes the next sequence number.\<close>

lemma linked_push_ack:
  assumes l: "linked_state x i s" and room: "length (st_outbox s) < OUTBOX_LIMIT"
    and seq: "sequence_room s 1" and n: "n = saturating_add (st_device_sequence s) 1"
    and "ak_device_sequence a = n" and "ak_activates_revision a = None"
    and "eid \<notin> outbound_event_id ` set (st_outbox s)" and "outbound_semantic_valid x (Ack eid a)"
  shows "linked_state x i (s\<lparr> st_device_sequence := n, st_outbox := st_outbox s @ [Ack eid a] \<rparr>)"
proof -
  have less: "st_device_sequence s < n" using next_sequence_greater [OF seq] n by simp
  have v: "valid_state x i (s\<lparr> st_device_sequence := n, st_outbox := st_outbox s @ [Ack eid a] \<rparr>)"
    using assms less fresh_sequence [OF linked_stateD(1) [OF l] less]
    by (intro valid_push_ack linked_stateD(1) [OF l]) auto
  have "journal_sequence c < n" if "c \<in> set (st_command_journal s)" for c
    using that linked_stateD(2) [OF l] less by (auto simp: journal_linked_def)
  then have "journal_linked (s\<lparr> st_device_sequence := n, st_outbox := st_outbox s @ [Ack eid a] \<rparr>)"
    using linked_stateD(2) [OF l] assms(5) by (fastforce simp: journal_linked_def)
  with v show ?thesis
    using linked_stateD(3) [OF l] assms(6) by (auto simp: linked_state_def activation_linked_def)
qed

lemma linked_push_journal:
  assumes l: "linked_state x i s" and "length (st_command_journal s) < COMMAND_JOURNAL_LIMIT"
    and "stored_command_semantic_valid c"
    and "cm_command_id c \<notin> cm_command_id ` set (st_command_journal s)"
    and "journal_sequence c \<notin> journal_sequence ` set (st_command_journal s)"
    and "journal_sequence c \<le> st_device_sequence s"
    and "ak_event_cause (cm_acknowledgement c) = cm_command_id c"
    and "\<forall>e \<in> set (st_outbox s). outbound_sequence e = journal_sequence c \<longrightarrow>
           is_ack_of (cm_command_id c) e"
  shows "linked_state x i (s\<lparr> st_command_journal := st_command_journal s @ [c] \<rparr>)"
  using valid_push_journal [OF linked_stateD(1) [OF l] assms(2-4)] linked_stateD(2,3) [OF l] assms(5-8)
  by (auto simp: linked_state_def journal_linked_def activation_linked_def)

definition wf_rejected :: "rejected_command \<Rightarrow> bool" where
  "wf_rejected c \<longleftrightarrow> rj_command_id c \<noteq> [] \<and> wf_digest (rj_fingerprint c) \<and> rj_generation c > 0
     \<and> rj_fence c > 0 \<and> rj_observed_at c \<ge> 0 \<and> rj_retain_until_epoch_seconds c > 0"

lemma linked_reject:
  assumes l: "linked_state x i s" and c: "wf_rejected c" and seq: "sequence_room s 1"
    and out: "length (st_outbox s) < OUTBOX_LIMIT"
    and jour: "length (st_command_journal s) < COMMAND_JOURNAL_LIMIT"
    and new: "rj_command_id c \<notin> cm_command_id ` set (st_command_journal s)"
    and fresh: "event_id x ''ack'' (rj_command_id c) \<notin> outbound_event_id ` set (st_outbox s)"
  shows "linked_state x i (reject x c s)"
proof -
  define n where "n = saturating_add (st_device_sequence s) 1"
  define a where "a = \<lparr> ak_command_id = rj_command_id c, ak_event_cause = rj_command_id c,
     ak_desired_generation = rj_generation c, ak_fence_epoch = rj_fence c, ak_device_sequence = n,
     ak_observed_at = rj_observed_at c,
     ak_rejection = Some (stored_rejection_of (rj_rejection c)), ak_activates_revision = None,
     ak_settled_replay = False \<rparr>"
  define j where "j = \<lparr> cm_command_id = rj_command_id c, cm_fingerprint = rj_fingerprint c,
     cm_acknowledgement = a, cm_retain_until_epoch_seconds = rj_retain_until_epoch_seconds c \<rparr>"
  define t where "t = s\<lparr> st_device_sequence := n,
     st_outbox := st_outbox s @ [Ack (event_id x ''ack'' (rj_command_id c)) a] \<rparr>"
  have pos: "0 < n" unfolding n_def by (rule saturating_add_pos) simp
  have sem: "stored_ack_semantic_valid a"
    using c pos by (simp add: stored_ack_semantic_valid_def a_def wf_rejected_def)
  have t: "linked_state x i t"
    unfolding t_def using sem fresh
    by (intro linked_push_ack [OF l out seq n_def]) (simp_all add: a_def)
  have less: "journal_sequence d < n" if "d \<in> set (st_command_journal s)" for d
    using that linked_stateD(2) [OF l] next_sequence_greater [OF seq]
    by (auto simp: journal_linked_def n_def)
  have small: "outbound_sequence e < n" if "e \<in> set (st_outbox s)" for e
    using sequence_bound [OF linked_stateD(1) [OF l] that] next_sequence_greater [OF seq]
    by (simp add: n_def)
  have "linked_state x i (t\<lparr> st_command_journal := st_command_journal t @ [j] \<rparr>)"
  proof (rule linked_push_journal [OF t])
    show "stored_command_semantic_valid j"
      using c sem
      by (simp add: j_def a_def stored_command_semantic_valid_def wf_rejected_def sha256_digest_is_ok)
    show "journal_sequence j \<notin> journal_sequence ` set (st_command_journal t)"
      using less by (auto simp: t_def j_def a_def)
    show "\<forall>e \<in> set (st_outbox t). outbound_sequence e = journal_sequence j \<longrightarrow>
        is_ack_of (cm_command_id j) e"
      using small by (auto simp: t_def j_def a_def is_ack_of_def)
  qed (use jour new in \<open>simp_all add: t_def j_def a_def\<close>)
  moreover have "reject x c s = t\<lparr> st_command_journal := st_command_journal t @ [j] \<rparr>"
    by (simp add: reject_def Let_def t_def j_def a_def n_def)
  ultimately show ?thesis by simp
qed

lemma conflict_source_neq: "conflict_source c f \<noteq> c"
  by (simp add: conflict_source_def)

lemma linked_reject_conflicting_replay:
  assumes l: "linked_state x i s" and seq: "sequence_room s 1"
    and out: "length (st_outbox s) < OUTBOX_LIMIT" and "c \<noteq> []" "0 < g" "0 < f" "0 \<le> t"
    and fresh: "\<not> has_conflicting_replay x c fp s"
  shows "linked_state x i (reject_conflicting_replay x c fp g f t s)"
  unfolding reject_conflicting_replay_def Let_def
  using assms conflict_source_neq [of c fp] saturating_add_pos [of 1 "st_device_sequence s"]
  by (intro linked_push_ack [OF l out seq refl])
    (auto simp: stored_ack_semantic_valid_def has_conflicting_replay_def list_ex_iff
      conflict_source_def)

section \<open>Replays\<close>

definition ack_causes :: "state_v1 \<Rightarrow> string set" where
  "ack_causes s = {ak_event_cause a |e a. Ack e a \<in> set (st_outbox s)}"

text \<open>The messages whose digests tell the acknowledgement of a command from those in the outbox.\<close>

definition ack_messages :: "state_v1 \<Rightarrow> string \<Rightarrow> bytes set" where
  "ack_messages s cid = event_id_preimage ''ack'' ` insert cid (ack_causes s)"

lemma event_id_preimage_inj [simp]: "event_id_preimage k a = event_id_preimage k b \<longleftrightarrow> a = b"
  by (simp add: event_id_preimage_def)

lemma event_id_kinds [simp]:
  "event_id x ''ack'' a \<noteq> event_id x ''rejected'' b" "event_id x ''rejected'' b \<noteq> event_id x ''ack'' a"
  "event_id x ''ack'' a \<noteq> event_id x ''report'' b" "event_id x ''report'' b \<noteq> event_id x ''ack'' a"
  "event_id x ''rejected'' a \<noteq> event_id x ''report'' b" "event_id x ''report'' b \<noteq> event_id x ''rejected'' a"
  by (simp_all add: event_id_def)

lemma ack_id_fresh:
  assumes v: "valid_state x i s" and no: "\<not> has_command_ack cid s"
    and cf: "collision_free_on x (ack_messages s cid)"
  shows "event_id x ''ack'' cid \<notin> outbound_event_id ` set (st_outbox s)"
proof
  assume "event_id x ''ack'' cid \<in> outbound_event_id ` set (st_outbox s)"
  then obtain e where e: "e \<in> set (st_outbox s)" "outbound_event_id e = event_id x ''ack'' cid"
    by auto
  from valid_entryD(1) [OF v e(1)] have sem: "outbound_semantic_valid x e"
    by (simp add: entry_valid_def)
  show False
  proof (cases e)
    case (Ack eid a)
    with sem e(2) have cause: "ak_event_cause a = ak_command_id a"
      and eq: "event_id x ''ack'' (ak_event_cause a) = event_id x ''ack'' cid"
      by (auto split: if_splits)
    from Ack e(1) have "ak_event_cause a \<in> ack_causes s" by (auto simp: ack_causes_def)
    with eq cf have "ak_event_cause a = cid"
      by (auto simp: event_id_def collision_free_on_def ack_messages_def inj_on_def)
    with cause Ack e(1) no show False by (auto simp: has_command_ack_def list_ex_iff is_ack_of_def)
  qed (use sem e(2) in auto)
qed

lemma replayed_ack_valid:
  assumes "stored_ack_semantic_valid a"
  shows "stored_ack_semantic_valid (replayed_ack a)" and "ak_activates_revision (replayed_ack a) = None"
  using assms
  by (auto simp: stored_ack_semantic_valid_def replayed_ack_def split: option.splits bool.splits)

lemma replayed_ack_simps [simp]:
  "ak_command_id (replayed_ack a) = ak_command_id a" "ak_event_cause (replayed_ack a) = ak_event_cause a"
  "ak_device_sequence (replayed_ack a) = ak_device_sequence a"
  "ak_rejection (replayed_ack a) = ak_rejection a"
  by (simp_all add: replayed_ack_def)

lemma linked_replay:
  assumes l: "linked_state x i s" and out: "length (st_outbox s) < OUTBOX_LIMIT"
    and no: "\<not> has_command_ack cid s"
    and fresh: "event_id x ''ack'' cid \<notin> outbound_event_id ` set (st_outbox s)"
    and r: "replay_command x cid fp s = Inr t"
  shows "linked_state x i t"
proof -
  from r obtain c where c: "c \<in> set (st_command_journal s)" "cm_command_id c = cid"
    and t: "t = s\<lparr> st_outbox := st_outbox s
              @ [Ack (event_id x ''ack'' cid) (replayed_ack (cm_acknowledgement c))] \<rparr>"
    by (auto simp: replay_command_def dest: find_Some_set)
  let ?a = "replayed_ack (cm_acknowledgement c)"
  from c(1) linked_stateD(1,2) [OF l] have sem: "stored_ack_semantic_valid (cm_acknowledgement c)"
    "ak_command_id (cm_acknowledgement c) = cm_command_id c"
    and link: "journal_sequence c \<le> st_device_sequence s"
      "ak_event_cause (cm_acknowledgement c) = cm_command_id c"
      "\<forall>e \<in> set (st_outbox s). outbound_sequence e = journal_sequence c \<longrightarrow> is_ack_of cid e"
    and dist: "distinct (map journal_sequence (st_command_journal s))"
    using c(2) by (auto simp: valid_state_def journal_valid_def stored_command_semantic_valid_def
        journal_linked_def)
  from no link(3) have new: "journal_sequence c \<notin> outbound_sequence ` set (st_outbox s)"
    by (auto simp: has_command_ack_def list_ex_iff)
  have "valid_state x i (s\<lparr> st_device_sequence := st_device_sequence s,
      st_outbox := st_outbox s @ [Ack (event_id x ''ack'' cid) ?a] \<rparr>)"
    using link(1,2) new fresh replayed_ack_valid [OF sem(1)] sem(2) c(2)
    by (intro valid_push_ack [OF linked_stateD(1) [OF l] out]) simp_all
  then have v: "valid_state x i t" using t by simp
  have "d = c" if "d \<in> set (st_command_journal s)" "journal_sequence d = journal_sequence c" for d
    using dist that c(1) by (auto simp: distinct_map dest: inj_onD)
  then have "journal_linked t"
    using linked_stateD(2) [OF l] sem(2)
    by (auto simp: t journal_linked_def is_ack_of_def)
  moreover have "activation_linked t"
    using linked_stateD(3) [OF l] replayed_ack_valid(2) [OF sem(1)] by (simp add: t activation_linked_def)
  ultimately show ?thesis using v by (simp add: linked_state_def)
qed

section \<open>Acceptance\<close>

definition wf_accepted :: "accepted_command \<Rightarrow> bool" where
  "wf_accepted c \<longleftrightarrow> ac_command_id c \<noteq> [] \<and> wf_digest (ac_fingerprint c) \<and> ac_generation c > 0
     \<and> ac_fence c > 0 \<and> ac_credential_generation c > 0 \<and> ac_revision c > 0
     \<and> wf_digest (ac_artifact_digest c) \<and> ac_expires_at c > 0 \<and> ac_observed_at c \<ge> 0
     \<and> ac_retain_until_epoch_seconds c > 0"

text \<open>The entries that \<open>accept\<close> appends, by name.\<close>

definition accepted_ack :: "accepted_command \<Rightarrow> state_v1 \<Rightarrow> stored_ack" where
  "accepted_ack c s = \<lparr>
     ak_command_id = ac_command_id c, ak_event_cause = ac_command_id c,
     ak_desired_generation = ac_generation c, ak_fence_epoch = ac_fence c,
     ak_device_sequence = saturating_add (st_device_sequence s) 1,
     ak_observed_at = ac_observed_at c, ak_rejection = None,
     ak_activates_revision = Some (ac_revision c), ak_settled_replay = False \<rparr>"

definition accepted_report :: "'z externals_scheme \<Rightarrow> accepted_command \<Rightarrow> state_v1 \<Rightarrow> stored_report" where
  "accepted_report x c s = \<lparr>
     rr_command_id = ac_command_id c, rr_observed_generation = ac_generation c,
     rr_fence_epoch = ac_fence c,
     rr_device_sequence = saturating_add (saturating_add (st_device_sequence s) 1) 1,
     rr_observed_at = ac_observed_at c,
     rr_state_hash = state_hash x (si_tenant_id (st_identity s)) (si_device_id (st_identity s))
       (ac_credential_generation c) (ac_generation c) (ac_fence c) (ac_revision c)
       (ac_artifact_digest c),
     rr_artifact_digest = ac_artifact_digest c, rr_expires_at = Some (ac_expires_at c),
     rr_credential_generation = ac_credential_generation c,
     rr_credential_revision = ac_revision c \<rparr>"

lemma accept_fields:
  assumes "accept x c s = Inr t"
  shows "wf_identity x (state_identity s)"
    "st_outbox t = st_outbox s @ [Ack (event_id x ''ack'' (ac_command_id c)) (accepted_ack c s),
       ReportBlocked (event_id x ''report'' (ac_command_id c)) (accepted_report x c s)]"
    "st_command_journal t = st_command_journal s @ [\<lparr> cm_command_id = ac_command_id c,
       cm_fingerprint = ac_fingerprint c, cm_acknowledgement = accepted_ack c s,
       cm_retain_until_epoch_seconds = ac_retain_until_epoch_seconds c \<rparr>]"
    "st_device_sequence t = rr_device_sequence (accepted_report x c s)"
    "st_identity t = (st_identity s)\<lparr> si_credential_generation := ac_credential_generation c \<rparr>"
    "st_current t = \<lparr> sc_desired_generation = ac_generation c, sc_fence_epoch = ac_fence c,
       sc_credential_revision = ac_revision c, sc_artifact_digest = ac_artifact_digest c,
       sc_expires_at = ac_expires_at c \<rparr>"
    "st_reconnect_revision t = st_reconnect_revision s" "st_schema_version t = st_schema_version s"
    "st_pending_inbound t = Some \<lparr> pi_topic = ts_command (topic_set_new x (state_identity s)),
       pi_command_id = ac_command_id c, pi_fingerprint = ac_fingerprint c,
       pi_credential_generation = si_credential_generation (st_identity s),
       pi_settlement_token = settlement_token x (ts_command (topic_set_new x (state_identity s)))
         (ac_command_id c) (ac_fingerprint c),
       pi_settled = False \<rparr>"
  using assms
  by (auto simp: accept_def current_identity_Inr Let_def accepted_ack_def accepted_report_def
      state_identity_def scope_identity_def)

lemma accept_total:
  "wf_identity x (state_identity s) \<Longrightarrow> \<exists>t. accept x c s = Inr t"
  by (simp add: accept_def current_identity_Inr [THEN iffD2] Let_def)

lemma accepted_sequences:
  assumes "sequence_room s 2"
  shows "st_device_sequence s < ak_device_sequence (accepted_ack c s)"
    "ak_device_sequence (accepted_ack c s) < rr_device_sequence (accepted_report x c s)"
proof -
  show "st_device_sequence s < ak_device_sequence (accepted_ack c s)"
    using next_sequence_greater [of s] sequence_room_mono [OF assms, of 1]
    by (simp add: accepted_ack_def)
  show "ak_device_sequence (accepted_ack c s) < rr_device_sequence (accepted_report x c s)"
    using assms
    by (auto simp: accepted_ack_def accepted_report_def sequence_room_def unat_saturating_add
        intro!: saturating_add_less)
qed

lemma accepted_entries_valid:
  assumes "wf_accepted c" "sequence_room s 2" "digest_contract x"
  shows "stored_ack_semantic_valid (accepted_ack c s)"
    "stored_report_semantic_valid (accepted_report x c s)"
proof -
  have "0 < ak_device_sequence (accepted_ack c s)" "0 < rr_device_sequence (accepted_report x c s)"
    by (simp_all add: accepted_ack_def accepted_report_def saturating_add_pos)
  then show "stored_ack_semantic_valid (accepted_ack c s)"
    "stored_report_semantic_valid (accepted_report x c s)"
    using assms hex_digest_wf [OF assms(3)]
    by (simp_all add: stored_ack_semantic_valid_def stored_report_semantic_valid_def wf_accepted_def
        accepted_ack_def accepted_report_def sha256_digest_is_ok state_hash_def)
qed

text \<open>The hypotheses under which the agent calls \<open>accept\<close>.\<close>

definition accept_ready :: "'z externals_scheme \<Rightarrow> accepted_command \<Rightarrow> state_v1 \<Rightarrow> bool" where
  "accept_ready x c s \<longleftrightarrow> wf_accepted c \<and> \<not> rotation_in_flight s \<and> sequence_room s 2
     \<and> length (st_outbox s) + 2 \<le> OUTBOX_LIMIT
     \<and> length (st_command_journal s) < COMMAND_JOURNAL_LIMIT
     \<and> ac_command_id c \<notin> cm_command_id ` set (st_command_journal s)
     \<and> event_id x ''ack'' (ac_command_id c) \<notin> outbound_event_id ` set (st_outbox s)"

lemma idle_entry:
  assumes "valid_state x i s" "\<not> rotation_in_flight s" "e \<in> set (st_outbox s)"
  shows "\<exists>eid a. e = Ack eid a \<and> ak_activates_revision a = None"
  using valid_idle(3,4) [OF assms(1,2)] assms(3) by (cases e) fastforce+

lemma accept_outbox_valid:
  assumes v: "valid_state x i s" and r: "accept_ready x c s" and d: "digest_contract x"
    and a: "accept x c s = Inr t"
  shows "outbox_valid x t"
proof -
  note f = accept_fields [OF a]
  have wf: "wf_accepted c" and room: "sequence_room s 2"
    and idle: "\<not> rotation_in_flight s"
    and fresh: "event_id x ''ack'' (ac_command_id c) \<notin> outbound_event_id ` set (st_outbox s)"
    using r by (simp_all add: accept_ready_def)
  note seq = accepted_sequences [OF room, of c] accepted_sequences(2) [OF room, of c x]
  note sem = accepted_entries_valid [OF wf room d]
  have old: "entry_valid x t e" if mem: "e \<in> set (st_outbox s)" for e
  proof -
    obtain eid b where "e = Ack eid b" using idle_entry [OF v idle mem] by auto
    with valid_entryD(1) [OF v mem] seq show ?thesis by (auto simp: entry_valid_def f)
  qed
  have new: "entry_valid x t (Ack (event_id x ''ack'' (ac_command_id c)) (accepted_ack c s))"
    using sem(1) seq by (auto simp: entry_valid_def f stored_ack_semantic_valid_def accepted_ack_def)
  have rep: "entry_valid x t
      (ReportBlocked (event_id x ''report'' (ac_command_id c)) (accepted_report x c s))"
    using sem(2)
    by (auto simp: entry_valid_def f stored_report_semantic_valid_def report_matches_current_def
        accepted_report_def)
  have "event_id x ''report'' (ac_command_id c) \<notin> outbound_event_id ` set (st_outbox s)"
  proof
    assume "event_id x ''report'' (ac_command_id c) \<in> outbound_event_id ` set (st_outbox s)"
    then obtain e where e: "e \<in> set (st_outbox s)"
      "outbound_event_id e = event_id x ''report'' (ac_command_id c)" by auto
    obtain eid b where "e = Ack eid b" using idle_entry [OF v idle e(1)] by auto
    with valid_entryD(1) [OF v e(1)] e(2) show False by (auto simp: entry_valid_def split: if_splits)
  qed
  moreover have "outbound_sequence e < ak_device_sequence (accepted_ack c s)"
    if "e \<in> set (st_outbox s)" for e using sequence_bound [OF v that] seq(1) by simp
  ultimately show ?thesis
    using old new rep fresh seq valid_stateD(2) [OF v] unfolding outbox_valid_def f(2)
    by (fastforce dest: order.strict_trans)
qed

lemma linked_accept:
  assumes l: "linked_state x i s" and r: "accept_ready x c s" and d: "digest_contract x"
    and a: "accept x c s = Inr t"
  shows "linked_state x i t"
proof -
  note v = linked_stateD(1) [OF l]
  note f = accept_fields [OF a]
  have wf: "wf_accepted c" and room: "sequence_room s 2" and idle: "\<not> rotation_in_flight s"
    and new: "ac_command_id c \<notin> cm_command_id ` set (st_command_journal s)"
    using r by (simp_all add: accept_ready_def)
  note seq = accepted_sequences [OF room, of c] accepted_sequences(2) [OF room, of c x]
  note sem = accepted_entries_valid [OF wf room d]
  note idle' = valid_idle [OF v idle]
  have jv: "journal_valid t"
    using new valid_stateD(3) [OF v] sem(1) wf
    by (auto simp: journal_valid_def f stored_command_semantic_valid_def wf_accepted_def
        accepted_ack_def sha256_digest_is_ok)
  have pv: "pending_valid x t"
    using f(1) wf by (simp add: pending_valid_def f wf_accepted_def scope_identity_def
        state_identity_def)
  have none: "filter (\<lambda>e. report_payload e \<noteq> None) (st_outbox s) = []"
    using idle' by (simp add: filter_empty_conv)
  have old: "phase_entry_valid t e" if "e \<in> set (st_outbox s)" for e
    using idle_entry [OF v idle that] by (auto simp: phase_entry_valid_def)
  have "phase_entry_valid t e" if "e \<in> set (st_outbox t)" for e
    using that old idle'(2) unfolding f(2)
    by (auto simp: phase_entry_valid_def f is_blocked_report_for_def is_activation_for_def
        accepted_ack_def accepted_report_def)
  moreover have "report_count t = 1" using none by (simp add: report_count_def f)
  ultimately have "phase_valid t" using idle'(2) by (simp add: phase_valid_def f)
  moreover have "coordinates_valid t i"
    using valid_stateD(1) [OF v] r wf
    by (auto simp: coordinates_valid_def f accept_ready_def wf_accepted_def sha256_digest_is_ok)
  ultimately have "valid_state x i t"
    using accept_outbox_valid [OF v r d a] jv pv by (simp add: valid_state_def)
  moreover have "journal_linked t"
  proof -
    have js: "journal_sequence j \<le> st_device_sequence s" if "j \<in> set (st_command_journal s)" for j
      using that linked_stateD(2) [OF l] by (simp add: journal_linked_def)
    have os: "outbound_sequence e \<le> st_device_sequence s" if "e \<in> set (st_outbox s)" for e
      by (rule sequence_bound [OF v that])
    show ?thesis
      using linked_stateD(2) [OF l] seq js os
      unfolding journal_linked_def f
      by (fastforce simp: is_ack_of_def accepted_ack_def)
  qed
  moreover have "activation_linked t"
    using linked_stateD(3) [OF l] by (auto simp: activation_linked_def f accepted_ack_def)
  ultimately show ?thesis by (simp add: linked_state_def)
qed

end
