(* ===== verification/State_Phase.thy ===== *)
theory State_Phase
  imports State_Transitions
begin

text \<open>
  Settlement of an accepted rotation: confirmation of outbound facts, reconnection with the new
  credential, settlement of the inbound delivery. The invariant is kept, and the detailed state
  refines a four-phase protocol: idle, waiting for the acknowledgement's PUBACK, waiting for the
  reconnect, waiting for the report's PUBACK.
\<close>

section \<open>Facts about a rotation in flight\<close>

lemma report_unique:
  assumes "valid_state x i s" "e \<in> set (st_outbox s)" "f \<in> set (st_outbox s)"
    "report_payload e \<noteq> None" "report_payload f \<noteq> None"
  shows "e = f"
proof -
  let ?rs = "filter (\<lambda>e. report_payload e \<noteq> None) (st_outbox s)"
  have "length ?rs \<le> 1" using assms(1) by (simp add: valid_state_def phase_valid_def report_count_def)
  moreover have "e \<in> set ?rs" "f \<in> set ?rs" using assms by auto
  ultimately show ?thesis by (rule short_list_unique)
qed

lemma event_id_unique:
  assumes "valid_state x i s" "e \<in> set (st_outbox s)" "f \<in> set (st_outbox s)"
    "outbound_event_id e = outbound_event_id f"
  shows "e = f"
  using assms by (auto simp: valid_state_def outbox_valid_def distinct_map dest: inj_onD)

text \<open>An activating acknowledgement belongs to the blocked report, and there is only one.\<close>

lemma activation_blocked:
  assumes "valid_state x i s" "Ack eid a \<in> set (st_outbox s)" "ak_activates_revision a = Some rv"
  shows "rv = sc_credential_revision (st_current s)" "st_reconnect_revision s = None"
    "\<exists>rid r. ReportBlocked rid r \<in> set (st_outbox s) \<and> rr_credential_revision r = rv
       \<and> rr_command_id r = ak_command_id a"
  using valid_entryD(2) [OF assms(1,2)] assms(3)
  by (auto simp: phase_entry_valid_def is_blocked_report_for_iff)

lemma activation_unique:
  assumes l: "linked_state x i s"
    and a: "Ack eid a \<in> set (st_outbox s)" "ak_activates_revision a \<noteq> None"
    and b: "Ack fid b \<in> set (st_outbox s)" "ak_activates_revision b \<noteq> None"
  shows "Ack eid a = Ack fid b"
proof -
  note v = linked_stateD(1) [OF l]
  obtain p q where p: "ReportBlocked (fst p) (snd p) \<in> set (st_outbox s)" "rr_command_id (snd p) = ak_command_id a"
    and q: "ReportBlocked (fst q) (snd q) \<in> set (st_outbox s)" "rr_command_id (snd q) = ak_command_id b"
    using activation_blocked(3) [OF v a(1)] activation_blocked(3) [OF v b(1)] a(2) b(2)
    by fastforce
  have "ReportBlocked (fst p) (snd p) = ReportBlocked (fst q) (snd q)"
    by (rule report_unique [OF v p(1) q(1)]) simp_all
  with p(2) q(2) have "ak_command_id a = ak_command_id b" by simp
  moreover have "ak_event_cause a = ak_command_id a" "ak_event_cause b = ak_command_id b"
    using linked_stateD(3) [OF l] a b by (auto simp: activation_linked_def)
  ultimately have "eid = fid"
    using valid_entryD(1) [OF v a(1)] valid_entryD(1) [OF v b(1)] by (simp add: entry_valid_def)
  then show ?thesis using event_id_unique [OF v a(1) b(1)] by simp
qed

section \<open>Removing a confirmed entry\<close>

lemma set_outbox_remove:
  assumes "valid_state x i s" "k < length (st_outbox s)"
  shows "set (remove_at k (st_outbox s)) = set (st_outbox s) - {st_outbox s ! k}"
  using assms by (intro set_remove_at_distinct)
    (auto simp: valid_state_def outbox_valid_def distinct_map)

lemma report_count_remove:
  "k < length (st_outbox s) \<Longrightarrow> st_outbox t = remove_at k (st_outbox s) \<Longrightarrow>
     report_count s = report_count t + (if report_payload (st_outbox s ! k) = None then 0 else 1)"
  using length_filter_remove_at [of k "st_outbox s" "\<lambda>e. report_payload e \<noteq> None"]
  by (auto simp: report_count_def)

text \<open>The parts of the invariant that any removal keeps.\<close>

lemma remove_keeps:
  assumes v: "valid_state x i s" and k: "k < length (st_outbox s)"
    and t: "st_outbox t = remove_at k (st_outbox s)" "st_identity t = st_identity s"
      "st_current t = st_current s" "st_device_sequence t = st_device_sequence s"
      "st_command_journal t = st_command_journal s" "st_schema_version t = st_schema_version s"
  shows "coordinates_valid t i" "outbox_valid x t" "journal_valid t"
proof -
  have len: "length (remove_at k (st_outbox s)) \<le> length (st_outbox s)"
    using length_remove_at [OF k] by simp
  then show "coordinates_valid t i"
    using valid_stateD(1) [OF v] by (auto simp: coordinates_valid_def t)
  show "outbox_valid x t"
    using valid_stateD(2) [OF v] set_remove_at [of k "st_outbox s"] unfolding outbox_valid_def t(1)
    by (auto simp: entry_valid_cong [OF t(2-4)] intro: distinct_remove_at)
  show "journal_valid t" using valid_stateD(3) [OF v] by (simp add: journal_valid_def t)
qed

lemma linked_remove:
  assumes "linked_state x i s"
    and t: "st_outbox t = remove_at k (st_outbox s)" "st_device_sequence t = st_device_sequence s"
      "st_command_journal t = st_command_journal s"
  shows "journal_linked t" "activation_linked t"
  using linked_stateD(2,3) [OF assms(1)] set_remove_at [of k "st_outbox s"]
  by (auto simp: journal_linked_def activation_linked_def t)

lemma linked_remove_plain:
  assumes l: "linked_state x i s" and k: "k < length (st_outbox s)"
    and e: "st_outbox s ! k = Ack eid a" "ak_activates_revision a = None"
  shows "linked_state x i (s\<lparr> st_outbox := remove_at k (st_outbox s) \<rparr>)" (is "linked_state x i ?t")
proof -
  note v = linked_stateD(1) [OF l]
  have mem: "b \<in> set (st_outbox ?t) \<longleftrightarrow> b \<in> set (st_outbox s) \<and> b \<noteq> Ack eid a" for b
    using set_outbox_remove [OF v k] e(1) by simp
  have "\<not> is_blocked_report_for r c (Ack eid a)" "\<not> is_activation_for r c (Ack eid a)" for r c
    using e(2) by (simp_all add: is_blocked_report_for_iff is_activation_for_iff)
  then have ex: "(\<exists>b \<in> set (st_outbox ?t). is_blocked_report_for r c b)
        = (\<exists>b \<in> set (st_outbox s). is_blocked_report_for r c b)"
    "(\<exists>b \<in> set (st_outbox ?t). is_activation_for r c b)
        = (\<exists>b \<in> set (st_outbox s). is_activation_for r c b)" for r c
    using mem by metis+
  have "phase_entry_valid ?t f" if "f \<in> set (st_outbox ?t)" for f
    by (rule phase_entry_transfer [of s f]) (use valid_entryD(2) [OF v] that mem ex in simp_all)
  moreover have "report_count ?t = report_count s" using report_count_remove [OF k, of ?t] e by simp
  ultimately have "phase_valid ?t" using valid_stateD(5) [OF v] by (auto simp: phase_valid_def)
  moreover have "pending_valid x ?t"
    using valid_stateD(4) [OF v] by (subst pending_valid_cong [of _ s]) simp_all
  ultimately show ?thesis
    using remove_keeps [OF v k, of ?t] linked_remove [OF l, of ?t k]
    by (simp add: linked_state_def valid_state_def)
qed

lemma linked_remove_activation:
  assumes l: "linked_state x i s" and k: "k < length (st_outbox s)"
    and e: "st_outbox s ! k = Ack eid a" "ak_activates_revision a = Some rv"
  shows "linked_state x i (s\<lparr> st_outbox := remove_at k (st_outbox s),
     st_reconnect_revision := Some rv \<rparr>)" (is "linked_state x i ?t")
proof -
  note v = linked_stateD(1) [OF l]
  have in_s: "Ack eid a \<in> set (st_outbox s)" using k e(1) by (metis nth_mem)
  have mem: "b \<in> set (st_outbox ?t) \<longleftrightarrow> b \<in> set (st_outbox s) \<and> b \<noteq> Ack eid a" for b
    using set_outbox_remove [OF v k] e(1) by simp
  note act = activation_blocked [OF v in_s e(2)]
  have plain: "ak_activates_revision b = None" if "Ack fid b \<in> set (st_outbox ?t)" for fid b
    using activation_unique [OF l in_s, of fid b] that mem e(2) by force
  obtain rid r where r: "ReportBlocked rid r \<in> set (st_outbox s)" using act(3) by blast
  have "phase_entry_valid ?t f" if "f \<in> set (st_outbox ?t)" for f
  proof (cases f)
    case (Ack fid b)
    then show ?thesis using plain that by (simp add: phase_entry_valid_def)
  next
    case (ReportBlocked fid q)
    with that mem have "report_matches_current x s q"
      using valid_entryD(1) [OF v, of f] by (simp add: entry_valid_def)
    moreover have "\<not> is_activation_for c d b" if "b \<in> set (st_outbox ?t)" for b c d
      using plain that by (auto simp: is_activation_for_iff)
    ultimately show ?thesis
      using ReportBlocked act(1) by (auto simp: phase_entry_valid_def report_matches_current_def)
  next
    case (ReportReady fid q)
    then show ?thesis using report_unique [OF v r, of f] that mem by simp
  qed
  moreover have "report_count ?t = report_count s" using report_count_remove [OF k, of ?t] e by simp
  moreover have "report_count s = 1"
    using valid_stateD(5) [OF v] report_count_pos [of s] r
    by (force simp: phase_valid_def rotation_in_flight_def list_ex_iff)
  ultimately have "phase_valid ?t"
    using valid_stateD(5) [OF v] act(1) by (simp add: phase_valid_def)
  moreover have "pending_valid x ?t"
    using valid_stateD(4) [OF v] by (subst pending_valid_cong [of _ s]) simp_all
  ultimately show ?thesis
    using remove_keeps [OF v k, of ?t] linked_remove [OF l, of ?t k]
    by (simp add: linked_state_def valid_state_def)
qed

lemma linked_remove_report:
  assumes l: "linked_state x i s" and k: "k < length (st_outbox s)"
    and e: "st_outbox s ! k = ReportReady eid r"
  shows "linked_state x i (s\<lparr> st_outbox := remove_at k (st_outbox s), st_pending_inbound := None \<rparr>)"
    (is "linked_state x i ?t")
proof -
  note v = linked_stateD(1) [OF l]
  have in_s: "ReportReady eid r \<in> set (st_outbox s)" using k e(1) by (metis nth_mem)
  have none: "st_reconnect_revision s = None"
    using valid_entryD(2) [OF v in_s] by (simp add: phase_entry_valid_def)
  have mem: "b \<in> set (st_outbox ?t) \<longleftrightarrow> b \<in> set (st_outbox s) \<and> b \<noteq> ReportReady eid r" for b
    using set_outbox_remove [OF v k] e(1) by simp
  have "phase_entry_valid ?t f" if "f \<in> set (st_outbox ?t)" for f
  proof (cases f)
    case (Ack fid a)
    have "ak_activates_revision a = None"
      using activation_blocked(3) [OF v, of fid a] report_unique [OF v in_s] that mem Ack by force
    with Ack show ?thesis by (simp add: phase_entry_valid_def)
  qed (use report_unique [OF v in_s, of f] that mem in simp_all)
  moreover have "report_count ?t = 0"
    using report_count_remove [OF k, of ?t] e valid_stateD(5) [OF v] by (simp add: phase_valid_def)
  ultimately have "phase_valid ?t" using none by (simp add: phase_valid_def)
  moreover have "pending_valid x ?t" by (simp add: pending_valid_def)
  ultimately show ?thesis
    using remove_keeps [OF v k, of ?t] linked_remove [OF l, of ?t k]
    by (simp add: linked_state_def valid_state_def)
qed

text \<open>An event is publishable when the entry carrying it is not a blocked report.\<close>

definition publishable :: "string \<Rightarrow> state_v1 \<Rightarrow> bool" where
  "publishable event s \<longleftrightarrow>
     (\<forall>e \<in> set (st_outbox s). outbound_event_id e = event \<longrightarrow> ready_fact e \<noteq> None)"

text \<open>What \<open>confirm_outbound\<close> does to a valid state, by the kind of entry confirmed.\<close>

lemma confirm_cases:
  assumes l: "linked_state x i s" and p: "publishable event s"
    and c: "confirm_outbound event s = (True, t)"
  obtains (plain) k a where "k < length (st_outbox s)" "st_outbox s ! k = Ack event a"
      "ak_activates_revision a = None" "t = s\<lparr> st_outbox := remove_at k (st_outbox s) \<rparr>"
  | (activation) k a rv where "k < length (st_outbox s)" "st_outbox s ! k = Ack event a"
      "ak_activates_revision a = Some rv"
      "t = s\<lparr> st_outbox := remove_at k (st_outbox s), st_reconnect_revision := Some rv \<rparr>"
  | (report) k r where "k < length (st_outbox s)" "st_outbox s ! k = ReportReady event r"
      "pending_settled s"
      "t = s\<lparr> st_outbox := remove_at k (st_outbox s), st_pending_inbound := None \<rparr>"
proof -
  note v = linked_stateD(1) [OF l]
  from c obtain k where pos: "iter_position (\<lambda>e. outbound_event_id e = event) (st_outbox s) = Some k"
    by (auto simp: confirm_outbound_def split: option.splits)
  have k: "k < length (st_outbox s)" "outbound_event_id (st_outbox s ! k) = event"
    using iter_position_Some [OF pos] by simp_all
  have in_s: "st_outbox s ! k \<in> set (st_outbox s)" using k(1) by simp
  show thesis
  proof (cases "st_outbox s ! k")
    case (Ack eid a)
    show thesis
    proof (cases "ak_activates_revision a")
      case None
      with Ack c pos k show thesis
        by (intro plain [of k a]) (auto simp: confirm_outbound_def is_ready_report_def)
    next
      case (Some rv)
      from activation_blocked(3) [OF v, of eid a rv] in_s Ack Some
      have "list_ex (is_blocked_with_revision rv) (remove_at k (st_outbox s))"
        using set_outbox_remove [OF v k(1)]
        by (force simp: list_ex_iff is_blocked_with_revision_def)
      with Ack Some c pos k show thesis
        by (intro activation [of k a rv]) (auto simp: confirm_outbound_def is_ready_report_def)
    qed
  next
    case (ReportBlocked eid r)
    with p in_s k(2) show thesis by (auto simp: publishable_def)
  next
    case (ReportReady eid r)
    with c pos k show thesis
      by (intro report [of k r]) (auto simp: confirm_outbound_def is_ready_report_def split: if_splits)
  qed
qed

lemma linked_confirm:
  assumes "linked_state x i s" "publishable event s" "confirm_outbound event s = (True, t)"
  shows "linked_state x i t"
  using assms
proof (cases rule: confirm_cases [consumes 3])
qed (auto intro: linked_remove_plain linked_remove_activation linked_remove_report assms)

section \<open>Reconnect and inbound settlement\<close>

lemma unblock_simps [simp]:
  "outbound_event_id (unblock_report e) = outbound_event_id e"
  "outbound_sequence (unblock_report e) = outbound_sequence e"
  "report_payload (unblock_report e) = report_payload e"
  "outbound_semantic_valid x (unblock_report e) = outbound_semantic_valid x e"
  "is_ack_of c (unblock_report e) = is_ack_of c e"
  "unblock_report e = Ack eid a \<longleftrightarrow> e = Ack eid a"
  "Ack eid a = unblock_report e \<longleftrightarrow> e = Ack eid a"
  "unblock_report e \<noteq> ReportBlocked eid r" "ReportBlocked eid r \<noteq> unblock_report e"
  by (cases e; auto simp: is_ack_of_def)+

lemma report_count_unblock:
  "st_outbox t = map unblock_report (st_outbox s) \<Longrightarrow> report_count t = report_count s"
  by (simp add: report_count_def filter_map o_def)

lemma linked_reconnected:
  assumes l: "linked_state x i s" and m: "mark_reconnected rv s = (True, t)"
  shows "linked_state x i t"
proof -
  note v = linked_stateD(1) [OF l]
  have rc: "st_reconnect_revision s = Some rv"
    and t: "t = s\<lparr> st_outbox := map unblock_report (st_outbox s), st_reconnect_revision := None \<rparr>"
    using m by (auto simp: mark_reconnected_def split: if_splits)
  have plain: "ak_activates_revision a = None" if "Ack eid a \<in> set (st_outbox s)" for eid a
    using activation_blocked(2) [OF v that] rc by force
  have "phase_entry_valid t f" if mem: "f \<in> set (st_outbox t)" for f
  proof (cases f)
    case (Ack eid a)
    with mem have "Ack eid a \<in> set (st_outbox s)" by (auto simp: t)
    with plain Ack show ?thesis by (auto simp: phase_entry_valid_def)
  qed (use mem in \<open>auto simp: t phase_entry_valid_def\<close>)
  moreover have "report_count t = report_count s" by (rule report_count_unblock) (simp add: t)
  ultimately have "phase_valid t" using valid_stateD(5) [OF v] by (simp add: phase_valid_def t)
  moreover have "outbox_valid x t"
    using valid_stateD(2) [OF v]
    by (auto simp: outbox_valid_def entry_valid_def report_matches_current_def t o_def)
  moreover have "coordinates_valid t i" "journal_valid t" "pending_valid x t"
    using valid_stateD(1,3,4) [OF v]
    by (simp_all add: t coordinates_valid_def journal_valid_def pending_valid_def scope_identity_def)
  moreover have "journal_linked t" "activation_linked t"
    using linked_stateD(2,3) [OF l] by (auto simp: t journal_linked_def activation_linked_def)
  ultimately show ?thesis by (simp add: linked_state_def valid_state_def)
qed

lemma linked_settled:
  assumes l: "linked_state x i s" and m: "mark_inbound_settled token s = (True, t)"
  shows "linked_state x i t"
proof -
  note v = linked_stateD(1) [OF l]
  obtain p where p: "st_pending_inbound s = Some p"
    and t: "t = s\<lparr> st_pending_inbound := Some (p\<lparr> pi_settled := True \<rparr>) \<rparr>"
    using m by (auto simp: mark_inbound_settled_def split: option.splits if_splits)
  have "phase_valid t" using valid_stateD(5) [OF v] p
    by (subst phase_valid_cong [of _ s]) (simp_all add: t)
  moreover have "outbox_valid x t" using valid_stateD(2) [OF v]
    by (subst outbox_valid_cong [of _ s]) (simp_all add: t)
  moreover have "pending_valid x t"
    using valid_stateD(4) [OF v] p by (simp add: pending_valid_def scope_identity_def t)
  moreover have "coordinates_valid t i" "journal_valid t"
    using valid_stateD(1,3) [OF v] by (simp_all add: t coordinates_valid_def journal_valid_def)
  moreover have "journal_linked t" "activation_linked t"
    using linked_stateD(2,3) [OF l] by (simp_all add: t journal_linked_def activation_linked_def)
  ultimately show ?thesis by (simp add: linked_state_def valid_state_def)
qed

section \<open>The four-phase specification\<close>

text \<open>The flag is whether the delivery of the accepted command has been settled with the broker.\<close>

datatype phase = Idle | AwaitingAck bool | AwaitingReconnect bool | AwaitingReport bool

datatype phase_event = AcceptRotation | AckPublished | Reconnected | DeliverySettled | ReportPublished

inductive phase_step :: "phase \<Rightarrow> phase_event \<Rightarrow> phase \<Rightarrow> bool" where
  "phase_step Idle AcceptRotation (AwaitingAck False)"
| "phase_step (AwaitingAck b) AckPublished (AwaitingReconnect b)"
| "phase_step (AwaitingReconnect b) Reconnected (AwaitingReport b)"
| "phase_step (AwaitingReport True) ReportPublished Idle"
| "phase_step (AwaitingAck b) DeliverySettled (AwaitingAck True)"
| "phase_step (AwaitingReconnect b) DeliverySettled (AwaitingReconnect True)"
| "phase_step (AwaitingReport b) DeliverySettled (AwaitingReport True)"

inductive_simps phase_step_simps [simp]:
  "phase_step Idle e p" "phase_step (AwaitingAck b) e p" "phase_step (AwaitingReconnect b) e p"
  "phase_step (AwaitingReport b) e p"

text \<open>The phase of a protocol state.\<close>

definition rotation_phase :: "state_v1 \<Rightarrow> phase" where
  "rotation_phase s = (case st_pending_inbound s of
     None \<Rightarrow> Idle
   | Some p \<Rightarrow>
       if st_reconnect_revision s \<noteq> None then AwaitingReconnect (pi_settled p)
       else if list_ex is_ready_report (st_outbox s) then AwaitingReport (pi_settled p)
       else AwaitingAck (pi_settled p))"

lemma is_ready_report_simps [simp]:
  "is_ready_report (ReportReady e r)" "\<not> is_ready_report (Ack e a)" "\<not> is_ready_report (ReportBlocked e r)"
  by (simp_all add: is_ready_report_def)

lemma is_ready_report_iff: "is_ready_report e \<longleftrightarrow> (\<exists>eid r. e = ReportReady eid r)"
  by (cases e) auto

lemma phase_idle_iff: "rotation_phase s = Idle \<longleftrightarrow> st_pending_inbound s = None"
  by (auto simp: rotation_phase_def split: option.splits)

lemma phase_push_ack:
  "rotation_phase (s\<lparr> st_device_sequence := n, st_outbox := st_outbox s @ [Ack eid a] \<rparr>)
     = rotation_phase s"
  by (simp add: rotation_phase_def split: option.splits)

lemma phase_accept:
  assumes "valid_state x i s" "\<not> rotation_in_flight s" "accept x c s = Inr t"
  shows "phase_step (rotation_phase s) AcceptRotation (rotation_phase t)"
proof -
  note f = accept_fields [OF assms(3)]
  note idle = valid_idle [OF assms(1,2)]
  have "\<not> is_ready_report e" if "e \<in> set (st_outbox s)" for e
    using idle(4) [OF that] by (auto simp: is_ready_report_iff)
  then have "rotation_phase t = AwaitingAck False"
    using idle(2) by (simp add: rotation_phase_def f list_ex_iff)
  moreover have "rotation_phase s = Idle" using idle(1) by (simp add: phase_idle_iff)
  ultimately show ?thesis by simp
qed

lemma phase_confirm:
  assumes l: "linked_state x i s" and p: "publishable event s"
    and c: "confirm_outbound event s = (True, t)"
  shows "rotation_phase t = rotation_phase s
    \<or> phase_step (rotation_phase s) AckPublished (rotation_phase t)
    \<or> phase_step (rotation_phase s) ReportPublished (rotation_phase t)"
  using l p c
proof (cases rule: confirm_cases [consumes 3])
  note v = linked_stateD(1) [OF l]
  case (plain k a)
  then have "list_ex is_ready_report (remove_at k (st_outbox s)) = list_ex is_ready_report (st_outbox s)"
    using set_outbox_remove [OF v] by (auto simp: list_ex_iff)
  with plain(4) show ?thesis by (simp add: rotation_phase_def split: option.splits)
next
  note v = linked_stateD(1) [OF l]
  case (activation k a rv)
  then have in_s: "Ack event a \<in> set (st_outbox s)" by (metis nth_mem)
  obtain rid r where r: "ReportBlocked rid r \<in> set (st_outbox s)"
    using activation_blocked(3) [OF v in_s activation(3)] by blast
  then have "\<not> list_ex is_ready_report (st_outbox s)"
    using report_unique [OF v r] by (force simp: list_ex_iff is_ready_report_iff)
  moreover from r obtain p where "st_pending_inbound s = Some p"
    using valid_in_flight [OF v] by (force simp: rotation_in_flight_def list_ex_iff)
  ultimately show ?thesis
    using activation_blocked(2) [OF v in_s activation(3)] activation(4)
    by (simp add: rotation_phase_def)
next
  note v = linked_stateD(1) [OF l]
  case (report k r)
  then have in_s: "ReportReady event r \<in> set (st_outbox s)" by (metis nth_mem)
  then have "st_reconnect_revision s = None"
    using valid_entryD(2) [OF v in_s] by (simp add: phase_entry_valid_def)
  with in_s report(3) have "rotation_phase s = AwaitingReport True"
    by (auto simp: rotation_phase_def pending_settled_def list_ex_iff split: option.splits)
  with report(4) show ?thesis by (simp add: rotation_phase_def)
qed

lemma phase_reconnected:
  assumes v: "valid_state x i s" and m: "mark_reconnected rv s = (True, t)"
  shows "phase_step (rotation_phase s) Reconnected (rotation_phase t)"
proof -
  have rc: "st_reconnect_revision s = Some rv"
    and t: "t = s\<lparr> st_outbox := map unblock_report (st_outbox s), st_reconnect_revision := None \<rparr>"
    using m by (auto simp: mark_reconnected_def split: if_splits)
  have one: "report_count s = 1" using valid_stateD(5) [OF v] rc by (simp add: phase_valid_def)
  then obtain p where p: "st_pending_inbound s = Some p"
    using valid_stateD(5) [OF v] by (auto simp: phase_valid_def)
  obtain e where e: "e \<in> set (st_outbox s)" "report_payload e \<noteq> None"
    using one report_count_pos [of s] by (auto simp: rotation_in_flight_def list_ex_iff)
  from e(2) have "is_ready_report (unblock_report e)" by (cases e) auto
  with e have "list_ex is_ready_report (st_outbox t)" by (auto simp: t list_ex_iff)
  then show ?thesis using rc p by (simp add: rotation_phase_def t)
qed

lemma phase_settled:
  assumes "mark_inbound_settled token s = (True, t)"
  shows "phase_step (rotation_phase s) DeliverySettled (rotation_phase t)"
  using assms
  by (auto simp: mark_inbound_settled_def rotation_phase_def split: option.splits if_splits)

section \<open>What may be published\<close>

lemma next_outbound_publishable:
  assumes v: "valid_state x i s" and n: "next_outbound s = Some f"
  shows "publishable (outbound_fact_event_id f) s"
proof -
  obtain us e ws where s: "st_outbox s = us @ e # ws" and f: "ready_fact e = Some f"
    using find_map_Some [OF n [unfolded next_outbound_def]] by (auto split: if_splits)
  have "outbound_event_id e = outbound_fact_event_id f" using f by (cases e) auto
  then show ?thesis
    using event_id_unique [OF v] s f unfolding publishable_def
    by (metis in_set_conv_decomp option.distinct(1))
qed

lemma next_outbound_confirmable:
  assumes v: "valid_state x i s" and n: "next_outbound s = Some f"
  shows "\<exists>t. confirm_outbound (outbound_fact_event_id f) s = (True, t)"
proof -
  obtain us e ws where s: "st_outbox s = us @ e # ws" and f: "ready_fact e = Some f"
    and ok: "\<not> (is_ready_report e \<and> \<not> pending_settled s)"
    using find_map_Some [OF n [unfolded next_outbound_def]] by (auto split: if_splits)
  have id: "outbound_event_id e = outbound_fact_event_id f" using f by (cases e) auto
  have mem: "e \<in> set (st_outbox s)" using s by simp
  obtain k where pos:
    "iter_position (\<lambda>e. outbound_event_id e = outbound_fact_event_id f) (st_outbox s) = Some k"
    using iter_position_None [of "\<lambda>e. outbound_event_id e = outbound_fact_event_id f" "st_outbox s"]
      mem id by (cases "iter_position (\<lambda>e. outbound_event_id e = outbound_fact_event_id f) (st_outbox s)")
      auto
  have "st_outbox s ! k = e"
    using iter_position_Some [OF pos] event_id_unique [OF v _ mem] id by simp
  with pos ok show ?thesis by (simp add: confirm_outbound_def Let_def)
qed

text \<open>A report is offered only once its acknowledgement has been published, the new credential has
  connected and the delivery is settled.\<close>

lemma next_report_phase:
  assumes v: "valid_state x i s" and n: "next_outbound s = Some (CertificateReported eid r)"
  shows "rotation_phase s = AwaitingReport True"
    and "\<forall>e a. Ack e a \<in> set (st_outbox s) \<longrightarrow> ak_activates_revision a = None"
    and "st_reconnect_revision s = None" and "pending_settled s"
proof -
  obtain us e ws where s: "st_outbox s = us @ e # ws"
    and f: "ready_fact e = Some (CertificateReported eid r)"
    and ok: "\<not> (is_ready_report e \<and> \<not> pending_settled s)"
    using find_map_Some [OF n [unfolded next_outbound_def]] by (auto split: if_splits)
  then obtain q where e: "e = ReportReady eid q" by (cases e) auto
  have mem: "ReportReady eid q \<in> set (st_outbox s)" using s e by simp
  show rc: "st_reconnect_revision s = None"
    using valid_entryD(2) [OF v mem] by (simp add: phase_entry_valid_def)
  show set: "pending_settled s" using ok e by simp
  show "\<forall>e a. Ack e a \<in> set (st_outbox s) \<longrightarrow> ak_activates_revision a = None"
  proof (intro allI impI, rule ccontr)
    fix e a assume a: "Ack e a \<in> set (st_outbox s)" "ak_activates_revision a \<noteq> None"
    then show False using activation_blocked(3) [OF v a(1)] report_unique [OF v mem] by force
  qed
  show "rotation_phase s = AwaitingReport True"
    using rc set mem by (auto simp: rotation_phase_def pending_settled_def list_ex_iff
        split: option.splits)
qed

end
