(* ===== verification/State_Store.thy ===== *)
theory State_Store
  imports Material State_Phase
begin

text \<open>
  The durable store, \<^verbatim>\<open>StateStore\<close> of \<^verbatim>\<open>crates/reference-device-agent-core/src/state.rs\<close>: opening
  under the owner lock, loading, the atomic replacement of the state file and the atomic
  installation of a credential revision. The JSON codec belongs to \<^verbatim>\<open>serde_json\<close>.
\<close>

section \<open>Third-party calls\<close>

record store_externals = tls_externals +
  state_to_vec :: "state_v1 \<Rightarrow> bytes option"
  state_from_slice :: "bytes \<Rightarrow> state_v1 option"

text \<open>What is written can be read back: the codec's documented round trip, for one state.\<close>

definition codec_roundtrip :: "'z store_externals_scheme \<Rightarrow> state_v1 \<Rightarrow> bool" where
  "codec_roundtrip x s \<longleftrightarrow> (\<forall>b. state_to_vec x s = Some b \<longrightarrow> state_from_slice x b = Some s)"

section \<open>File helpers\<close>

type_synonym 'a store_proc = "(world, store_error, 'a) proc"

definition write_synced :: "path \<Rightarrow> bytes \<Rightarrow> u32 \<Rightarrow> unit store_proc" where
  "write_synced path bytes mode =
     pbind (pmap_err (\<lambda>_. StoreUnavailable) (create_new path mode)) (\<lambda>_.
     pbind (pmap_err (\<lambda>_. StoreUnavailable) (write_all path bytes)) (\<lambda>_.
     pmap_err (\<lambda>_. StoreUnavailable) (sync_file path)))"

definition sync_directory :: "path \<Rightarrow> unit store_proc" where
  "sync_directory path = pmap_err (\<lambda>_. StoreUnavailable) (sync_dir path)"

definition sync_parent :: "path \<Rightarrow> unit store_proc" where
  "sync_parent path = (if path = [] then plift (Inl StoreUnavailable) else sync_directory (butlast path))"

definition remove_stale_file :: "path \<Rightarrow> unit store_proc" where
  "remove_stale_file path w = (case remove_file path w of
     (w1, Inr _) \<Rightarrow> sync_parent path w1
   | (w1, Inl NotFound) \<Rightarrow> (w1, Inr ())
   | (w1, Inl _) \<Rightarrow> (w1, Inl StoreUnavailable))"

definition remove_stale_directory :: "path \<Rightarrow> unit store_proc" where
  "remove_stale_directory path w = (case remove_dir_all path w of
     (w1, Inr _) \<Rightarrow> sync_parent path w1
   | (w1, Inl NotFound) \<Rightarrow> (w1, Inr ())
   | (w1, Inl _) \<Rightarrow> (w1, Inl StoreUnavailable))"

definition file_matches :: "path \<Rightarrow> bytes \<Rightarrow> world \<Rightarrow> world \<times> bool" where
  "file_matches path expected w = (let (w1, r) = fs_read path w in (w1, r = Inr expected))"

definition verify_existing_revision :: "path \<Rightarrow> validated_credential \<Rightarrow> unit store_proc" where
  "verify_existing_revision root credential =
     pbind (pquery (file_matches (root @ [''ca.pem'']) (vc_ca credential))) (\<lambda>ca.
     if \<not> ca then plift (Inl RevisionConflict) else
     pbind (pquery (file_matches (root @ [''certificate.pem'']) (vc_certificate credential))) (\<lambda>cert.
     if \<not> cert then plift (Inl RevisionConflict) else
     pbind (pquery (file_matches (root @ [''private-key.pem'']) (vc_private_key credential))) (\<lambda>key.
     plift (ensure RevisionConflict key))))"

section \<open>The store\<close>

record state_store =
  ss_root :: path

definition state_path :: "path \<Rightarrow> path" where
  "state_path root = root @ [''state.v1.json'']"

definition temporary_path :: "path \<Rightarrow> path" where
  "temporary_path root = root @ [''state.v1.json.tmp'']"

definition credentials_root :: "path \<Rightarrow> path" where
  "credentials_root root = root @ [''credentials'']"

definition revision_root :: "path \<Rightarrow> u64 \<Rightarrow> path" where
  "revision_root root revision = credentials_root root @ [''revision-'' @ show_u64 revision]"

definition staging_root :: "path \<Rightarrow> u64 \<Rightarrow> path" where
  "staging_root root revision =
     credentials_root root @ [''.revision-'' @ show_u64 revision @ ''.staging'']"

definition store_credential_files :: "state_store \<Rightarrow> u64 \<Rightarrow> credential_files" where
  "store_credential_files store revision = (let root = revision_root (ss_root store) revision in \<lparr>
     cf_ca_certificate = root @ [''ca.pem''],
     cf_certificate_chain = root @ [''certificate.pem''],
     cf_private_key = root @ [''private-key.pem''] \<rparr>)"

text \<open>Opening the lock file creates it when it is missing.\<close>

definition open_lock_file :: "path \<Rightarrow> unit io" where
  "open_lock_file p = syscall (\<lambda>fs. case fs_get fs p of
     None \<Rightarrow> rbind (parent_ok fs p) (\<lambda>_. Inr (fs_put p (File [] 0x180 False) fs, ()))
   | Some (File _ _ _) \<Rightarrow> Inr (fs, ())
   | Some _ \<Rightarrow> Inl OtherIo) no_part"

definition store_open :: "path \<Rightarrow> state_store store_proc" where
  "store_open root =
     pbind (pmap_err (\<lambda>_. StoreUnavailable) (create_dir_all root)) (\<lambda>_.
     let lock_path = root @ [''state.owner.lock''] in
     pbind (pmap_err (\<lambda>_. StoreUnavailable) (open_lock_file lock_path)) (\<lambda>_.
     pbind (pmap_err (\<lambda>error. case error of WouldBlock \<Rightarrow> AlreadyOpen | LockFailed \<Rightarrow> StoreUnavailable)
              (flock lock_path)) (\<lambda>_.
     preturn \<lparr> ss_root = root \<rparr>)))"

definition read_state ::
  "'z store_externals_scheme \<Rightarrow> state_store \<Rightarrow> device_identity \<Rightarrow> state_v1 store_proc" where
  "read_state x store identity =
     pbind (pmap_err (\<lambda>_. StoreUnavailable) (fs_read (state_path (ss_root store)))) (\<lambda>bytes.
     pbind (plift (ok_or InvalidState (state_from_slice x bytes))) (\<lambda>state.
     pbind (plift (verify x state identity)) (\<lambda>_. preturn state)))"

definition store_load ::
  "'z store_externals_scheme \<Rightarrow> path \<Rightarrow> device_identity \<Rightarrow> (state_store \<times> state_v1) store_proc" where
  "store_load x root identity =
     pbind (store_open root) (\<lambda>store.
     pbind (read_state x store identity) (\<lambda>state. preturn (store, state)))"

definition persist ::
  "'z store_externals_scheme \<Rightarrow> state_store \<Rightarrow> state_v1 \<Rightarrow> unit store_proc" where
  "persist x store state =
     pbind (plift (ok_or InvalidState (state_to_vec x state))) (\<lambda>bytes.
     let temporary = temporary_path (ss_root store) in
     pbind (remove_stale_file temporary) (\<lambda>_.
     pbind (write_synced temporary bytes 0x180) (\<lambda>_.
     pbind (pmap_err (\<lambda>_. StoreUnavailable) (rename temporary (state_path (ss_root store)))) (\<lambda>_.
     sync_directory (ss_root store)))))"

definition stage_revision ::
  "state_store \<Rightarrow> path \<Rightarrow> path \<Rightarrow> validated_credential \<Rightarrow> unit store_proc" where
  "stage_revision store staging target credential =
     pbind (write_synced (staging @ [''ca.pem'']) (vc_ca credential) 0x180) (\<lambda>_.
     pbind (write_synced (staging @ [''certificate.pem'']) (vc_certificate credential) 0x180) (\<lambda>_.
     pbind (write_synced (staging @ [''private-key.pem'']) (vc_private_key credential) 0x180) (\<lambda>_.
     pbind (sync_directory staging) (\<lambda>_.
     pbind (pmap_err (\<lambda>_. StoreUnavailable) (rename staging target)) (\<lambda>_.
     sync_directory (credentials_root (ss_root store)))))))"

text \<open>A failed staging is cleaned up; the failure of the clean-up is ignored.\<close>

definition stage_or_clean ::
  "state_store \<Rightarrow> path \<Rightarrow> path \<Rightarrow> validated_credential \<Rightarrow> unit store_proc" where
  "stage_or_clean store staging target credential w =
     (let (w1, result) = stage_revision store staging target credential w in
      if is_ok result then (w1, result)
      else let (w2, left) = path_exists staging w1 in
        if left then (fst (remove_dir_all staging w2), result) else (w2, result))"

definition install_revision ::
  "state_store \<Rightarrow> credential_revision \<Rightarrow> validated_credential \<Rightarrow> unit store_proc" where
  "install_revision store revision credential =
     (let target = revision_root (ss_root store) (credential_revision_get revision);
          staging = staging_root (ss_root store) (credential_revision_get revision)
      in pbind (pquery (path_exists target)) (\<lambda>present.
         if present then verify_existing_revision target credential
         else
           pbind (remove_stale_directory staging) (\<lambda>_.
           pbind (pmap_err (\<lambda>_. StoreUnavailable) (create_dir staging)) (\<lambda>_.
           stage_or_clean store staging target credential))))"

definition has_committed_revision :: "state_store \<Rightarrow> bool store_proc" where
  "has_committed_revision store w = (case fs_read_dir (credentials_root (ss_root store)) w of
     (w1, Inr entries) \<Rightarrow> (w1, Inr (list_ex (\<lambda>name. starts_with name ''revision-'') entries))
   | (w1, Inl NotFound) \<Rightarrow> (w1, Inr False)
   | (w1, Inl _) \<Rightarrow> (w1, Inl StoreUnavailable))"

definition open_or_initialize ::
  "'z store_externals_scheme \<Rightarrow> path \<Rightarrow> device_identity \<Rightarrow> installed_credential_position
     \<Rightarrow> validated_credential \<Rightarrow> sha256_digest \<Rightarrow> (state_store \<times> state_v1) store_proc" where
  "open_or_initialize x root identity position initial initial_digest =
     pbind (store_open root) (\<lambda>store.
     pbind (pmap_err (\<lambda>_. StoreUnavailable) (create_dir_all (credentials_root (ss_root store)))) (\<lambda>_.
     pbind (pquery (path_exists (state_path (ss_root store)))) (\<lambda>present.
     if present then pbind (read_state x store identity) (\<lambda>state. preturn (store, state))
     else
       pbind (has_committed_revision store) (\<lambda>committed.
       if committed then plift (Inl InvalidState)
       else
         pbind (install_revision store (ip_credential_revision position) initial) (\<lambda>_.
         let state = state_initial identity position initial_digest (vc_expires_at initial) in
         pbind (persist x store state) (\<lambda>_. preturn (store, state)))))))"

section \<open>Files written and synchronised\<close>

lemma write_synced_result:
  assumes "write_synced p b m w = (w', Inr u)"
  shows "fs_get (w_fs w') p = Some (File b m True)" and "fs_get (w_fs w) p = None"
    and "\<And>q. q \<noteq> p \<Longrightarrow> fs_get (w_fs w') q = fs_get (w_fs w) q"
proof -
  from assms obtain w1 w2 where c: "create_new p m w = (w1, Inr ())"
    and wr: "write_all p b w1 = (w2, Inr ())" and s: "sync_file p w2 = (w', Inr ())"
    by (auto simp: write_synced_def pbind_Inr)
  have "p \<noteq> []" and none: "fs_get (w_fs w) p = None"
    and f1: "w_fs w1 = fs_put p (File [] m False) (w_fs w)"
    using syscall_Inr [OF c [unfolded create_new_def]] by (auto simp: parent_ok_def split: if_splits)
  show "fs_get (w_fs w) p = None" by (rule none)
  have f2: "w_fs w2 = put_contents p b (w_fs w1)"
    using syscall_Inr [OF wr [unfolded write_all_def]] by simp
  then have g2: "fs_get (w_fs w2) p = Some (File b m False)"
    using \<open>p \<noteq> []\<close> by (simp add: f1 put_contents_def)
  have f3: "w_fs w' = fs_put p (File b m True) (w_fs w2)"
    using syscall_Inr [OF s [unfolded sync_file_def]] g2 by simp
  show "fs_get (w_fs w') p = Some (File b m True)" using f3 \<open>p \<noteq> []\<close> by simp
  show "fs_get (w_fs w') q = fs_get (w_fs w) q" if "q \<noteq> p" for q
    using that by (auto simp: f3 f2 f1 put_contents_other fs_get_def [of _ "[]"])
qed

text \<open>A write to one path leaves every property of the other paths, whatever happens.\<close>

lemma all_disks_write_synced:
  assumes "all_disks Q w" and Q: "\<And>fs fs'. Q fs \<Longrightarrow> (\<And>q. q \<noteq> p \<Longrightarrow> fs_get fs' q = fs_get fs q) \<Longrightarrow> Q fs'"
  shows "all_disks Q (fst (write_synced p b m w))"
proof -
  have put: "Q (fs_put p n fs)" if "Q fs" for fs n
    by (rule Q [OF that]) (auto simp: fs_get_def [of _ "[]"])
  have con: "Q (put_contents p c fs)" if "Q fs" for fs c
    by (rule Q [OF that]) (simp add: put_contents_other)
  have "all_disks Q (fst (create_new p m v))" if "all_disks Q v" for v
    unfolding create_new_def by (rule all_disks_syscall [OF that]) (auto simp: no_part_def put split: if_splits)
  moreover have "all_disks Q (fst (write_all p b v))" if "all_disks Q v" for v
    unfolding write_all_def by (rule all_disks_syscall [OF that]) (auto simp: con)
  moreover have "all_disks Q (fst (sync_file p v))" if "all_disks Q v" for v
    unfolding sync_file_def
    by (rule all_disks_syscall [OF that]) (auto simp: no_part_def put split: option.splits node.splits)
  ultimately show ?thesis
    unfolding write_synced_def using assms(1) by (intro all_disks_pbind) simp_all
qed

lemma all_disks_sync_directory: "all_disks Q w \<Longrightarrow> all_disks Q (fst (sync_directory p w))"
  by (simp add: sync_directory_def sync_dir_facts)

lemma all_disks_sync_parent: "all_disks Q w \<Longrightarrow> all_disks Q (fst (sync_parent p w))"
  by (simp add: sync_parent_def all_disks_sync_directory plift_def)

lemma all_disks_remove_stale_file:
  assumes "all_disks Q w" and Q: "\<And>fs. Q fs \<Longrightarrow> Q (fs_del p fs)"
  shows "all_disks Q (fst (remove_stale_file p w))"
proof -
  have "all_disks Q (fst (remove_file p w))"
    unfolding remove_file_def
    by (rule all_disks_syscall [OF assms(1)]) (auto simp: no_part_def Q split: option.splits node.splits)
  then show ?thesis
    using all_disks_sync_parent
    by (auto simp: remove_stale_file_def split: prod.splits sum.splits io_error.splits)
qed

lemma all_disks_remove_dir_all:
  assumes "all_disks Q w" and "\<And>fs. Q fs \<Longrightarrow> Q (fs_del_tree p fs)" "\<And>fs. Q fs \<Longrightarrow> Q (fs_del p fs)"
    "\<And>n fs. Q fs \<Longrightarrow> Q (fs_del_some n p fs)"
  shows "all_disks Q (fst (remove_dir_all p w))"
  unfolding remove_dir_all_def
  by (rule all_disks_syscall [OF assms(1)]) (auto simp: assms(2-4) split: option.splits node.splits if_splits)

lemma all_disks_remove_stale_directory:
  assumes "all_disks Q w" and "\<And>fs. Q fs \<Longrightarrow> Q (fs_del_tree p fs)" "\<And>fs. Q fs \<Longrightarrow> Q (fs_del p fs)"
    "\<And>n fs. Q fs \<Longrightarrow> Q (fs_del_some n p fs)"
  shows "all_disks Q (fst (remove_stale_directory p w))"
  using all_disks_remove_dir_all [of Q w p, OF assms] all_disks_sync_parent
  by (auto simp: remove_stale_directory_def split: prod.splits sum.splits io_error.splits)

section \<open>The state file is replaced atomically\<close>

definition state_node :: "path \<Rightarrow> fs \<Rightarrow> node option" where
  "state_node root fs = fs_get fs (state_path root)"

definition synced_node :: "node option \<Rightarrow> bool" where
  "synced_node n = (case n of Some (File _ _ s) \<Rightarrow> s | _ \<Rightarrow> True)"

lemma path_facts [simp]:
  "state_path root \<noteq> temporary_path root" "temporary_path root \<noteq> state_path root"
  "state_path root \<noteq> []" "temporary_path root \<noteq> []"
  "\<not> prefix (temporary_path root) (state_path root)" "\<not> prefix (state_path root) (temporary_path root)"
  by (simp_all add: state_path_def temporary_path_def)

text \<open>Everything before the rename leaves the state file alone.\<close>

lemma state_node_other:
  "(\<And>q. q \<noteq> temporary_path root \<Longrightarrow> fs_get fs' q = fs_get fs q) \<Longrightarrow> state_node root fs' = state_node root fs"
  by (simp add: state_node_def)

lemma persist_disks:
  assumes old: "all_disks (\<lambda>g. state_node (ss_root store) g \<in> C) w"
    and b: "state_to_vec x s = Some b"
  shows "all_disks (\<lambda>g. state_node (ss_root store) g \<in> insert (Some (File b 0x180 True)) C)
    (fst (persist x store s w))"
proof -
  let ?root = "ss_root store"
  let ?Q = "\<lambda>g. state_node ?root g \<in> C"
  let ?R = "\<lambda>g. state_node ?root g \<in> insert (Some (File b 0x180 True)) C"
  have rem: "all_disks ?Q (fst (remove_stale_file (temporary_path ?root) w))"
    by (rule all_disks_remove_stale_file [OF old]) (simp add: state_node_def fs_get_del)
  have wr: "all_disks ?Q (fst (write_synced (temporary_path ?root) b 0x180 v))"
    if "all_disks ?Q v" for v
    using that by (rule all_disks_write_synced) (metis state_node_other)
  have ren: "all_disks ?R (fst (rename (temporary_path ?root) (state_path ?root) v))"
    if "all_disks ?Q v" "fs_get (w_fs v) (temporary_path ?root) = Some (File b 0x180 True)" for v
  proof -
    have "state_node ?root (fs_move (temporary_path ?root) (state_path ?root) (w_fs v))
        = Some (File b 0x180 True)"
      using fs_get_move_dst [of "temporary_path ?root" "state_path ?root" "w_fs v" "[]"] that(2)
      by (simp add: state_node_def)
    moreover have "all_disks ?R v" using that(1) by (rule all_disks_mono) simp
    ultimately show ?thesis
      unfolding rename_def syscall_def Let_def
      using all_disksD [OF \<open>all_disks ?R v\<close>]
      by (auto simp: no_part_def intro!: all_disks_set_fs split: list.splits outcome.splits sum.splits)
  qed
  have fin: "all_disks ?R (fst (pbind (pmap_err (\<lambda>_. StoreUnavailable)
      (rename (temporary_path ?root) (state_path ?root))) (\<lambda>_. sync_directory ?root) v))"
    if "all_disks ?Q v" "fs_get (w_fs v) (temporary_path ?root) = Some (File b 0x180 True)" for v
    by (rule all_disks_pbind) (use ren [OF that] in \<open>auto intro: all_disks_sync_directory\<close>)
  have "all_disks ?R (fst (pbind (write_synced (temporary_path ?root) b 0x180) (\<lambda>_.
      pbind (pmap_err (\<lambda>_. StoreUnavailable) (rename (temporary_path ?root) (state_path ?root))) (\<lambda>_.
        sync_directory ?root)) v))" if "all_disks ?Q v" for v
    using wr [OF that]
    by (rule all_disks_pbind_weaken) (use fin write_synced_result(1) in blast)+
  note rest = this
  show ?thesis
    unfolding persist_def b ok_or_simps Let_def pbind_plift
    using rem by (rule all_disks_pbind_weaken) (use rest in blast)+
qed

text \<open>After a successful save no earlier disk can come back.\<close>

lemma persist_durable:
  assumes ok: "persist x store s w = (w', Inr u)" and b: "state_to_vec x s = Some b"
  shows "all_disks (\<lambda>g. state_node (ss_root store) g = Some (File b 0x180 True)) w'"
proof -
  let ?root = "ss_root store"
  from ok b obtain w1 w2 w3 where wr: "write_synced (temporary_path ?root) b 0x180 w1 = (w2, Inr ())"
    and ren: "rename (temporary_path ?root) (state_path ?root) w2 = (w3, Inr ())"
    and syn: "sync_dir ?root w3 = (w', Inr ())"
    by (auto simp: persist_def pbind_Inr Let_def sync_directory_def)
  have "w_fs w3 = fs_move (temporary_path ?root) (state_path ?root) (w_fs w2)"
    using syscall_Inr [OF ren [unfolded rename_def]] by auto
  then have "state_node ?root (w_fs w3) = Some (File b 0x180 True)"
    using fs_get_move_dst [of "temporary_path ?root" "state_path ?root" "w_fs w2" "[]"]
      write_synced_result(1) [OF wr] by (simp add: state_node_def)
  moreover have "w_fs w' = w_fs w3" using sync_dir_facts(1) [of ?root w3] syn by simp
  moreover have "w_log w' = []" by (rule sync_dir_facts(2) [OF syn])
  ultimately show ?thesis by (simp add: all_disks_def)
qed

text \<open>A synchronised node survives a crash unchanged.\<close>

lemma recover_synced:
  assumes "all_disks Q w" and "may_recover w f"
    and "\<And>g. Q g \<Longrightarrow> synced_node (fs_get g p)"
  shows "\<exists>g. Q g \<and> fs_get f p = fs_get g p"
proof -
  from assms(2) obtain g where g: "g \<in> set (w_fs w # w_log w)" "torn_node (fs_get g p) (fs_get f p)"
    by (auto simp: may_recover_def)
  with assms(1) have Q: "Q g" by (auto simp: all_disks_def)
  from g(2) assms(3) [OF Q] have "fs_get f p = fs_get g p"
    by (auto simp: torn_node_def synced_node_def split: option.splits node.splits bool.splits)
  with Q show ?thesis by auto
qed

section \<open>The contract of a durable cell\<close>

text \<open>
  What the agent relies on: a save leaves the old value or the new one to be found after a crash,
  and a save that succeeds leaves only the new one. \<open>shows w C\<close> says that whatever a crash in world
  \<open>w\<close> leaves lies in \<open>C\<close>.
\<close>

locale durable_cell =
  fixes save :: "'v \<Rightarrow> 'w \<Rightarrow> 'w \<times> ('e, unit) result"
    and shows_in :: "'w \<Rightarrow> 'c set \<Rightarrow> bool"
    and image_of :: "'v \<Rightarrow> 'c"
  assumes save_atomic: "shows_in w C \<Longrightarrow> shows_in (fst (save v w)) (insert (image_of v) C)"
    and save_durable: "shows_in w C \<Longrightarrow> save v w = (w', Inr ()) \<Longrightarrow> shows_in w' {image_of v}"
begin

text \<open>A history of saves with their outcomes, and what it leaves possible.\<close>

fun save_all :: "'v list \<Rightarrow> 'w \<Rightarrow> 'w \<times> bool list" where
  "save_all [] w = (w, [])"
| "save_all (v # vs) w = (let (w1, r) = save v w; (w2, oks) = save_all vs w1 in (w2, is_ok r # oks))"

fun candidates :: "'c set \<Rightarrow> ('v \<times> bool) list \<Rightarrow> 'c set" where
  "candidates C [] = C"
| "candidates C ((v, ok) # hs) = candidates (if ok then {image_of v} else insert (image_of v) C) hs"

lemma save_all_candidates:
  "shows_in w C \<Longrightarrow> save_all vs w = (w', oks) \<Longrightarrow> shows_in w' (candidates C (zip vs oks))"
proof (induction vs arbitrary: w C w' oks)
  case Nil
  then show ?case by simp
next
  case (Cons v vs)
  obtain w1 r where s: "save v w = (w1, r)" by fastforce
  obtain w2 os where rest: "save_all vs w1 = (w2, os)" by fastforce
  have "shows_in w1 (if is_ok r then {image_of v} else insert (image_of v) C)"
  proof (cases r)
    case (Inl e)
    then show ?thesis using save_atomic [OF Cons.prems(1), of v] s by simp
  next
    case (Inr u)
    then show ?thesis using save_durable [OF Cons.prems(1)] s by simp
  qed
  from Cons.IH [OF this rest] show ?case using Cons.prems(2) s rest by auto
qed

text \<open>After a success only that value and later attempts can be found.\<close>

lemma candidates_after_success:
  "candidates C (hs @ (v, True) # fs) \<subseteq> insert (image_of v) (image_of ` fst ` set fs)"
proof -
  have mono: "candidates D fs \<subseteq> D \<union> image_of ` fst ` set fs" for D
    by (induction D fs rule: candidates.induct) (auto split: if_splits)
  have "candidates C (hs @ (v, True) # fs) = candidates {image_of v} fs"
    by (induction C hs rule: candidates.induct) auto
  then show ?thesis using mono [of "{image_of v}"] by auto
qed

end

definition shows_state :: "state_store \<Rightarrow> world \<Rightarrow> node option set \<Rightarrow> bool" where
  "shows_state store w C = all_disks (\<lambda>g. state_node (ss_root store) g \<in> C) w"

definition state_image :: "'z store_externals_scheme \<Rightarrow> state_v1 \<Rightarrow> node option" where
  "state_image x s = map_option (\<lambda>b. File b 0x180 True) (state_to_vec x s)"

lemma persist_atomic:
  "shows_state store w C \<Longrightarrow> shows_state store (fst (persist x store s w)) (insert (state_image x s) C)"
proof (cases "state_to_vec x s")
  case None
  assume "shows_state store w C"
  moreover have "persist x store s w = (w, Inl InvalidState)"
    by (simp add: persist_def None)
  ultimately show ?thesis by (auto simp: shows_state_def elim: all_disks_mono)
next
  case (Some b)
  assume "shows_state store w C"
  then show ?thesis using persist_disks [OF _ Some] by (simp add: shows_state_def state_image_def Some)
qed

interpretation state_cell: durable_cell "persist x store" "shows_state store" "state_image x"
  for x :: "'z store_externals_scheme" and store
proof
  fix w C and v :: state_v1
  assume "shows_state store w C"
  then show "shows_state store (fst (persist x store v w)) (insert (state_image x v) C)"
    by (rule persist_atomic)
next
  fix w C w' and v :: state_v1
  assume "persist x store v w = (w', Inr ())"
  moreover from this obtain b where "state_to_vec x v = Some b"
    by (auto simp: persist_def pbind_Inr)
  ultimately show "shows_state store w' {state_image x v}"
    using persist_durable by (simp add: shows_state_def state_image_def)
qed

section \<open>A credential revision is installed atomically\<close>

definition revision_absent :: "path \<Rightarrow> fs \<Rightarrow> bool" where
  "revision_absent target fs \<longleftrightarrow> (\<forall>r. fs_get fs (target @ r) = None)"

definition revision_complete :: "path \<Rightarrow> validated_credential \<Rightarrow> fs \<Rightarrow> bool" where
  "revision_complete target c fs \<longleftrightarrow>
     fs_get fs (target @ [''ca.pem'']) = Some (File (vc_ca c) 0x180 True)
     \<and> fs_get fs (target @ [''certificate.pem'']) = Some (File (vc_certificate c) 0x180 True)
     \<and> fs_get fs (target @ [''private-key.pem'']) = Some (File (vc_private_key c) 0x180 True)"

lemma staging_target:
  "\<not> prefix (staging_root root n) (revision_root root m @ r)"
  "\<not> prefix (revision_root root m) (staging_root root n @ r)"
  by (simp_all add: staging_root_def revision_root_def)

lemma staging_target_neq: "revision_root root m @ r \<noteq> staging_root root n @ q"
  by (simp add: staging_root_def revision_root_def)

lemma all_disks_staged_write:
  "all_disks (revision_absent (revision_root root m)) w \<Longrightarrow>
     all_disks (revision_absent (revision_root root m)) (fst (write_synced (staging_root root n @ q) b mode w))"
  by (erule all_disks_write_synced) (auto simp: revision_absent_def staging_target_neq)

lemma stage_revision_disks:
  assumes abs: "all_disks (revision_absent (revision_root (ss_root store) n)) w"
  shows "all_disks (\<lambda>g. revision_absent (revision_root (ss_root store) n) g
      \<or> revision_complete (revision_root (ss_root store) n) c g)
    (fst (stage_revision store (staging_root (ss_root store) n) (revision_root (ss_root store) n) c w))"
proof -
  let ?t = "revision_root (ss_root store) n"
  let ?s = "staging_root (ss_root store) n"
  let ?A = "revision_absent ?t"
  let ?R = "\<lambda>g. revision_absent ?t g \<or> revision_complete ?t c g"
  let ?fin = "pbind (pmap_err (\<lambda>_. StoreUnavailable) (rename ?s ?t))
    (\<lambda>_. sync_directory (credentials_root (ss_root store)))"
  have ren: "all_disks ?R (fst (rename ?s ?t v))"
    if "all_disks ?A v" "revision_complete ?s c (w_fs v)" for v
  proof -
    have "\<not> prefix ?s ?t" "\<not> prefix ?t ?s"
      using staging_target [of _ _ _ "[]"] by simp_all
    then have "revision_complete ?t c (fs_move ?s ?t (w_fs v))"
      using that(2) by (simp add: revision_complete_def fs_get_move_dst)
    moreover have R: "all_disks ?R v" using that(1) by (rule all_disks_mono) simp
    ultimately show ?thesis
      unfolding rename_def syscall_def Let_def using all_disksD [OF R]
      by (auto simp: no_part_def intro!: all_disks_set_fs split: list.splits outcome.splits sum.splits)
  qed
  have fin: "all_disks ?R (fst (?fin v))"
    if "all_disks ?A v" "revision_complete ?s c (w_fs v)" for v
    by (rule all_disks_pbind) (use ren [OF that] all_disks_sync_directory in auto)
  have syn: "all_disks ?R (fst (pbind (sync_directory ?s) (\<lambda>_. ?fin) v))"
    if A: "all_disks ?A v" and c: "revision_complete ?s c (w_fs v)" for v
  proof (rule all_disks_pbind_weaken [where Q = ?A])
    show "all_disks ?A (fst (sync_directory ?s v))" by (rule all_disks_sync_directory [OF A])
    fix w1 a assume "sync_directory ?s v = (w1, Inr a)" "all_disks ?A w1"
    moreover from this(1) have "w_fs w1 = w_fs v"
      using sync_dir_facts(1) [of ?s v] by (simp add: sync_directory_def)
    ultimately show "all_disks ?R (fst (?fin w1))" using fin c by simp
  qed simp
  have complete: "revision_complete ?s c (w_fs w3)"
    if "write_synced (?s @ [''ca.pem'']) (vc_ca c) 0x180 v = (w1, Inr a1)"
      "write_synced (?s @ [''certificate.pem'']) (vc_certificate c) 0x180 w1 = (w2, Inr a2)"
      "write_synced (?s @ [''private-key.pem'']) (vc_private_key c) 0x180 w2 = (w3, Inr a3)"
    for v w1 w2 w3 a1 a2 a3
    using write_synced_result(1,3) [OF that(1)] write_synced_result(1,3) [OF that(2)]
      write_synced_result(1,3) [OF that(3)] by (simp add: revision_complete_def)
  have then_write: "all_disks ?R (fst (pbind (write_synced (?s @ q) b m) f v))"
    if "all_disks ?A v" "\<And>w1 a. write_synced (?s @ q) b m v = (w1, Inr a) \<Longrightarrow> all_disks ?A w1 \<Longrightarrow>
      all_disks ?R (fst (f a w1))" for q b m f v
    using all_disks_staged_write [OF that(1)] by (rule all_disks_pbind_weaken) (use that(2) in blast)+
  show ?thesis
    unfolding stage_revision_def
    by (rule then_write [OF abs], rule then_write, assumption, rule then_write, assumption,
        rule syn, assumption, rule complete)
qed

text \<open>Operations on the staging directory do not reach the revision.\<close>

lemma staging_ops_get [simp]:
  "fs_get (fs_del_tree (staging_root root n) fs) (revision_root root m @ r) = fs_get fs (revision_root root m @ r)"
  "fs_get (fs_del (staging_root root n) fs) (revision_root root m @ r) = fs_get fs (revision_root root m @ r)"
  "fs_get (fs_del_some k (staging_root root n) fs) (revision_root root m @ r)
     = fs_get fs (revision_root root m @ r)"
  "fs_get (fs_put (staging_root root n) d fs) (revision_root root m @ r) = fs_get fs (revision_root root m @ r)"
proof -
  have ne: "revision_root root m @ r \<noteq> []" "revision_root root m @ r \<noteq> staging_root root n"
    using staging_target_neq [of root m r n "[]"] by (simp_all add: revision_root_def)
  have "\<not> strict_prefix (staging_root root n) (revision_root root m @ r)"
    using staging_target(1) by (simp add: strict_prefix_def)
  then show "fs_get (fs_del_some k (staging_root root n) fs) (revision_root root m @ r)
     = fs_get fs (revision_root root m @ r)" by (rule fs_get_del_some)
  show "fs_get (fs_del_tree (staging_root root n) fs) (revision_root root m @ r) = fs_get fs (revision_root root m @ r)"
    using ne staging_target(1) by (simp only: fs_get_del_tree if_False simp_thms)
  show "fs_get (fs_del (staging_root root n) fs) (revision_root root m @ r) = fs_get fs (revision_root root m @ r)"
    using ne by (simp only: fs_get_del if_False simp_thms)
  show "fs_get (fs_put (staging_root root n) d fs) (revision_root root m @ r) = fs_get fs (revision_root root m @ r)"
    using ne by (simp only: fs_get_put if_False simp_thms)
qed

lemma path_exists_disks [simp]:
  "all_disks Q (fst (path_exists p w)) = all_disks Q w" "w_fs (fst (path_exists p w)) = w_fs w"
  "w_log (fst (path_exists p w)) = w_log w"
  by (auto simp: path_exists_def all_disks_def Let_def split: prod.splits dest!: read_call_pair)

lemma all_disks_stage_or_clean:
  assumes "all_disks R (fst (stage_revision store staging target c v))"
    and rm: "\<And>u. all_disks R u \<Longrightarrow> all_disks R (fst (remove_dir_all staging u))"
  shows "all_disks R (fst (stage_or_clean store staging target c v))"
proof -
  obtain w1 r where s: "stage_revision store staging target c v = (w1, r)" by fastforce
  obtain w2 l where p: "path_exists staging w1 = (w2, l)" by fastforce
  have "all_disks R w1" using assms(1) s by simp
  moreover from this have "all_disks R w2" using path_exists_disks(1) [of R staging w1] p by simp
  ultimately show ?thesis using rm by (simp add: stage_or_clean_def s p)
qed

lemma install_revision_disks:
  assumes abs: "all_disks (revision_absent (revision_root (ss_root store) (credential_revision_get n))) w"
    and new: "fs_stat (w_fs w) (revision_root (ss_root store) (credential_revision_get n)) = None"
  shows "all_disks (\<lambda>g. revision_absent (revision_root (ss_root store) (credential_revision_get n)) g
      \<or> revision_complete (revision_root (ss_root store) (credential_revision_get n)) c g)
    (fst (install_revision store n c w))"
proof -
  let ?t = "revision_root (ss_root store) (credential_revision_get n)"
  let ?s = "staging_root (ss_root store) (credential_revision_get n)"
  let ?A = "revision_absent ?t"
  let ?R = "\<lambda>g. ?A g \<or> revision_complete ?t c g"
  let ?body = "stage_or_clean store ?s ?t c"
  have body: "all_disks ?R (fst (?body v))" if "all_disks ?A v" for v
    by (rule all_disks_stage_or_clean [OF stage_revision_disks [OF that]], rule all_disks_remove_dir_all)
      (auto simp: revision_absent_def revision_complete_def)
  have dir: "all_disks ?A (fst (create_dir ?s v))" if "all_disks ?A v" for v
    unfolding create_dir_def
    by (rule all_disks_syscall [OF that]) (auto simp: no_part_def revision_absent_def simp del: fs_get_put split: if_splits)
  have mk: "all_disks ?R (fst (pbind (pmap_err (\<lambda>_. StoreUnavailable) (create_dir ?s)) (\<lambda>_. ?body) v))"
    if "all_disks ?A v" for v
    by (rule all_disks_pbind_weaken [where Q = ?A]) (use dir [OF that] body in auto)
  have stale: "all_disks ?A (fst (remove_stale_directory ?s v))" if "all_disks ?A v" for v
    by (rule all_disks_remove_stale_directory [OF that]) (auto simp: revision_absent_def)
  have all: "all_disks ?R (fst (pbind (remove_stale_directory ?s) (\<lambda>_. pbind (pmap_err (\<lambda>_. StoreUnavailable)
      (create_dir ?s)) (\<lambda>_. ?body)) v))" if "all_disks ?A v" for v
    by (rule all_disks_pbind_weaken [where Q = ?A]) (use stale [OF that] mk in auto)
  obtain w1 e where q: "path_exists ?t w = (w1, e)" by fastforce
  then have A1: "all_disks ?A w1" using abs path_exists_disks(1) [of ?A ?t w] by simp
  have "\<not> e" using q new
    by (auto simp: path_exists_def read_call_def Let_def split: list.splits outcome.splits if_splits prod.splits)
  then have "install_revision store n c w = pbind (remove_stale_directory ?s) (\<lambda>_.
      pbind (pmap_err (\<lambda>_. StoreUnavailable) (create_dir ?s)) (\<lambda>_. ?body)) w1"
    by (simp add: install_revision_def Let_def pbind_def [of "pquery _"] pquery_def q)
  then show ?thesis using all [OF A1] by simp
qed

section \<open>Installing a revision leaves the state file alone\<close>

text \<open>A property of disks that does not look below the credentials directory.\<close>

definition outside_credentials :: "path \<Rightarrow> (fs \<Rightarrow> bool) \<Rightarrow> bool" where
  "outside_credentials root Q \<longleftrightarrow> (\<forall>fs fs'. Q fs \<longrightarrow>
     (\<forall>q. \<not> prefix (credentials_root root) q \<longrightarrow> fs_get fs' q = fs_get fs q) \<longrightarrow> Q fs')"

lemma outside_credentialsD:
  "outside_credentials root Q \<Longrightarrow> Q fs \<Longrightarrow>
     (\<And>q. \<not> prefix (credentials_root root) q \<Longrightarrow> fs_get fs' q = fs_get fs q) \<Longrightarrow> Q fs'"
  by (auto simp: outside_credentials_def)

lemma below_credentials:
  "prefix (staging_root root n) q \<Longrightarrow> prefix (credentials_root root) q"
  "prefix (revision_root root n) q \<Longrightarrow> prefix (credentials_root root) q"
  by (auto simp: staging_root_def revision_root_def prefix_def)

lemma outside_ops:
  assumes o: "outside_credentials root Q" and Q: "Q fs"
  shows "Q (fs_del_tree (staging_root root n) fs)" "Q (fs_del (staging_root root n) fs)"
    "Q (fs_del_some k (staging_root root n) fs)" "Q (fs_put (staging_root root n) d fs)"
    "Q (fs_move (staging_root root n) (revision_root root n) fs)"
proof -
  have np: "\<not> prefix (staging_root root n) q" "\<not> prefix (revision_root root n) q" "q \<noteq> staging_root root n"
    "\<not> strict_prefix (staging_root root n) q" if "\<not> prefix (credentials_root root) q" for q
    using that below_credentials [of root n q] by (auto simp: strict_prefix_def)
  show "Q (fs_del_tree (staging_root root n) fs)"
    by (rule outside_credentialsD [OF o Q]) (simp add: fs_get_del_tree np fs_get_def [of _ "[]"])
  show "Q (fs_del (staging_root root n) fs)"
    by (rule outside_credentialsD [OF o Q]) (simp add: fs_get_del np fs_get_def [of _ "[]"])
  show "Q (fs_del_some k (staging_root root n) fs)"
    by (rule outside_credentialsD [OF o Q]) (simp add: fs_get_del_some np)
  show "Q (fs_put (staging_root root n) d fs)"
    by (rule outside_credentialsD [OF o Q]) (simp add: np fs_get_def [of _ "[]"])
  show "Q (fs_move (staging_root root n) (revision_root root n) fs)"
    by (rule outside_credentialsD [OF o Q]) (simp add: fs_get_move_other np)
qed

lemma reads_only_verify_existing: "reads_only (verify_existing_revision root c)"
proof -
  have "reads_only (pquery (file_matches p b))" for p b
    by (auto simp: reads_only_def pquery_def file_matches_def fs_read_def Let_def
        split: prod.splits dest!: read_call_pair)
  then show ?thesis
    unfolding verify_existing_revision_def by (intro reads_only_intros)
qed

lemma install_revision_keeps:
  assumes o: "outside_credentials (ss_root store) Q" and Q: "all_disks Q w"
  shows "all_disks Q (fst (install_revision store n c w))"
proof -
  let ?t = "revision_root (ss_root store) (credential_revision_get n)"
  let ?s = "staging_root (ss_root store) (credential_revision_get n)"
  have wr: "all_disks Q (fst (write_synced (?s @ q) b m v))" if "all_disks Q v" for q b m v
    using that by (rule all_disks_write_synced)
      (metis o outside_credentialsD below_credentials(1) prefixI)
  have ren: "all_disks Q (fst (rename ?s ?t v))" if "all_disks Q v" for v
    unfolding rename_def by (rule all_disks_syscall [OF that])
      (auto simp: no_part_def outside_ops [OF o] split: if_splits)
  have stage: "all_disks Q (fst (stage_revision store ?s ?t c v))" if "all_disks Q v" for v
    unfolding stage_revision_def using that
    by (intro all_disks_pbind) (simp_all add: wr ren all_disks_sync_directory)
  have rm: "all_disks Q (fst (remove_dir_all ?s v))" if "all_disks Q v" for v
    by (rule all_disks_remove_dir_all [OF that]) (rule outside_ops [OF o], assumption)+
  have stale: "all_disks Q (fst (remove_stale_directory ?s v))" if "all_disks Q v" for v
    by (rule all_disks_remove_stale_directory [OF that]) (rule outside_ops [OF o], assumption)+
  have mk: "all_disks Q (fst (pmap_err g (create_dir ?s) v))" if "all_disks Q v"
    for v and g :: "io_error \<Rightarrow> store_error"
    unfolding create_dir_def fst_pmap_err by (rule all_disks_syscall [OF that])
      (auto simp: no_part_def outside_ops [OF o] split: if_splits)
  have body: "all_disks Q (fst (stage_or_clean store ?s ?t c v))" if "all_disks Q v" for v
    by (intro all_disks_stage_or_clean stage rm that)
  have ver: "all_disks Q (fst (verify_existing_revision ?t c v))" if "all_disks Q v" for v
    using that reads_only_verify_existing [of ?t c] by (simp add: all_disks_def reads_only_def)
  have ex: "all_disks Q (fst (pquery (path_exists p) v))" if "all_disks Q v" for p v
    using that path_exists_disks(1) [of Q p v] by (cases "path_exists p v") (simp add: pquery_def)
  have new: "all_disks Q (fst (pbind (remove_stale_directory ?s) (\<lambda>_. pbind (pmap_err (\<lambda>_. StoreUnavailable)
      (create_dir ?s)) (\<lambda>_. stage_or_clean store ?s ?t c)) v))" if "all_disks Q v" for v
    by (intro all_disks_pbind stale mk body that)
  show ?thesis
    unfolding install_revision_def Let_def
    by (rule all_disks_pbind, rule ex, rule Q) (simp add: ver new)
qed

lemma install_revision_shows_state:
  assumes "shows_state store w C"
  shows "shows_state store (fst (install_revision store n c w)) C"
proof -
  have "outside_credentials (ss_root store) (\<lambda>g. state_node (ss_root store) g \<in> C)"
    by (auto simp: outside_credentials_def state_node_def state_path_def credentials_root_def)
  then show ?thesis using assms install_revision_keeps unfolding shows_state_def by blast
qed

end
