(* ===== verification/Catalog.thy ===== *)
theory Catalog
  imports State_Store
begin

text \<open>
  The artifact catalogue, \<^verbatim>\<open>crates/reference-device-agent-core/src/catalog.rs\<close>: the lookup of the
  artifact a command names, its binding to the command, the confined reading of its files, its
  digest. The Unix variants are modelled; the JSON codec belongs to \<^verbatim>\<open>serde_json\<close>.
\<close>

section \<open>Data\<close>

datatype catalog_error =
    CatalogUnavailable
  | CatalogMalformed
  | ArtifactNotFound
  | BindingMismatch
  | DigestMismatch
  | Revoked
  | CatalogCredential credential_error

record resolved_artifact =
  ra_credential_generation :: credential_generation
  ra_credential :: validated_credential
  ra_digest :: sha256_digest

record catalog_entry_v1 =
  ce_artifact_id :: string
  ce_artifact_digest :: string
  ce_tenant_id :: uuid
  ce_device_id :: uuid
  ce_credential_generation :: u64
  ce_desired_generation :: u64
  ce_fence_epoch :: u64
  ce_intent_digest :: string
  ce_policy_hash :: string
  ce_ca_path :: string
  ce_certificate_path :: string
  ce_private_key_path :: string
  ce_revoked :: bool

record catalog_v1 =
  cv_schema_version :: u8
  cv_artifacts :: "catalog_entry_v1 list"

record artifact_catalog =
  catalog_path :: path

record catalog_externals = store_externals +
  catalog_from_slice :: "bytes \<Rightarrow> catalog_v1 option"

section \<open>Digest of an artifact\<close>

definition length_prefix :: "bytes \<Rightarrow> u64" where
  "length_prefix b = (if length b < 2 ^ 64 then of_nat (length b) else u64_max)"

definition artifact_preimage :: "bytes \<Rightarrow> bytes \<Rightarrow> bytes \<Rightarrow> bytes" where
  "artifact_preimage ca certificate private_key =
     ''rss.reference-device-agent.artifact.v1'' @ [CHR 0x00]
     @ concat (map (\<lambda>b. u64_be_bytes (length_prefix b) @ b) [ca, certificate, private_key])"

definition compute_artifact_digest_bytes ::
  "'z externals_scheme \<Rightarrow> bytes \<Rightarrow> bytes \<Rightarrow> bytes \<Rightarrow> (catalog_error, sha256_digest) result" where
  "compute_artifact_digest_bytes x ca certificate private_key =
     map_err (\<lambda>_. CatalogMalformed)
       (sha256_digest_try_from (''sha256:'' @ sha256_hex x (artifact_preimage ca certificate private_key)))"

definition compute_artifact_digest ::
  "'z externals_scheme \<Rightarrow> credential_files \<Rightarrow> (world, io_error, sha256_digest) proc" where
  "compute_artifact_digest x files =
     pbind (fs_read (cf_ca_certificate files)) (\<lambda>ca.
     pbind (fs_read (cf_certificate_chain files)) (\<lambda>certificate.
     pbind (fs_read (cf_private_key files)) (\<lambda>private_key.
     plift (map_err (\<lambda>_. OtherIo) (compute_artifact_digest_bytes x ca certificate private_key)))))"

section \<open>Confined file access\<close>

text \<open>\<open>Path::components\<close> on Unix: empty components and inner dots are dropped, a leading dot is
  kept.\<close>

datatype component = RootDir | CurDir | ParentDir | Normal string

fun split_slash :: "string \<Rightarrow> string list" where
  "split_slash [] = [[]]"
| "split_slash (c # cs) =
     (if c = CHR ''/'' then [] # split_slash cs
      else case split_slash cs of [] \<Rightarrow> [[c]] | w # ws \<Rightarrow> (c # w) # ws)"

definition is_absolute :: "string \<Rightarrow> bool" where
  "is_absolute raw = starts_with raw ''/''"

definition path_components :: "string \<Rightarrow> component list" where
  "path_components raw = (let parts = split_slash raw in
     (if is_absolute raw then [RootDir] else if hd parts = ''.'' then [CurDir] else [])
     @ map (\<lambda>p. if p = ''..'' then ParentDir else Normal p)
         (filter (\<lambda>p. p \<noteq> [] \<and> p \<noteq> ''.'') parts))"

definition validated_relative_path :: "string \<Rightarrow> (catalog_error, component list) result" where
  "validated_relative_path raw =
     (if raw = [] \<or> is_absolute raw
         \<or> list_ex (\<lambda>c. c = ParentDir \<or> c = RootDir) (path_components raw)
      then Inl CatalogMalformed else Inr (path_components raw))"

text \<open>\<open>openat\<close> with \<open>NOFOLLOW\<close>, and with \<open>DIRECTORY\<close> for every component but the last.\<close>

definition openat :: "path \<Rightarrow> string \<Rightarrow> bool \<Rightarrow> path io" where
  "openat current component directory = read_call (\<lambda>fs.
     case fs_get fs (current @ [component]) of
       None \<Rightarrow> Inl NotFound
     | Some (Symlink _) \<Rightarrow> Inl LoopOrNotDir
     | Some Dir \<Rightarrow> Inr (current @ [component])
     | Some (File _ _ _) \<Rightarrow> if directory then Inl LoopOrNotDir else Inr (current @ [component]))"

definition openat_error :: "io_error \<Rightarrow> catalog_error" where
  "openat_error e = (if e = LoopOrNotDir then CatalogMalformed else CatalogUnavailable)"

fun open_components :: "path \<Rightarrow> component list \<Rightarrow> (world, catalog_error, path) proc" where
  "open_components current [] = preturn current"
| "open_components current (Normal component # rest) =
     pbind (pmap_err openat_error (openat current component (rest \<noteq> []))) (\<lambda>opened.
       open_components opened rest)"
| "open_components current (_ # rest) = plift (Inl CatalogMalformed)"

definition read_open_catalog_file :: "path \<Rightarrow> bool \<Rightarrow> (world, catalog_error, bytes) proc" where
  "read_open_catalog_file file private_key =
     pbind (pmap_err (\<lambda>_. CatalogUnavailable) (read_call (\<lambda>fs. ok_or NotFound (fs_get fs file))))
       (\<lambda>metadata. case metadata of
          File _ mode _ \<Rightarrow>
            if private_key \<and> \<not> private_mode mode
            then plift (Inl (CatalogCredential InsecurePrivateKey))
            else pmap_err (\<lambda>_. CatalogUnavailable) (read_call (\<lambda>fs. case fs_get fs file of
                   Some (File b _ _) \<Rightarrow> Inr b | _ \<Rightarrow> Inl OtherIo))
        | _ \<Rightarrow> plift (Inl CatalogMalformed))"

definition canonicalize :: "path \<Rightarrow> path io" where
  "canonicalize p = read_call (\<lambda>fs. case fs_resolve fs p of
     None \<Rightarrow> Inl OtherIo | Some q \<Rightarrow> if fs_get fs q = None then Inl NotFound else Inr q)"

definition read_catalog_file ::
  "path \<Rightarrow> string \<Rightarrow> bool \<Rightarrow> (world, catalog_error, bytes) proc" where
  "read_catalog_file root raw private_key =
     pbind (plift (validated_relative_path raw)) (\<lambda>relative.
     pbind (pmap_err (\<lambda>_. CatalogUnavailable) (canonicalize root)) (\<lambda>canonical_root.
     pbind (pmap_err (\<lambda>_. CatalogUnavailable)
              (read_call (\<lambda>fs. ok_or NotFound (fs_get fs canonical_root)))) (\<lambda>_.
     pbind (open_components canonical_root relative) (\<lambda>file.
     read_open_catalog_file file private_key))))"

section \<open>Resolution\<close>

definition validate_binding ::
  "device_identity \<Rightarrow> device_command \<Rightarrow> catalog_entry_v1 \<Rightarrow> (catalog_error, unit) result" where
  "validate_binding identity command entry = ensure BindingMismatch
     (ce_tenant_id entry = di_tenant identity
      \<and> ce_device_id entry = di_device identity
      \<and> ce_desired_generation entry = generation_get (dc_desired_generation command)
      \<and> ce_fence_epoch entry = fence_epoch_get (dc_fence_epoch command)
      \<and> ce_intent_digest entry = sha256_digest_expose (dc_intent_digest command)
      \<and> ce_policy_hash entry = sha256_digest_expose (dc_policy_hash command))"

definition find_entry ::
  "device_command \<Rightarrow> catalog_v1 \<Rightarrow> (catalog_error, catalog_entry_v1) result" where
  "find_entry command catalog = ok_or ArtifactNotFound
     (find (\<lambda>entry. ce_artifact_id entry = artifact_id_expose (dc_artifact_id command))
        (cv_artifacts catalog))"

definition resolve_material ::
  "'z catalog_externals_scheme \<Rightarrow> device_identity \<Rightarrow> device_command \<Rightarrow> u64 \<Rightarrow> catalog_entry_v1
     \<Rightarrow> bytes \<Rightarrow> bytes \<Rightarrow> bytes \<Rightarrow> (catalog_error, resolved_artifact) result" where
  "resolve_material x identity command now entry ca certificate private_key =
     rbind (compute_artifact_digest_bytes x ca certificate private_key) (\<lambda>computed.
     rbind (map_err (\<lambda>_. CatalogMalformed) (sha256_digest_try_from (ce_artifact_digest entry)))
       (\<lambda>declared.
     if computed \<noteq> dc_artifact_digest command \<or> computed \<noteq> declared then Inl DigestMismatch
     else
       rbind (map_err (\<lambda>_. CatalogMalformed)
                (credential_generation_try_from (ce_credential_generation entry))) (\<lambda>generation.
       rbind (map_err (\<lambda>_. BindingMismatch)
                (device_identity_try_new x (di_tenant identity) (di_device identity) generation))
         (\<lambda>target_identity.
       rbind (map_err CatalogCredential
                (validate_credential_bytes x ca certificate private_key target_identity now))
         (\<lambda>credential.
       Inr \<lparr> ra_credential_generation = generation, ra_credential = credential,
             ra_digest = computed \<rparr>)))))"

definition catalog_resolve ::
  "'z catalog_externals_scheme \<Rightarrow> artifact_catalog \<Rightarrow> device_identity \<Rightarrow> device_command \<Rightarrow> u64
     \<Rightarrow> (world, catalog_error, resolved_artifact) proc" where
  "catalog_resolve x cat identity command now =
     pbind (pmap_err (\<lambda>_. CatalogUnavailable) (fs_read (catalog_path cat))) (\<lambda>bytes.
     pbind (plift (ok_or CatalogMalformed (catalog_from_slice x bytes))) (\<lambda>catalog.
     if cv_schema_version catalog \<noteq> 1 then plift (Inl CatalogMalformed) else
     pbind (plift (find_entry command catalog)) (\<lambda>entry.
     pbind (plift (validate_binding identity command entry)) (\<lambda>_.
     if ce_revoked entry then plift (Inl Revoked) else
     let root = butlast (catalog_path cat) in
     pbind (read_catalog_file root (ce_ca_path entry) False) (\<lambda>ca.
     pbind (read_catalog_file root (ce_certificate_path entry) False) (\<lambda>certificate.
     pbind (read_catalog_file root (ce_private_key_path entry) True) (\<lambda>private_key.
     plift (resolve_material x identity command now entry ca certificate private_key))))))))"

section \<open>Lemmas\<close>

text \<open>Lengths before contents make the three files recoverable from the hashed message.\<close>

lemma length_prefix_inj:
  "length a < 2 ^ 64 \<Longrightarrow> length b < 2 ^ 64 \<Longrightarrow> length_prefix a = length_prefix b \<Longrightarrow> length a = length b"
proof -
  assume a: "length a < 2 ^ 64" and b: "length b < 2 ^ 64" and eq: "length_prefix a = length_prefix b"
  have "unat (length_prefix a) = length a" "unat (length_prefix b) = length b"
    using a b by (simp_all add: length_prefix_def unat_of_nat)
  with eq show ?thesis by simp
qed

lemma chunk_inj:
  assumes "length a < 2 ^ 64" "length b < 2 ^ 64"
    and "u64_be_bytes (length_prefix a) @ a @ r = u64_be_bytes (length_prefix b) @ b @ s"
  shows "a = b \<and> r = s"
proof -
  have "length_prefix a = length_prefix b" and rest: "a @ r = b @ s" using assms(3) by simp_all
  then have "length a = length b" using length_prefix_inj assms(1,2) by blast
  with rest show ?thesis by simp
qed

lemma artifact_preimage_inj:
  assumes "length a < 2 ^ 64" "length b < 2 ^ 64" "length c < 2 ^ 64"
    "length a' < 2 ^ 64" "length b' < 2 ^ 64" "length c' < 2 ^ 64"
    and "artifact_preimage a b c = artifact_preimage a' b' c'"
  shows "a = a' \<and> b = b' \<and> c = c'"
proof -
  have "u64_be_bytes (length_prefix a) @ a @ u64_be_bytes (length_prefix b) @ b
        @ u64_be_bytes (length_prefix c) @ c @ []
      = u64_be_bytes (length_prefix a') @ a' @ u64_be_bytes (length_prefix b') @ b'
        @ u64_be_bytes (length_prefix c') @ c' @ []"
    using assms(7) by (simp add: artifact_preimage_def)
  then show ?thesis using chunk_inj assms(1-6) by blast
qed

lemma openat_Inr:
  assumes "openat current name d w = (w1, Inr p)"
  shows "p = current @ [name]" "w_fs w1 = w_fs w" "fs_get (w_fs w) (current @ [name]) \<noteq> Some (Symlink t)"
proof -
  note q = read_call_Inr [OF assms [unfolded openat_def]]
  show "p = current @ [name]" using q by (auto split: option.splits node.splits if_splits)
  show "fs_get (w_fs w) (current @ [name]) \<noteq> Some (Symlink t)" using q by auto
  show "w_fs w1 = w_fs w" using assms by (auto simp: openat_def dest: read_call_pair)
qed

text \<open>Every opened path stays strictly below the root and no component of it is a symbolic link.\<close>

lemma open_components_below:
  assumes "open_components root cs w = (w', Inr file)"
  shows "\<exists>names. cs = map Normal names \<and> file = root @ names
    \<and> (\<forall>k. 0 < k \<and> k \<le> length names \<longrightarrow> (\<forall>t. fs_get (w_fs w) (root @ take k names) \<noteq> Some (Symlink t)))"
  using assms
proof (induction cs arbitrary: root w)
  case Nil
  then show ?case by simp
next
  case (Cons c cs)
  from Cons.prems obtain name w1 opened where c: "c = Normal name"
    and o: "openat root name (cs \<noteq> []) w = (w1, Inr opened)"
    and r: "open_components opened cs w1 = (w', Inr file)"
    by (cases c) (auto simp: pbind_Inr)
  note f = openat_Inr [OF o]
  have rest: "open_components (root @ [name]) cs w1 = (w', Inr file)" using r f(1) by simp
  note same = f(2) and no = f(3)
  obtain names where n: "cs = map Normal names" "file = (root @ [name]) @ names"
    "\<forall>k. 0 < k \<and> k \<le> length names \<longrightarrow>
       (\<forall>t. fs_get (w_fs w) ((root @ [name]) @ take k names) \<noteq> Some (Symlink t))"
    using Cons.IH [OF rest] same by auto
  have "fs_get (w_fs w) (root @ take k (name # names)) \<noteq> Some (Symlink t)"
    if "0 < k" "k \<le> Suc (length names)" for k t
  proof (cases "k = 1")
    case True
    then show ?thesis using no by simp
  next
    case False
    then show ?thesis using n(3) [rule_format, of "k - 1" t] that by (cases k) auto
  qed
  then show ?case using c n(1,2) by (intro exI [of _ "name # names"]) auto
qed

text \<open>What a resolved artifact guarantees to the agent.\<close>

definition artifact_sound ::
  "'z catalog_externals_scheme \<Rightarrow> catalog_v1 \<Rightarrow> device_identity \<Rightarrow> device_command \<Rightarrow> u64
     \<Rightarrow> resolved_artifact \<Rightarrow> bool" where
  "artifact_sound x catalog identity command now a \<longleftrightarrow>
     cv_schema_version catalog = 1
     \<and> (\<exists>entry \<in> set (cv_artifacts catalog).
          ce_artifact_id entry = artifact_id_expose (dc_artifact_id command)
          \<and> \<not> ce_revoked entry
          \<and> ce_tenant_id entry = di_tenant identity \<and> ce_device_id entry = di_device identity
          \<and> ce_desired_generation entry = generation_get (dc_desired_generation command)
          \<and> ce_fence_epoch entry = fence_epoch_get (dc_fence_epoch command)
          \<and> ce_intent_digest entry = sha256_digest_expose (dc_intent_digest command)
          \<and> ce_policy_hash entry = sha256_digest_expose (dc_policy_hash command)
          \<and> ce_artifact_digest entry = sha256_digest_expose (ra_digest a)
          \<and> ce_credential_generation entry = credential_generation_get (ra_credential_generation a))
     \<and> ra_digest a = dc_artifact_digest command
     \<and> sha256_digest_expose (ra_digest a) = ''sha256:'' @ sha256_hex x (artifact_preimage
          (vc_ca (ra_credential a)) (vc_certificate (ra_credential a)) (vc_private_key (ra_credential a)))
     \<and> wf_digest (sha256_digest_expose (ra_digest a))
     \<and> credential_generation_get (ra_credential_generation a) \<noteq> 0
     \<and> credential_sound x (identity\<lparr> di_credential_generation := ra_credential_generation a \<rparr>) now
          (ra_credential a)"

lemma resolve_material_sound:
  assumes "resolve_material x identity command now entry ca certificate key = Inr a"
  shows "ra_digest a = dc_artifact_digest command"
    "ce_artifact_digest entry = sha256_digest_expose (ra_digest a)"
    "ce_credential_generation entry = credential_generation_get (ra_credential_generation a)"
    "credential_generation_get (ra_credential_generation a) \<noteq> 0"
    "wf_digest (sha256_digest_expose (ra_digest a))"
    "sha256_digest_expose (ra_digest a) = ''sha256:'' @ sha256_hex x (artifact_preimage
       (vc_ca (ra_credential a)) (vc_certificate (ra_credential a)) (vc_private_key (ra_credential a)))"
    "credential_sound x (identity\<lparr> di_credential_generation := ra_credential_generation a \<rparr>) now
       (ra_credential a)"
proof -
  from assms obtain computed g i' v where d: "compute_artifact_digest_bytes x ca certificate key = Inr computed"
    and e: "computed = dc_artifact_digest command" "sha256_digest_try_from (ce_artifact_digest entry) = Inr computed"
    and g: "credential_generation_try_from (ce_credential_generation entry) = Inr g"
    and i: "device_identity_try_new x (di_tenant identity) (di_device identity) g = Inr i'"
    and v: "validate_credential_bytes x ca certificate key i' now = Inr v"
    and a: "a = \<lparr> ra_credential_generation = g, ra_credential = v, ra_digest = computed \<rparr>"
    by (auto simp: resolve_material_def split: if_splits)
  have i': "i' = identity\<lparr> di_credential_generation := g \<rparr>"
    using i by (simp add: device_identity_try_new_Inr)
  note s = validate_credential_bytes_sound [OF v]
  show "ra_digest a = dc_artifact_digest command" using a e(1) by simp
  show "ce_artifact_digest entry = sha256_digest_expose (ra_digest a)"
    "wf_digest (sha256_digest_expose (ra_digest a))"
    using a e(2) by (auto simp: sha256_digest_try_from_Inr)
  show "ce_credential_generation entry = credential_generation_get (ra_credential_generation a)"
    "credential_generation_get (ra_credential_generation a) \<noteq> 0" using a g by auto
  show "sha256_digest_expose (ra_digest a) = ''sha256:'' @ sha256_hex x (artifact_preimage
       (vc_ca (ra_credential a)) (vc_certificate (ra_credential a)) (vc_private_key (ra_credential a)))"
    using a d s(2-4) by (auto simp: compute_artifact_digest_bytes_def sha256_digest_try_from_Inr)
  show "credential_sound x (identity\<lparr> di_credential_generation := ra_credential_generation a \<rparr>) now
       (ra_credential a)" using a s(1) i' by simp
qed

lemma catalog_resolve_sound:
  assumes "catalog_resolve x cat identity command now w = (w', Inr a)"
  shows "\<exists>bytes catalog. read_node (w_fs w) (catalog_path cat) = Inr bytes
    \<and> catalog_from_slice x bytes = Some catalog \<and> artifact_sound x catalog identity command now a"
proof -
  from assms obtain w1 bytes catalog entry ca certificate key where
    r: "fs_read (catalog_path cat) w = (w1, Inr bytes)"
    and c: "catalog_from_slice x bytes = Some catalog" "cv_schema_version catalog = 1"
    and f: "find_entry command catalog = Inr entry" "validate_binding identity command entry = Inr ()"
      "\<not> ce_revoked entry"
    and m: "resolve_material x identity command now entry ca certificate key = Inr a"
    by (auto simp: catalog_resolve_def pbind_Inr Let_def split: if_splits)
  have "read_node (w_fs w) (catalog_path cat) = Inr bytes"
    using read_call_Inr [OF r [unfolded fs_read_def]] .
  moreover have "artifact_sound x catalog identity command now a"
    using resolve_material_sound [OF m] c f unfolding artifact_sound_def find_entry_def validate_binding_def
    by (auto dest!: find_Some_set)
  ultimately show ?thesis using c(1) by blast
qed

text \<open>Resolution reads the disk and changes nothing.\<close>

lemma reads_only_open_components: "reads_only (open_components current cs)"
  by (induction current cs rule: open_components.induct) (auto simp: openat_def intro!: reads_only_intros)

lemma reads_only_read_catalog_file: "reads_only (read_catalog_file root raw key)"
  unfolding read_catalog_file_def read_open_catalog_file_def canonicalize_def
  by (intro reads_only_intros reads_only_open_components) (auto intro!: reads_only_intros split: node.splits)

lemma reads_only_catalog_resolve: "reads_only (catalog_resolve x cat identity command now)"
  unfolding catalog_resolve_def fs_read_def Let_def
  by (auto intro!: reads_only_intros reads_only_read_catalog_file)

text \<open>A file read for the catalogue lies below the canonical root, is a regular file, and is private
  when it is a key.\<close>

lemma read_catalog_file_confined:
  assumes "read_catalog_file root raw key w = (w', Inr b)"
  shows "\<exists>top names mode synced. fs_resolve (w_fs w) root = Some top \<and> path_components raw = map Normal names
    \<and> fs_get (w_fs w) (top @ names) = Some (File b mode synced) \<and> (key \<longrightarrow> private_mode mode)
    \<and> (\<forall>k. 0 < k \<and> k \<le> length names \<longrightarrow> (\<forall>t. fs_get (w_fs w) (top @ take k names) \<noteq> Some (Symlink t)))"
proof -
  from assms obtain top w1 w2 w3 n fil where
    rel: "validated_relative_path raw = Inr (path_components raw)"
    and c: "canonicalize root w = (w1, Inr top)"
    and s: "read_call (\<lambda>fs. ok_or NotFound (fs_get fs top)) w1 = (w2, Inr n)"
    and o: "open_components top (path_components raw) w2 = (w3, Inr fil)"
    and r: "read_open_catalog_file fil key w3 = (w', Inr b)"
    by (auto simp: read_catalog_file_def pbind_Inr validated_relative_path_def split: if_splits)
  have w1: "w_fs w1 = w_fs w" using c by (auto simp: canonicalize_def dest: read_call_pair)
  have w2: "w_fs w2 = w_fs w" using read_call_pair [OF s] w1 by simp
  have w3: "w_fs w3 = w_fs w" using reads_onlyD [OF reads_only_open_components o] w2 by simp
  have top: "fs_resolve (w_fs w) root = Some top"
    using c by (auto simp: canonicalize_def dest!: read_call_Inr split: option.splits if_splits)
  obtain names where n: "path_components raw = map Normal names" "fil = top @ names"
    "\<forall>k. 0 < k \<and> k \<le> length names \<longrightarrow> (\<forall>t. fs_get (w_fs w) (top @ take k names) \<noteq> Some (Symlink t))"
    using open_components_below [OF o] w2 by auto
  have "\<exists>mode synced. fs_get (w_fs w) fil = Some (File b mode synced) \<and> (key \<longrightarrow> private_mode mode)"
  proof -
    from r obtain w4 nd where q: "read_call (\<lambda>fs. ok_or NotFound (fs_get fs fil)) w3 = (w4, Inr nd)"
      and d: "(case nd of File _ mode _ \<Rightarrow>
            if key \<and> \<not> private_mode mode then plift (Inl (CatalogCredential InsecurePrivateKey))
            else pmap_err (\<lambda>_. CatalogUnavailable) (read_call (\<lambda>fs. case fs_get fs fil of
                   Some (File b _ _) \<Rightarrow> Inr b | _ \<Rightarrow> Inl OtherIo))
          | _ \<Rightarrow> plift (Inl CatalogMalformed)) w4 = (w', Inr b)"
      by (auto simp: read_open_catalog_file_def pbind_Inr)
    have nd: "fs_get (w_fs w) fil = Some nd" using read_call_Inr [OF q] w3 by (auto simp: ok_or_def split: option.splits)
    then show ?thesis using d read_call_pair [OF q] w3
      by (cases nd) (auto split: if_splits dest!: read_call_Inr)
  qed
  with top n show ?thesis by blast
qed

end
