(* ===== verification/Assertion.thy ===== *)
theory Assertion
  imports Catalog
begin

text \<open>
  Broker assertions, \<^verbatim>\<open>crates/reference-device-agent-core/src/assertion.rs\<close>, and the connection
  settings of \<^verbatim>\<open>types.rs\<close> that carry the verifier: which command frames the device takes for
  broker-authenticated. Base64 belongs to the \<^verbatim>\<open>base64\<close> crate, Ed25519 to \<^verbatim>\<open>ring\<close>.
\<close>

record assertion_externals = catalog_externals +
  base64url_decode :: "string \<Rightarrow> bytes option"
  base64url_encode :: "bytes \<Rightarrow> string"
  ed25519_verify :: "bytes \<Rightarrow> bytes \<Rightarrow> bytes \<Rightarrow> bool"    \<comment> \<open>key, message, signature\<close>

section \<open>Frames and keys\<close>

definition ASSERTION_DOMAIN :: bytes where
  "ASSERTION_DOMAIN = ''rss.mqtt.authn.v1'' @ [CHR 0x00]"

definition RESERVED_PREFIX :: string where
  "RESERVED_PREFIX = ''rss.authn.v1.''"

definition VERSION_KEY :: string where
  "VERSION_KEY = ''rss.authn.v1.version''"

definition PRINCIPAL_KEY :: string where
  "PRINCIPAL_KEY = ''rss.authn.v1.principal''"

definition SIGNATURE_KEY :: string where
  "SIGNATURE_KEY = ''rss.authn.v1.signature''"

definition VERSION :: string where
  "VERSION = ''1''"

record broker_publish_frame =
  bf_topic :: string
  bf_payload :: bytes
  bf_correlation :: bytes
  bf_qos :: u8
  bf_retain :: bool
  bf_properties :: "(string \<times> string) list"

datatype broker_assertion_error = BrokerAssertionError

datatype broker_assertion_verifier = BrokerAssertionVerifier (public_key: bytes)

definition from_base64 ::
  "'z assertion_externals_scheme \<Rightarrow> string \<Rightarrow> (broker_assertion_error, broker_assertion_verifier) result" where
  "from_base64 x value =
     rbind (ok_or BrokerAssertionError (base64url_decode x value)) (\<lambda>decoded.
     if length decoded \<noteq> 32 then Inl BrokerAssertionError
     else if base64url_encode x decoded \<noteq> value \<or> list_all (\<lambda>byte. byte = CHR 0x00) decoded
     then Inl BrokerAssertionError
     else Inr (BrokerAssertionVerifier decoded))"

section \<open>The signed message\<close>

definition append_field :: "bytes \<Rightarrow> bytes \<Rightarrow> (broker_assertion_error, bytes) result" where
  "append_field target value =
     (if length value < 2 ^ 32 then Inr (target @ be_bytes 4 (length value) @ value)
      else Inl BrokerAssertionError)"

definition canonical_bytes ::
  "'z externals_scheme \<Rightarrow> string \<Rightarrow> broker_publish_frame \<Rightarrow> (broker_assertion_error, bytes) result" where
  "canonical_bytes x urn frame =
     (let payload_digest = sha256_raw x (bf_payload frame) in
      rbind (append_field ASSERTION_DOMAIN VERSION) (\<lambda>bytes.
      rbind (append_field bytes urn) (\<lambda>bytes.
      rbind (append_field bytes (bf_topic frame)) (\<lambda>bytes.
      rbind (append_field bytes (bf_correlation frame)) (\<lambda>bytes.
      rbind (append_field bytes payload_digest) (\<lambda>bytes.
      rbind (append_field bytes [char_of (unat (bf_qos frame))]) (\<lambda>bytes.
      append_field bytes [char_of (if bf_retain frame then 1 else 0 :: nat)])))))))"

section \<open>Reserved properties\<close>

record assertion_properties =
  ap_principal :: string
  ap_signature :: string

text \<open>The loop: three slots, each filled at most once.\<close>

fun collect_properties ::
  "(string \<times> string) list \<Rightarrow> string option \<times> string option \<times> string option
     \<Rightarrow> (broker_assertion_error, string option \<times> string option \<times> string option) result" where
  "collect_properties [] slots = Inr slots"
| "collect_properties ((key, value) # rest) (version, urn, signature) =
     (if \<not> starts_with key RESERVED_PREFIX then collect_properties rest (version, urn, signature)
      else if key = VERSION_KEY then
        (if version \<noteq> None then Inl BrokerAssertionError
         else collect_properties rest (Some value, urn, signature))
      else if key = PRINCIPAL_KEY then
        (if urn \<noteq> None then Inl BrokerAssertionError
         else collect_properties rest (version, Some value, signature))
      else if key = SIGNATURE_KEY then
        (if signature \<noteq> None then Inl BrokerAssertionError
         else collect_properties rest (version, urn, Some value))
      else Inl BrokerAssertionError)"

definition parse_assertion_properties ::
  "(string \<times> string) list \<Rightarrow> (broker_assertion_error, assertion_properties) result" where
  "parse_assertion_properties properties =
     rbind (collect_properties properties (None, None, None)) (\<lambda>(version, urn, signature).
     if version \<noteq> Some VERSION then Inl BrokerAssertionError
     else
       rbind (ok_or BrokerAssertionError urn) (\<lambda>urn.
       rbind (ok_or BrokerAssertionError signature) (\<lambda>signature.
       Inr \<lparr> ap_principal = urn, ap_signature = signature \<rparr>)))"

section \<open>Verification\<close>

definition verify_frame ::
  "'z assertion_externals_scheme \<Rightarrow> broker_assertion_verifier \<Rightarrow> device_identity \<Rightarrow> broker_publish_frame
     \<Rightarrow> (broker_assertion_error, unit) result" where
  "verify_frame x verifier identity frame =
     (if bf_qos frame \<noteq> 1 \<or> bf_retain frame then Inl BrokerAssertionError
      else
        rbind (parse_assertion_properties (bf_properties frame)) (\<lambda>assertion.
        if ap_principal assertion \<noteq> principal_urn x identity then Inl BrokerAssertionError
        else
          rbind (ok_or BrokerAssertionError (base64url_decode x (ap_signature assertion))) (\<lambda>signature.
          if length signature \<noteq> 64 then Inl BrokerAssertionError
          else
            rbind (canonical_bytes x (ap_principal assertion) frame) (\<lambda>signed.
            ensure BrokerAssertionError (ed25519_verify x (public_key verifier) signed signature)))))"

definition verify_command ::
  "'z assertion_externals_scheme \<Rightarrow> broker_assertion_verifier \<Rightarrow> device_identity \<Rightarrow> string \<Rightarrow> bytes \<Rightarrow> bytes
     \<Rightarrow> u8 \<Rightarrow> bool \<Rightarrow> (string \<times> string) list \<Rightarrow> (broker_assertion_error, unit) result" where
  "verify_command x verifier identity topic payload correlation qos retain properties =
     verify_frame x verifier identity \<lparr> bf_topic = topic, bf_payload = payload, bf_correlation = correlation,
       bf_qos = qos, bf_retain = retain, bf_properties = properties \<rparr>"

section \<open>Connection settings\<close>

record mqtt_connection_config =
  mc_host :: string
  mc_port :: u16
  mc_client_id :: string
  mc_session_expiry_seconds :: u32
  mc_request_capacity :: nat
  mc_assertion_verifier :: broker_assertion_verifier

text \<open>The expiry and the capacity are non-zero by their type.\<close>

definition mqtt_connection_config_new ::
  "string \<Rightarrow> u16 \<Rightarrow> string \<Rightarrow> u32 \<Rightarrow> nat \<Rightarrow> broker_assertion_verifier
     \<Rightarrow> (value_error, mqtt_connection_config) result" where
  "mqtt_connection_config_new host port client_id session_expiry_seconds request_capacity assertion_verifier =
     (if trim_chars (chars host) = [] \<or> list_ex is_control (chars host) then Inl InvalidHost
      else if port = 0 then Inl InvalidPort
      else if client_id = [] \<or> list_ex is_control (chars client_id) then Inl InvalidClientId
      else Inr \<lparr> mc_host = host, mc_port = port, mc_client_id = client_id,
             mc_session_expiry_seconds = session_expiry_seconds, mc_request_capacity = request_capacity,
             mc_assertion_verifier = assertion_verifier \<rparr>)"

section \<open>The signature binds the frame\<close>

lemma append_field_Inr:
  "append_field t v = Inr b \<longleftrightarrow> length v < 2 ^ 32 \<and> b = t @ be_bytes 4 (length v) @ v"
  by (auto simp: append_field_def)

lemma field_inj:
  assumes "length a < 2 ^ 32" "length b < 2 ^ 32"
    and "be_bytes 4 (length a) @ a @ r = be_bytes 4 (length b) @ b @ s"
  shows "a = b \<and> r = s"
proof -
  have "be_bytes 4 (length a) = be_bytes 4 (length b)" and rest: "a @ r = b @ s"
    using assms(3) by (simp_all add: append_eq_append_conv)
  then have "length a = length b" using be_bytes_inj [of 4 "length a" "length b"] assms(1,2) by simp
  with rest show ?thesis by simp
qed

lemma canonical_bytes_inj:
  assumes a: "canonical_bytes x p f = Inr b" and b: "canonical_bytes x q g = Inr b"
  shows "p = q" "bf_topic f = bf_topic g" "bf_correlation f = bf_correlation g"
    "sha256_raw x (bf_payload f) = sha256_raw x (bf_payload g)" "bf_qos f = bf_qos g" "bf_retain f = bf_retain g"
proof -
  let ?enc = "\<lambda>v. be_bytes 4 (length v) @ v"
  let ?m = "\<lambda>p f. [p, bf_topic f, bf_correlation f, sha256_raw x (bf_payload f), [char_of (unat (bf_qos f))],
    [char_of (if bf_retain f then 1 else 0 :: nat)]]"
  have dec: "(\<forall>v \<in> set (?m p f). length v < 2 ^ 32) \<and> b = (ASSERTION_DOMAIN @ ?enc VERSION) @ concat (map ?enc (?m p f))"
    if "canonical_bytes x p f = Inr b" for p f
    using that by (auto simp: canonical_bytes_def append_field_Inr Let_def)
  have conc: "concat (map ?enc vs) = concat (map ?enc us) \<Longrightarrow> length vs = length us \<Longrightarrow>
      \<forall>v \<in> set vs \<union> set us. length v < 2 ^ 32 \<Longrightarrow> vs = us" for vs us :: "bytes list"
  proof (induction vs us rule: list_induct2')
    case (4 v vs u us)
    then show ?case using field_inj [of v u "concat (map ?enc vs)" "concat (map ?enc us)"] by simp
  qed simp_all
  have eq: "?m p f = ?m q g"
  proof (rule conc)
    show "concat (map ?enc (?m p f)) = concat (map ?enc (?m q g))"
      using trans [OF sym [OF conjunct2 [OF dec [OF a]]] conjunct2 [OF dec [OF b]]] by (simp only: same_append_eq)
    show "length (?m p f) = length (?m q g)" by simp
    show "\<forall>v \<in> set (?m p f) \<union> set (?m q g). length v < 2 ^ 32" using dec [OF a] dec [OF b] by blast
  qed
  then show "p = q" "bf_topic f = bf_topic g" "bf_correlation f = bf_correlation g"
    "sha256_raw x (bf_payload f) = sha256_raw x (bf_payload g)"
    by simp_all
  have "(of_char (char_of (unat (bf_qos f)) :: char) :: nat) = of_char (char_of (unat (bf_qos g)) :: char)"
    using eq by simp
  then have "unat (bf_qos f) mod 256 = unat (bf_qos g) mod 256" by (simp only: of_char_of)
  moreover have "unat (bf_qos f) < 256" "unat (bf_qos g) < 256"
    using unsigned_less [of "bf_qos f"] unsigned_less [of "bf_qos g"] by simp_all
  ultimately show "bf_qos f = bf_qos g" by (simp add: word_unat_eq_iff)
  show "bf_retain f = bf_retain g" using eq by (simp split: if_splits)
qed

section \<open>What verification establishes\<close>

definition property_values :: "string \<Rightarrow> (string \<times> string) list \<Rightarrow> string list" where
  "property_values key properties = map snd (filter (\<lambda>(k, _). k = key) properties)"

definition reserved_keys_known :: "(string \<times> string) list \<Rightarrow> bool" where
  "reserved_keys_known properties \<longleftrightarrow> (\<forall>(k, v) \<in> set properties. starts_with k RESERVED_PREFIX \<longrightarrow>
     k \<in> {VERSION_KEY, PRINCIPAL_KEY, SIGNATURE_KEY})"

abbreviation slot :: "'a option \<Rightarrow> 'a list" where
  "slot s \<equiv> (case s of None \<Rightarrow> [] | Some v \<Rightarrow> [v])"

lemma property_values_simps [simp]:
  "property_values k [] = []"
  "property_values k ((a, v) # ps) = (if a = k then v # property_values k ps else property_values k ps)"
  by (simp_all add: property_values_def)

lemma reserved_keys [simp]:
  "starts_with VERSION_KEY RESERVED_PREFIX" "starts_with PRINCIPAL_KEY RESERVED_PREFIX"
  "starts_with SIGNATURE_KEY RESERVED_PREFIX"
  "VERSION_KEY \<noteq> PRINCIPAL_KEY" "VERSION_KEY \<noteq> SIGNATURE_KEY" "PRINCIPAL_KEY \<noteq> SIGNATURE_KEY"
  "PRINCIPAL_KEY \<noteq> VERSION_KEY" "SIGNATURE_KEY \<noteq> VERSION_KEY" "SIGNATURE_KEY \<noteq> PRINCIPAL_KEY"
  by (simp_all add: starts_with_def VERSION_KEY_def PRINCIPAL_KEY_def SIGNATURE_KEY_def RESERVED_PREFIX_def)

lemma slot_append: "slot s @ vs = slot s' \<Longrightarrow> s \<noteq> None \<Longrightarrow> vs = [] \<and> s' = s"
  by (auto split: option.splits)

lemma collect_properties_Inr:
  "collect_properties ps (v, u, s) = Inr (v', u', s') \<longleftrightarrow>
     slot v @ property_values VERSION_KEY ps = slot v' \<and> slot u @ property_values PRINCIPAL_KEY ps = slot u'
     \<and> slot s @ property_values SIGNATURE_KEY ps = slot s' \<and> reserved_keys_known ps"
proof (induction ps arbitrary: v u s)
  case Nil
  then show ?case by (auto simp: reserved_keys_known_def split: option.splits)
next
  case (Cons kv ps)
  obtain k w where kv: "kv = (k, w)" by (cases kv)
  consider (plain) "\<not> starts_with k RESERVED_PREFIX" | (version) "k = VERSION_KEY" | (prin) "k = PRINCIPAL_KEY"
    | (signature) "k = SIGNATURE_KEY"
    | (other) "starts_with k RESERVED_PREFIX" "k \<notin> {VERSION_KEY, PRINCIPAL_KEY, SIGNATURE_KEY}" by blast
  then show ?case
  proof cases
    case plain
    then have "k \<noteq> VERSION_KEY" "k \<noteq> PRINCIPAL_KEY" "k \<noteq> SIGNATURE_KEY" by auto
    with plain kv Cons.IH show ?thesis by (simp add: reserved_keys_known_def)
  next
    case version
    then show ?thesis using kv Cons.IH [of "Some w" u s]
      by (cases v) (auto simp: reserved_keys_known_def split: option.splits)
  next
    case prin
    then show ?thesis using kv Cons.IH [of v "Some w" s]
      by (cases u) (auto simp: reserved_keys_known_def split: option.splits)
  next
    case signature
    then show ?thesis using kv Cons.IH [of v u "Some w"]
      by (cases s) (auto simp: reserved_keys_known_def split: option.splits)
  next
    case other
    then show ?thesis using kv by (auto simp: reserved_keys_known_def)
  qed
qed

lemma parse_assertion_properties_Inr:
  "parse_assertion_properties ps = Inr a \<longleftrightarrow> property_values VERSION_KEY ps = [VERSION]
     \<and> property_values PRINCIPAL_KEY ps = [ap_principal a] \<and> property_values SIGNATURE_KEY ps = [ap_signature a]
     \<and> reserved_keys_known ps"
proof
  assume "parse_assertion_properties ps = Inr a"
  then obtain v u s where "collect_properties ps (None, None, None) = Inr (v, u, s)" "v = Some VERSION"
    "u = Some (ap_principal a)" "s = Some (ap_signature a)"
    by (auto simp: parse_assertion_properties_def ok_or_def split: if_splits option.splits)
  then show "property_values VERSION_KEY ps = [VERSION]
     \<and> property_values PRINCIPAL_KEY ps = [ap_principal a] \<and> property_values SIGNATURE_KEY ps = [ap_signature a]
     \<and> reserved_keys_known ps" by (simp add: collect_properties_Inr)
next
  assume "property_values VERSION_KEY ps = [VERSION]
     \<and> property_values PRINCIPAL_KEY ps = [ap_principal a] \<and> property_values SIGNATURE_KEY ps = [ap_signature a]
     \<and> reserved_keys_known ps"
  then have "collect_properties ps (None, None, None) = Inr (Some VERSION, Some (ap_principal a), Some (ap_signature a))"
    by (simp add: collect_properties_Inr)
  then show "parse_assertion_properties ps = Inr a" by (simp add: parse_assertion_properties_def)
qed

definition frame_authentic ::
  "'z assertion_externals_scheme \<Rightarrow> broker_assertion_verifier \<Rightarrow> device_identity \<Rightarrow> broker_publish_frame \<Rightarrow> bool" where
  "frame_authentic x verifier identity frame \<longleftrightarrow> bf_qos frame = 1 \<and> \<not> bf_retain frame
     \<and> property_values VERSION_KEY (bf_properties frame) = [VERSION]
     \<and> property_values PRINCIPAL_KEY (bf_properties frame) = [principal_urn x identity]
     \<and> reserved_keys_known (bf_properties frame)
     \<and> (\<exists>encoded signature signed. property_values SIGNATURE_KEY (bf_properties frame) = [encoded]
          \<and> base64url_decode x encoded = Some signature \<and> length signature = 64
          \<and> canonical_bytes x (principal_urn x identity) frame = Inr signed
          \<and> ed25519_verify x (public_key verifier) signed signature)"

lemma verify_frame_iff: "verify_frame x verifier identity frame = Inr () \<longleftrightarrow> frame_authentic x verifier identity frame"
proof
  assume "verify_frame x verifier identity frame = Inr ()"
  then show "frame_authentic x verifier identity frame"
    by (auto simp: verify_frame_def frame_authentic_def parse_assertion_properties_Inr split: if_splits)
next
  assume a: "frame_authentic x verifier identity frame"
  then obtain encoded where "parse_assertion_properties (bf_properties frame)
      = Inr \<lparr> ap_principal = principal_urn x identity, ap_signature = encoded \<rparr>"
      "property_values SIGNATURE_KEY (bf_properties frame) = [encoded]"
    by (auto simp: frame_authentic_def parse_assertion_properties_Inr)
  with a show "verify_frame x verifier identity frame = Inr ()"
    by (auto simp: verify_frame_def frame_authentic_def)
qed

lemma from_base64_Inr:
  "from_base64 x value = Inr v \<longleftrightarrow> base64url_decode x value = Some (public_key v) \<and> length (public_key v) = 32
     \<and> base64url_encode x (public_key v) = value \<and> \<not> list_all (\<lambda>byte. byte = CHR 0x00) (public_key v)"
  by (cases v) (auto simp: from_base64_def ok_or_def split: option.splits if_splits)

lemma mqtt_connection_config_new_Inr:
  "mqtt_connection_config_new host port client expiry capacity verifier = Inr c \<longleftrightarrow>
     \<not> list_all is_whitespace (chars host) \<and> \<not> list_ex is_control (chars host) \<and> port \<noteq> 0
     \<and> client \<noteq> [] \<and> \<not> list_ex is_control (chars client)
     \<and> c = \<lparr> mc_host = host, mc_port = port, mc_client_id = client, mc_session_expiry_seconds = expiry,
             mc_request_capacity = capacity, mc_assertion_verifier = verifier \<rparr>"
  by (auto simp: mqtt_connection_config_new_def trim_chars_empty)

end
