(* ===== verification/Client.thy ===== *)
theory Client
  imports Assertion
begin

text \<open>
  The device-security client, \<^verbatim>\<open>crates/rss-device-security-client/src/lib.rs\<close>: preparation of
  canonical requests, classification of responses and the mapping of canonical payloads to product
  facts. The payload types belong to the generated crate \<^verbatim>\<open>rss_device_security_contracts\<close>; the records
  below have the fields the client uses. Parsing, serialisation and the checks of the generated
  constructors are fields of \<open>contract_externals\<close>.
\<close>

section \<open>Canonical payloads\<close>

datatype dto_key_usage = DtoClientAuth | DtoServerAuth

record dto_policy =
  dp_key_usages :: "dto_key_usage list"
  dp_renew_before_seconds :: i64
  dp_sans :: "string list option"
  dp_validity_seconds :: i64

record dto_policy_request =
  dr_expected_generation :: i64
  dr_idempotency_key :: uuid
  dr_policy :: dto_policy

datatype dto_policy_condition = DtoReconciling | DtoPendingDevice

record dto_policy_response =
  ds_authorization_receipt_id :: uuid
  ds_accepted_generation :: u64
  ds_condition :: dto_policy_condition

text \<open>Error bodies; the conflict body has two variants with the same fields.\<close>

record dto_error =
  de_request_id :: string

datatype dto_conflict =
    ErrCoreVersionConflict string bool    \<comment> \<open>request id, retryable\<close>
  | ErrCoreConflict string bool

datatype dto_active_state = DtoQueued | DtoPublished | DtoReceived
datatype dto_condition_status = DtoTrue | DtoFalse | DtoUnknown
datatype dto_condition_type =
  DtoReady | DtoTypeReconciling | DtoTypePendingDevice | DtoDegraded | DtoQuarantined | DtoDeleting
datatype dto_condition_reason =
    DtoDesiredAccepted | DtoCommandQueued | DtoAwaitingDevice | DtoDeviceReported | DtoStateMatches
  | DtoStateDrift | DtoCommandRejected | DtoCommandTimedOut | DtoProtocolViolation
  | DtoQuarantinedByOperator | DtoDeletionPending | DtoDeletionComplete | DtoArtifactUnavailable
  | DtoTransportUnavailable

record dto_active_command =
  da_fence_epoch :: u64
  da_state :: dto_active_state

record dto_desired =
  dd_generation :: u64
  dd_authorization_receipt_id :: uuid
  dd_active_command :: "dto_active_command option"

record dto_condition =
  dc_observed_generation :: i64
  dc_reason :: dto_condition_reason
  dc_status :: dto_condition_status
  dc_type :: dto_condition_type
  dc_last_transition_at :: i64

record dto_status =
  dt_desired :: "dto_desired option"
  dt_observed_generation :: i64
  dt_conditions :: "dto_condition list"

record dto_apply_request =
  dq_device_id :: uuid
  dq_artifact_id :: string
  dq_artifact_digest :: string
  dq_authorization_receipt_id :: uuid
  dq_deadline_epoch_seconds :: u64
  dq_desired_generation :: u64
  dq_fence_epoch :: u64
  dq_intent_digest :: string
  dq_policy_hash :: string

datatype dto_rejection_reason =
    DtoReasonArtifactUnavailable
  | DtoReasonArtifactDigestMismatch
  | DtoReasonPolicyRejected
  | DtoReasonGenerationStale
  | DtoReasonFenceEpochStale
  | DtoReasonMalformedCommand
  | DtoReasonDeviceFailure

record dto_ack_body =
  dk_command_id :: string
  dk_desired_generation :: u64
  dk_device_id :: uuid
  dk_device_sequence :: i64
  dk_fence_epoch :: u64
  dk_observed_at :: i64

datatype dto_ack =
    ReceivedPayload dto_ack_body
  | RejectedPayload dto_ack_body dto_rejection_reason

record dto_report =
  do_artifact_digest :: string
  do_device_id :: uuid
  do_device_sequence :: i64
  do_expires_at :: "i64 option"
  do_fence_epoch :: u64
  do_observed_at :: i64
  do_observed_generation :: u64
  do_state_hash :: string

record dto_receipt_body =
  dz_device_id :: uuid
  dz_ingress_envelope_id :: string
  dz_committed_at :: i64

datatype dto_stale_reason = DtoGenerationStale | DtoFenceEpochStale | DtoDeviceSequenceStale
datatype dto_ingress_rejection = DtoNotAccepted | DtoSchemaRejected | DtoIngressProtocolViolation

datatype dto_receipt =
    CommittedPayload dto_receipt_body uuid u64      \<comment> \<open>authorization receipt, desired generation\<close>
  | DuplicatePayload dto_receipt_body uuid u64
  | StalePayload dto_receipt_body uuid u64 dto_stale_reason
  | IngressRejectedPayload dto_receipt_body dto_ingress_rejection

section \<open>Third-party calls\<close>

record contract_externals = assertion_externals +
  san_item_ok :: "string \<Rightarrow> bool"
  policy_try_new_ok :: "dto_policy \<Rightarrow> bool"
  policy_request_try_new_ok :: "dto_policy_request \<Rightarrow> bool"
  policy_request_to_vec :: "dto_policy_request \<Rightarrow> bytes option"
  policy_put_method :: string
  policy_put_path :: string
  status_get_method :: string
  status_get_path :: string
  policy_response_from_slice :: "bytes \<Rightarrow> dto_policy_response option"
  validation_from_slice :: "bytes \<Rightarrow> dto_error option"
  not_found_from_slice :: "bytes \<Rightarrow> dto_error option"
  conflict_from_slice :: "bytes \<Rightarrow> dto_conflict option"
  status_from_slice :: "bytes \<Rightarrow> dto_status option"
  apply_request_from_slice :: "bytes \<Rightarrow> dto_apply_request option"
  ack_command_id_ok :: "string \<Rightarrow> bool"
  report_digest_ok :: "string \<Rightarrow> bool"
  ack_to_vec :: "dto_ack \<Rightarrow> bytes option"
  report_to_vec :: "dto_report \<Rightarrow> bytes option"

section \<open>Requests\<close>

text \<open>\<open>str::replace\<close> for a non-empty pattern.\<close>

function str_replace :: "string \<Rightarrow> string \<Rightarrow> string \<Rightarrow> string" where
  "str_replace pat rep s =
     (if s = [] then []
      else if pat \<noteq> [] \<and> prefix pat s then rep @ str_replace pat rep (drop (length pat) s)
      else hd s # str_replace pat rep (tl s))"
  by auto
termination by (relation "measure (\<lambda>(_, _, s). length s)") auto

declare str_replace.simps [simp del]

definition bind_device_path :: "'z externals_scheme \<Rightarrow> string \<Rightarrow> uuid \<Rightarrow> string" where
  "bind_device_path x path_template device_id =
     str_replace ''{deviceId}'' (uuid_hyphenated x device_id) path_template"

record prepared_request =
  pr_method :: string
  pr_path :: string
  pr_body :: "bytes option"

datatype facade_error = InvalidInput | Serialization

definition facade_error_display :: "facade_error \<Rightarrow> string" where
  "facade_error_display e = (case e of InvalidInput \<Rightarrow> ''invalid canonical request input''
     | Serialization \<Rightarrow> ''canonical request serialization failed'')"

definition dto_usage :: "key_usage \<Rightarrow> dto_key_usage" where
  "dto_usage usage = (case usage of ClientAuth \<Rightarrow> DtoClientAuth | ServerAuth \<Rightarrow> DtoServerAuth)"

definition i64_or_invalid :: "u64 \<Rightarrow> (facade_error, i64) result" where
  "i64_or_invalid value = ok_or InvalidInput (i64_try_from_u64 value)"

definition prepare_policy_put ::
  "'z contract_externals_scheme \<Rightarrow> uuid \<Rightarrow> u64 \<Rightarrow> uuid \<Rightarrow> rotation_policy
     \<Rightarrow> (facade_error, prepared_request) result" where
  "prepare_policy_put x device_id expected_generation idempotency_key policy =
     (let key_usages = map dto_usage (rp_key_usages policy) in
      rbind (ensure InvalidInput (list_all (san_item_ok x) (rp_sans policy))) (\<lambda>_.
      rbind (i64_or_invalid (rp_renew_before_seconds policy)) (\<lambda>renew.
      rbind (i64_or_invalid (rp_validity_seconds policy)) (\<lambda>validity.
      rbind (i64_or_invalid expected_generation) (\<lambda>expected.
      let canonical_policy = \<lparr> dp_key_usages = key_usages, dp_renew_before_seconds = renew,
            dp_sans = (if rp_sans policy = [] then None else Some (rp_sans policy)),
            dp_validity_seconds = validity \<rparr>;
          request = \<lparr> dr_expected_generation = expected, dr_idempotency_key = idempotency_key,
            dr_policy = canonical_policy \<rparr>
      in rbind (ensure InvalidInput (policy_try_new_ok x canonical_policy)) (\<lambda>_.
         rbind (ensure InvalidInput (policy_request_try_new_ok x request)) (\<lambda>_.
         rbind (ok_or Serialization (policy_request_to_vec x request)) (\<lambda>body.
         Inr \<lparr> pr_method = policy_put_method x, pr_path = bind_device_path x (policy_put_path x) device_id,
               pr_body = Some body \<rparr>))))))))"

definition prepare_status_get :: "'z contract_externals_scheme \<Rightarrow> uuid \<Rightarrow> prepared_request" where
  "prepare_status_get x device_id = \<lparr> pr_method = status_get_method x,
     pr_path = bind_device_path x (status_get_path x) device_id, pr_body = None \<rparr>"

section \<open>Diagnostics\<close>

datatype diagnostic_kind =
    Validation | KindNotFound | KindConflict | Unauthorized | Forbidden | RateLimited | Upstream
  | Malformed | UnknownStatus

definition diagnostic_kind_code :: "diagnostic_kind \<Rightarrow> string" where
  "diagnostic_kind_code k = (case k of
     Validation \<Rightarrow> ''validation_failed'' | KindNotFound \<Rightarrow> ''not_found'' | KindConflict \<Rightarrow> ''conflict''
   | Unauthorized \<Rightarrow> ''unauthorized'' | Forbidden \<Rightarrow> ''forbidden'' | RateLimited \<Rightarrow> ''rate_limited''
   | Upstream \<Rightarrow> ''upstream_failure'' | Malformed \<Rightarrow> ''malformed_response''
   | UnknownStatus \<Rightarrow> ''unknown_status'')"

definition diagnostic_kind_retryable :: "diagnostic_kind \<Rightarrow> bool" where
  "diagnostic_kind_retryable k \<longleftrightarrow> k \<in> {RateLimited, Upstream}"

record diagnostic =
  dg_kind :: diagnostic_kind
  dg_request_id :: "string option"
  dg_retryable :: bool

definition diagnostic_new :: "diagnostic_kind \<Rightarrow> string option \<Rightarrow> diagnostic" where
  "diagnostic_new kind request_id = \<lparr> dg_kind = kind, dg_request_id = request_id,
     dg_retryable = diagnostic_kind_retryable kind \<rparr>"

definition diagnostic_conflict :: "string \<Rightarrow> bool \<Rightarrow> diagnostic" where
  "diagnostic_conflict request_id retryable = \<lparr> dg_kind = KindConflict, dg_request_id = Some request_id,
     dg_retryable = retryable \<rparr>"

section \<open>Policy responses\<close>

datatype policy_condition = PolicyReconciling | PolicyPendingDevice

definition policy_condition_as_str :: "policy_condition \<Rightarrow> string" where
  "policy_condition_as_str c = (case c of PolicyReconciling \<Rightarrow> ''Reconciling'' | PolicyPendingDevice \<Rightarrow> ''PendingDevice'')"

record policy_accepted_projection =
  pa_receipt_id :: uuid
  pa_generation :: u64
  pa_condition :: policy_condition

datatype policy_response =
    PolicyAccepted policy_accepted_projection
  | PolicyRejectedWith diagnostic

definition conflict_parts :: "dto_conflict \<Rightarrow> string \<times> bool" where
  "conflict_parts c = (case c of ErrCoreVersionConflict request_id retryable \<Rightarrow> (request_id, retryable)
     | ErrCoreConflict request_id retryable \<Rightarrow> (request_id, retryable))"

definition decode_policy_response :: "'z contract_externals_scheme \<Rightarrow> u16 \<Rightarrow> bytes \<Rightarrow> policy_response" where
  "decode_policy_response x status body =
     (let malformed = PolicyRejectedWith (diagnostic_new Malformed None) in
      if status = 200 then
        (case policy_response_from_slice x body of
           None \<Rightarrow> malformed
         | Some value \<Rightarrow> PolicyAccepted \<lparr> pa_receipt_id = ds_authorization_receipt_id value,
             pa_generation = ds_accepted_generation value,
             pa_condition = (case ds_condition value of DtoReconciling \<Rightarrow> PolicyReconciling
               | DtoPendingDevice \<Rightarrow> PolicyPendingDevice) \<rparr>)
      else if status = 400 then
        (case validation_from_slice x body of None \<Rightarrow> malformed
         | Some value \<Rightarrow> PolicyRejectedWith (diagnostic_new Validation (Some (de_request_id value))))
      else if status = 404 then
        (case not_found_from_slice x body of None \<Rightarrow> malformed
         | Some value \<Rightarrow> PolicyRejectedWith (diagnostic_new KindNotFound (Some (de_request_id value))))
      else if status = 409 then
        (case conflict_from_slice x body of None \<Rightarrow> malformed
         | Some value \<Rightarrow> let (request_id, retryable) = conflict_parts value
             in PolicyRejectedWith (diagnostic_conflict request_id retryable))
      else if status = 401 then PolicyRejectedWith (diagnostic_new Unauthorized None)
      else if status = 403 then PolicyRejectedWith (diagnostic_new Forbidden None)
      else if status = 429 then PolicyRejectedWith (diagnostic_new RateLimited None)
      else if 500 \<le> status \<and> status \<le> 599 then PolicyRejectedWith (diagnostic_new Upstream None)
      else PolicyRejectedWith (diagnostic_new UnknownStatus None))"

section \<open>Status responses\<close>

datatype active_command_state = Queued | Published | CommandReceived

definition active_command_state_as_str :: "active_command_state \<Rightarrow> string" where
  "active_command_state_as_str s = (case s of Queued \<Rightarrow> ''queued'' | Published \<Rightarrow> ''published''
     | CommandReceived \<Rightarrow> ''received'')"

datatype condition_status = StatusTrue | StatusFalse | StatusUnknown

definition condition_status_as_str :: "condition_status \<Rightarrow> string" where
  "condition_status_as_str s = (case s of StatusTrue \<Rightarrow> ''True'' | StatusFalse \<Rightarrow> ''False'' | StatusUnknown \<Rightarrow> ''Unknown'')"

datatype condition_type = Ready | TypeReconciling | TypePendingDevice | Degraded | Quarantined | Deleting

definition condition_type_as_str :: "condition_type \<Rightarrow> string" where
  "condition_type_as_str t = (case t of Ready \<Rightarrow> ''Ready'' | TypeReconciling \<Rightarrow> ''Reconciling''
     | TypePendingDevice \<Rightarrow> ''PendingDevice'' | Degraded \<Rightarrow> ''Degraded'' | Quarantined \<Rightarrow> ''Quarantined''
     | Deleting \<Rightarrow> ''Deleting'')"

datatype condition_reason =
    DesiredAccepted | CommandQueued | AwaitingDevice | DeviceReported | StateMatches | StateDrift
  | CommandRejected | CommandTimedOut | ProtocolViolation | QuarantinedByOperator | DeletionPending
  | DeletionComplete | ConditionArtifactUnavailable | TransportUnavailable

definition condition_reason_as_str :: "condition_reason \<Rightarrow> string" where
  "condition_reason_as_str r = (case r of
     DesiredAccepted \<Rightarrow> ''DesiredAccepted'' | CommandQueued \<Rightarrow> ''CommandQueued''
   | AwaitingDevice \<Rightarrow> ''AwaitingDevice'' | DeviceReported \<Rightarrow> ''DeviceReported''
   | StateMatches \<Rightarrow> ''StateMatches'' | StateDrift \<Rightarrow> ''StateDrift''
   | CommandRejected \<Rightarrow> ''CommandRejected'' | CommandTimedOut \<Rightarrow> ''CommandTimedOut''
   | ProtocolViolation \<Rightarrow> ''ProtocolViolation'' | QuarantinedByOperator \<Rightarrow> ''QuarantinedByOperator''
   | DeletionPending \<Rightarrow> ''DeletionPending'' | DeletionComplete \<Rightarrow> ''DeletionComplete''
   | ConditionArtifactUnavailable \<Rightarrow> ''ArtifactUnavailable'' | TransportUnavailable \<Rightarrow> ''TransportUnavailable'')"

record active_command_projection =
  aj_fence_epoch :: u64
  aj_state :: active_command_state

record condition_projection =
  cj_observed_generation :: u64
  cj_reason :: condition_reason
  cj_status :: condition_status
  cj_type :: condition_type
  cj_last_transition_at :: i64

record status_projection =
  sj_desired_generation :: "u64 option"
  sj_authorization_receipt_id :: "uuid option"
  sj_observed_generation :: u64
  sj_active_command :: "active_command_projection option"
  sj_conditions :: "condition_projection list"

datatype status_response = Observed status_projection | StatusRejected diagnostic

definition project_state :: "dto_active_state \<Rightarrow> active_command_state" where
  "project_state s = (case s of DtoQueued \<Rightarrow> Queued | DtoPublished \<Rightarrow> Published | DtoReceived \<Rightarrow> CommandReceived)"

definition project_reason :: "dto_condition_reason \<Rightarrow> condition_reason" where
  "project_reason r = (case r of
     DtoDesiredAccepted \<Rightarrow> DesiredAccepted | DtoCommandQueued \<Rightarrow> CommandQueued
   | DtoAwaitingDevice \<Rightarrow> AwaitingDevice | DtoDeviceReported \<Rightarrow> DeviceReported
   | DtoStateMatches \<Rightarrow> StateMatches | DtoStateDrift \<Rightarrow> StateDrift
   | DtoCommandRejected \<Rightarrow> CommandRejected | DtoCommandTimedOut \<Rightarrow> CommandTimedOut
   | DtoProtocolViolation \<Rightarrow> ProtocolViolation | DtoQuarantinedByOperator \<Rightarrow> QuarantinedByOperator
   | DtoDeletionPending \<Rightarrow> DeletionPending | DtoDeletionComplete \<Rightarrow> DeletionComplete
   | DtoArtifactUnavailable \<Rightarrow> ConditionArtifactUnavailable
   | DtoTransportUnavailable \<Rightarrow> TransportUnavailable)"

definition project_status :: "dto_condition_status \<Rightarrow> condition_status" where
  "project_status s = (case s of DtoTrue \<Rightarrow> StatusTrue | DtoFalse \<Rightarrow> StatusFalse | DtoUnknown \<Rightarrow> StatusUnknown)"

definition project_type :: "dto_condition_type \<Rightarrow> condition_type" where
  "project_type t = (case t of DtoReady \<Rightarrow> Ready | DtoTypeReconciling \<Rightarrow> TypeReconciling
     | DtoTypePendingDevice \<Rightarrow> TypePendingDevice | DtoDegraded \<Rightarrow> Degraded
     | DtoQuarantined \<Rightarrow> Quarantined | DtoDeleting \<Rightarrow> Deleting)"

text \<open>The loop over the conditions stops at the first negative generation.\<close>

fun project_conditions :: "dto_condition list \<Rightarrow> condition_projection list option" where
  "project_conditions [] = Some []"
| "project_conditions (condition # rest) =
     (case u64_try_from_i64 (dc_observed_generation condition) of
        None \<Rightarrow> None
      | Some generation \<Rightarrow> map_option (Cons \<lparr> cj_observed_generation = generation,
            cj_reason = project_reason (dc_reason condition), cj_status = project_status (dc_status condition),
            cj_type = project_type (dc_type condition),
            cj_last_transition_at = dc_last_transition_at condition \<rparr>) (project_conditions rest))"

definition decode_status_response :: "'z contract_externals_scheme \<Rightarrow> u16 \<Rightarrow> bytes \<Rightarrow> status_response" where
  "decode_status_response x status body =
     (if status \<noteq> 200 then
        let kind = (if status = 401 then Unauthorized else if status = 403 then Forbidden
              else if status = 404 then KindNotFound else if status = 429 then RateLimited
              else if 500 \<le> status \<and> status \<le> 599 then Upstream else UnknownStatus)
        in StatusRejected (diagnostic_new kind None)
      else
        case status_from_slice x body of
          None \<Rightarrow> StatusRejected (diagnostic_new Malformed None)
        | Some value \<Rightarrow>
            (case u64_try_from_i64 (dt_observed_generation value) of
               None \<Rightarrow> StatusRejected (diagnostic_new Malformed None)
             | Some observed_generation \<Rightarrow>
                 (case project_conditions (dt_conditions value) of
                    None \<Rightarrow> StatusRejected (diagnostic_new Malformed None)
                  | Some conditions \<Rightarrow> Observed \<lparr>
                      sj_desired_generation = map_option dd_generation (dt_desired value),
                      sj_authorization_receipt_id = map_option dd_authorization_receipt_id (dt_desired value),
                      sj_observed_generation = observed_generation,
                      sj_active_command = map_option (\<lambda>command. \<lparr> aj_fence_epoch = da_fence_epoch command,
                          aj_state = project_state (da_state command) \<rparr>)
                        (Option.bind (dt_desired value) dd_active_command),
                      sj_conditions = conditions \<rparr>)))"

section \<open>Mapping to product facts\<close>

record mapping_context =
  mx_coordinates :: rotation_coordinates
  mx_expected_device_id :: uuid

datatype mapping_error =
    DeviceMismatch uuid uuid      \<comment> \<open>expected, actual\<close>
  | NegativeDeviceSequence i64
  | InvalidProductReference rotation_model_error

definition mapping_error_display :: "mapping_error \<Rightarrow> string" where
  "mapping_error_display e = (case e of DeviceMismatch _ _ \<Rightarrow> ''device mismatch''
     | NegativeDeviceSequence _ \<Rightarrow> ''negative device sequence''
     | InvalidProductReference _ \<Rightarrow> ''invalid product reference'')"

definition mapping_error_source :: "mapping_error \<Rightarrow> rotation_model_error option" where
  "mapping_error_source e = (case e of InvalidProductReference error \<Rightarrow> Some error
     | DeviceMismatch _ _ \<Rightarrow> None | NegativeDeviceSequence _ \<Rightarrow> None)"

definition require_device :: "mapping_context \<Rightarrow> uuid \<Rightarrow> (mapping_error, unit) result" where
  "require_device context actual =
     (if actual = mx_expected_device_id context then Inr ()
      else Inl (DeviceMismatch (mx_expected_device_id context) actual))"

abbreviation product :: "(rotation_model_error, 'a) result \<Rightarrow> (mapping_error, 'a) result" where
  "product \<equiv> map_err InvalidProductReference"

record correlated_command =
  cc_context :: mapping_context
  cc_envelope :: command_ref
  cc_request :: dto_apply_request

definition correlate_command ::
  "mapping_context \<Rightarrow> command_ref \<Rightarrow> dto_apply_request \<Rightarrow> (mapping_error, correlated_command) result" where
  "correlate_command context envelope request =
     rbind (require_device context (dq_device_id request)) (\<lambda>_.
     Inr \<lparr> cc_context = context, cc_envelope = envelope, cc_request = request \<rparr>)"

definition receipt_ref ::
  "'z externals_scheme \<Rightarrow> uuid \<Rightarrow> (mapping_error, authorization_receipt_ref) result" where
  "receipt_ref x value = product (authorization_receipt_ref_try_from (uuid_hyphenated x value))"

definition lineage :: "'z externals_scheme \<Rightarrow> uuid \<Rightarrow> u64 \<Rightarrow> (mapping_error, receipt_lineage) result" where
  "lineage x authorization_receipt desired_generation =
     rbind (receipt_ref x authorization_receipt) (\<lambda>receipt.
     rbind (product (generation_try_from desired_generation)) (\<lambda>generation.
     Inr \<lparr> rl_authorization_receipt = receipt, rl_desired_generation = generation \<rparr>))"

definition map_sequence :: "i64 \<Rightarrow> (mapping_error, device_sequence) result" where
  "map_sequence value = (case u64_try_from_i64 value of
     None \<Rightarrow> Inl (NegativeDeviceSequence value) | Some n \<Rightarrow> Inr (DeviceSequence n))"

definition map_policy_success ::
  "'z externals_scheme \<Rightarrow> mapping_context \<Rightarrow> dto_policy_response \<Rightarrow> (mapping_error, rotation_accepted) result" where
  "map_policy_success x context response =
     (let condition = (case ds_condition response of DtoReconciling \<Rightarrow> AcceptReconciling
        | DtoPendingDevice \<Rightarrow> AcceptPendingDevice) in
      rbind (receipt_ref x (ds_authorization_receipt_id response)) (\<lambda>receipt.
      rbind (product (generation_try_from (ds_accepted_generation response))) (\<lambda>generation.
      Inr \<lparr> rotation_accepted.ra_coordinates = mx_coordinates context, ra_authorization_receipt = receipt,
            ra_accepted_generation = generation, ra_condition = condition \<rparr>)))"

datatype policy_put_failure = PolicyNotFound dto_error | PolicyConflict dto_conflict

definition map_policy_not_found :: "dto_error \<Rightarrow> policy_put_failure" where
  "map_policy_not_found response = PolicyNotFound response"

definition map_policy_conflict :: "dto_conflict \<Rightarrow> policy_put_failure" where
  "map_policy_conflict response = PolicyConflict response"

record status_observation =
  so_context :: mapping_context
  so_response :: dto_status

definition observe_status :: "mapping_context \<Rightarrow> dto_status \<Rightarrow> status_observation" where
  "observe_status context response = \<lparr> so_context = context, so_response = response \<rparr>"

definition map_reason :: "dto_rejection_reason \<Rightarrow> command_rejection_reason" where
  "map_reason r = (case r of
     DtoReasonArtifactUnavailable \<Rightarrow> ReasonArtifactUnavailable
   | DtoReasonArtifactDigestMismatch \<Rightarrow> ReasonArtifactDigestMismatch
   | DtoReasonPolicyRejected \<Rightarrow> ReasonPolicyRejected
   | DtoReasonGenerationStale \<Rightarrow> ReasonGenerationStale
   | DtoReasonFenceEpochStale \<Rightarrow> ReasonFenceEpochStale
   | DtoReasonMalformedCommand \<Rightarrow> ReasonMalformedCommand
   | DtoReasonDeviceFailure \<Rightarrow> ReasonDeviceFailure)"

definition map_ack ::
  "mapping_context \<Rightarrow> event_ref \<Rightarrow> dto_ack_body \<Rightarrow> command_acknowledgement_outcome
     \<Rightarrow> (mapping_error, command_acknowledgement) result" where
  "map_ack context event projection outcome =
     rbind (product (command_ref_try_from (dk_command_id projection))) (\<lambda>command.
     rbind (product (generation_try_from (dk_desired_generation projection))) (\<lambda>generation.
     rbind (product (fence_epoch_try_from (dk_fence_epoch projection))) (\<lambda>fence.
     rbind (map_sequence (dk_device_sequence projection)) (\<lambda>seq.
     Inr \<lparr> ca_coordinates = mx_coordinates context, ca_event = event, ca_command = command,
           ca_position = \<lparr> ap_desired_generation = generation, ap_fence_epoch = fence,
             ap_device_sequence = seq, ap_observed_at = UnixTimestamp (dk_observed_at projection) \<rparr>,
           ca_outcome = outcome \<rparr>))))"

definition map_acknowledgement ::
  "mapping_context \<Rightarrow> event_ref \<Rightarrow> dto_ack \<Rightarrow> (mapping_error, command_acknowledgement) result" where
  "map_acknowledgement context event payload = (case payload of
     ReceivedPayload body \<Rightarrow>
       rbind (require_device context (dk_device_id body)) (\<lambda>_. map_ack context event body AckReceived)
   | RejectedPayload body reason \<Rightarrow>
       rbind (require_device context (dk_device_id body)) (\<lambda>_.
       map_ack context event body (AckRejected (map_reason reason))))"

definition map_report ::
  "mapping_context \<Rightarrow> event_ref \<Rightarrow> dto_report \<Rightarrow> (mapping_error, credential_report) result" where
  "map_report context event payload =
     rbind (require_device context (do_device_id payload)) (\<lambda>_.
     rbind (product (generation_try_from (do_observed_generation payload))) (\<lambda>generation.
     rbind (product (fence_epoch_try_from (do_fence_epoch payload))) (\<lambda>fence.
     rbind (map_sequence (do_device_sequence payload)) (\<lambda>seq.
     rbind (product (state_hash_try_from (do_state_hash payload))) (\<lambda>hash.
     rbind (product (artifact_digest_try_from (do_artifact_digest payload))) (\<lambda>digest.
     Inr \<lparr> cr_coordinates = mx_coordinates context, cr_event = event,
           cr_position = \<lparr> rpos_observed_generation = generation, rpos_fence_epoch = fence,
             rpos_device_sequence = seq, rpos_observed_at = UnixTimestamp (do_observed_at payload) \<rparr>,
           cr_state_hash = hash, cr_artifact_digest = digest,
           cr_expires_at = map_option UnixTimestamp (do_expires_at payload) \<rparr>))))))"

definition make_receipt ::
  "mapping_context \<Rightarrow> event_ref \<Rightarrow> string \<Rightarrow> application_receipt_outcome \<Rightarrow> i64
     \<Rightarrow> (mapping_error, application_receipt_observation) result" where
  "make_receipt context event ingress_envelope outcome committed_at =
     rbind (product (ingress_envelope_ref_try_from ingress_envelope)) (\<lambda>envelope.
     Inr \<lparr> ar_coordinates = mx_coordinates context, ar_event = event, ar_ingress_envelope = envelope,
           ar_outcome = outcome, ar_committed_at = UnixTimestamp committed_at \<rparr>)"

definition map_receipt ::
  "'z externals_scheme \<Rightarrow> mapping_context \<Rightarrow> event_ref \<Rightarrow> dto_receipt
     \<Rightarrow> (mapping_error, application_receipt_observation) result" where
  "map_receipt x context event payload = (case payload of
     CommittedPayload body receipt generation \<Rightarrow>
       rbind (require_device context (dz_device_id body)) (\<lambda>_.
       rbind (lineage x receipt generation) (\<lambda>l.
       make_receipt context event (dz_ingress_envelope_id body) (Committed l) (dz_committed_at body)))
   | DuplicatePayload body receipt generation \<Rightarrow>
       rbind (require_device context (dz_device_id body)) (\<lambda>_.
       rbind (lineage x receipt generation) (\<lambda>l.
       make_receipt context event (dz_ingress_envelope_id body) (DuplicateReceipt l) (dz_committed_at body)))
   | StalePayload body receipt generation reason \<Rightarrow>
       rbind (require_device context (dz_device_id body)) (\<lambda>_.
       rbind (lineage x receipt generation) (\<lambda>l.
       make_receipt context event (dz_ingress_envelope_id body)
         (StaleReceipt l (case reason of DtoGenerationStale \<Rightarrow> StaleGeneration
            | DtoFenceEpochStale \<Rightarrow> StaleFenceEpoch | DtoDeviceSequenceStale \<Rightarrow> StaleDeviceSequence))
         (dz_committed_at body)))
   | IngressRejectedPayload body reason \<Rightarrow>
       rbind (require_device context (dz_device_id body)) (\<lambda>_.
       make_receipt context event (dz_ingress_envelope_id body)
         (RejectedReceipt (case reason of DtoNotAccepted \<Rightarrow> RejectNotAccepted
            | DtoSchemaRejected \<Rightarrow> RejectSchemaRejected
            | DtoIngressProtocolViolation \<Rightarrow> RejectProtocolViolation))
         (dz_committed_at body)))"

section \<open>Lemmas\<close>

lemma require_device_Inr [simp]: "require_device context d = Inr () \<longleftrightarrow> d = mx_expected_device_id context"
  by (simp add: require_device_def)

text \<open>Facts are only mapped for the expected device and keep the coordinates of their context.\<close>

definition dto_ack_device :: "dto_ack \<Rightarrow> uuid" where
  "dto_ack_device p = (case p of ReceivedPayload b \<Rightarrow> dk_device_id b | RejectedPayload b _ \<Rightarrow> dk_device_id b)"

definition dto_receipt_device :: "dto_receipt \<Rightarrow> uuid" where
  "dto_receipt_device p = (case p of CommittedPayload b _ _ \<Rightarrow> dz_device_id b | DuplicatePayload b _ _ \<Rightarrow> dz_device_id b
     | StalePayload b _ _ _ \<Rightarrow> dz_device_id b | IngressRejectedPayload b _ \<Rightarrow> dz_device_id b)"

lemma map_acknowledgement_device:
  "map_acknowledgement context event p = Inr a \<Longrightarrow> dto_ack_device p = mx_expected_device_id context
     \<and> ca_coordinates a = mx_coordinates context \<and> ca_event a = event"
  by (auto simp: map_acknowledgement_def map_ack_def dto_ack_device_def split: dto_ack.splits)

lemma map_report_device:
  "map_report context event p = Inr r \<Longrightarrow> do_device_id p = mx_expected_device_id context
     \<and> cr_coordinates r = mx_coordinates context \<and> cr_event r = event"
  by (auto simp: map_report_def)

lemma map_receipt_device:
  "map_receipt x context event p = Inr r \<Longrightarrow> dto_receipt_device p = mx_expected_device_id context
     \<and> ar_coordinates r = mx_coordinates context \<and> ar_event r = event"
  by (auto simp: map_receipt_def make_receipt_def dto_receipt_device_def split: dto_receipt.splits)

lemma map_sequence_Inr: "map_sequence v = Inr q \<longleftrightarrow> u64_try_from_i64 v = Some (device_sequence_get q)"
  by (cases q) (auto simp: map_sequence_def split: option.splits)

lemma project_conditions_Some:
  "project_conditions cs = Some ps \<longleftrightarrow> list_all2 (\<lambda>c p.
     u64_try_from_i64 (dc_observed_generation c) = Some (cj_observed_generation p)
     \<and> cj_reason p = project_reason (dc_reason c) \<and> cj_status p = project_status (dc_status c)
     \<and> cj_type p = project_type (dc_type c) \<and> cj_last_transition_at p = dc_last_transition_at c) cs ps"
proof (induction cs arbitrary: ps)
  case Nil
  then show ?case by auto
next
  case (Cons c cs)
  show ?case
  proof (cases ps)
    case Nil
    then show ?thesis by (auto split: option.splits)
  next
    case (Cons p qs)
    then show ?thesis using Cons.IH [of qs]
      by (cases p) (auto split: option.splits)
  qed
qed

text \<open>The texts of the closed enumerations tell their values apart.\<close>

lemma inj_by_list:
  assumes "distinct (map f xs)" "\<And>v. v \<in> set xs"
  shows "inj f"
  using assms by (auto simp: distinct_map inj_on_def)

lemma closed_texts_inj:
  "inj policy_condition_as_str" "inj active_command_state_as_str" "inj condition_status_as_str"
  "inj condition_type_as_str" "inj condition_reason_as_str" "inj diagnostic_kind_code"
proof -
  show "inj policy_condition_as_str"
    by (rule inj_by_list [of _ "[PolicyReconciling, PolicyPendingDevice]"])
      (simp add: policy_condition_as_str_def, metis policy_condition.exhaust list.set_intros)
  show "inj active_command_state_as_str"
    by (rule inj_by_list [of _ "[Queued, Published, CommandReceived]"])
      (simp add: active_command_state_as_str_def, rename_tac v, case_tac v, simp_all)
  show "inj condition_status_as_str"
    by (rule inj_by_list [of _ "[StatusTrue, StatusFalse, StatusUnknown]"])
      (simp add: condition_status_as_str_def, rename_tac v, case_tac v, simp_all)
  show "inj condition_type_as_str"
    by (rule inj_by_list [of _ "[Ready, TypeReconciling, TypePendingDevice, Degraded, Quarantined, Deleting]"])
      (simp add: condition_type_as_str_def, rename_tac v, case_tac v, simp_all)
  show "inj condition_reason_as_str"
    by (rule inj_by_list [of _ "[DesiredAccepted, CommandQueued, AwaitingDevice, DeviceReported, StateMatches,
        StateDrift, CommandRejected, CommandTimedOut, ProtocolViolation, QuarantinedByOperator, DeletionPending,
        DeletionComplete, ConditionArtifactUnavailable, TransportUnavailable]"])
      (simp add: condition_reason_as_str_def, rename_tac v, case_tac v, simp_all)
  show "inj diagnostic_kind_code"
    by (rule inj_by_list [of _ "[Validation, KindNotFound, KindConflict, Unauthorized, Forbidden, RateLimited,
        Upstream, Malformed, UnknownStatus]"])
      (simp add: diagnostic_kind_code_def, rename_tac v, case_tac v, simp_all)
qed

lemma diagnostic_retryable:
  "decode_policy_response x status body = PolicyRejectedWith d \<Longrightarrow> dg_retryable d \<longleftrightarrow>
     status = 429 \<or> (500 \<le> status \<and> status \<le> 599)
     \<or> (status = 409 \<and> (\<exists>c. conflict_from_slice x body = Some c \<and> snd (conflict_parts c)))"
  by (auto simp: decode_policy_response_def diagnostic_new_def diagnostic_conflict_def diagnostic_kind_retryable_def
      Let_def split: if_splits option.splits prod.splits)

lemma decode_policy_accepted:
  "decode_policy_response x status body = PolicyAccepted p \<longleftrightarrow> status = 200 \<and> (\<exists>v.
     policy_response_from_slice x body = Some v \<and> pa_receipt_id p = ds_authorization_receipt_id v
     \<and> pa_generation p = ds_accepted_generation v
     \<and> pa_condition p = (case ds_condition v of DtoReconciling \<Rightarrow> PolicyReconciling | DtoPendingDevice \<Rightarrow> PolicyPendingDevice))"
  by (cases p) (auto simp: decode_policy_response_def Let_def split: option.splits prod.splits)

end
