(* ===== verification/Wire.thy ===== *)
theory Wire
  imports Client
begin

text \<open>
  The wire of the device agent, \<^verbatim>\<open>apps/reference-device-agent/src/wire.rs\<close>: canonical commands decoded
  under the identity of their delivery, facts encoded as canonical payloads. JSON and the checks of
  the generated payload types are fields of \<open>contract_externals\<close>.
\<close>

section \<open>Decoding\<close>

datatype wire_error = WireError

abbreviation wire :: "('e, 'a) result \<Rightarrow> (wire_error, 'a) result" where
  "wire \<equiv> map_err (\<lambda>_. WireError)"

definition decode_command ::
  "'z contract_externals_scheme \<Rightarrow> device_identity \<Rightarrow> string \<Rightarrow> bytes \<Rightarrow> (wire_error, device_command) result" where
  "decode_command x identity command_id payload =
     rbind (ok_or WireError (apply_request_from_slice x payload)) (\<lambda>request.
     rbind (wire (rotation_id_try_from command_id)) (\<lambda>rotation.
     rbind (wire (tenant_ref_try_from (uuid_hyphenated x (di_tenant identity)))) (\<lambda>tenant.
     rbind (wire (device_ref_try_from (uuid_hyphenated x (di_device identity)))) (\<lambda>device.
     let context = \<lparr> mx_coordinates = \<lparr> rc_rotation_id = rotation, rc_tenant = tenant, rc_device = device \<rparr>,
           mx_expected_device_id = di_device identity \<rparr> in
     rbind (wire (command_ref_try_from command_id)) (\<lambda>envelope.
     rbind (wire (correlate_command context envelope request)) (\<lambda>correlated.
     let request = cc_request correlated in
     rbind (wire (command_id_try_from command_id)) (\<lambda>cid.
     rbind (wire (artifact_id_try_from (dq_artifact_id request))) (\<lambda>artifact.
     rbind (wire (sha256_digest_try_from (dq_artifact_digest request))) (\<lambda>digest.
     rbind (wire (generation_try_from (dq_desired_generation request))) (\<lambda>generation.
     rbind (wire (fence_epoch_try_from (dq_fence_epoch request))) (\<lambda>fence.
     rbind (wire (sha256_digest_try_from (dq_intent_digest request))) (\<lambda>intent.
     rbind (wire (sha256_digest_try_from (dq_policy_hash request))) (\<lambda>policy.
     Inr \<lparr> dc_command_id = cid, dc_device_id = dq_device_id request, dc_artifact_id = artifact,
           dc_artifact_digest = digest, dc_authorization_receipt_id = dq_authorization_receipt_id request,
           dc_deadline_epoch_seconds = dq_deadline_epoch_seconds request,
           dc_desired_generation = generation, dc_fence_epoch = fence,
           dc_intent_digest = intent, dc_policy_hash = policy \<rparr>)))))))))))))"

section \<open>Encoding\<close>

datatype encoded_outbound_kind = KindCommandAcknowledged | KindCertificateReported

record encoded_outbound =
  eo_event_id :: string
  eo_kind :: encoded_outbound_kind
  eo_payload :: bytes

definition rejection_reason :: "command_rejection \<Rightarrow> dto_rejection_reason" where
  "rejection_reason r = (case r of
     ArtifactUnavailable \<Rightarrow> DtoReasonArtifactUnavailable
   | ArtifactDigestMismatch \<Rightarrow> DtoReasonArtifactDigestMismatch
   | PolicyRejected \<Rightarrow> DtoReasonPolicyRejected
   | GenerationStale \<Rightarrow> DtoReasonGenerationStale
   | FenceEpochStale \<Rightarrow> DtoReasonFenceEpochStale
   | MalformedCommand \<Rightarrow> DtoReasonMalformedCommand
   | DeviceFailure \<Rightarrow> DtoReasonDeviceFailure)"

definition non_zero :: "u64 \<Rightarrow> (wire_error, u64) result" where
  "non_zero n = (if n = 0 then Inl WireError else Inr n)"

definition ack_payload ::
  "'z contract_externals_scheme \<Rightarrow> device_identity \<Rightarrow> ack_fact \<Rightarrow> (wire_error, dto_ack) result" where
  "ack_payload x identity fct =
     rbind (non_zero (af_desired_generation fct)) (\<lambda>desired_generation.
     rbind (non_zero (af_fence_epoch fct)) (\<lambda>fence_epoch.
     rbind (ok_or WireError (i64_try_from_u64 (af_device_sequence fct))) (\<lambda>device_sequence.
     rbind (ensure WireError (ack_command_id_ok x (af_command_id fct))) (\<lambda>_.
     let body = \<lparr> dk_command_id = af_command_id fct, dk_desired_generation = desired_generation,
           dk_device_id = di_device identity, dk_device_sequence = device_sequence,
           dk_fence_epoch = fence_epoch, dk_observed_at = af_observed_at fct \<rparr>
     in Inr (case af_rejection fct of
          None \<Rightarrow> ReceivedPayload body
        | Some rejection \<Rightarrow> RejectedPayload body (rejection_reason rejection))))))"

definition encode_ack ::
  "'z contract_externals_scheme \<Rightarrow> device_identity \<Rightarrow> ack_fact \<Rightarrow> (wire_error, bytes) result" where
  "encode_ack x identity fct =
     rbind (ack_payload x identity fct) (\<lambda>payload. ok_or WireError (ack_to_vec x payload))"

definition report_payload_of ::
  "'z contract_externals_scheme \<Rightarrow> device_identity \<Rightarrow> report_fact \<Rightarrow> (wire_error, dto_report) result" where
  "report_payload_of x identity fct =
     rbind (ensure WireError (report_digest_ok x (rf_artifact_digest fct))) (\<lambda>_.
     rbind (ok_or WireError (i64_try_from_u64 (rf_device_sequence fct))) (\<lambda>device_sequence.
     rbind (non_zero (rf_fence_epoch fct)) (\<lambda>fence_epoch.
     rbind (non_zero (rf_observed_generation fct)) (\<lambda>observed_generation.
     rbind (ensure WireError (report_digest_ok x (rf_state_hash fct))) (\<lambda>_.
     Inr \<lparr> do_artifact_digest = rf_artifact_digest fct, do_device_id = di_device identity,
           do_device_sequence = device_sequence, do_expires_at = rf_expires_at fct,
           do_fence_epoch = fence_epoch, do_observed_at = rf_observed_at fct,
           do_observed_generation = observed_generation, do_state_hash = rf_state_hash fct \<rparr>)))))"

definition encode_report ::
  "'z contract_externals_scheme \<Rightarrow> device_identity \<Rightarrow> report_fact \<Rightarrow> (wire_error, bytes) result" where
  "encode_report x identity fct =
     rbind (report_payload_of x identity fct) (\<lambda>report. ok_or WireError (report_to_vec x report))"

definition encode_outbound ::
  "'z contract_externals_scheme \<Rightarrow> device_identity \<Rightarrow> outbound_fact \<Rightarrow> (wire_error, encoded_outbound) result" where
  "encode_outbound x identity outbound = (case outbound of
     CommandAcknowledged event payload \<Rightarrow>
       rbind (encode_ack x identity payload) (\<lambda>bytes.
       Inr \<lparr> eo_event_id = event, eo_kind = KindCommandAcknowledged, eo_payload = bytes \<rparr>)
   | CertificateReported event payload \<Rightarrow>
       rbind (encode_report x identity payload) (\<lambda>bytes.
       Inr \<lparr> eo_event_id = event, eo_kind = KindCertificateReported, eo_payload = bytes \<rparr>))"

section \<open>Decoded commands\<close>

text \<open>What the type \<open>NonZeroU64\<close> of the deadline guarantees.\<close>

definition deadlines_positive :: "'z contract_externals_scheme \<Rightarrow> bool" where
  "deadlines_positive x \<longleftrightarrow> (\<forall>b r. apply_request_from_slice x b = Some r \<longrightarrow> dq_deadline_epoch_seconds r \<noteq> 0)"

lemma decode_command_sound:
  assumes "decode_command x identity cid payload = Inr c" "deadlines_positive x"
  shows "wf_command c" "dc_device_id c = di_device identity" "command_id_expose (dc_command_id c) = cid"
    "wf_reference cid"
proof -
  obtain request where r: "apply_request_from_slice x payload = Some request"
    and ref: "wf_reference cid" and dev: "dq_device_id request = di_device identity"
    and vals: "wf_command_id cid" "wf_artifact_id (dq_artifact_id request)" "wf_digest (dq_artifact_digest request)"
      "dq_desired_generation request \<noteq> 0" "dq_fence_epoch request \<noteq> 0" "wf_digest (dq_intent_digest request)"
      "wf_digest (dq_policy_hash request)"
    and c: "c = \<lparr> dc_command_id = CommandId cid, dc_device_id = dq_device_id request,
       dc_artifact_id = ArtifactId (dq_artifact_id request), dc_artifact_digest = Sha256Digest (dq_artifact_digest request),
       dc_authorization_receipt_id = dq_authorization_receipt_id request,
       dc_deadline_epoch_seconds = dq_deadline_epoch_seconds request,
       dc_desired_generation = Generation (dq_desired_generation request), dc_fence_epoch = FenceEpoch (dq_fence_epoch request),
       dc_intent_digest = Sha256Digest (dq_intent_digest request), dc_policy_hash = Sha256Digest (dq_policy_hash request) \<rparr>"
    using assms(1)
    by (auto simp: decode_command_def Let_def correlate_command_def opaque_try_from_defs opaque_reference_Inr
        command_id_try_from_Inr artifact_id_try_from_Inr sha256_digest_try_from_Inr)
  have "dq_deadline_epoch_seconds request \<noteq> 0" using assms(2) r by (auto simp: deadlines_positive_def)
  with vals show "wf_command c" by (simp add: wf_command_def c)
  show "dc_device_id c = di_device identity" "command_id_expose (dc_command_id c) = cid" "wf_reference cid"
    using dev ref by (simp_all add: c)
qed

section \<open>Encoded facts reach the controller unchanged\<close>

definition controller_outcome :: "command_rejection option \<Rightarrow> command_acknowledgement_outcome" where
  "controller_outcome r = (case r of None \<Rightarrow> AckReceived | Some q \<Rightarrow> AckRejected (map_reason (rejection_reason q)))"

lemma ack_reaches_controller:
  assumes p: "ack_payload x identity fct = Inr p" and d: "mx_expected_device_id context = di_device identity"
    and c: "wf_reference (af_command_id fct)"
  shows "\<exists>a. map_acknowledgement context event p = Inr a \<and> ca_command a = CommandRef (af_command_id fct)
    \<and> generation_get (ca_desired_generation a) = af_desired_generation fct
    \<and> fence_epoch_get (ca_fence_epoch a) = af_fence_epoch fct
    \<and> device_sequence_get (ca_device_sequence a) = af_device_sequence fct
    \<and> unix_timestamp_get (ca_observed_at a) = af_observed_at fct
    \<and> ca_outcome a = controller_outcome (af_rejection fct)"
proof -
  obtain q where q: "i64_try_from_u64 (af_device_sequence fct) = Some q"
    and nz: "af_desired_generation fct \<noteq> 0" "af_fence_epoch fct \<noteq> 0"
    and b: "p = (let body = \<lparr> dk_command_id = af_command_id fct, dk_desired_generation = af_desired_generation fct,
           dk_device_id = di_device identity, dk_device_sequence = q,
           dk_fence_epoch = af_fence_epoch fct, dk_observed_at = af_observed_at fct \<rparr>
     in case af_rejection fct of None \<Rightarrow> ReceivedPayload body
        | Some rejection \<Rightarrow> RejectedPayload body (rejection_reason rejection))"
    using p by (auto simp: ack_payload_def non_zero_def Let_def split: if_splits)
  have s: "map_sequence q = Inr (DeviceSequence (af_device_sequence fct))"
    using i64_roundtrip [OF q] by (simp add: map_sequence_def)
  show ?thesis
    using nz s c d
    by (cases "af_rejection fct")
      (simp_all add: b Let_def map_acknowledgement_def map_ack_def command_ref_try_from_def opaque_reference_def
        validate_reference_Inr [THEN iffD2] generation_try_from_def fence_epoch_try_from_def controller_outcome_def
        ca_desired_generation_def ca_fence_epoch_def ca_device_sequence_def ca_observed_at_def require_device_def)
qed

lemma report_reaches_controller:
  assumes p: "report_payload_of x identity fct = Inr p" and d: "mx_expected_device_id context = di_device identity"
    and c: "wf_reference (rf_state_hash fct)" "wf_reference (rf_artifact_digest fct)"
  shows "\<exists>r. map_report context event p = Inr r
    \<and> generation_get (cr_observed_generation r) = rf_observed_generation fct
    \<and> fence_epoch_get (cr_fence_epoch r) = rf_fence_epoch fct
    \<and> device_sequence_get (cr_device_sequence r) = rf_device_sequence fct
    \<and> unix_timestamp_get (cr_observed_at r) = rf_observed_at fct
    \<and> state_hash_expose (cr_state_hash r) = rf_state_hash fct
    \<and> artifact_digest_expose (cr_artifact_digest r) = rf_artifact_digest fct
    \<and> map_option unix_timestamp_get (cr_expires_at r) = rf_expires_at fct"
proof -
  obtain q where q: "i64_try_from_u64 (rf_device_sequence fct) = Some q"
    and nz: "rf_observed_generation fct \<noteq> 0" "rf_fence_epoch fct \<noteq> 0"
    and b: "p = \<lparr> do_artifact_digest = rf_artifact_digest fct, do_device_id = di_device identity,
           do_device_sequence = q, do_expires_at = rf_expires_at fct,
           do_fence_epoch = rf_fence_epoch fct, do_observed_at = rf_observed_at fct,
           do_observed_generation = rf_observed_generation fct, do_state_hash = rf_state_hash fct \<rparr>"
    using p by (auto simp: report_payload_of_def non_zero_def split: if_splits)
  have s: "map_sequence q = Inr (DeviceSequence (rf_device_sequence fct))"
    using i64_roundtrip [OF q] by (simp add: map_sequence_def)
  show ?thesis
    using nz s c d
    by (simp add: b map_report_def state_hash_try_from_def artifact_digest_try_from_def opaque_reference_def
        validate_reference_Inr [THEN iffD2] generation_try_from_def fence_epoch_try_from_def option.map_comp option.map_ident o_def
        cr_observed_generation_def cr_fence_epoch_def cr_device_sequence_def cr_observed_at_def require_device_def)
qed

section \<open>Facts of a valid state can be encoded\<close>

text \<open>Digests pass the pattern of the generated types, and serialisation does not fail.\<close>

definition contracts_accept :: "'z contract_externals_scheme \<Rightarrow> bool" where
  "contracts_accept x \<longleftrightarrow> (\<forall>d. wf_digest d \<longrightarrow> report_digest_ok x d)
     \<and> (\<forall>p. ack_to_vec x p \<noteq> None) \<and> (\<forall>p. report_to_vec x p \<noteq> None)"

definition fact_id_ok :: "'z contract_externals_scheme \<Rightarrow> outbound_fact \<Rightarrow> bool" where
  "fact_id_ok x f = (case f of CommandAcknowledged _ a \<Rightarrow> ack_command_id_ok x (af_command_id a) | _ \<Rightarrow> True)"

lemma next_outbound_entry:
  assumes "next_outbound s = Some f"
  shows "\<exists>e \<in> set (st_outbox s). ready_fact e = Some f"
  using assms unfolding next_outbound_def by (auto dest!: find_map_Some split: if_splits)

lemma encode_stored_ack:
  assumes "stored_ack_semantic_valid a" "uint (ak_device_sequence a) \<le> i64_max" "ack_command_id_ok x (ak_command_id a)"
  shows "\<exists>p. ack_payload x identity (ack_fact_of a) = Inr p"
proof -
  have "ak_desired_generation a \<noteq> 0" "ak_fence_epoch a \<noteq> 0"
    using assms(1) by (auto simp: stored_ack_semantic_valid_def)
  then show ?thesis
    using assms(2,3) by (simp add: ack_payload_def ack_fact_of_def non_zero_def i64_try_from_u64_def Let_def)
qed

lemma encode_stored_report:
  assumes "stored_report_semantic_valid r" "uint (rr_device_sequence r) \<le> i64_max"
    and "\<forall>d. wf_digest d \<longrightarrow> report_digest_ok x d"
  shows "\<exists>p. report_payload_of x identity (report_fact_of r) = Inr p"
proof -
  have "rr_observed_generation r \<noteq> 0" "rr_fence_epoch r \<noteq> 0"
    and "report_digest_ok x (rr_artifact_digest r)" "report_digest_ok x (rr_state_hash r)"
    using assms(1,3) by (auto simp: stored_report_semantic_valid_def sha256_digest_is_ok)
  then show ?thesis
    using assms(2) by (simp add: report_payload_of_def report_fact_of_def non_zero_def i64_try_from_u64_def)
qed

lemma encode_valid_fact:
  assumes v: "valid_state x i s" and n: "next_outbound s = Some f" and k: "contracts_accept x" and id: "fact_id_ok x f"
    and small: "uint (st_device_sequence s) \<le> i64_max"
  shows "\<exists>e. encode_outbound x identity f = Inr e \<and> eo_event_id e = outbound_fact_event_id f"
proof -
  obtain e where e: "e \<in> set (st_outbox s)" "ready_fact e = Some f" using next_outbound_entry [OF n] by blast
  note ve = valid_entryD(1) [OF v e(1)]
  have "outbound_sequence e \<le> st_device_sequence s" using ve by (simp add: entry_valid_def)
  then have sm: "uint (outbound_sequence e) \<le> i64_max" using small by (simp add: word_le_def)
  show ?thesis
  proof (cases e)
    case (Ack eid a)
    then have f: "f = CommandAcknowledged eid (ack_fact_of a)" using e(2) by simp
    obtain p where p: "ack_payload x identity (ack_fact_of a) = Inr p"
      using encode_stored_ack [of a x identity] ve sm id Ack
      by (auto simp: entry_valid_def f fact_id_ok_def ack_fact_of_def)
    obtain b where "ack_to_vec x p = Some b" using k by (metis contracts_accept_def not_None_eq)
    with p f show ?thesis by (simp add: encode_outbound_def encode_ack_def)
  next
    case (ReportReady eid r)
    then have f: "f = CertificateReported eid (report_fact_of r)" using e(2) by simp
    obtain p where p: "report_payload_of x identity (report_fact_of r) = Inr p"
      using encode_stored_report [of r x identity] ve sm k ReportReady
      by (auto simp: entry_valid_def contracts_accept_def)
    obtain b where "report_to_vec x p = Some b" using k by (metis contracts_accept_def not_None_eq)
    with p f show ?thesis by (simp add: encode_outbound_def encode_report_def)
  next
    case (ReportBlocked eid r)
    then show ?thesis using e(2) by simp
  qed
qed

end
