(* ===== verification/Mqtt.thy ===== *)
theory Mqtt
  imports Wire "HOL-Library.Multiset"
begin

text \<open>
  The transport session of the device agent, \<^verbatim>\<open>apps/reference-device-agent/src/mqtt.rs\<close>. The client and
  the event loop belong to the \<^verbatim>\<open>rumqttc\<close> crate: whether the client queues a request is a parameter
  (\<open>client_accepts\<close>, of the requests queued before), and what the event loop reports is the argument
  of \<open>poll\<close>. The session itself, its queues and its correlation of packet identifiers, is defined.
\<close>

section \<open>Packets and errors\<close>

datatype qos = AtMostOnce | AtLeastOnce | ExactlyOnce

text \<open>The return codes the source names; every other one is \<open>OtherReturnCode\<close>.\<close>

datatype connect_return_code =
    ServiceUnavailable
  | ServerUnavailable
  | ServerBusy
  | QuotaExceeded
  | ConnectionRateExceeded
  | OtherReturnCode string

datatype connection_error =
    Timeout
  | Io
  | ConnectionRefused connect_return_code
  | OtherConnectionError string

datatype client_error = ClientError

datatype mqtt_error =
    MqttCredentialUnavailable
  | MqttRequest client_error
  | MqttConnection connection_error
  | InvalidCommandFrame
  | UnknownPubAck
  | SubscriptionRejected
  | AssertionRejected

definition is_retryable :: "mqtt_error \<Rightarrow> bool" where
  "is_retryable e = (case e of
     MqttRequest _ \<Rightarrow> True
   | MqttConnection Timeout \<Rightarrow> True
   | MqttConnection Io \<Rightarrow> True
   | MqttConnection (ConnectionRefused code) \<Rightarrow>
       (case code of
          ServiceUnavailable \<Rightarrow> True
        | ServerUnavailable \<Rightarrow> True
        | ServerBusy \<Rightarrow> True
        | QuotaExceeded \<Rightarrow> True
        | ConnectionRateExceeded \<Rightarrow> True
        | _ \<Rightarrow> False)
   | _ \<Rightarrow> False)"

definition mqtt_error_kind :: "mqtt_error \<Rightarrow> string" where
  "mqtt_error_kind e = (case e of
     MqttCredentialUnavailable \<Rightarrow> ''credential_unavailable''
   | MqttRequest _ \<Rightarrow> ''request_queue''
   | MqttConnection error \<Rightarrow>
       (case error of
          Timeout \<Rightarrow> ''timeout''
        | Io \<Rightarrow> ''io''
        | _ \<Rightarrow> ''connection_rejected'')
   | InvalidCommandFrame \<Rightarrow> ''invalid_command_frame''
   | UnknownPubAck \<Rightarrow> ''unknown_puback''
   | SubscriptionRejected \<Rightarrow> ''subscription_rejected''
   | AssertionRejected \<Rightarrow> ''assertion_rejected'')"

record publish_properties =
  pp_correlation_data :: "bytes option"
  pp_user_properties :: "(string \<times> string) list"

record publish_packet =
  pk_topic :: bytes
  pk_qos :: qos
  pk_retain :: bool
  pk_pkid :: u16
  pk_payload :: bytes
  pk_properties :: "publish_properties option"

datatype subscribe_reason_code = SubscribeSuccess qos | SubscribeFailure string
datatype unsub_ack_reason = UnsubSuccess | NoSubscriptionExisted | UnsubFailure string

text \<open>The events of the event loop the session tells apart.\<close>

datatype transport_event =
    IncomingConnAck
  | IncomingSubAck "subscribe_reason_code list"
  | IncomingUnsubAck "unsub_ack_reason list"
  | IncomingPublish publish_packet
  | IncomingPubAck u16
  | OutgoingPublish u16
  | OutgoingPubAck u16
  | OtherTransportEvent

section \<open>Session\<close>

record command_delivery =
  cd_publish :: publish_packet
  cd_topic :: string
  cd_command_id :: string
  cd_identity :: device_identity

datatype mqtt_event =
    Connected
  | Subscribed
  | Unsubscribed
  | Command command_delivery
  | OutboundAcknowledged string
  | InboundAcknowledged "string option"
  | TransportProgress

text \<open>What the session asks of the client, with every argument it passes.\<close>

datatype client_request =
    Subscribe string qos
  | Unsubscribe string
  | Publish string qos bool bytes bytes u8 string
      \<comment> \<open>topic, level, retain flag, payload, correlation data, payload format, content type\<close>
  | AckPublish publish_packet
  | Disconnect

record tls_configuration =
  tc_ca :: bytes
  tc_client_auth :: "bytes \<times> bytes"

record mqtt_options =
  mo_client_id :: string
  mo_host :: string
  mo_port :: u16
  mo_clean_start :: bool
  mo_session_expiry_interval :: "u32 option"
  mo_receive_maximum :: "u16 option"
  mo_manual_acks :: bool
  mo_keep_alive_seconds :: nat
  mo_transport :: tls_configuration
  mo_request_capacity :: nat

record mqtt_session =
  ms_options :: mqtt_options
  ms_requests :: "client_request list"         \<comment> \<open>queued on the client so far\<close>
  ms_topics :: topic_set
  ms_awaiting_packet_id :: "string list"
  ms_packet_events :: "u16 \<rightharpoonup> string"
  ms_inbound_acknowledgements :: "u16 \<rightharpoonup> string option"
  ms_recovery_command :: "recovery_command_scope option"
  ms_assertion_verifier :: broker_assertion_verifier

record transport_externals = contract_externals +
  client_accepts :: "client_request list \<Rightarrow> client_request \<Rightarrow> bool"

type_synonym 'a mqtt_proc = "(mqtt_session, mqtt_error, 'a) proc"

definition mqtt_session_new ::
  "mqtt_connection_config \<Rightarrow> credential_files \<Rightarrow> topic_set \<Rightarrow> recovery_command_scope option
     \<Rightarrow> (world, mqtt_error, mqtt_session) proc" where
  "mqtt_session_new config credentials topics recovery_command =
     pbind (pmap_err (\<lambda>_. MqttCredentialUnavailable) (fs_read (cf_ca_certificate credentials))) (\<lambda>ca.
     pbind (pmap_err (\<lambda>_. MqttCredentialUnavailable) (fs_read (cf_certificate_chain credentials))) (\<lambda>certificate.
     pbind (pmap_err (\<lambda>_. MqttCredentialUnavailable) (fs_read (cf_private_key credentials))) (\<lambda>private_key.
     preturn \<lparr>
       ms_options = \<lparr> mo_client_id = mc_client_id config, mo_host = mc_host config, mo_port = mc_port config,
         mo_clean_start = False, mo_session_expiry_interval = Some (mc_session_expiry_seconds config),
         mo_receive_maximum = Some 1, mo_manual_acks = True, mo_keep_alive_seconds = 15,
         mo_transport = \<lparr> tc_ca = ca, tc_client_auth = (certificate, private_key) \<rparr>,
         mo_request_capacity = mc_request_capacity config \<rparr>,
       ms_requests = [], ms_topics = topics, ms_awaiting_packet_id = [], ms_packet_events = Map.empty,
       ms_inbound_acknowledgements = Map.empty, ms_recovery_command = recovery_command,
       ms_assertion_verifier = mc_assertion_verifier config \<rparr>)))"

definition queue_request :: "'z transport_externals_scheme \<Rightarrow> client_request \<Rightarrow> unit mqtt_proc" where
  "queue_request x q s =
     (if client_accepts x (ms_requests s) q then (s\<lparr> ms_requests := ms_requests s @ [q] \<rparr>, Inr ())
      else (s, Inl (MqttRequest ClientError)))"

definition subscribe :: "'z transport_externals_scheme \<Rightarrow> unit mqtt_proc" where
  "subscribe x s = queue_request x (Subscribe (ts_command (ms_topics s)) AtLeastOnce) s"

definition unsubscribe_command :: "'z transport_externals_scheme \<Rightarrow> unit mqtt_proc" where
  "unsubscribe_command x s = queue_request x (Unsubscribe (ts_command (ms_topics s))) s"

definition unsubscribe_recovery :: "'z transport_externals_scheme \<Rightarrow> unit mqtt_proc" where
  "unsubscribe_recovery x s =
     pbind (plift (ok_or InvalidCommandFrame (ms_recovery_command s))) (\<lambda>recovery.
     queue_request x (Unsubscribe (rs_topic recovery))) s"

definition publish_topic :: "topic_set \<Rightarrow> encoded_outbound_kind \<Rightarrow> string" where
  "publish_topic topics kind = (case kind of
     KindCommandAcknowledged \<Rightarrow> ts_command_acknowledged topics
   | KindCertificateReported \<Rightarrow> ts_certificate_reported topics)"

definition publish :: "'z transport_externals_scheme \<Rightarrow> encoded_outbound \<Rightarrow> unit mqtt_proc" where
  "publish x outbound s =
     pbind (queue_request x (Publish (publish_topic (ms_topics s) (eo_kind outbound)) AtLeastOnce False
       (eo_payload outbound) (eo_event_id outbound) 1 ''application/json'')) (\<lambda>_ s1.
     (s1\<lparr> ms_awaiting_packet_id := ms_awaiting_packet_id s1 @ [eo_event_id outbound] \<rparr>, Inr ())) s"

definition acknowledge_command ::
  "'z transport_externals_scheme \<Rightarrow> command_delivery \<Rightarrow> string option \<Rightarrow> unit mqtt_proc" where
  "acknowledge_command x delivery token =
     pbind (queue_request x (AckPublish (cd_publish delivery))) (\<lambda>_ s1.
     (s1\<lparr> ms_inbound_acknowledgements :=
            (ms_inbound_acknowledgements s1)(pk_pkid (cd_publish delivery) \<mapsto> token) \<rparr>, Inr ()))"

definition disconnect :: "'z transport_externals_scheme \<Rightarrow> unit mqtt_proc" where
  "disconnect x = queue_request x Disconnect"

section \<open>Polling\<close>

definition validate_suback :: "subscribe_reason_code list \<Rightarrow> (mqtt_error, unit) result" where
  "validate_suback codes = ensure SubscriptionRejected (codes = [SubscribeSuccess AtLeastOnce])"

definition validate_unsuback :: "unsub_ack_reason list \<Rightarrow> (mqtt_error, unit) result" where
  "validate_unsuback reasons = ensure SubscriptionRejected (reasons = [UnsubSuccess] \<or> reasons = [NoSubscriptionExisted])"

definition command_delivery ::
  "'z assertion_externals_scheme \<Rightarrow> mqtt_session \<Rightarrow> publish_packet \<Rightarrow> (mqtt_error, mqtt_event) result" where
  "command_delivery x s packet =
     rbind (ok_or InvalidCommandFrame (from_utf8 (pk_topic packet))) (\<lambda>topic.
     if pk_qos packet \<noteq> AtLeastOnce then Inl InvalidCommandFrame
     else
       rbind (ok_or InvalidCommandFrame (Option.bind (pk_properties packet) pp_correlation_data)) (\<lambda>correlation.
       rbind (ok_or InvalidCommandFrame (from_utf8 correlation)) (\<lambda>command_id.
       rbind (map_err (\<lambda>_. InvalidCommandFrame) (command_id_try_from command_id)) (\<lambda>_.
       rbind (if accepts_command (ms_topics s) topic then Inr (ts_identity (ms_topics s))
              else case ms_recovery_command s of
                  Some scope \<Rightarrow>
                    if rs_topic scope = topic \<and> rs_command_id scope = command_id then Inr (rs_identity scope)
                    else Inl InvalidCommandFrame
                | None \<Rightarrow> Inl InvalidCommandFrame) (\<lambda>identity.
       let user_properties = (case pk_properties packet of None \<Rightarrow> [] | Some p \<Rightarrow> pp_user_properties p) in
       rbind (map_err (\<lambda>_. AssertionRejected)
         (verify_command x (ms_assertion_verifier s) identity topic (pk_payload packet) correlation 1
            (pk_retain packet) user_properties)) (\<lambda>_.
       Inr (Command \<lparr> cd_publish = packet, cd_topic = topic, cd_command_id = command_id,
                       cd_identity = identity \<rparr>)))))))"

definition poll ::
  "'z assertion_externals_scheme \<Rightarrow> (connection_error, transport_event) result \<Rightarrow> mqtt_event mqtt_proc" where
  "poll x polled s = (case polled of
     Inl error \<Rightarrow> (s, Inl (MqttConnection error))
   | Inr event \<Rightarrow>
     (case event of
        IncomingConnAck \<Rightarrow> (s, Inr Connected)
      | IncomingSubAck codes \<Rightarrow> (s, rbind (validate_suback codes) (\<lambda>_. Inr Subscribed))
      | IncomingUnsubAck reasons \<Rightarrow> (s, rbind (validate_unsuback reasons) (\<lambda>_. Inr Unsubscribed))
      | IncomingPublish packet \<Rightarrow> (s, command_delivery x s packet)
      | IncomingPubAck pkid \<Rightarrow>
          (case ms_packet_events s pkid of
             None \<Rightarrow> (s, Inl UnknownPubAck)
           | Some eid \<Rightarrow>
               (s\<lparr> ms_packet_events := (ms_packet_events s)(pkid := None) \<rparr>, Inr (OutboundAcknowledged eid)))
      | OutgoingPublish packet_id \<Rightarrow>
          (case ms_awaiting_packet_id s of
             [] \<Rightarrow> (s, Inl UnknownPubAck)
           | eid # rest \<Rightarrow>
               let s1 = s\<lparr> ms_awaiting_packet_id := rest,
                            ms_packet_events := (ms_packet_events s)(packet_id \<mapsto> eid) \<rparr>
               in if ms_packet_events s packet_id \<noteq> None then (s1, Inl UnknownPubAck) else (s1, Inr TransportProgress))
      | OutgoingPubAck packet_id \<Rightarrow>
          (case ms_inbound_acknowledgements s packet_id of
             None \<Rightarrow> (s, Inl UnknownPubAck)
           | Some token \<Rightarrow>
               (s\<lparr> ms_inbound_acknowledgements := (ms_inbound_acknowledgements s)(packet_id := None) \<rparr>,
                Inr (InboundAcknowledged token)))
      | OtherTransportEvent \<Rightarrow> (s, Inr TransportProgress)))"

section \<open>Authenticated deliveries\<close>

definition delivery_frame :: "command_delivery \<Rightarrow> broker_publish_frame" where
  "delivery_frame d = \<lparr> bf_topic = cd_topic d, bf_payload = pk_payload (cd_publish d), bf_correlation = cd_command_id d,
     bf_qos = 1, bf_retain = pk_retain (cd_publish d),
     bf_properties = (case pk_properties (cd_publish d) of None \<Rightarrow> [] | Some p \<Rightarrow> pp_user_properties p) \<rparr>"

text \<open>A delivery is addressed to the session's identity, or is the one command being recovered.\<close>

definition delivery_scoped :: "mqtt_session \<Rightarrow> command_delivery \<Rightarrow> bool" where
  "delivery_scoped s d \<longleftrightarrow>
     (cd_topic d = ts_command (ms_topics s) \<and> cd_identity d = ts_identity (ms_topics s))
     \<or> (\<exists>scope. ms_recovery_command s = Some scope \<and> cd_topic d = rs_topic scope
          \<and> cd_command_id d = rs_command_id scope \<and> cd_identity d = rs_identity scope)"

lemma from_utf8_Some: "from_utf8 b = Some c \<Longrightarrow> c = b"
  by (auto simp: from_utf8_def split: if_splits)

lemma command_delivery_Inr:
  assumes "command_delivery x s packet = Inr e"
  shows "\<exists>d. e = Command d \<and> cd_publish d = packet \<and> delivery_scoped s d \<and> wf_command_id (cd_command_id d)
    \<and> frame_authentic x (ms_assertion_verifier s) (cd_identity d) (delivery_frame d)"
  using assms
  by (auto simp: command_delivery_def verify_command_def verify_frame_iff delivery_frame_def delivery_scoped_def
      accepts_command_def Let_def command_id_try_from_Inr dest!: from_utf8_Some split: if_splits option.splits)

lemma poll_command:
  assumes "poll x polled s = (t, Inr (Command d))"
  shows "t = s" "delivery_scoped s d" "wf_command_id (cd_command_id d)"
    "frame_authentic x (ms_assertion_verifier s) (cd_identity d) (delivery_frame d)"
    "polled = Inr (IncomingPublish (cd_publish d))"
  using assms command_delivery_Inr
  by (fastforce simp: poll_def Let_def split: sum.splits transport_event.splits option.splits list.splits if_splits)+

section \<open>Correlation of outbound acknowledgements\<close>

text \<open>
  The contract a publisher relies on: published events are outstanding until the transport reports
  their acknowledgement, and no acknowledgement is reported for anything else.
\<close>

locale correlated_transport =
  fixes outstanding :: "'s \<Rightarrow> 'k multiset" and wf :: "'s \<Rightarrow> bool"
    and send :: "'m \<Rightarrow> 's \<Rightarrow> 's \<times> ('e, unit) result" and recv :: "'n \<Rightarrow> 's \<Rightarrow> 's \<times> ('e, 'v) result"
    and sent :: "'m \<Rightarrow> 'k" and acked :: "'v \<Rightarrow> 'k multiset"
  assumes send_ok: "wf s \<Longrightarrow> send m s = (t, Inr u) \<Longrightarrow> wf t \<and> outstanding t = add_mset (sent m) (outstanding s)"
    and recv_ok: "wf s \<Longrightarrow> recv n s = (t, Inr v) \<Longrightarrow> wf t \<and> outstanding s = outstanding t + acked v"
begin

lemma recv_one:
  assumes "wf s" "recv n s = (t, Inr v)" "outstanding s = {#k#}"
  shows "(acked v = {#} \<and> outstanding t = {#k#}) \<or> (acked v = {#k#} \<and> outstanding t = {#})"
  using recv_ok [OF assms(1,2)] assms(3) by (metis union_is_single)

lemma recv_none:
  assumes "wf s" "recv n s = (t, Inr v)" "outstanding s = {#}"
  shows "acked v = {#}" "outstanding t = {#}"
  using recv_ok [OF assms(1,2)] assms(3) by auto

end

definition packet_ids_finite :: "mqtt_session \<Rightarrow> bool" where
  "packet_ids_finite s \<longleftrightarrow> finite (dom (ms_packet_events s))"

definition outstanding_events :: "mqtt_session \<Rightarrow> string multiset" where
  "outstanding_events s = mset (ms_awaiting_packet_id s)
     + image_mset (\<lambda>k. the (ms_packet_events s k)) (mset_set (dom (ms_packet_events s)))"

definition acknowledged_events :: "mqtt_event \<Rightarrow> string multiset" where
  "acknowledged_events e = (case e of OutboundAcknowledged k \<Rightarrow> {#k#} | _ \<Rightarrow> {#})"

lemma image_mset_upd:
  assumes "k \<notin> A" "finite A"
  shows "image_mset (\<lambda>j. the ((m(k \<mapsto> v)) j)) (mset_set A) = image_mset (\<lambda>j. the (m j)) (mset_set A)"
  using assms by (intro image_mset_cong) auto

lemma events_remove:
  assumes f: "finite (dom m)" and k: "m k = Some v"
  shows "image_mset (\<lambda>j. the (m j)) (mset_set (dom m))
    = add_mset v (image_mset (\<lambda>j. the ((m(k := None)) j)) (mset_set (dom m - {k})))"
proof -
  have "mset_set (dom m) = add_mset k (mset_set (dom m - {k}))"
    using f k mset_set.insert_remove [of "dom m" k] by (simp add: domI insert_absorb)
  moreover have "image_mset (\<lambda>j. the ((m(k := None)) j)) (mset_set (dom m - {k}))
      = image_mset (\<lambda>j. the (m j)) (mset_set (dom m - {k}))"
    using f by (intro image_mset_cong) auto
  ultimately show ?thesis using k by simp
qed

lemma publish_outstanding:
  assumes "packet_ids_finite s" "publish x m s = (t, Inr u)"
  shows "packet_ids_finite t" "outstanding_events t = add_mset (eo_event_id m) (outstanding_events s)"
  using assms
  by (auto simp: publish_def queue_request_def pbind_def packet_ids_finite_def outstanding_events_def split: if_splits)

lemma poll_outstanding:
  assumes f: "packet_ids_finite s" and p: "poll x n s = (t, Inr v)"
  shows "packet_ids_finite t \<and> outstanding_events s = outstanding_events t + acknowledged_events v"
proof -
  obtain event where n: "n = Inr event" using p by (cases n) (auto simp: poll_def)
  show ?thesis
  proof (cases event)
    case (IncomingPubAck k)
    then obtain e where e: "ms_packet_events s k = Some e"
        "t = s\<lparr> ms_packet_events := (ms_packet_events s)(k := None) \<rparr>" "v = OutboundAcknowledged e"
      using p n by (auto simp: poll_def split: option.splits)
    then show ?thesis
      using f events_remove [of "ms_packet_events s" k e]
      by (simp add: packet_ids_finite_def outstanding_events_def acknowledged_events_def)
  next
    case (OutgoingPublish k)
    then obtain e rest where e: "ms_awaiting_packet_id s = e # rest" "ms_packet_events s k = None"
        "t = s\<lparr> ms_awaiting_packet_id := rest, ms_packet_events := (ms_packet_events s)(k \<mapsto> e) \<rparr>"
        "v = TransportProgress"
      using p n by (auto simp: poll_def Let_def split: list.splits if_splits)
    then show ?thesis
      using f image_mset_upd [of k "dom (ms_packet_events s)" "ms_packet_events s" e]
      by (simp add: packet_ids_finite_def outstanding_events_def acknowledged_events_def domIff)
  next
    case (IncomingPublish packet)
    then obtain d where "v = Command d" "t = s"
      using p n command_delivery_Inr [of x s packet v] by (auto simp: poll_def)
    with f show ?thesis by (simp add: acknowledged_events_def)
  qed (use p n f in \<open>auto simp: poll_def acknowledged_events_def packet_ids_finite_def outstanding_events_def
      split: option.splits\<close>)
qed

interpretation mqtt_transport: correlated_transport outstanding_events packet_ids_finite "publish x" "poll x"
    eo_event_id acknowledged_events
  for x :: "'z transport_externals_scheme"
  by unfold_locales (use publish_outstanding poll_outstanding in \<open>blast+\<close>)

text \<open>The other requests leave the outstanding events alone.\<close>

lemma queue_request_Inr:
  "queue_request x q s = (t, Inr u) \<Longrightarrow> t = s\<lparr> ms_requests := ms_requests s @ [q] \<rparr>"
  by (auto simp: queue_request_def split: if_splits)

lemma queue_request_fst: "fst (queue_request x q s) \<in> {s, s\<lparr> ms_requests := ms_requests s @ [q] \<rparr>}"
  by (simp add: queue_request_def)

lemma session_requests [simp]:
  "packet_ids_finite (s\<lparr> ms_requests := r \<rparr>) = packet_ids_finite s"
  "outstanding_events (s\<lparr> ms_requests := r \<rparr>) = outstanding_events s"
  "packet_ids_finite (s\<lparr> ms_inbound_acknowledgements := m \<rparr>) = packet_ids_finite s"
  "outstanding_events (s\<lparr> ms_inbound_acknowledgements := m \<rparr>) = outstanding_events s"
  by (simp_all add: packet_ids_finite_def outstanding_events_def)

lemma subscription_requests:
  "subscribe x s = (t, Inr u) \<Longrightarrow> t = s\<lparr> ms_requests := ms_requests s @ [Subscribe (ts_command (ms_topics s)) AtLeastOnce] \<rparr>"
  "unsubscribe_command x s = (t, Inr u) \<Longrightarrow> t = s\<lparr> ms_requests := ms_requests s @ [Unsubscribe (ts_command (ms_topics s))] \<rparr>"
  "unsubscribe_recovery x s = (t, Inr u) \<Longrightarrow> \<exists>scope. ms_recovery_command s = Some scope
     \<and> t = s\<lparr> ms_requests := ms_requests s @ [Unsubscribe (rs_topic scope)] \<rparr>"
  "acknowledge_command x d token s = (t, Inr u) \<Longrightarrow> t = s\<lparr> ms_requests := ms_requests s @ [AckPublish (cd_publish d)],
     ms_inbound_acknowledgements := (ms_inbound_acknowledgements s)(pk_pkid (cd_publish d) \<mapsto> token) \<rparr>"
  "disconnect x s = (t, Inr u) \<Longrightarrow> t = s\<lparr> ms_requests := ms_requests s @ [Disconnect] \<rparr>"
  by (auto simp: subscribe_def unsubscribe_command_def unsubscribe_recovery_def acknowledge_command_def disconnect_def
      queue_request_def pbind_def ok_or_def plift_def split: if_splits option.splits)

end
