(* ===== verification/Agent.thy ===== *)
theory Agent
  imports Catalog
begin

text \<open>
  The device agent, \<^verbatim>\<open>crates/reference-device-agent-core/src/agent.rs\<close>: every public operation of
  \<^verbatim>\<open>ReferenceDeviceAgent\<close> over the agent value and the world. An operation computes a candidate
  state, validates it, persists it and only then replaces the state in memory.
\<close>

section \<open>Configuration, errors, the agent value\<close>

record agent_config =
  cfg_identity :: device_identity
  cfg_state_directory :: path
  cfg_catalog :: artifact_catalog
  cfg_initial_position :: installed_credential_position
  cfg_initial_credentials :: credential_files
  cfg_command_retention_seconds :: u32

datatype agent_error =
    Store store_error
  | Credential credential_error
  | InitialArtifactUnavailable
  | UnknownOutbound
  | UnexpectedReconnect
  | UnexpectedDelivery
  | RotationInFlight

record reference_device_agent =
  ag_store :: state_store
  ag_state :: state_v1
  ag_catalog :: artifact_catalog
  ag_command_retention_seconds :: u32

type_synonym 'a agent_proc = "(reference_device_agent \<times> world, agent_error, 'a) proc"

definition on_world :: "(world, agent_error, 'a) proc \<Rightarrow> 'a agent_proc" where
  "on_world m aw = (let (w1, r) = m (snd aw) in ((fst aw, w1), r))"

section \<open>Fingerprints\<close>

definition command_preimage :: "'z externals_scheme \<Rightarrow> device_command \<Rightarrow> bytes" where
  "command_preimage x command =
     ''rss.reference-device-agent.command.v1'' @ [CHR 0x00]
     @ concat (map (\<lambda>value. value @ [CHR 0x00])
         [command_id_expose (dc_command_id command), artifact_id_expose (dc_artifact_id command),
          sha256_digest_expose (dc_artifact_digest command),
          sha256_digest_expose (dc_intent_digest command),
          sha256_digest_expose (dc_policy_hash command)])
     @ uuid_as_bytes x (dc_device_id command)
     @ uuid_as_bytes x (dc_authorization_receipt_id command)
     @ concat (map u64_be_bytes
         [dc_deadline_epoch_seconds command, generation_get (dc_desired_generation command),
          fence_epoch_get (dc_fence_epoch command)])"

definition command_fingerprint :: "'z externals_scheme \<Rightarrow> device_command \<Rightarrow> string" where
  "command_fingerprint x command = ''sha256:'' @ sha256_hex x (command_preimage x command)"

definition malformed_preimage :: "'z externals_scheme \<Rightarrow> string \<Rightarrow> string \<Rightarrow> bytes \<Rightarrow> bytes" where
  "malformed_preimage x topic command_id payload =
     ''rss.reference-device-agent.malformed-command.v1'' @ [CHR 0x00]
     @ topic @ [CHR 0x00] @ command_id @ [CHR 0x00] @ sha256_raw x payload"

definition malformed_fingerprint ::
  "'z externals_scheme \<Rightarrow> string \<Rightarrow> string \<Rightarrow> bytes \<Rightarrow> string" where
  "malformed_fingerprint x topic command_id payload =
     ''sha256:'' @ sha256_hex x (malformed_preimage x topic command_id payload)"

definition catalog_rejection :: "catalog_error \<Rightarrow> command_rejection" where
  "catalog_rejection error = (case error of
     ArtifactNotFound \<Rightarrow> ArtifactUnavailable
   | CatalogUnavailable \<Rightarrow> ArtifactUnavailable
   | DigestMismatch \<Rightarrow> ArtifactDigestMismatch
   | BindingMismatch \<Rightarrow> PolicyRejected
   | Revoked \<Rightarrow> PolicyRejected
   | CatalogMalformed \<Rightarrow> MalformedCommand
   | CatalogCredential e \<Rightarrow> (case e of
       Untrusted \<Rightarrow> PolicyRejected
     | IdentityMismatch \<Rightarrow> PolicyRejected
     | CredentialUnavailable \<Rightarrow> DeviceFailure
     | CredentialMalformed \<Rightarrow> DeviceFailure
     | InsecurePrivateKey \<Rightarrow> DeviceFailure))"

section \<open>Persistence of a candidate\<close>

definition persist_candidate :: "'z store_externals_scheme \<Rightarrow> state_v1 \<Rightarrow> unit agent_proc" where
  "persist_candidate x candidate aw =
     pbind (plift (map_err Store (validate x candidate))) (\<lambda>_.
     pbind (on_world (pmap_err Store (persist x (ag_store (fst aw)) candidate))) (\<lambda>_ aw1.
     ((fst aw1\<lparr> ag_state := candidate \<rparr>, snd aw1), Inr ()))) aw"

definition retention_deadline :: "reference_device_agent \<Rightarrow> i64 \<Rightarrow> u64" where
  "retention_deadline ag observed_at =
     saturating_add (unwrap_or (u64_try_from_i64 observed_at) u64_max)
       (ucast (ag_command_retention_seconds ag))"

definition persist_rejection ::
  "'z store_externals_scheme \<Rightarrow> device_command \<Rightarrow> string \<Rightarrow> command_rejection \<Rightarrow> i64
     \<Rightarrow> apply_outcome agent_proc" where
  "persist_rejection x command fingerprint rejection observed_at aw =
     (let ag = fst aw;
          candidate = expire_command_journal (ag_state ag) (unwrap_or (u64_try_from_i64 observed_at) u64_max)
      in pbind (plift (map_err Store (reserve_outbox candidate 1))) (\<lambda>_.
         pbind (plift (map_err Store (reserve_command_journal candidate))) (\<lambda>_.
         pbind (persist_candidate x (reject x \<lparr>
             rj_command_id = command_id_expose (dc_command_id command),
             rj_fingerprint = fingerprint,
             rj_generation = generation_get (dc_desired_generation command),
             rj_fence = fence_epoch_get (dc_fence_epoch command),
             rj_rejection = rejection,
             rj_observed_at = observed_at,
             rj_retain_until_epoch_seconds = retention_deadline ag observed_at \<rparr> candidate)) (\<lambda>_.
         preturn (Rejected rejection)))) aw)"

definition persist_raw_rejection ::
  "'z store_externals_scheme \<Rightarrow> string \<Rightarrow> string \<Rightarrow> u64 \<Rightarrow> apply_outcome agent_proc" where
  "persist_raw_rejection x command_id fingerprint now aw =
     (let ag = fst aw;
          observed_at = unwrap_or (i64_try_from_u64 now) i64_max;
          candidate = expire_command_journal (ag_state ag) now
      in pbind (plift (map_err Store (reserve_outbox candidate 1))) (\<lambda>_.
         pbind (plift (map_err Store (reserve_command_journal candidate))) (\<lambda>_.
         pbind (persist_candidate x (reject x \<lparr>
             rj_command_id = command_id,
             rj_fingerprint = fingerprint,
             rj_generation = current_generation (ag_state ag),
             rj_fence = current_fence (ag_state ag),
             rj_rejection = MalformedCommand,
             rj_observed_at = observed_at,
             rj_retain_until_epoch_seconds = retention_deadline ag observed_at \<rparr> candidate)) (\<lambda>_.
         preturn (Rejected MalformedCommand)))) aw)"

definition persist_inbound_settlement ::
  "'z store_externals_scheme \<Rightarrow> string option \<Rightarrow> unit agent_proc" where
  "persist_inbound_settlement x token aw =
     (let (matched, candidate) = mark_inbound_settled token (ag_state (fst aw))
      in if \<not> matched then plift (Inl UnexpectedDelivery) aw else persist_candidate x candidate aw)"

definition commit ::
  "'z store_externals_scheme \<Rightarrow> device_command \<Rightarrow> string \<Rightarrow> resolved_artifact \<Rightarrow> i64
     \<Rightarrow> apply_outcome agent_proc" where
  "commit x command fingerprint artifact observed_at aw =
     (let ag = fst aw;
          candidate = expire_command_journal (ag_state ag) (unwrap_or (u64_try_from_i64 observed_at) u64_max)
      in pbind (plift (map_err Store (reserve_outbox candidate 2))) (\<lambda>_.
         pbind (plift (map_err Store (reserve_command_journal candidate))) (\<lambda>_.
         pbind (plift (map_err Store (next_revision candidate))) (\<lambda>revision.
         pbind (on_world (pmap_err Store (install_revision (ag_store ag) revision (ra_credential artifact)))) (\<lambda>_.
         pbind (plift (map_err Store (accept x \<lparr>
             ac_command_id = command_id_expose (dc_command_id command),
             ac_fingerprint = fingerprint,
             ac_generation = generation_get (dc_desired_generation command),
             ac_fence = fence_epoch_get (dc_fence_epoch command),
             ac_credential_generation = credential_generation_get (ra_credential_generation artifact),
             ac_revision = credential_revision_get revision,
             ac_artifact_digest = sha256_digest_expose (ra_digest artifact),
             ac_expires_at = vc_expires_at (ra_credential artifact),
             ac_observed_at = observed_at,
             ac_retain_until_epoch_seconds = retention_deadline ag observed_at \<rparr> candidate))) (\<lambda>accepted.
         pbind (persist_candidate x accepted) (\<lambda>_.
         preturn Accepted)))))) aw)"

section \<open>Commands\<close>

definition replay_known ::
  "'z store_externals_scheme \<Rightarrow> string \<Rightarrow> string \<Rightarrow> apply_outcome agent_proc" where
  "replay_known x command_id fingerprint aw =
     (let s = ag_state (fst aw)
      in if has_command_ack command_id s then preturn Duplicate aw
         else
           pbind (plift (map_err Store (reserve_outbox s 1))) (\<lambda>_.
           pbind (plift (map_err Store (replay_command x command_id fingerprint s))) (\<lambda>candidate.
           pbind (persist_candidate x candidate) (\<lambda>_. preturn Duplicate))) aw)"

definition refuse_conflicting ::
  "'z store_externals_scheme \<Rightarrow> string \<Rightarrow> string \<Rightarrow> u64 \<Rightarrow> u64 \<Rightarrow> i64 \<Rightarrow> apply_outcome agent_proc" where
  "refuse_conflicting x command_id fingerprint generation fence observed_at aw =
     (let s = ag_state (fst aw)
      in if has_conflicting_replay x command_id fingerprint s then preturn (Rejected MalformedCommand) aw
         else
           pbind (plift (map_err Store (reserve_outbox s 1))) (\<lambda>_.
           pbind (persist_candidate x
             (reject_conflicting_replay x command_id fingerprint generation fence observed_at s)) (\<lambda>_.
           preturn (Rejected MalformedCommand))) aw)"

text \<open>The checks of \<open>apply_command\<close> on a resolved artifact, in order.\<close>

definition admit_artifact ::
  "'z store_externals_scheme \<Rightarrow> device_command \<Rightarrow> string \<Rightarrow> resolved_artifact \<Rightarrow> i64
     \<Rightarrow> apply_outcome agent_proc" where
  "admit_artifact x command fingerprint artifact observed_at aw =
     (let s = ag_state (fst aw);
          generation = generation_get (dc_desired_generation command)
      in if fence_epoch_get (dc_fence_epoch command) < current_fence s
         then persist_rejection x command fingerprint FenceEpochStale observed_at aw
         else if generation < current_generation s
         then persist_rejection x command fingerprint GenerationStale observed_at aw
         else if generation = current_generation s
              \<or> credential_generation_get (ra_credential_generation artifact)
                  \<le> current_credential_generation s
         then persist_rejection x command fingerprint MalformedCommand observed_at aw
         else commit x command fingerprint artifact observed_at aw)"

definition apply_new ::
  "'z catalog_externals_scheme \<Rightarrow> string \<Rightarrow> device_command \<Rightarrow> string \<Rightarrow> u64 \<Rightarrow> i64
     \<Rightarrow> apply_outcome agent_proc" where
  "apply_new x topic command fingerprint now observed_at aw =
     (if rotation_in_flight (ag_state (fst aw)) then plift (Inl RotationInFlight) aw
      else
        pbind (plift (map_err Store (current_identity x (ag_state (fst aw))))) (\<lambda>identity aw.
          if \<not> accepts_command (topic_set_new x identity) topic \<or> dc_device_id command \<noteq> di_device identity
          then persist_rejection x command fingerprint MalformedCommand observed_at aw
          else if dc_deadline_epoch_seconds command \<le> now
          then persist_rejection x command fingerprint PolicyRejected observed_at aw
          else case catalog_resolve x (ag_catalog (fst aw)) identity command now (snd aw) of
              (w1, Inl error) \<Rightarrow>
                persist_rejection x command fingerprint (catalog_rejection error) observed_at (fst aw, w1)
            | (w1, Inr artifact) \<Rightarrow>
                admit_artifact x command fingerprint artifact observed_at (fst aw, w1)) aw)"

definition apply_command ::
  "'z catalog_externals_scheme \<Rightarrow> string \<Rightarrow> device_command \<Rightarrow> u64 \<Rightarrow> apply_outcome agent_proc" where
  "apply_command x topic command now aw =
     (let observed_at = unwrap_or (i64_try_from_u64 now) i64_max;
          fingerprint = command_fingerprint x command;
          cid = command_id_expose (dc_command_id command)
      in case command_match (ag_state (fst aw)) cid fingerprint now of
           Some same_payload \<Rightarrow>
             if same_payload then replay_known x cid fingerprint aw
             else refuse_conflicting x cid fingerprint
                    (generation_get (dc_desired_generation command))
                    (fence_epoch_get (dc_fence_epoch command)) observed_at aw
         | None \<Rightarrow> apply_new x topic command fingerprint now observed_at aw)"

definition pending_command_topic :: "reference_device_agent \<Rightarrow> string option" where
  "pending_command_topic ag = map_option (\<lambda>(topic, _, _, _, _). topic) (pending_inbound (ag_state ag))"

definition reject_malformed_delivery ::
  "'z catalog_externals_scheme \<Rightarrow> string \<Rightarrow> string \<Rightarrow> bytes \<Rightarrow> u64 \<Rightarrow> apply_outcome agent_proc" where
  "reject_malformed_delivery x topic command_id payload now aw =
     (let s = ag_state (fst aw)
      in pbind (plift (map_err Store (current_identity x s))) (\<lambda>identity.
         if \<not> accepts_command (topic_set_new x identity) topic
            \<and> pending_command_topic (fst aw) \<noteq> Some topic
         then plift (Inl UnexpectedDelivery)
         else
           let fingerprint = malformed_fingerprint x topic command_id payload
           in case command_match s command_id fingerprint now of
                Some same_payload \<Rightarrow>
                  if same_payload then replay_known x command_id fingerprint
                  else refuse_conflicting x command_id fingerprint (current_generation s)
                         (current_fence s) (unwrap_or (i64_try_from_u64 now) i64_max)
              | None \<Rightarrow> persist_raw_rejection x command_id fingerprint now) aw)"

section \<open>Outbound facts, reconnect, settlement\<close>

definition agent_next_outbound :: "reference_device_agent \<Rightarrow> outbound_fact option" where
  "agent_next_outbound ag = next_outbound (ag_state ag)"

definition agent_confirm_outbound :: "'z store_externals_scheme \<Rightarrow> string \<Rightarrow> unit agent_proc" where
  "agent_confirm_outbound x event aw =
     (let (known, candidate) = confirm_outbound event (ag_state (fst aw))
      in if \<not> known then plift (Inl UnknownOutbound) aw else persist_candidate x candidate aw)"

definition agent_reconnect_revision ::
  "reference_device_agent \<Rightarrow> (agent_error, credential_revision option) result" where
  "agent_reconnect_revision ag = (case st_reconnect_revision (ag_state ag) of
     None \<Rightarrow> Inr None
   | Some revision \<Rightarrow>
       map_err (\<lambda>_. Store InvalidState) (map_ok Some (credential_revision_try_from revision)))"

definition agent_rotation_in_flight :: "reference_device_agent \<Rightarrow> bool" where
  "agent_rotation_in_flight ag = rotation_in_flight (ag_state ag)"

definition command_intake_open :: "reference_device_agent \<Rightarrow> u64 \<Rightarrow> bool" where
  "command_intake_open ag now \<longleftrightarrow>
     is_ok (reserve_outbox (ag_state ag) 2) \<and> command_journal_has_capacity (ag_state ag) now"

definition agent_current_identity ::
  "'z externals_scheme \<Rightarrow> reference_device_agent \<Rightarrow> (agent_error, device_identity) result" where
  "agent_current_identity x ag = map_err Store (current_identity x (ag_state ag))"

definition pending_command_scope ::
  "'z externals_scheme \<Rightarrow> reference_device_agent \<Rightarrow> (agent_error, recovery_command_scope option) result" where
  "pending_command_scope x ag = (case pending_inbound (ag_state ag) of
     None \<Rightarrow> Inr None
   | Some (topic, command_id, generation, _, _) \<Rightarrow>
       rbind (agent_current_identity x ag) (\<lambda>current.
       rbind (map_err (\<lambda>_. Store InvalidState) (credential_generation_try_from generation)) (\<lambda>generation.
       rbind (map_err (\<lambda>_. Store InvalidState)
                (device_identity_try_new x (di_tenant current) (di_device current) generation)) (\<lambda>identity.
       Inr (Some \<lparr> rs_identity = identity, rs_topic = topic, rs_command_id = command_id \<rparr>)))))"

definition pending_command_id :: "reference_device_agent \<Rightarrow> string option" where
  "pending_command_id ag = map_option (\<lambda>(_, command_id, _, _, _). command_id) (pending_inbound (ag_state ag))"

definition pending_inbound_settled :: "reference_device_agent \<Rightarrow> bool" where
  "pending_inbound_settled ag = (case pending_inbound (ag_state ag) of
     None \<Rightarrow> True | Some (_, _, _, _, settled) \<Rightarrow> settled)"

definition agent_pending_settlement_token ::
  "'z externals_scheme \<Rightarrow> reference_device_agent \<Rightarrow> device_command \<Rightarrow> string option" where
  "agent_pending_settlement_token x ag command =
     pending_settlement_token (ag_state ag) (command_id_expose (dc_command_id command))
       (command_fingerprint x command)"

definition pending_delivery_settlement_token ::
  "reference_device_agent \<Rightarrow> string \<Rightarrow> string \<Rightarrow> string option" where
  "pending_delivery_settlement_token ag topic command_id = (case pending_inbound (ag_state ag) of
     None \<Rightarrow> None
   | Some (pending_topic, pending_command, _, token, _) \<Rightarrow>
       if pending_topic = topic \<and> pending_command = command_id then Some token else None)"

definition mark_pending_inbound_settled :: "'z store_externals_scheme \<Rightarrow> string \<Rightarrow> unit agent_proc" where
  "mark_pending_inbound_settled x token = persist_inbound_settlement x (Some token)"

definition mark_pending_inbound_absent :: "'z store_externals_scheme \<Rightarrow> unit agent_proc" where
  "mark_pending_inbound_absent x = persist_inbound_settlement x None"

definition delivery_identity ::
  "'z externals_scheme \<Rightarrow> reference_device_agent \<Rightarrow> string \<Rightarrow> string
     \<Rightarrow> (agent_error, device_identity) result" where
  "delivery_identity x ag topic command_id =
     rbind (agent_current_identity x ag) (\<lambda>current.
     if accepts_command (topic_set_new x current) topic then Inr current
     else case pending_inbound (ag_state ag) of
         None \<Rightarrow> Inl UnexpectedDelivery
       | Some (pending_topic, pending_command, generation, _, _) \<Rightarrow>
           if pending_topic \<noteq> topic \<or> pending_command \<noteq> command_id then Inl UnexpectedDelivery
           else
             rbind (map_err (\<lambda>_. Store InvalidState) (credential_generation_try_from generation)) (\<lambda>generation.
             map_err (\<lambda>_. Store InvalidState)
               (device_identity_try_new x (di_tenant current) (di_device current) generation)))"

definition mark_current_credential_connected ::
  "'z store_externals_scheme \<Rightarrow> credential_revision \<Rightarrow> unit agent_proc" where
  "mark_current_credential_connected x revision aw =
     (let (matched, candidate) = mark_reconnected (credential_revision_get revision) (ag_state (fst aw))
      in if \<not> matched then plift (Inl UnexpectedReconnect) aw else persist_candidate x candidate aw)"

definition current_credentials :: "reference_device_agent \<Rightarrow> credential_files" where
  "current_credentials ag = store_credential_files (ag_store ag) (current_revision (ag_state ag))"

section \<open>Opening\<close>

definition open_existing ::
  "'z catalog_externals_scheme \<Rightarrow> agent_config \<Rightarrow> u64 \<Rightarrow> (world, agent_error, state_store \<times> state_v1) proc" where
  "open_existing x config now =
     pbind (pmap_err Store (store_load x (cfg_state_directory config) (cfg_identity config))) (\<lambda>(store, state).
     pbind (plift (map_err Store (current_identity x state))) (\<lambda>identity.
     let files = store_credential_files store (current_revision state) in
     pbind (pmap_err Credential (validate_credential x files identity now)) (\<lambda>_.
     pbind (pmap_err (\<lambda>_. InitialArtifactUnavailable) (compute_artifact_digest x files)) (\<lambda>digest.
     if sha256_digest_expose digest \<noteq> current_artifact_digest state
     then plift (Inl (Store InvalidState)) else preturn (store, state)))))"

definition open_initial ::
  "'z catalog_externals_scheme \<Rightarrow> agent_config \<Rightarrow> u64 \<Rightarrow> (world, agent_error, state_store \<times> state_v1) proc" where
  "open_initial x config now =
     pbind (pmap_err Credential
       (validate_credential x (cfg_initial_credentials config) (cfg_identity config) now)) (\<lambda>initial.
     pbind (pmap_err (\<lambda>_. InitialArtifactUnavailable)
       (compute_artifact_digest x (cfg_initial_credentials config))) (\<lambda>digest.
     pmap_err Store (open_or_initialize x (cfg_state_directory config) (cfg_identity config)
       (cfg_initial_position config) initial digest)))"

definition agent_open ::
  "'z catalog_externals_scheme \<Rightarrow> agent_config \<Rightarrow> u64 \<Rightarrow> (world, agent_error, reference_device_agent) proc" where
  "agent_open x config now =
     pbind (pquery (path_exists (state_path (cfg_state_directory config)))) (\<lambda>present.
     pbind (if present then open_existing x config now else open_initial x config now) (\<lambda>(store, state).
     preturn \<lparr> ag_store = store, ag_state = state, ag_catalog = cfg_catalog config,
               ag_command_retention_seconds = cfg_command_retention_seconds config \<rparr>))"

end
