(* ===== verification/Driver.thy ===== *)
theory Driver
  imports Mqtt Agent
begin

text \<open>
  The session driver of the device agent, \<^verbatim>\<open>apps/reference-device-agent/src/main.rs\<close>: the select loop
  that joins the durable agent to one transport session, and the retry loop around sessions. What a
  \<open>select!\<close> finds ready and what the clocks read are inputs; the driver's own state, every handler and
  both loops are defined.
\<close>

section \<open>State\<close>

datatype publish_state = PublishIdle | PublishPending
datatype subscription_state = Inactive | Active | Unsubscribing

text \<open>Instants are milliseconds of the monotonic clock.\<close>

datatype connection_state = Connecting | ConnectedAt nat
datatype recovery_observation = NotObserved | RecoveryObserved
datatype reconnect_state = Dormant | ReconnectReady

record session_state =
  sn_publish :: publish_state
  sn_subscription :: subscription_state
  sn_connection :: connection_state
  sn_pending_command_ack :: "(command_delivery \<times> string option) option"
  sn_recovery_observation :: recovery_observation
  sn_reconnect :: reconnect_state
  sn_shutdown_deadline :: "nat option"

definition session_state_default :: session_state where
  "session_state_default = \<lparr> sn_publish = PublishIdle, sn_subscription = Inactive, sn_connection = Connecting,
     sn_pending_command_ack = None, sn_recovery_observation = NotObserved, sn_reconnect = Dormant,
     sn_shutdown_deadline = None \<rparr>"

definition is_connected :: "session_state \<Rightarrow> bool" where
  "is_connected s = (case sn_connection s of ConnectedAt _ \<Rightarrow> True | Connecting \<Rightarrow> False)"

definition unsubscribe_pending :: "session_state \<Rightarrow> bool" where
  "unsubscribe_pending s \<longleftrightarrow> sn_subscription s = Unsubscribing"

definition can_publish :: "session_state \<Rightarrow> bool" where
  "can_publish s \<longleftrightarrow> is_connected s \<and> sn_publish s = PublishIdle \<and> sn_reconnect s = Dormant
     \<and> \<not> unsubscribe_pending s"

definition can_unsubscribe :: "session_state \<Rightarrow> bool" where
  "can_unsubscribe s \<longleftrightarrow> is_connected s \<and> sn_subscription s = Active"

definition can_subscribe :: "session_state \<Rightarrow> bool" where
  "can_subscribe s \<longleftrightarrow> sn_subscription s = Inactive \<and> sn_shutdown_deadline s = None"

definition connection_is_stable :: "session_state \<Rightarrow> nat \<Rightarrow> bool" where
  "connection_is_stable s instant = (case sn_connection s of
     ConnectedAt at \<Rightarrow> instant - at \<ge> 60000 | Connecting \<Rightarrow> False)"

definition transport_is_quiescent :: "session_state \<Rightarrow> bool" where
  "transport_is_quiescent s \<longleftrightarrow> sn_shutdown_deadline s \<noteq> None \<and> is_connected s \<and> sn_publish s = PublishIdle
     \<and> sn_pending_command_ack s = None \<and> \<not> unsubscribe_pending s"

definition shutdown_is_quiescent :: "session_state \<Rightarrow> reference_device_agent \<Rightarrow> bool" where
  "shutdown_is_quiescent s ag \<longleftrightarrow> transport_is_quiescent s \<and> agent_next_outbound ag = None"

datatype session_error =
    SessionAgent agent_error
  | SessionMqtt mqtt_error
  | SessionWire wire_error

datatype driver_poll = PollEvent mqtt_event | ShutdownStarted | ShutdownDeadline
datatype driver_control = Continue | ControlReconnect
datatype session_completion = CompletionReconnect | CompletionShutdown

definition should_hold_command_ack :: "bool \<Rightarrow> bool \<Rightarrow> bool \<Rightarrow> bool" where
  "should_hold_command_ack accepted intake_open shutting_down \<longleftrightarrow> accepted \<or> \<not> intake_open \<or> shutting_down"

datatype unsubscribe_outcome = CompletionExit | CompletionSubscribe | CompletionWait

definition unsubscribe_completion :: "bool \<Rightarrow> bool \<Rightarrow> bool \<Rightarrow> unsubscribe_outcome" where
  "unsubscribe_completion reconnect_ready inbound_flushed in_flight =
     (if reconnect_ready \<and> inbound_flushed then CompletionExit
      else if \<not> in_flight then CompletionSubscribe else CompletionWait)"

section \<open>The driver\<close>

record session_driver =
  dv_agent :: reference_device_agent
  dv_session :: mqtt_session
  dv_session_identity :: device_identity
  dv_recovery_command :: "recovery_command_scope option"
  dv_state :: session_state
  dv_retry_delay :: nat        \<comment> \<open>the caller's delay, milliseconds\<close>

type_synonym 'a driver_proc = "(session_driver \<times> world, session_error, 'a) proc"

definition SHUTDOWN_DRAIN_TIMEOUT :: nat where
  "SHUTDOWN_DRAIN_TIMEOUT = 10000"

text \<open>Calls on the agent and on the session, with the conversion of their errors, and updates of the
  session state.\<close>

definition on_agent :: "'a agent_proc \<Rightarrow> 'a driver_proc" where
  "on_agent m dw = (let (aw, r) = m (dv_agent (fst dw), snd dw)
     in (((fst dw)\<lparr> dv_agent := fst aw \<rparr>, snd aw), map_err SessionAgent r))"

definition on_session :: "'a mqtt_proc \<Rightarrow> 'a driver_proc" where
  "on_session m dw = (let (s, r) = m (dv_session (fst dw))
     in (((fst dw)\<lparr> dv_session := s \<rparr>, snd dw), map_err SessionMqtt r))"

definition update_state :: "(session_state \<Rightarrow> session_state) \<Rightarrow> unit driver_proc" where
  "update_state f dw = (((fst dw)\<lparr> dv_state := f (dv_state (fst dw)) \<rparr>, snd dw), Inr ())"

text \<open>A computation that looks at the driver before it goes on.\<close>

definition peek :: "(session_driver \<Rightarrow> 'a driver_proc) \<Rightarrow> 'a driver_proc" where
  "peek f dw = f (fst dw) dw"

text \<open>The readings of the clocks during one turn of the loop: \<open>Instant::now\<close>, then \<open>now()\<close> at its
  first and second call.\<close>

record clock =
  ck_instant :: nat
  ck_now :: u64
  ck_later :: u64

definition publish_next :: "'z transport_externals_scheme \<Rightarrow> unit driver_proc" where
  "publish_next x = peek (\<lambda>d.
     case (if can_publish (dv_state d) then agent_next_outbound (dv_agent d) else None) of
       None \<Rightarrow> preturn ()
     | Some outbound \<Rightarrow>
         pbind (plift (map_err SessionWire (encode_outbound x (dv_session_identity d) outbound))) (\<lambda>encoded.
         pbind (on_session (publish x encoded)) (\<lambda>_.
         update_state (\<lambda>s. s\<lparr> sn_publish := PublishPending \<rparr>))))"

definition start_shutdown :: "'z transport_externals_scheme \<Rightarrow> nat \<Rightarrow> unit driver_proc" where
  "start_shutdown x instant =
     pbind (update_state (\<lambda>s. s\<lparr> sn_shutdown_deadline := Some (instant + SHUTDOWN_DRAIN_TIMEOUT) \<rparr>)) (\<lambda>_.
     peek (\<lambda>d.
     if can_unsubscribe (dv_state d) then
       pbind (on_session (unsubscribe_command x)) (\<lambda>_.
       update_state (\<lambda>s. s\<lparr> sn_subscription := Unsubscribing \<rparr>))
     else preturn ()))"

text \<open>Which branch of the \<open>select!\<close> completes: the transport with its result, or the other one, the
  drain deadline when there is one and the shutdown signal otherwise.\<close>

datatype select_outcome =
    TransportReady "(connection_error, transport_event) result"
  | OtherReady

definition poll_next :: "'z transport_externals_scheme \<Rightarrow> select_outcome \<Rightarrow> nat \<Rightarrow> driver_poll driver_proc" where
  "poll_next x input instant = (case input of
     TransportReady polled \<Rightarrow> pbind (on_session (poll x polled)) (\<lambda>event. preturn (PollEvent event))
   | OtherReady \<Rightarrow> peek (\<lambda>d.
       if sn_shutdown_deadline (dv_state d) \<noteq> None then preturn ShutdownDeadline
       else pbind (start_shutdown x instant) (\<lambda>_. preturn ShutdownStarted)))"

section \<open>Handlers\<close>

definition on_connected :: "'z transport_externals_scheme \<Rightarrow> clock \<Rightarrow> unit driver_proc" where
  "on_connected x ck =
     pbind (update_state (\<lambda>s. s\<lparr> sn_connection := ConnectedAt (ck_instant ck), sn_subscription := Inactive \<rparr>)) (\<lambda>_.
     pbind (peek (\<lambda>d.
       pbind (plift (map_err SessionAgent (agent_reconnect_revision (dv_agent d)))) (\<lambda>reconnect.
       case reconnect of
         Some revision \<Rightarrow> on_agent (mark_current_credential_connected x revision)
       | None \<Rightarrow> preturn ()))) (\<lambda>_.
     peek (\<lambda>d.
     if dv_recovery_command d \<noteq> None then
       pbind (on_session (unsubscribe_recovery x)) (\<lambda>_.
       update_state (\<lambda>s. s\<lparr> sn_subscription := Unsubscribing \<rparr>))
     else if sn_shutdown_deadline (dv_state d) = None \<and> \<not> agent_rotation_in_flight (dv_agent d)
             \<and> command_intake_open (dv_agent d) (ck_now ck)
     then on_session (subscribe x)
     else preturn ())))"

definition on_command :: "'z transport_externals_scheme \<Rightarrow> clock \<Rightarrow> command_delivery \<Rightarrow> unit driver_proc" where
  "on_command x ck delivery =
     pbind (peek (\<lambda>d.
       if (case dv_recovery_command d of Some scope \<Rightarrow> rs_topic scope = cd_topic delivery | None \<Rightarrow> False)
       then update_state (\<lambda>s. s\<lparr> sn_recovery_observation := RecoveryObserved \<rparr>)
       else preturn ())) (\<lambda>_.
     pbind (on_agent
       (case decode_command x (cd_identity delivery) (cd_command_id delivery) (pk_payload (cd_publish delivery)) of
          Inr command \<Rightarrow> apply_command x (cd_topic delivery) command (ck_now ck)
        | Inl _ \<Rightarrow> reject_malformed_delivery x (cd_topic delivery) (cd_command_id delivery)
                    (pk_payload (cd_publish delivery)) (ck_now ck))) (\<lambda>outcome.
     peek (\<lambda>d.
     let token = pending_delivery_settlement_token (dv_agent d) (cd_topic delivery) (cd_command_id delivery)
     in if should_hold_command_ack (outcome = Accepted) (command_intake_open (dv_agent d) (ck_later ck))
             (sn_shutdown_deadline (dv_state d) \<noteq> None)
        then
          pbind (on_session (unsubscribe_command x)) (\<lambda>_.
          update_state (\<lambda>s. s\<lparr> sn_subscription := Unsubscribing, sn_pending_command_ack := Some (delivery, token) \<rparr>))
        else on_session (acknowledge_command x delivery token))))"

definition on_outbound_acknowledged ::
  "'z transport_externals_scheme \<Rightarrow> clock \<Rightarrow> string \<Rightarrow> driver_control driver_proc" where
  "on_outbound_acknowledged x ck event = peek (\<lambda>d.
     if sn_publish (dv_state d) \<noteq> PublishPending then plift (Inl (SessionAgent UnknownOutbound))
     else
       pbind (update_state (\<lambda>s. s\<lparr> sn_publish := PublishIdle \<rparr>)) (\<lambda>_.
       pbind (on_agent (agent_confirm_outbound x event)) (\<lambda>_.
       peek (\<lambda>d.
       pbind (plift (map_err SessionAgent (agent_reconnect_revision (dv_agent d)))) (\<lambda>reconnect.
       if reconnect \<noteq> None then
         (if \<not> unsubscribe_pending (dv_state d) \<and> pending_inbound_settled (dv_agent d)
          then preturn ControlReconnect
          else
            pbind (update_state (\<lambda>s. s\<lparr> sn_reconnect := ReconnectReady \<rparr>)) (\<lambda>_.
            if can_unsubscribe (dv_state d) then
              pbind (on_session (unsubscribe_command x)) (\<lambda>_.
              pbind (update_state (\<lambda>s. s\<lparr> sn_subscription := Unsubscribing \<rparr>)) (\<lambda>_.
              preturn Continue))
            else preturn Continue))
       else if can_subscribe (dv_state d) \<and> command_intake_open (dv_agent d) (ck_now ck)
       then pbind (on_session (subscribe x)) (\<lambda>_. preturn Continue)
       else preturn Continue)))))"

text \<open>The end of \<open>on_unsubscribed\<close>, when no acknowledgement was held.\<close>

definition complete_unsubscribe :: "'z transport_externals_scheme \<Rightarrow> clock \<Rightarrow> driver_control driver_proc" where
  "complete_unsubscribe x ck = peek (\<lambda>d.
     case unsubscribe_completion (sn_reconnect (dv_state d) = ReconnectReady)
            (pending_inbound_settled (dv_agent d)) (agent_rotation_in_flight (dv_agent d)) of
       CompletionExit \<Rightarrow> preturn ControlReconnect
     | CompletionSubscribe \<Rightarrow>
         if can_subscribe (dv_state d) \<and> command_intake_open (dv_agent d) (ck_now ck)
         then pbind (on_session (subscribe x)) (\<lambda>_. preturn Continue)
         else preturn Continue
     | CompletionWait \<Rightarrow> preturn Continue)"

definition on_unsubscribed :: "'z transport_externals_scheme \<Rightarrow> clock \<Rightarrow> driver_control driver_proc" where
  "on_unsubscribed x ck =
     pbind (update_state (\<lambda>s. s\<lparr> sn_subscription := Inactive \<rparr>)) (\<lambda>_.
     peek (\<lambda>d.
     case sn_pending_command_ack (dv_state d) of
       Some (delivery, token) \<Rightarrow>
         pbind (update_state (\<lambda>s. s\<lparr> sn_pending_command_ack := None \<rparr>)) (\<lambda>_.
         pbind (on_session (acknowledge_command x delivery token)) (\<lambda>_. preturn Continue))
     | None \<Rightarrow>
         pbind (if dv_recovery_command d \<noteq> None \<and> sn_recovery_observation (dv_state d) = NotObserved
                   \<and> \<not> pending_inbound_settled (dv_agent d)
                then on_agent (mark_pending_inbound_absent x) else preturn ()) (\<lambda>_.
         complete_unsubscribe x ck)))"

definition on_inbound_acknowledged ::
  "'z transport_externals_scheme \<Rightarrow> string option \<Rightarrow> driver_control driver_proc" where
  "on_inbound_acknowledged x token = (case token of
     Some token \<Rightarrow>
       pbind (on_agent (mark_pending_inbound_settled x token)) (\<lambda>_.
       peek (\<lambda>d. preturn
         (if sn_reconnect (dv_state d) = ReconnectReady \<and> \<not> unsubscribe_pending (dv_state d)
          then ControlReconnect else Continue)))
   | None \<Rightarrow> preturn Continue)"

definition handle_event ::
  "'z transport_externals_scheme \<Rightarrow> clock \<Rightarrow> mqtt_event \<Rightarrow> driver_control driver_proc" where
  "handle_event x ck event = (case event of
     Connected \<Rightarrow> pbind (on_connected x ck) (\<lambda>_. preturn Continue)
   | Subscribed \<Rightarrow> pbind (update_state (\<lambda>s. s\<lparr> sn_subscription := Active \<rparr>)) (\<lambda>_. preturn Continue)
   | Command delivery \<Rightarrow> pbind (on_command x ck delivery) (\<lambda>_. preturn Continue)
   | OutboundAcknowledged eid \<Rightarrow> on_outbound_acknowledged x ck eid
   | Unsubscribed \<Rightarrow> on_unsubscribed x ck
   | InboundAcknowledged token \<Rightarrow> on_inbound_acknowledged x token
   | TransportProgress \<Rightarrow> preturn Continue)"

section \<open>The loops\<close>

text \<open>One turn: before and after the \<open>select!\<close>. \<open>Some c\<close> ends the session.\<close>

definition begin_turn :: "'z transport_externals_scheme \<Rightarrow> session_completion option driver_proc" where
  "begin_turn x =
     pbind (publish_next x) (\<lambda>_.
     peek (\<lambda>d.
     if shutdown_is_quiescent (dv_state d) (dv_agent d)
     then pbind (on_session (disconnect x)) (\<lambda>_. preturn (Some CompletionShutdown))
     else preturn None))"

text \<open>A connection that has lasted resets the caller's retry delay.\<close>

definition note_stability :: "nat \<Rightarrow> unit driver_proc" where
  "note_stability instant dw =
     ((if connection_is_stable (dv_state (fst dw)) instant then (fst dw)\<lparr> dv_retry_delay := 1000 \<rparr> else fst dw, snd dw),
      Inr ())"

definition end_turn ::
  "'z transport_externals_scheme \<Rightarrow> select_outcome \<Rightarrow> clock \<Rightarrow> session_completion option driver_proc" where
  "end_turn x input ck =
     pbind (poll_next x input (ck_instant ck)) (\<lambda>polled.
     case polled of
       ShutdownStarted \<Rightarrow> preturn None
     | ShutdownDeadline \<Rightarrow> preturn (Some CompletionShutdown)
     | PollEvent event \<Rightarrow>
         pbind (note_stability (ck_instant ck)) (\<lambda>_.
         pbind (handle_event x ck event) (\<lambda>control.
         preturn (case control of ControlReconnect \<Rightarrow> Some CompletionReconnect | Continue \<Rightarrow> None))))"

text \<open>The loop consumes one input per turn; \<open>None\<close> means that it waits for more.\<close>

fun driver_run ::
  "'z transport_externals_scheme \<Rightarrow> (select_outcome \<times> clock) list \<Rightarrow> session_driver \<times> world
     \<Rightarrow> (session_driver \<times> world) \<times> (session_error, session_completion) result option" where
  "driver_run x inputs dw =
     (case begin_turn x dw of
        (dw1, Inl e) \<Rightarrow> (dw1, Some (Inl e))
      | (dw1, Inr (Some c)) \<Rightarrow> (dw1, Some (Inr c))
      | (dw1, Inr None) \<Rightarrow>
          (case inputs of
             [] \<Rightarrow> (dw1, None)
           | (input, ck) # rest \<Rightarrow>
               (case end_turn x input ck dw1 of
                  (dw2, Inl e) \<Rightarrow> (dw2, Some (Inl e))
                | (dw2, Inr (Some c)) \<Rightarrow> (dw2, Some (Inr c))
                | (dw2, Inr None) \<Rightarrow> driver_run x rest dw2)))"

declare driver_run.simps [simp del]

definition driver_new ::
  "reference_device_agent \<Rightarrow> mqtt_session \<Rightarrow> device_identity \<Rightarrow> recovery_command_scope option \<Rightarrow> nat
     \<Rightarrow> session_driver" where
  "driver_new ag session session_identity recovery_command delay = \<lparr> dv_agent = ag, dv_session = session,
     dv_session_identity = session_identity, dv_recovery_command = recovery_command,
     dv_state = session_state_default, dv_retry_delay = delay \<rparr>"

text \<open>The agent, the world and the retry delay survive the session.\<close>

definition run_session ::
  "'z transport_externals_scheme \<Rightarrow> mqtt_connection_config \<Rightarrow> (select_outcome \<times> clock) list
     \<Rightarrow> reference_device_agent \<times> world \<times> nat
     \<Rightarrow> (reference_device_agent \<times> world \<times> nat) \<times> (session_error, session_completion) result option" where
  "run_session x mqtt inputs st = (case st of (ag, w, delay) \<Rightarrow>
     (case rbind (agent_current_identity x ag) (\<lambda>identity.
           rbind (pending_command_scope x ag) (\<lambda>recovery. Inr (identity, recovery))) of
        Inl e \<Rightarrow> ((ag, w, delay), Some (Inl (SessionAgent e)))
      | Inr (identity, recovery) \<Rightarrow>
          (case mqtt_session_new mqtt (current_credentials ag) (topic_set_new x identity) recovery w of
             (w1, Inl e) \<Rightarrow> ((ag, w1, delay), Some (Inl (SessionMqtt e)))
           | (w1, Inr session) \<Rightarrow>
               (case driver_run x inputs (driver_new ag session identity recovery delay, w1) of
                  ((d, w2), r) \<Rightarrow> ((dv_agent d, w2, dv_retry_delay d), r)))))"

text \<open>A reading of the system clock is a number of nanoseconds since the epoch; one before it counts as
  the epoch.\<close>

definition since_epoch :: "int \<Rightarrow> nat" where
  "since_epoch reading = nat reading"

definition now_seconds :: "int \<Rightarrow> u64" where
  "now_seconds reading = of_nat (since_epoch reading div 10 ^ 9)"

text \<open>Milliseconds added to the wait between two sessions.\<close>

definition retry_jitter :: "int \<Rightarrow> nat" where
  "retry_jitter reading = (since_epoch reading mod 10 ^ 9) mod 251"

definition retry_wait :: "nat \<Rightarrow> int \<Rightarrow> nat" where
  "retry_wait delay reading = delay + retry_jitter reading"

text \<open>Whether the task that waits for signals has begun the shutdown, by the signals that have
  arrived: an interrupt, or a termination when a handler for it could be installed.\<close>

definition wait_for_shutdown :: "bool \<Rightarrow> bool \<Rightarrow> bool \<Rightarrow> bool" where
  "wait_for_shutdown terminate_installed interrupted terminated =
     (if \<not> terminate_installed then interrupted else interrupted \<or> terminated)"

definition next_retry_delay :: "nat \<Rightarrow> nat" where
  "next_retry_delay delay = min (2 * delay) 30000"

text \<open>The loop of \<open>main\<close>: each element is the script of one session and whether the shutdown signal has
  arrived by the end of the wait that follows it.\<close>

fun main_loop ::
  "'z transport_externals_scheme \<Rightarrow> mqtt_connection_config \<Rightarrow> ((select_outcome \<times> clock) list \<times> bool) list
     \<Rightarrow> reference_device_agent \<times> world \<times> nat
     \<Rightarrow> (reference_device_agent \<times> world \<times> nat) \<times> (session_error, unit) result option" where
  "main_loop x mqtt [] st = (st, None)"
| "main_loop x mqtt ((inputs, cancelled) # rest) st =
     (case run_session x mqtt inputs st of
        (st1, None) \<Rightarrow> (st1, None)
      | ((ag, w, delay), Some (Inr CompletionReconnect)) \<Rightarrow> main_loop x mqtt rest (ag, w, 1000)
      | (st1, Some (Inr CompletionShutdown)) \<Rightarrow> (st1, Some (Inr ()))
      | ((ag, w, delay), Some (Inl error)) \<Rightarrow>
          (case error of
             SessionMqtt e \<Rightarrow>
               if is_retryable e then
                 (if cancelled then ((ag, w, delay), Some (Inr ()))
                  else main_loop x mqtt rest (ag, w, next_retry_delay delay))
               else ((ag, w, delay), Some (Inl error))
           | _ \<Rightarrow> ((ag, w, delay), Some (Inl error))))"

end
