(* ===== verification/Agent_Machine.thy ===== *)
theory Agent_Machine
  imports Agent
begin

text \<open>
  The agent as a state machine: every operation leaves the protocol state alone or makes one
  validated protocol step, the disk follows the memory, and what holds of every step holds of every
  run.
\<close>

section \<open>Machines\<close>

text \<open>A step relation with an invariant it keeps, and with a quantity it never decreases.\<close>

locale guarded_machine =
  fixes step :: "'s \<Rightarrow> 's \<Rightarrow> bool" and inv :: "'s \<Rightarrow> bool"
  assumes inv_step: "inv s \<Longrightarrow> step s t \<Longrightarrow> inv t"
begin

lemma reach_inv: "step\<^sup>*\<^sup>* s t \<Longrightarrow> inv s \<Longrightarrow> inv t"
  by (induction rule: rtranclp_induct) (auto intro: inv_step)

end

locale monotone_machine = guarded_machine step inv for step :: "'s \<Rightarrow> 's \<Rightarrow> bool" and inv +
  fixes key :: "'s \<Rightarrow> 'k :: order"
  assumes key_mono: "inv s \<Longrightarrow> step s t \<Longrightarrow> key s \<le> key t"
begin

lemma reach_mono: "step\<^sup>*\<^sup>* s t \<Longrightarrow> inv s \<Longrightarrow> key s \<le> key t"
  by (induction rule: rtranclp_induct) (auto intro: order_trans key_mono dest: reach_inv)

end

section \<open>Protocol steps\<close>

inductive protocol_step :: "'z externals_scheme \<Rightarrow> state_v1 \<Rightarrow> state_v1 \<Rightarrow> bool" for x where
  Replay: "\<not> has_command_ack cid s \<Longrightarrow> length (st_outbox s) < OUTBOX_LIMIT \<Longrightarrow>
     replay_command x cid fp s = Inr t \<Longrightarrow> protocol_step x s t"
| Conflict: "\<not> has_conflicting_replay x cid fp s \<Longrightarrow> length (st_outbox s) < OUTBOX_LIMIT \<Longrightarrow>
     protocol_step x s (reject_conflicting_replay x cid fp g f t s)"
| Reject: "length (st_outbox s) < OUTBOX_LIMIT \<Longrightarrow>
     length (st_command_journal (expire_command_journal s now)) < COMMAND_JOURNAL_LIMIT \<Longrightarrow>
     protocol_step x s (reject x c (expire_command_journal s now))"
| Accept: "\<not> rotation_in_flight s \<Longrightarrow> length (st_outbox s) + 2 \<le> OUTBOX_LIMIT \<Longrightarrow>
     length (st_command_journal (expire_command_journal s now)) < COMMAND_JOURNAL_LIMIT \<Longrightarrow>
     current_fence s \<le> ac_fence c \<Longrightarrow> current_generation s < ac_generation c \<Longrightarrow>
     current_credential_generation s < ac_credential_generation c \<Longrightarrow>
     next_revision s = Inr r \<Longrightarrow> ac_revision c = credential_revision_get r \<Longrightarrow>
     accept x c (expire_command_journal s now) = Inr t \<Longrightarrow> protocol_step x s t"
| Confirm: "confirm_outbound event s = (True, t) \<Longrightarrow> protocol_step x s t"
| Reconnect: "mark_reconnected revision s = (True, t) \<Longrightarrow> protocol_step x s t"
| Settle: "mark_inbound_settled token s = (True, t) \<Longrightarrow> protocol_step x s t"

inductive_cases protocol_stepE: "protocol_step x s t"

text \<open>The agent only makes steps whose result it has validated.\<close>

definition validated_step :: "'z externals_scheme \<Rightarrow> state_v1 \<Rightarrow> state_v1 \<Rightarrow> bool" where
  "validated_step x s t \<longleftrightarrow> protocol_step x s t \<and> validate x t = Inr ()"

abbreviation validated :: "'z externals_scheme \<Rightarrow> state_v1 \<Rightarrow> bool" where
  "validated x s \<equiv> validate x s = Inr ()"

lemma next_revision_Inr:
  "next_revision s = Inr r \<Longrightarrow> unat (credential_revision_get r) = unat (current_revision s) + 1
     \<and> current_revision s < credential_revision_get r \<and> credential_revision_get r \<noteq> 0"
  by (auto simp: next_revision_def dest!: checked_add_unat)
    (auto simp: word_less_nat_alt unat_gt_0 [symmetric] credential_revision_try_from_def split: if_splits)

text \<open>What a step does to the installed credential.\<close>

lemma confirm_fields:
  "confirm_outbound event s = (b, t) \<Longrightarrow> st_current t = st_current s \<and> st_identity t = st_identity s
     \<and> st_device_sequence t = st_device_sequence s \<and> st_command_journal t = st_command_journal s"
  by (auto simp: confirm_outbound_def Let_def split: option.splits if_splits stored_outbound.splits)

lemma reconnected_fields:
  "mark_reconnected r s = (b, t) \<Longrightarrow> st_current t = st_current s \<and> st_identity t = st_identity s
     \<and> st_device_sequence t = st_device_sequence s \<and> st_command_journal t = st_command_journal s"
  by (auto simp: mark_reconnected_def split: if_splits)

lemma settled_fields:
  "mark_inbound_settled k s = (b, t) \<Longrightarrow> st_current t = st_current s \<and> st_identity t = st_identity s
     \<and> st_device_sequence t = st_device_sequence s \<and> st_command_journal t = st_command_journal s"
  by (auto simp: mark_inbound_settled_def split: option.splits if_splits)

lemma replay_fields:
  "replay_command x cid fp s = Inr t \<Longrightarrow> st_current t = st_current s \<and> st_identity t = st_identity s
     \<and> st_device_sequence t = st_device_sequence s \<and> st_command_journal t = st_command_journal s"
  by (auto simp: replay_command_def)

lemma reject_fields:
  "st_current (reject x c s) = st_current s" "st_identity (reject x c s) = st_identity s"
  "st_device_sequence (reject x c s) = saturating_add (st_device_sequence s) 1"
  by (simp_all add: reject_def Let_def)

lemma conflict_fields:
  "st_current (reject_conflicting_replay x cid fp g f u s) = st_current s"
  "st_identity (reject_conflicting_replay x cid fp g f u s) = st_identity s"
  "st_device_sequence (reject_conflicting_replay x cid fp g f u s) = saturating_add (st_device_sequence s) 1"
  by (simp_all add: reject_conflicting_replay_def Let_def)

lemma credential_change:
  assumes "protocol_step x s t"
  shows "(st_current t = st_current s \<and> st_identity t = st_identity s)
    \<or> (\<not> rotation_in_flight s \<and> current_fence s \<le> current_fence t
       \<and> current_generation s < current_generation t
       \<and> current_credential_generation s < current_credential_generation t
       \<and> unat (current_revision t) = unat (current_revision s) + 1)"
  using assms
proof cases
  case (Accept now c r)
  note f = accept_fields [OF Accept(9)]
  from Accept show ?thesis
    by (simp add: f current_fence_def current_generation_def current_credential_generation_def
        current_revision_def [of t] next_revision_Inr)
qed (auto dest: replay_fields confirm_fields reconnected_fields settled_fields
    simp: reject_fields conflict_fields)

lemma sequence_grows:
  assumes "protocol_step x s t"
  shows "st_device_sequence s \<le> st_device_sequence t"
  using assms
proof cases
  case (Accept now c r)
  have "st_device_sequence s \<le> saturating_add (saturating_add (st_device_sequence s) 1) 1"
    by (rule order_trans [OF saturating_add_mono saturating_add_mono])
  then show ?thesis using accept_fields(4) [OF Accept(9)] by (simp add: accepted_report_def)
qed (auto dest: replay_fields confirm_fields reconnected_fields settled_fields
    simp: reject_fields conflict_fields)

section \<open>The machines of the agent\<close>

text \<open>The position of the installed credential, ordered component by component.\<close>

lemma credential_keys_mono:
  assumes "protocol_step x s t"
  shows "current_generation s \<le> current_generation t" "current_fence s \<le> current_fence t"
    "current_credential_generation s \<le> current_credential_generation t"
    "current_revision s \<le> current_revision t"
  using credential_change [OF assms]
  by (auto simp: current_generation_def current_fence_def current_credential_generation_def
      current_revision_def word_le_nat_alt word_less_nat_alt)

interpretation agent_machine: guarded_machine "validated_step x" "validated x"
  for x :: "'z externals_scheme"
  by unfold_locales (simp add: validated_step_def)

interpretation generation_machine: monotone_machine "validated_step x" "validated x" current_generation
  for x :: "'z externals_scheme"
  by unfold_locales (auto simp: validated_step_def intro: credential_keys_mono)

interpretation fence_machine: monotone_machine "validated_step x" "validated x" current_fence
  for x :: "'z externals_scheme"
  by unfold_locales (auto simp: validated_step_def intro: credential_keys_mono)

interpretation credential_machine:
  monotone_machine "validated_step x" "validated x" current_credential_generation
  for x :: "'z externals_scheme"
  by unfold_locales (auto simp: validated_step_def intro: credential_keys_mono)

interpretation revision_machine: monotone_machine "validated_step x" "validated x" current_revision
  for x :: "'z externals_scheme"
  by unfold_locales (auto simp: validated_step_def intro: credential_keys_mono)

interpretation sequence_machine: monotone_machine "validated_step x" "validated x" st_device_sequence
  for x :: "'z externals_scheme"
  by unfold_locales (auto simp: validated_step_def intro: sequence_grows)

section \<open>Every operation is a validated step or changes nothing\<close>

datatype agent_op =
    ApplyCommand string device_command u64
  | RejectMalformed string string bytes u64
  | ConfirmOutbound string
  | SettlePending string
  | SettleAbsent
  | CredentialConnected credential_revision

definition discard :: "(('a, 'b, 'c) proc) \<Rightarrow> ('a, 'b, unit) proc" where
  "discard m = pbind m (\<lambda>_. preturn ())"

definition run_op :: "'z catalog_externals_scheme \<Rightarrow> agent_op \<Rightarrow> unit agent_proc" where
  "run_op x op = (case op of
     ApplyCommand topic command now \<Rightarrow> discard (apply_command x topic command now)
   | RejectMalformed topic command_id payload now \<Rightarrow>
       discard (reject_malformed_delivery x topic command_id payload now)
   | ConfirmOutbound event \<Rightarrow> agent_confirm_outbound x event
   | SettlePending token \<Rightarrow> mark_pending_inbound_settled x token
   | SettleAbsent \<Rightarrow> mark_pending_inbound_absent x
   | CredentialConnected revision \<Rightarrow> mark_current_credential_connected x revision)"

definition one_step ::
  "'z externals_scheme \<Rightarrow> reference_device_agent \<Rightarrow> reference_device_agent \<Rightarrow> bool" where
  "one_step x ag ag' \<longleftrightarrow> ag' = ag \<or> (\<exists>t. validated_step x (ag_state ag) t \<and> ag' = ag\<lparr> ag_state := t \<rparr>)"

text \<open>
  The contract of an operation run from \<open>aw\<close> with result \<open>res\<close>: it works towards some state \<open>t\<close>, the
  present one or a validated step away from it. Afterwards memory holds the old state or \<open>t\<close>; a crash
  finds what it could find before or \<open>t\<close>; and if the operation succeeded, memory holds \<open>t\<close> and, when
  \<open>t\<close> was saved, a crash finds nothing else.
\<close>

definition tracked ::
  "'z store_externals_scheme \<Rightarrow> reference_device_agent \<times> world
     \<Rightarrow> (reference_device_agent \<times> world) \<times> (agent_error, 'a) result \<Rightarrow> bool" where
  "tracked x aw res \<longleftrightarrow> (let ag = fst aw; s = ag_state ag; ag' = fst (fst res); w' = snd (fst res) in
     \<exists>t. (t = s \<or> validated_step x s t)
       \<and> (ag' = ag \<or> ag' = ag\<lparr> ag_state := t \<rparr>)
       \<and> (\<forall>C. shows_state (ag_store ag) (snd aw) C \<longrightarrow> shows_state (ag_store ag) w' (insert (state_image x t) C))
       \<and> (t = s \<longrightarrow> (\<forall>C. shows_state (ag_store ag) (snd aw) C \<longrightarrow> state_image x s \<in> C \<longrightarrow> shows_state (ag_store ag) w' C))
       \<and> (is_ok (snd res) \<longrightarrow> ag' = ag\<lparr> ag_state := t \<rparr>
            \<and> (t \<noteq> s \<longrightarrow> shows_state (ag_store ag) w' {state_image x t})))"

lemma tracked_one_step: "tracked x aw res \<Longrightarrow> one_step x (fst aw) (fst (fst res))"
  by (auto simp: tracked_def one_step_def Let_def)

lemma agent_same_state [simp]: "ag\<lparr> ag_state := ag_state ag \<rparr> = ag"
  by simp

lemma shows_mono: "shows_state st w C \<Longrightarrow> C \<subseteq> D \<Longrightarrow> shows_state st w D"
  by (auto simp: shows_state_def elim!: all_disks_mono)

lemma tracked_same: "(\<And>C. shows_state (ag_store (fst aw)) (snd aw) C \<Longrightarrow> shows_state (ag_store (fst aw)) w' C)
    \<Longrightarrow> tracked x aw ((fst aw, w'), r)"
  unfolding tracked_def Let_def
  by (rule exI [of _ "ag_state (fst aw)"]) (auto intro: shows_mono)

lemma tracked_stop [simp]: "tracked x aw (aw, r)"
  using tracked_same [of aw "snd aw"] by simp

lemma tracked_result: "tracked x aw (aw', r) \<Longrightarrow> is_ok r = is_ok r' \<Longrightarrow> tracked x aw (aw', r')"
  by (simp add: tracked_def)

lemma tracked_return:
  assumes "tracked x aw (m aw)"
  shows "tracked x aw (pbind m (\<lambda>_. preturn c) aw)"
proof (cases "m aw")
  case (Pair aw' r)
  then have "pbind m (\<lambda>_. preturn c) aw = (aw', map_ok (\<lambda>_. c) r)"
    by (cases r) (simp_all add: pbind_def preturn_def)
  moreover have "is_ok r = is_ok (map_ok (\<lambda>_. c) r)" by (cases r) simp_all
  ultimately show ?thesis using assms Pair tracked_result by fastforce
qed

lemma persist_candidate_cases:
  assumes "persist_candidate x t aw = (aw', r)"
  obtains (saved) w' where "validate x t = Inr ()" "r = Inr ()"
      "persist x (ag_store (fst aw)) t (snd aw) = (w', Inr ())" "aw' = (fst aw\<lparr> ag_state := t \<rparr>, w')"
  | (unsaved) w' e where "validate x t = Inr ()" "r = Inl e"
      "fst (persist x (ag_store (fst aw)) t (snd aw)) = w'" "aw' = (fst aw, w')"
  | (invalid) "validate x t = Inl InvalidState" "r = Inl (Store InvalidState)" "aw' = aw"
proof (cases "validate x t")
  case (Inl e)
  then have "e = InvalidState" using validate_cases [of x t] by auto
  with Inl assms show thesis by (intro invalid) (auto simp: persist_candidate_def)
next
  case (Inr u)
  obtain w' q where p: "persist x (ag_store (fst aw)) t (snd aw) = (w', q)" by fastforce
  show thesis
  proof (cases q)
    case (Inl e)
    with Inr p assms show thesis
      by (intro unsaved [of "Store e" w'])
        (auto simp: persist_candidate_def pbind_def on_world_def pmap_err_def plift_def)
  next
    case (Inr u')
    with \<open>validate x t = Inr u\<close> p assms show thesis
      by (intro saved [of w'])
        (auto simp: persist_candidate_def pbind_def on_world_def pmap_err_def plift_def)
  qed
qed

lemma tracked_persist:
  assumes step: "protocol_step x (ag_state (fst aw)) t"
  shows "tracked x aw (persist_candidate x t aw)"
proof -
  obtain aw' r where p: "persist_candidate x t aw = (aw', r)" by fastforce
  let ?st = "ag_store (fst aw)"
  have atomic: "shows_state ?st (fst (persist x ?st t (snd aw))) (insert (state_image x t) C)"
    if "shows_state ?st (snd aw) C" for C
    by (rule state_cell.save_atomic [OF that])
  show ?thesis
    unfolding p using p
  proof (cases rule: persist_candidate_cases)
    case (saved w')
    have vs: "validated_step x (ag_state (fst aw)) t" using step saved(1) by (simp add: validated_step_def)
    have "shows_state ?st (snd aw) UNIV" by (simp add: shows_state_def all_disks_def)
    then have "shows_state ?st w' {state_image x t}" using saved(3) by (rule state_cell.save_durable)
    with saved vs atomic show "tracked x aw (aw', r)"
      unfolding tracked_def Let_def by (intro exI [of _ t]) (auto intro: shows_mono)
  next
    case (unsaved w' e)
    have vs: "validated_step x (ag_state (fst aw)) t" using step unsaved(1) by (simp add: validated_step_def)
    show "tracked x aw (aw', r)"
      unfolding tracked_def Let_def
      by (rule exI [of _ t]) (use unsaved vs atomic in \<open>auto simp: insert_absorb dest: shows_mono\<close>)
  next
    case invalid
    then show "tracked x aw (aw', r)" by simp
  qed
qed

lemma tracked_guard:
  "(\<And>a. r = Inr a \<Longrightarrow> tracked x aw (f a aw)) \<Longrightarrow> tracked x aw (pbind (plift (map_err Store r)) f aw)"
  by (cases r) simp_all

lemma tracked_world:
  assumes keep: "\<And>C. shows_state (ag_store (fst aw)) (snd aw) C \<Longrightarrow>
      shows_state (ag_store (fst aw)) (fst (m (snd aw))) C"
    and rest: "\<And>a w1. m (snd aw) = (w1, Inr a) \<Longrightarrow> tracked x (fst aw, w1) (f a (fst aw, w1))"
  shows "tracked x aw (pbind (on_world m) f aw)"
proof -
  obtain w1 r where m: "m (snd aw) = (w1, r)" by fastforce
  show ?thesis
  proof (cases r)
    case (Inl e)
    then show ?thesis using m keep by (auto simp: pbind_def on_world_def intro!: tracked_same)
  next
    case (Inr a)
    have "shows_state (ag_store (fst aw)) w1 C" if "shows_state (ag_store (fst aw)) (snd aw) C" for C
      using keep [OF that] m by simp
    then have "tracked x aw (f a (fst aw, w1))"
      using rest [of w1 a] m Inr unfolding tracked_def Let_def by (metis fst_conv snd_conv)
    then show ?thesis using m Inr by (simp add: pbind_def on_world_def)
  qed
qed

lemma reserve_outbox_Inr: "reserve_outbox s n = Inr u \<longleftrightarrow> length (st_outbox s) + n \<le> OUTBOX_LIMIT"
  by (simp add: reserve_outbox_def usize_saturating_add_le OUTBOX_LIMIT_def)

lemma reserve_command_journal_Inr:
  "reserve_command_journal s = Inr u \<longleftrightarrow> length (st_command_journal s) < COMMAND_JOURNAL_LIMIT"
  by (simp add: reserve_command_journal_def)

lemma replay_known_tracked: "tracked x aw (replay_known x cid fp aw)"
proof (cases "has_command_ack cid (ag_state (fst aw))")
  case True
  then show ?thesis by (simp add: replay_known_def preturn_def)
next
  case False
  then show ?thesis
    unfolding replay_known_def Let_def
    by (auto intro!: tracked_guard tracked_return tracked_persist Replay simp: reserve_outbox_Inr)
qed

lemma refuse_conflicting_tracked: "tracked x aw (refuse_conflicting x cid fp g f u aw)"
proof (cases "has_conflicting_replay x cid fp (ag_state (fst aw))")
  case True
  then show ?thesis by (simp add: refuse_conflicting_def preturn_def)
next
  case False
  then show ?thesis
    unfolding refuse_conflicting_def Let_def
    by (auto intro!: tracked_guard tracked_return tracked_persist Conflict simp: reserve_outbox_Inr)
qed

lemma persist_rejection_tracked: "tracked x aw (persist_rejection x c fp rej u aw)"
  unfolding persist_rejection_def Let_def
  by (auto intro!: tracked_guard tracked_return tracked_persist Reject
      simp: reserve_outbox_Inr reserve_command_journal_Inr)

lemma persist_raw_rejection_tracked: "tracked x aw (persist_raw_rejection x c fp now aw)"
  unfolding persist_raw_rejection_def Let_def
  by (auto intro!: tracked_guard tracked_return tracked_persist Reject
      simp: reserve_outbox_Inr reserve_command_journal_Inr)

lemma current_expire [simp]:
  "current_fence (expire_command_journal s now) = current_fence s"
  "current_generation (expire_command_journal s now) = current_generation s"
  "current_credential_generation (expire_command_journal s now) = current_credential_generation s"
  "current_revision (expire_command_journal s now) = current_revision s"
  "rotation_in_flight (expire_command_journal s now) = rotation_in_flight s"
  "next_revision (expire_command_journal s now) = next_revision s"
  by (simp_all add: current_fence_def current_generation_def current_credential_generation_def
      current_revision_def rotation_in_flight_def next_revision_def)

text \<open>The candidate of \<open>commit\<close>.\<close>

definition commit_command ::
  "reference_device_agent \<Rightarrow> device_command \<Rightarrow> string \<Rightarrow> resolved_artifact \<Rightarrow> i64 \<Rightarrow> credential_revision
     \<Rightarrow> accepted_command" where
  "commit_command ag command fingerprint artifact observed_at revision = \<lparr>
     ac_command_id = command_id_expose (dc_command_id command), ac_fingerprint = fingerprint,
     ac_generation = generation_get (dc_desired_generation command),
     ac_fence = fence_epoch_get (dc_fence_epoch command),
     ac_credential_generation = credential_generation_get (ra_credential_generation artifact),
     ac_revision = credential_revision_get revision,
     ac_artifact_digest = sha256_digest_expose (ra_digest artifact),
     ac_expires_at = vc_expires_at (ra_credential artifact), ac_observed_at = observed_at,
     ac_retain_until_epoch_seconds = retention_deadline ag observed_at \<rparr>"

lemma commit_tracked:
  assumes idle: "\<not> rotation_in_flight (ag_state (fst aw))"
    and "current_fence (ag_state (fst aw)) \<le> fence_epoch_get (dc_fence_epoch c)"
    and "current_generation (ag_state (fst aw)) < generation_get (dc_desired_generation c)"
    and "current_credential_generation (ag_state (fst aw))
           < credential_generation_get (ra_credential_generation a)"
  shows "tracked x aw (commit x c fp a u aw)"
proof -
  let ?now = "unwrap_or (u64_try_from_i64 u) u64_max"
  let ?e = "expire_command_journal (ag_state (fst aw)) ?now"
  have save: "tracked x (fst aw, w1) (pbind (plift (map_err Store
      (accept x (commit_command (fst aw) c fp a u r) ?e)))
      (\<lambda>t. pbind (persist_candidate x t) (\<lambda>_. preturn Accepted)) (fst aw, w1))"
    if "next_revision ?e = Inr r" "reserve_outbox ?e 2 = Inr a1" "reserve_command_journal ?e = Inr a2" for w1 r a1 a2
  proof (intro tracked_guard tracked_return tracked_persist)
    fix t assume acc: "accept x (commit_command (fst aw) c fp a u r) ?e = Inr t"
    have "protocol_step x (ag_state (fst aw)) t"
      by (rule Accept [OF _ _ _ _ _ _ _ _ acc])
        (use that assms in \<open>simp_all add: commit_command_def reserve_outbox_Inr reserve_command_journal_Inr\<close>)
    then show "protocol_step x (ag_state (fst (fst aw, w1))) t" by simp
  qed
  have keep: "shows_state (ag_store (fst aw)) (fst (pmap_err Store (install_revision (ag_store (fst aw)) r cr) w1)) C"
    if "shows_state (ag_store (fst aw)) w1 C" for C r cr w1
    using install_revision_shows_state [OF that] by simp
  show ?thesis
    unfolding commit_def Let_def commit_command_def [symmetric]
    by (intro tracked_guard tracked_world save keep)
qed

lemma admit_artifact_tracked:
  assumes "\<not> rotation_in_flight (ag_state (fst aw))"
  shows "tracked x aw (admit_artifact x c fp a u aw)"
  using assms by (auto simp: admit_artifact_def Let_def not_less not_le persist_rejection_tracked
      intro!: commit_tracked)

lemma apply_new_tracked: "tracked x aw (apply_new x topic c fp now u aw)"
proof (cases "rotation_in_flight (ag_state (fst aw))")
  case True
  then show ?thesis by (simp add: apply_new_def plift_def)
next
  case False
  have cat: "tracked x aw (case catalog_resolve x (ag_catalog (fst aw)) identity c now (snd aw) of
              (w1, Inl error) \<Rightarrow> persist_rejection x c fp (catalog_rejection error) u (fst aw, w1)
            | (w1, Inr artifact) \<Rightarrow> admit_artifact x c fp artifact u (fst aw, w1))" for identity
  proof -
    obtain w1 r where res: "catalog_resolve x (ag_catalog (fst aw)) identity c now (snd aw) = (w1, r)"
      by fastforce
    have same: "shows_state st w1 C = shows_state st (snd aw) C" for st C
      using reads_onlyD [OF reads_only_catalog_resolve res] by (simp add: shows_state_def all_disks_def)
    have lift: "tracked x (fst aw, w1) res' \<Longrightarrow> tracked x aw res'"
      for res' :: "(reference_device_agent \<times> world) \<times> (agent_error, apply_outcome) result"
      by (simp add: tracked_def same)
    have rej: "tracked x aw (persist_rejection x c fp e u (fst aw, w1))" for e
      by (rule lift, rule persist_rejection_tracked)
    have adm: "tracked x aw (admit_artifact x c fp a u (fst aw, w1))" for a
      using False by (intro lift admit_artifact_tracked) simp
    show ?thesis using rej adm by (cases r) (simp_all add: res)
  qed
  show ?thesis
    unfolding apply_new_def using False cat
    by (auto intro!: tracked_guard simp: persist_rejection_tracked)
qed

lemma apply_command_tracked: "tracked x aw (apply_command x topic c now aw)"
  by (auto simp: apply_command_def Let_def replay_known_tracked refuse_conflicting_tracked apply_new_tracked
      split: option.splits)

lemma reject_malformed_tracked: "tracked x aw (reject_malformed_delivery x topic cid payload now aw)"
  unfolding reject_malformed_delivery_def Let_def
  by (rule tracked_guard) (auto simp: plift_def replay_known_tracked
      refuse_conflicting_tracked persist_raw_rejection_tracked split: option.splits)

lemma confirm_tracked: "tracked x aw (agent_confirm_outbound x event aw)"
  by (auto simp: agent_confirm_outbound_def Let_def plift_def split: prod.splits
      intro!: tracked_persist intro: Confirm)

lemma settle_tracked: "tracked x aw (persist_inbound_settlement x token aw)"
  by (auto simp: persist_inbound_settlement_def Let_def plift_def split: prod.splits
      intro!: tracked_persist intro: Settle)

lemma connected_tracked: "tracked x aw (mark_current_credential_connected x revision aw)"
  by (auto simp: mark_current_credential_connected_def Let_def plift_def split: prod.splits
      intro!: tracked_persist intro: Reconnect)

lemma run_op_tracked: "tracked x aw (run_op x op aw)"
  by (cases op) (simp_all add: run_op_def discard_def tracked_return apply_command_tracked
      reject_malformed_tracked confirm_tracked settle_tracked connected_tracked
      mark_pending_inbound_settled_def mark_pending_inbound_absent_def)

text \<open>A history of operations, failures included.\<close>

fun run_ops :: "'z catalog_externals_scheme \<Rightarrow> agent_op list \<Rightarrow> reference_device_agent \<times> world
     \<Rightarrow> reference_device_agent \<times> world" where
  "run_ops x [] aw = aw"
| "run_ops x (op # ops) aw = run_ops x ops (fst (run_op x op aw))"

lemma run_ops_reach: "(validated_step x)\<^sup>*\<^sup>* (ag_state (fst aw)) (ag_state (fst (run_ops x ops aw)))"
proof (induction ops arbitrary: aw)
  case Nil
  then show ?case by simp
next
  case (Cons op ops)
  have "ag_state (fst (fst (run_op x op aw))) = ag_state (fst aw)
      \<or> validated_step x (ag_state (fst aw)) (ag_state (fst (fst (run_op x op aw))))"
    using tracked_one_step [OF run_op_tracked [of x aw op]] by (auto simp: one_step_def)
  then show ?case
    using Cons.IH [of "fst (run_op x op aw)"] by (auto intro: converse_rtranclp_into_rtranclp)
qed

end
