(* ===== verification/Agent_Progress.thy ===== *)
theory Agent_Progress
  imports Agent_Machine
begin

text \<open>
  Progress: on a healthy disk every save succeeds, so the candidate states the protocol computes are
  installed, and a rotation in flight is driven to completion by the publication of its facts, the
  reconnect and the settlement of its delivery.
\<close>

section \<open>A healthy store\<close>

definition healthy :: "state_store \<Rightarrow> world \<Rightarrow> bool" where
  "healthy store w \<longleftrightarrow> \<not> w_dead w \<and> w_script w = []
     \<and> fs_get (w_fs w) (ss_root store) = Some Dir
     \<and> fs_get (w_fs w) (temporary_path (ss_root store)) \<noteq> Some Dir
     \<and> fs_get (w_fs w) (state_path (ss_root store)) \<noteq> Some Dir"

text \<open>Calls on a healthy world return what the disk says.\<close>

lemma syscall_healthy:
  "\<not> w_dead w \<Longrightarrow> w_script w = [] \<Longrightarrow> syscall act part w =
     (case act (w_fs w) of Inl e \<Rightarrow> (w, Inl e) | Inr (fs, a) \<Rightarrow> (set_fs fs w, Inr a))"
  by (cases w) (auto simp: syscall_def Let_def set_fs_def split: sum.splits)

lemma read_call_healthy: "\<not> w_dead w \<Longrightarrow> w_script w = [] \<Longrightarrow> read_call q w = (w, q (w_fs w))"
  by (cases w) (simp add: read_call_def Let_def)

lemma set_fs_simps [simp]:
  "w_dead (set_fs fs w) = w_dead w" "w_script (set_fs fs w) = w_script w" "w_fs (set_fs fs w) = fs"
  by (simp_all add: set_fs_def)

lemma sync_dir_healthy:
  "\<not> w_dead w \<Longrightarrow> w_script w = [] \<Longrightarrow> fs_get (w_fs w) p \<noteq> None \<Longrightarrow> sync_dir p w = (w\<lparr> w_log := [] \<rparr>, Inr ())"
  by (simp add: sync_dir_def read_call_healthy)

lemma root_paths [simp]:
  "butlast (temporary_path root) = root" "butlast (state_path root) = root"
  "temporary_path root \<noteq> root" "state_path root \<noteq> root" "root \<noteq> temporary_path root" "root \<noteq> state_path root"
  "\<not> prefix (temporary_path root) root" "\<not> prefix (state_path root) root"
  by (simp_all add: temporary_path_def state_path_def)

lemma remove_stale_healthy:
  assumes h: "healthy store w"
  obtains w1 where "remove_stale_file (temporary_path (ss_root store)) w = (w1, Inr ())"
    "healthy store w1" "fs_get (w_fs w1) (temporary_path (ss_root store)) = None"
proof -
  let ?p = "temporary_path (ss_root store)"
  from h have ok: "\<not> w_dead w" "w_script w = []" by (simp_all add: healthy_def)
  show thesis
  proof (cases "fs_get (w_fs w) ?p")
    case None
    then have "remove_stale_file ?p w = (w, Inr ())"
      by (simp add: remove_stale_file_def remove_file_def syscall_healthy ok)
    with that h None show thesis by blast
  next
    case (Some n)
    with h have "n \<noteq> Dir" by (auto simp: healthy_def)
    then have "remove_file ?p w = (set_fs (fs_del ?p (w_fs w)) w, Inr ())"
      using Some by (cases n) (simp_all add: remove_file_def syscall_healthy ok)
    moreover have "fs_get (fs_del ?p (w_fs w)) (ss_root store) = Some Dir"
      using h by (simp add: healthy_def fs_get_del)
    ultimately have "remove_stale_file ?p w = ((set_fs (fs_del ?p (w_fs w)) w)\<lparr> w_log := [] \<rparr>, Inr ())"
      by (simp add: remove_stale_file_def sync_parent_def sync_directory_def pmap_err_def sync_dir_healthy ok)
    moreover have "healthy store ((set_fs (fs_del ?p (w_fs w)) w)\<lparr> w_log := [] \<rparr>)"
      using h by (simp add: healthy_def fs_get_del)
    ultimately show thesis using that by (simp add: fs_get_del)
  qed
qed

lemma write_synced_healthy:
  assumes h: "healthy store w" and none: "fs_get (w_fs w) (temporary_path (ss_root store)) = None"
  obtains w1 where "write_synced (temporary_path (ss_root store)) b m w = (w1, Inr ())" "healthy store w1"
proof -
  let ?p = "temporary_path (ss_root store)"
  from h have ok: "\<not> w_dead w" "w_script w = []" by (simp_all add: healthy_def)
  have par: "parent_ok (w_fs w) ?p = Inr ()" using h by (simp add: parent_ok_def healthy_def)
  define w1 where "w1 = set_fs (fs_put ?p (File [] m False) (w_fs w)) w"
  define w2 where "w2 = set_fs (put_contents ?p b (w_fs w1)) w1"
  define w3 where "w3 = set_fs (fs_put ?p (File b m True) (w_fs w2)) w2"
  have c: "create_new ?p m w = (w1, Inr ())"
    using par none by (simp add: create_new_def syscall_healthy ok w1_def)
  have wr: "write_all ?p b w1 = (w2, Inr ())"
    by (simp add: write_all_def syscall_healthy ok w1_def w2_def)
  have "fs_get (w_fs w2) ?p = Some (File b m False)" by (simp add: w2_def w1_def put_contents_def)
  then have s: "sync_file ?p w2 = (w3, Inr ())"
    by (simp add: sync_file_def syscall_healthy ok w1_def w2_def w3_def)
  have "healthy store w3" using h ok
    by (auto simp: healthy_def w3_def w2_def w1_def put_contents_other fs_get_def [of _ "[]"])
  with c wr s show thesis
    by (intro that [of w3]) (simp_all add: write_synced_def pbind_ok)
qed

lemma persist_healthy:
  assumes h: "healthy store w" and b: "state_to_vec x s = Some b"
  obtains w' where "persist x store s w = (w', Inr ())" "healthy store w'"
proof -
  let ?p = "temporary_path (ss_root store)" and ?q = "state_path (ss_root store)"
  obtain w1 where r: "remove_stale_file ?p w = (w1, Inr ())" "healthy store w1" "fs_get (w_fs w1) ?p = None"
    using remove_stale_healthy [OF h] .
  obtain w2 where wr: "write_synced ?p b 0x180 w1 = (w2, Inr ())" "healthy store w2"
    using write_synced_healthy [OF r(2,3)] .
  note tmp = write_synced_result(1) [OF wr(1)]
  from wr(2) have ok: "\<not> w_dead w2" "w_script w2 = []" by (simp_all add: healthy_def)
  define w3 where "w3 = set_fs (fs_move ?p ?q (w_fs w2)) w2"
  have "rename_ok ?p ?q (w_fs w2) = Inr ()"
    using wr(2) tmp by (simp add: rename_ok_def parent_ok_def healthy_def)
  then have ren: "rename ?p ?q w2 = (w3, Inr ())"
    by (simp add: rename_def syscall_healthy ok w3_def)
  have root: "fs_get (w_fs w3) (ss_root store) = Some Dir"
    using wr(2) by (simp add: w3_def healthy_def fs_get_move_other)
  have q: "fs_get (w_fs w3) ?q = Some (File b 0x180 True)"
    using fs_get_move_dst [of ?p ?q "w_fs w2" "[]"] tmp by (simp add: w3_def)
  have p: "fs_get (w_fs w3) ?p = None"
    using fs_get_move_src [of ?p ?q] by (simp add: w3_def)
  have "healthy store (w3\<lparr> w_log := [] \<rparr>)" using root q p ok by (simp add: healthy_def w3_def)
  moreover have "sync_directory (ss_root store) w3 = (w3\<lparr> w_log := [] \<rparr>, Inr ())"
    using root ok by (simp add: sync_directory_def pmap_err_def sync_dir_healthy w3_def)
  ultimately show thesis
    using that r(1) wr(1) ren b by (simp add: persist_def pbind_ok Let_def)
qed

section \<open>Installing a valid candidate\<close>

definition codec_total :: "'z store_externals_scheme \<Rightarrow> bool" where
  "codec_total x \<longleftrightarrow> (\<forall>s. state_to_vec x s \<noteq> None)"

lemma valid_state_own_identity:
  assumes "valid_state x i t" and "wf_identity x i"
  shows "wf_identity x (state_identity t)" "valid_state x (state_identity t) t"
  using assms
  by (auto simp: valid_state_def coordinates_valid_def wf_identity_def state_identity_def scope_identity_def)

lemma valid_state_validates: "valid_state x i t \<Longrightarrow> wf_identity x i \<Longrightarrow> validate x t = Inr ()"
  by (simp add: validate_iff valid_state_own_identity)

lemma persist_candidate_healthy:
  assumes "valid_state x i t" "wf_identity x i" "healthy (ag_store (fst aw)) (snd aw)" "codec_total x"
  obtains w' where "persist_candidate x t aw = ((fst aw\<lparr> ag_state := t \<rparr>, w'), Inr ())"
    "healthy (ag_store (fst aw)) w'"
proof -
  obtain b where b: "state_to_vec x t = Some b" using assms(4) by (auto simp: codec_total_def)
  obtain w' where w': "persist x (ag_store (fst aw)) t (snd aw) = (w', Inr ())" "healthy (ag_store (fst aw)) w'"
    using persist_healthy [OF assms(3) b] .
  moreover have "validate x t = Inr ()" by (rule valid_state_validates [OF assms(1,2)])
  ultimately show thesis
    by (intro that [of w'])
      (simp_all add: persist_candidate_def plift_def pbind_def on_world_def pmap_err_def)
qed

section \<open>Driving a rotation to completion\<close>

text \<open>
  The next thing a connected session does: publish the next fact and have it acknowledged, connect
  with the new credential, or settle the delivery. Nothing is left to do when the answer is \<open>None\<close>.
\<close>

definition session_op :: "reference_device_agent \<Rightarrow> agent_op option" where
  "session_op ag = (case agent_next_outbound ag of
     Some outbound \<Rightarrow> Some (ConfirmOutbound (outbound_fact_event_id outbound))
   | None \<Rightarrow> (case st_reconnect_revision (ag_state ag) of
       Some revision \<Rightarrow> Some (CredentialConnected (CredentialRevision revision))
     | None \<Rightarrow> if pending_inbound_settled ag then None else Some SettleAbsent))"

definition work_left :: "state_v1 \<Rightarrow> nat" where
  "work_left s = 2 * length (st_outbox s) + (if st_reconnect_revision s = None then 0 else 1)
     + (case st_pending_inbound s of Some p \<Rightarrow> if pi_settled p then 0 else 1 | None \<Rightarrow> 0)"

fun run_rounds :: "'z catalog_externals_scheme \<Rightarrow> nat \<Rightarrow> reference_device_agent \<times> world
    \<Rightarrow> reference_device_agent \<times> world" where
  "run_rounds x 0 aw = aw"
| "run_rounds x (Suc n) aw = (case session_op (fst aw) of
     None \<Rightarrow> aw | Some op \<Rightarrow> run_rounds x n (fst (run_op x op aw)))"

lemma confirm_work:
  assumes l: "linked_state x i s" and p: "publishable event s"
    and c: "confirm_outbound event s = (True, t)"
  shows "work_left t < work_left s"
  using l p c
proof (cases rule: confirm_cases [consumes 3])
  case (plain k a)
  then have "length (remove_at k (st_outbox s)) + 1 = length (st_outbox s)"
    by (simp add: length_remove_at)
  with plain(4) show ?thesis by (simp add: work_left_def split: option.splits)
next
  case (activation k a rv)
  then have len: "length (remove_at k (st_outbox s)) + 1 = length (st_outbox s)"
    by (simp add: length_remove_at)
  have "st_reconnect_revision s = None"
    using activation_blocked(2) [OF linked_stateD(1) [OF l] _ activation(3), of event] activation(1,2)
    by (metis nth_mem)
  with len activation(4) show ?thesis by (simp add: work_left_def split: option.splits)
next
  case (report k r)
  then have "length (remove_at k (st_outbox s)) + 1 = length (st_outbox s)"
    by (simp add: length_remove_at)
  with report(4) show ?thesis by (simp add: work_left_def split: option.splits)
qed

lemma reconnected_work: "mark_reconnected rv s = (True, t) \<Longrightarrow> work_left t < work_left s"
  by (auto simp: mark_reconnected_def work_left_def split: if_splits)

lemma settled_work:
  "mark_inbound_settled token s = (True, t) \<Longrightarrow> \<not> pending_settled s \<Longrightarrow> work_left t < work_left s"
  by (auto simp: mark_inbound_settled_def work_left_def pending_settled_def split: option.splits if_splits)

text \<open>With nothing left to do the outbox is empty and no rotation is in flight.\<close>

lemma session_done:
  assumes v: "valid_state x i (ag_state ag)" and none: "session_op ag = None"
  shows "st_outbox (ag_state ag) = []" "rotation_phase (ag_state ag) = Idle"
proof -
  let ?s = "ag_state ag"
  have next_none: "next_outbound ?s = None" and rc: "st_reconnect_revision ?s = None"
    and settled: "pending_inbound_settled ag"
    using none by (auto simp: session_op_def agent_next_outbound_def split: option.splits if_splits)
  have no_ack: "Ack e a \<notin> set (st_outbox ?s)" for e a
    using next_none by (auto simp: next_outbound_def find_map_None)
  have "report_payload e = None" if e: "e \<in> set (st_outbox ?s)" for e
  proof (cases e)
    case (ReportBlocked rid r)
    then have "\<exists>b \<in> set (st_outbox ?s). is_activation_for (rr_credential_revision r) (rr_command_id r) b"
      using valid_entryD(2) [OF v e] rc by (simp add: phase_entry_valid_def)
    then show ?thesis using no_ack by (auto simp: is_activation_for_iff)
  next
    case (ReportReady rid r)
    then have "rotation_in_flight ?s" using e by (force simp: rotation_in_flight_def list_ex_iff)
    then obtain p where p: "st_pending_inbound ?s = Some p" using valid_in_flight [OF v] by auto
    with settled have "pending_settled ?s"
      by (simp add: pending_inbound_settled_def pending_inbound_def pending_settled_def)
    then show ?thesis using next_none e ReportReady by (auto simp: next_outbound_def find_map_None)
  qed simp
  with no_ack have none: "e \<notin> set (st_outbox ?s)" for e by (cases e) fastforce+
  then show "st_outbox ?s = []" by (metis last_in_set)
  then have "\<not> rotation_in_flight ?s" by (simp add: rotation_in_flight_def)
  then show "rotation_phase ?s = Idle" using valid_idle(1) [OF v] by (simp add: phase_idle_iff)
qed

text \<open>One round of the session on a healthy store: the work decreases, the invariant holds.\<close>

lemma session_round:
  assumes l: "linked_state x i (ag_state (fst aw))" and wf: "wf_identity x i"
    and h: "healthy (ag_store (fst aw)) (snd aw)" and c: "codec_total x"
    and op: "session_op (fst aw) = Some op"
  obtains ag' w' where "run_op x op aw = ((ag', w'), Inr ())" "linked_state x i (ag_state ag')"
    "healthy (ag_store ag') w'" "work_left (ag_state ag') < work_left (ag_state (fst aw))"
    "ag_store ag' = ag_store (fst aw)"
proof -
  let ?s = "ag_state (fst aw)"
  note v = linked_stateD(1) [OF l] and goal = that
  have finish: thesis if t: "linked_state x i t" "work_left t < work_left ?s"
    and run: "run_op x op aw = persist_candidate x t aw" for t
  proof -
    obtain w' where "persist_candidate x t aw = ((fst aw\<lparr> ag_state := t \<rparr>, w'), Inr ())"
      "healthy (ag_store (fst aw)) w'"
      using persist_candidate_healthy [OF linked_stateD(1) [OF t(1)] wf h c] .
    with run t show thesis by (intro goal [of "fst aw\<lparr> ag_state := t \<rparr>" w']) simp_all
  qed
  show thesis
  proof (cases "next_outbound ?s")
    case (Some f)
    then have o: "op = ConfirmOutbound (outbound_fact_event_id f)"
      using op by (simp add: session_op_def agent_next_outbound_def)
    obtain t where t: "confirm_outbound (outbound_fact_event_id f) ?s = (True, t)"
      using next_outbound_confirmable [OF v Some] by blast
    note p = next_outbound_publishable [OF v Some]
    show thesis
      by (rule finish [OF linked_confirm [OF l p t] confirm_work [OF l p t]])
        (simp add: o run_op_def agent_confirm_outbound_def t)
  next
    case None
    show thesis
    proof (cases "st_reconnect_revision ?s")
      case (Some r)
      then have o: "op = CredentialConnected (CredentialRevision r)"
        using op None by (simp add: session_op_def agent_next_outbound_def)
      obtain t where t: "mark_reconnected r ?s = (True, t)" using Some by (simp add: mark_reconnected_def)
      show thesis
        by (rule finish [OF linked_reconnected [OF l t] reconnected_work [OF t]])
          (simp add: o run_op_def mark_current_credential_connected_def t)
    next
      case none: None
      then have o: "op = SettleAbsent" and un: "\<not> pending_inbound_settled (fst aw)"
        using op None by (auto simp: session_op_def agent_next_outbound_def split: if_splits)
      obtain q where q: "st_pending_inbound ?s = Some q" and ns: "\<not> pending_settled ?s"
        using un by (auto simp: pending_inbound_settled_def pending_inbound_def pending_settled_def
            split: option.splits)
      obtain t where t: "mark_inbound_settled None ?s = (True, t)"
        using q by (simp add: mark_inbound_settled_def)
      show thesis
        by (rule finish [OF linked_settled [OF l t] settled_work [OF t ns]])
          (simp add: o run_op_def mark_pending_inbound_absent_def persist_inbound_settlement_def t)
    qed
  qed
qed

lemma session_completes:
  assumes "linked_state x i (ag_state (fst aw))" "wf_identity x i"
    "healthy (ag_store (fst aw)) (snd aw)" "codec_total x" "work_left (ag_state (fst aw)) \<le> n"
  shows "linked_state x i (ag_state (fst (run_rounds x n aw)))
    \<and> st_outbox (ag_state (fst (run_rounds x n aw))) = []
    \<and> rotation_phase (ag_state (fst (run_rounds x n aw))) = Idle"
  using assms
proof (induction n arbitrary: aw)
  case 0
  then have "session_op (fst aw) = None"
  proof (cases "session_op (fst aw)")
    case (Some op)
    then show ?thesis using session_round [OF "0.prems"(1-4) Some] 0 by fastforce
  qed
  with 0 session_done [OF linked_stateD(1) [OF "0.prems"(1)]] show ?case by simp
next
  case (Suc n)
  show ?case
  proof (cases "session_op (fst aw)")
    case None
    with Suc session_done [OF linked_stateD(1) [OF Suc.prems(1)]] show ?thesis by simp
  next
    case (Some op)
    obtain ag' w' where r: "run_op x op aw = ((ag', w'), Inr ())" "linked_state x i (ag_state ag')"
      "healthy (ag_store ag') w'" "work_left (ag_state ag') < work_left (ag_state (fst aw))"
      using session_round [OF Suc.prems(1-4) Some] by metis
    have "work_left (ag_state (fst (ag', w'))) \<le> n" using r(4) Suc.prems(5) by simp
    with Suc.IH [of "(ag', w')"] r Suc.prems(2,4) Some show ?thesis by simp
  qed
qed

end
