(* ===== verification/Agent_Facts.thy ===== *)
theory Agent_Facts
  imports Agent_Progress
begin

text \<open>
  Facts about single operations of the agent: what a fingerprint binds, when intake cannot be refused
  for lack of room, backpressure, duplicate deliveries, the identities a delivery may be decoded
  under, and what an opened agent has checked.
\<close>

section \<open>Fingerprints\<close>

lemma chars_nul: "list_all (\<lambda>c. \<not> is_control c) (chars v) \<Longrightarrow> chars v \<noteq> [] \<Longrightarrow> CHR 0x00 \<notin> set v"
proof
  assume a: "list_all (\<lambda>c. \<not> is_control c) (chars v)" "chars v \<noteq> []" and nul: "CHR 0x00 \<in> set v"
  then obtain cs where cs: "utf8_decode v = Some cs" by (cases "utf8_decode v") (auto simp: chars_def)
  then have "0 \<in> set (chars v)" using utf8_decode_nul [OF cs nul] by (simp add: chars_def)
  with a(1) show False by (auto simp: list_all_iff is_control_def)
qed

lemma wf_command_id_nul: "wf_command_id v \<Longrightarrow> CHR 0x00 \<notin> set v"
  by (rule chars_nul) (auto simp: wf_command_id_def list_all_iff list_ex_iff)

lemma wf_artifact_id_nul: "wf_artifact_id v \<Longrightarrow> CHR 0x00 \<notin> set v"
  by (rule chars_nul)
    (auto simp: wf_artifact_id_def artifact_id_try_from_def Let_def is_ok_iff list_all_iff list_ex_iff
      split: if_splits)

lemma wf_digest_nul:
  assumes "wf_digest v"
  shows "CHR 0x00 \<notin> set v"
proof
  assume nul: "CHR 0x00 \<in> set v"
  have "v = take 7 v @ drop 7 v" by simp
  then have "set v = set (take 7 v) \<union> set (drop 7 v)" by (metis set_append)
  with assms nul have "CHR 0x00 \<in> set (drop 7 v)" by (auto simp: wf_digest_def)
  with assms show False by (auto simp: wf_digest_def list_all_iff is_lower_hex_def)
qed

text \<open>Every field of a well-formed command can be read back from the message that is hashed.\<close>

lemma command_preimage_inj:
  assumes u: "uuid_contract x" and wf: "wf_command c" "wf_command d"
    and eq: "command_preimage x c = command_preimage x d"
  shows "c = d"
proof -
  note nuls = wf_command_id_nul wf_artifact_id_nul wf_digest_nul
  let ?tail = "\<lambda>c. uuid_as_bytes x (dc_device_id c) @ uuid_as_bytes x (dc_authorization_receipt_id c)
     @ u64_be_bytes (dc_deadline_epoch_seconds c) @ u64_be_bytes (generation_get (dc_desired_generation c))
     @ u64_be_bytes (fence_epoch_get (dc_fence_epoch c))"
  let ?f5 = "\<lambda>c. sha256_digest_expose (dc_policy_hash c) @ CHR 0x00 # ?tail c"
  let ?f4 = "\<lambda>c. sha256_digest_expose (dc_intent_digest c) @ CHR 0x00 # ?f5 c"
  let ?f3 = "\<lambda>c. sha256_digest_expose (dc_artifact_digest c) @ CHR 0x00 # ?f4 c"
  let ?f2 = "\<lambda>c. artifact_id_expose (dc_artifact_id c) @ CHR 0x00 # ?f3 c"
  have e1: "command_id_expose (dc_command_id c) @ CHR 0x00 # ?f2 c
      = command_id_expose (dc_command_id d) @ CHR 0x00 # ?f2 d"
    using eq by (simp add: command_preimage_def)
  have s1: "command_id_expose (dc_command_id c) = command_id_expose (dc_command_id d) \<and> ?f2 c = ?f2 d"
    by (rule append_sep_inject [OF e1]) (use wf nuls in \<open>auto simp: wf_command_def\<close>)
  have s2: "artifact_id_expose (dc_artifact_id c) = artifact_id_expose (dc_artifact_id d) \<and> ?f3 c = ?f3 d"
    by (rule append_sep_inject [OF conjunct2 [OF s1]]) (use wf nuls in \<open>auto simp: wf_command_def\<close>)
  have s3: "sha256_digest_expose (dc_artifact_digest c) = sha256_digest_expose (dc_artifact_digest d) \<and> ?f4 c = ?f4 d"
    by (rule append_sep_inject [OF conjunct2 [OF s2]]) (use wf nuls in \<open>auto simp: wf_command_def\<close>)
  have s4: "sha256_digest_expose (dc_intent_digest c) = sha256_digest_expose (dc_intent_digest d) \<and> ?f5 c = ?f5 d"
    by (rule append_sep_inject [OF conjunct2 [OF s3]]) (use wf nuls in \<open>auto simp: wf_command_def\<close>)
  have s5: "sha256_digest_expose (dc_policy_hash c) = sha256_digest_expose (dc_policy_hash d) \<and> ?tail c = ?tail d"
    by (rule append_sep_inject [OF conjunct2 [OF s4]]) (use wf nuls in \<open>auto simp: wf_command_def\<close>)
  have "dc_device_id c = dc_device_id d" "dc_authorization_receipt_id c = dc_authorization_receipt_id d"
    "dc_deadline_epoch_seconds c = dc_deadline_epoch_seconds d"
    "generation_get (dc_desired_generation c) = generation_get (dc_desired_generation d)"
    "fence_epoch_get (dc_fence_epoch c) = fence_epoch_get (dc_fence_epoch d)"
    using conjunct2 [OF s5] u by simp_all
  then show ?thesis
    using s1 s2 s3 s4 s5
    by (auto intro: device_command.equality command_id.expand artifact_id.expand sha256_digest.expand
        generation.expand fence_epoch.expand)
qed

lemma fingerprint_binds:
  assumes "uuid_contract x" "wf_command c" "wf_command d"
    "collision_free_on x {command_preimage x c, command_preimage x d}"
    "command_fingerprint x c = command_fingerprint x d"
  shows "c = d"
proof -
  have "sha256_hex x (command_preimage x c) = sha256_hex x (command_preimage x d)"
    using assms(5) by (simp add: command_fingerprint_def)
  with assms(4) [unfolded collision_free_on_def] have "command_preimage x c = command_preimage x d"
    by (rule inj_onD) simp_all
  then show ?thesis by (rule command_preimage_inj [OF assms(1-3)])
qed

section \<open>Room for a new command\<close>

text \<open>Errors other than a lack of room.\<close>

definition room_error :: "agent_error \<Rightarrow> bool" where
  "room_error e \<longleftrightarrow> e = Store OutboxFull \<or> e = Store CommandJournalFull"

definition no_room_error :: "'a agent_proc \<Rightarrow> reference_device_agent \<times> world \<Rightarrow> bool" where
  "no_room_error m aw \<longleftrightarrow> (\<forall>e. snd (m aw) = Inl e \<longrightarrow> \<not> room_error e)"

lemma no_room_pbind:
  assumes "no_room_error m aw" "\<And>a aw1. m aw = (aw1, Inr a) \<Longrightarrow> no_room_error (f a) aw1"
  shows "no_room_error (pbind m f) aw"
  using assms by (auto simp: no_room_error_def pbind_def split: prod.splits sum.splits)

lemma no_room_lift: "(\<And>e. r = Inl e \<Longrightarrow> \<not> room_error e) \<Longrightarrow> no_room_error (plift r) aw"
  by (simp add: no_room_error_def plift_def)

lemma no_room_return: "no_room_error (preturn a) aw"
  by (simp add: no_room_error_def preturn_def)

text \<open>The store reports unavailability, invalid states and conflicting revisions only.\<close>

definition store_only :: "store_error set \<Rightarrow> 'a store_proc \<Rightarrow> bool" where
  "store_only E m \<longleftrightarrow> (\<forall>w w' e. m w = (w', Inl e) \<longrightarrow> e \<in> E)"

lemma store_only_pbind:
  "store_only E m \<Longrightarrow> (\<And>a. store_only E (f a)) \<Longrightarrow> store_only E (pbind m f)"
  unfolding store_only_def pbind_def by (fastforce split: prod.splits sum.splits)

lemma store_only_simps:
  "e \<in> E \<Longrightarrow> store_only E (pmap_err (\<lambda>_. e) m)" "store_only E (preturn a)"
  "(\<And>e. r = Inl e \<Longrightarrow> e \<in> E) \<Longrightarrow> store_only E (plift r)" "store_only E (pquery q)"
  by (auto simp: store_only_def pmap_err_def preturn_def plift_def pquery_def map_err_def
      split: prod.splits sum.splits)

lemma store_only_write_synced: "StoreUnavailable \<in> E \<Longrightarrow> store_only E (write_synced p b m)"
  unfolding write_synced_def by (intro store_only_pbind store_only_simps)

lemma store_only_sync_directory: "StoreUnavailable \<in> E \<Longrightarrow> store_only E (sync_directory p)"
  unfolding sync_directory_def by (intro store_only_simps)

lemma store_only_remove_stale:
  assumes "StoreUnavailable \<in> E"
  shows "store_only E (remove_stale_file p)" "store_only E (remove_stale_directory p)"
proof -
  have s: "store_only E (sync_parent p)"
    unfolding sync_parent_def using assms by (auto intro!: store_only_sync_directory store_only_simps)
  then show "store_only E (remove_stale_file p)" "store_only E (remove_stale_directory p)"
    using assms unfolding store_only_def remove_stale_file_def remove_stale_directory_def
    by (fastforce split: prod.splits sum.splits io_error.splits)+
qed

lemma store_only_persist: "store_only {StoreUnavailable, InvalidState} (persist x store s)"
  unfolding persist_def Let_def
  by (auto intro!: store_only_pbind store_only_remove_stale store_only_write_synced
      store_only_sync_directory store_only_simps)

lemma store_only_install: "store_only {StoreUnavailable, RevisionConflict} (install_revision store n c)"
proof -
  let ?E = "{StoreUnavailable, RevisionConflict}"
  have stage: "store_only ?E (stage_revision store s t c)" for s t
    unfolding stage_revision_def
    by (intro store_only_pbind store_only_write_synced store_only_sync_directory store_only_simps) simp_all
  have clean: "store_only ?E (stage_or_clean store s t c)" for s t
    using stage [of s t] unfolding store_only_def stage_or_clean_def Let_def
    by (fastforce split: prod.splits if_splits)
  have ver: "store_only ?E (verify_existing_revision t c)" for t
    unfolding verify_existing_revision_def
    by (auto intro!: store_only_pbind store_only_simps)
  show ?thesis
    unfolding install_revision_def Let_def using clean ver
    by (auto intro!: store_only_pbind store_only_remove_stale store_only_simps)
qed

lemma no_room_persist_candidate: "no_room_error (persist_candidate x t) aw"
proof -
  obtain aw' r where p: "persist_candidate x t aw = (aw', r)" by fastforce
  have "\<not> room_error e" if err: "r = Inl e" for e
    using p
  proof (cases rule: persist_candidate_cases)
    case (unsaved w' e')
    obtain w2 q where q: "persist x (ag_store (fst aw)) t (snd aw) = (w2, q)" by fastforce
    then have "r = map_err Store q"
      using p unsaved(1) by (simp add: persist_candidate_def pbind_def plift_def on_world_def pmap_err_def
          split: sum.splits)
    then obtain se where "q = Inl se" "e = Store se" using err by (cases q) auto
    then show ?thesis using store_only_persist [of x "ag_store (fst aw)" t] q
      by (auto simp: store_only_def room_error_def)
  qed (use err in \<open>auto simp: room_error_def\<close>)
  then show ?thesis by (simp add: no_room_error_def p)
qed

lemma no_room_install:
  "no_room_error (on_world (pmap_err Store (install_revision store n c))) aw"
  using store_only_install [of store n c]
  by (auto simp: no_room_error_def on_world_def pmap_err_def store_only_def room_error_def map_err_def
      split: prod.splits sum.splits)

lemma expire_room:
  assumes "length (st_command_journal s) \<le> COMMAND_JOURNAL_LIMIT" "command_journal_has_capacity s now"
  shows "length (st_command_journal (expire_command_journal s now)) < COMMAND_JOURNAL_LIMIT"
proof (cases "length (st_command_journal s) < COMMAND_JOURNAL_LIMIT")
  case True
  then show ?thesis
    by (simp add: expire_command_journal_def Let_def) (meson le_less_trans length_filter_le)
next
  case False
  with assms(2) obtain c where c: "c \<in> set (st_command_journal s)" "cm_retain_until_epoch_seconds c \<le> now"
    "map_option pi_command_id (st_pending_inbound s) \<noteq> Some (cm_command_id c)"
    by (auto simp: command_journal_has_capacity_def list_ex_iff split: option.splits)
  then have "length (st_command_journal (expire_command_journal s now)) < length (st_command_journal s)"
    by (auto simp: expire_command_journal_def Let_def not_less intro!: length_filter_less [of c])
  with assms(1) show ?thesis by simp
qed

text \<open>The clock of the agent: seconds clamped to the signed range.\<close>

abbreviation observed :: "u64 \<Rightarrow> i64" where
  "observed now \<equiv> unwrap_or (i64_try_from_u64 now) i64_max"

lemma observed_back: "uint now \<le> i64_max \<Longrightarrow> unwrap_or (u64_try_from_i64 (observed now)) u64_max = now"
  by (simp add: i64_try_from_u64_def u64_try_from_i64_def)

lemma intake_reserves:
  assumes "command_intake_open ag now" "valid_state x i (ag_state ag)" "uint now \<le> i64_max"
  shows "reserve_outbox (ag_state ag) 1 = Inr ()" "reserve_outbox (expire_command_journal (ag_state ag) n) 1 = Inr ()"
    "reserve_outbox (expire_command_journal (ag_state ag) n) 2 = Inr ()"
    "reserve_command_journal (expire_command_journal (ag_state ag)
       (unwrap_or (u64_try_from_i64 (observed now)) u64_max)) = Inr ()"
proof -
  have two: "length (st_outbox (ag_state ag)) + 2 \<le> OUTBOX_LIMIT" and cap: "command_journal_has_capacity (ag_state ag) now"
    using assms(1) by (auto simp: command_intake_open_def is_ok_iff reserve_outbox_Inr)
  then show "reserve_outbox (ag_state ag) 1 = Inr ()" "reserve_outbox (expire_command_journal (ag_state ag) n) 1 = Inr ()"
    "reserve_outbox (expire_command_journal (ag_state ag) n) 2 = Inr ()"
    by (simp_all add: reserve_outbox_Inr)
  have "length (st_command_journal (ag_state ag)) \<le> COMMAND_JOURNAL_LIMIT"
    using valid_stateD(1) [OF assms(2)] by (simp add: coordinates_valid_def)
  then show "reserve_command_journal (expire_command_journal (ag_state ag)
       (unwrap_or (u64_try_from_i64 (observed now)) u64_max)) = Inr ()"
    using expire_room [OF _ cap] by (simp add: observed_back [OF assms(3)] reserve_command_journal_Inr)
qed

lemma no_room_rejection:
  assumes "command_intake_open ag now" "valid_state x i (ag_state ag)" "uint now \<le> i64_max"
  shows "no_room_error (persist_rejection y c fp rej (observed now)) (ag, w)"
proof -
  note r = intake_reserves [OF assms]
  have "persist_rejection y c fp rej (observed now) (ag, w) = pbind (persist_candidate y (reject y \<lparr>
      rj_command_id = command_id_expose (dc_command_id c), rj_fingerprint = fp,
      rj_generation = generation_get (dc_desired_generation c), rj_fence = fence_epoch_get (dc_fence_epoch c),
      rj_rejection = rej, rj_observed_at = observed now,
      rj_retain_until_epoch_seconds = retention_deadline ag (observed now) \<rparr>
      (expire_command_journal (ag_state ag) (unwrap_or (u64_try_from_i64 (observed now)) u64_max))))
      (\<lambda>_. preturn (Rejected rej)) (ag, w)"
    by (simp add: persist_rejection_def Let_def r del: One_nat_def)
  moreover have "no_room_error (pbind (persist_candidate y t) (\<lambda>_. preturn (Rejected rej))) (ag, w)" for t
    by (intro no_room_pbind no_room_persist_candidate no_room_return)
  ultimately show ?thesis by (simp add: no_room_error_def)
qed

lemma validation_not_room: "map_err Store (current_identity x s) = Inl e \<Longrightarrow> \<not> room_error e"
  by (cases "current_identity x s") (auto dest: current_identity_Inl simp: room_error_def)

lemma next_revision_not_room: "map_err Store (next_revision s) = Inl e \<Longrightarrow> \<not> room_error e"
  by (cases "next_revision s") (auto simp: next_revision_def rbind_Inl map_err_def room_error_def
      credential_revision_try_from_def split: if_splits)

lemma accept_not_room: "map_err Store (accept x c s) = Inl e \<Longrightarrow> \<not> room_error e"
  by (cases "accept x c s") (auto simp: accept_def rbind_Inl Let_def room_error_def dest: current_identity_Inl)

lemma no_room_commit:
  assumes "command_intake_open ag now" "valid_state x i (ag_state ag)" "uint now \<le> i64_max"
  shows "no_room_error (commit y c fp a (observed now)) (ag, w)"
proof -
  note r = intake_reserves [OF assms]
  let ?e = "expire_command_journal (ag_state ag) (unwrap_or (u64_try_from_i64 (observed now)) u64_max)"
  define rest where "rest = (\<lambda>revision.
     pbind (on_world (pmap_err Store (install_revision (ag_store ag) revision (ra_credential a)))) (\<lambda>_.
     pbind (plift (map_err Store (accept y (commit_command ag c fp a (observed now) revision) ?e))) (\<lambda>accepted.
     pbind (persist_candidate y accepted) (\<lambda>_. preturn Accepted))))"
  have "commit y c fp a (observed now) (ag, w) = pbind (plift (map_err Store (next_revision ?e))) rest (ag, w)"
    by (simp add: commit_def Let_def r rest_def commit_command_def)
  moreover have "no_room_error (pbind (plift (map_err Store (next_revision ?e))) rest) (ag, w)"
    unfolding rest_def
    by (intro no_room_pbind no_room_lift no_room_install no_room_persist_candidate no_room_return)
      (blast dest: next_revision_not_room accept_not_room)+
  ultimately show ?thesis by (simp add: no_room_error_def)
qed

lemma no_room_admit:
  assumes "command_intake_open ag now" "valid_state x i (ag_state ag)" "uint now \<le> i64_max"
  shows "no_room_error (admit_artifact y c fp a (observed now)) (ag, w)"
  using no_room_rejection [OF assms, of y c fp _ w] no_room_commit [OF assms, of y c fp a w]
  by (simp add: no_room_error_def admit_artifact_def Let_def)

lemma no_room_apply_new:
  assumes "command_intake_open ag now" "valid_state x i (ag_state ag)" "uint now \<le> i64_max"
  shows "no_room_error (apply_new y topic c fp now (observed now)) (ag, w)"
proof -
  note rej = no_room_rejection [OF assms, of y c fp] and adm = no_room_admit [OF assms, of y c fp]
  show ?thesis
  proof (cases "rotation_in_flight (ag_state ag)")
    case True
    then show ?thesis by (simp add: no_room_error_def apply_new_def plift_def room_error_def)
  next
    case False
    show ?thesis
    proof (cases "current_identity y (ag_state ag)")
      case (Inl e)
      with False show ?thesis
        using validation_not_room [of y "ag_state ag"] by (simp add: no_room_error_def apply_new_def)
    next
      case (Inr identity)
      obtain w1 r where "catalog_resolve y (ag_catalog ag) identity c now w = (w1, r)" by fastforce
      with False Inr rej adm show ?thesis
        by (cases r) (simp_all add: no_room_error_def apply_new_def)
    qed
  qed
qed

lemma replay_not_room: "map_err Store (replay_command x cid fp s) = Inl e \<Longrightarrow> \<not> room_error e"
  by (cases "replay_command x cid fp s") (auto simp: replay_command_def rbind_Inl room_error_def)

lemma apply_command_room:
  assumes "command_intake_open ag now" "valid_state x i (ag_state ag)" "uint now \<le> i64_max"
  shows "no_room_error (apply_command y topic c now) (ag, w)"
proof -
  note r = intake_reserves(1) [OF assms]
  have "no_room_error (replay_known y cid fp) (ag, w)" for cid fp
  proof -
    have "no_room_error (pbind (plift (map_err Store (replay_command y cid fp (ag_state ag))))
        (\<lambda>t. pbind (persist_candidate y t) (\<lambda>_. preturn Duplicate))) (ag, w)"
      by (intro no_room_pbind no_room_lift no_room_persist_candidate no_room_return) (rule replay_not_room)
    then show ?thesis by (simp add: no_room_error_def replay_known_def Let_def r preturn_def del: One_nat_def)
  qed
  moreover have "no_room_error (refuse_conflicting y cid fp g f u) (ag, w)" for cid fp g f u
  proof -
    have "no_room_error (pbind (persist_candidate y t) (\<lambda>_. preturn (Rejected MalformedCommand))) (ag, w)" for t
      by (intro no_room_pbind no_room_persist_candidate no_room_return)
    then show ?thesis by (simp add: no_room_error_def refuse_conflicting_def Let_def r preturn_def del: One_nat_def)
  qed
  ultimately show ?thesis
    using no_room_apply_new [OF assms, of y topic c _ w]
    by (auto simp: no_room_error_def apply_command_def Let_def split: option.splits)
qed

section \<open>What an acceptance has checked\<close>

text \<open>No rejection path answers \<open>Accepted\<close>.\<close>

lemma pbind_return_Inr: "pbind m (\<lambda>_. preturn c) aw = (aw', Inr r) \<Longrightarrow> r = c"
  by (auto simp: pbind_Inr)

lemma rejection_not_accepted:
  "persist_rejection x c fp rej u aw \<noteq> (aw', Inr Accepted)"
  "replay_known x cid fp aw \<noteq> (aw', Inr Accepted)"
  "refuse_conflicting x cid fp g f u aw \<noteq> (aw', Inr Accepted)"
  by (auto simp: persist_rejection_def replay_known_def refuse_conflicting_def Let_def pbind_Inr
      split: if_splits)

text \<open>The facts behind an accepted command: \<open>a\<close> is the artifact, \<open>r\<close> the new revision.\<close>

definition acceptance ::
  "'z catalog_externals_scheme \<Rightarrow> string \<Rightarrow> device_command \<Rightarrow> u64 \<Rightarrow> reference_device_agent \<Rightarrow> fs
     \<Rightarrow> resolved_artifact \<Rightarrow> credential_revision \<Rightarrow> bool" where
  "acceptance x topic c now ag disk a r \<longleftrightarrow> (let s = ag_state ag in
     \<not> rotation_in_flight s
     \<and> command_match s (command_id_expose (dc_command_id c)) (command_fingerprint x c) now = None
     \<and> topic = ts_command (topic_set_new x (state_identity s))
     \<and> dc_device_id c = si_device_id (st_identity s)
     \<and> now < dc_deadline_epoch_seconds c
     \<and> current_fence s \<le> fence_epoch_get (dc_fence_epoch c)
     \<and> current_generation s < generation_get (dc_desired_generation c)
     \<and> current_credential_generation s < credential_generation_get (ra_credential_generation a)
     \<and> next_revision s = Inr r
     \<and> (\<exists>bytes catalog. read_node disk (catalog_path (ag_catalog ag)) = Inr bytes
          \<and> catalog_from_slice x bytes = Some catalog
          \<and> artifact_sound x catalog (state_identity s) c now a))"

lemma commit_Accepted:
  assumes "commit x c fp a u aw = (aw', Inr Accepted)"
  shows "\<exists>r t. next_revision (ag_state (fst aw)) = Inr r
    \<and> accept x (commit_command (fst aw) c fp a u r)
        (expire_command_journal (ag_state (fst aw)) (unwrap_or (u64_try_from_i64 u) u64_max)) = Inr t
    \<and> fst aw' = fst aw\<lparr> ag_state := t \<rparr>"
proof -
  let ?e = "expire_command_journal (ag_state (fst aw)) (unwrap_or (u64_try_from_i64 u) u64_max)"
  from assms obtain r aw1 u1 t aw2 where r: "next_revision ?e = Inr r"
    and i: "on_world (pmap_err Store (install_revision (ag_store (fst aw)) r (ra_credential a))) aw = (aw1, Inr u1)"
    and t: "accept x (commit_command (fst aw) c fp a u r) ?e = Inr t"
    and p: "persist_candidate x t aw1 = (aw2, Inr ())" "aw' = aw2"
    by (auto simp: commit_def Let_def pbind_Inr commit_command_def)
  have "fst aw1 = fst aw" using i by (auto simp: on_world_def split: prod.splits)
  moreover have "fst aw2 = fst aw1\<lparr> ag_state := t \<rparr>"
    using p(1) by (cases rule: persist_candidate_cases) auto
  ultimately show ?thesis using r t p(2) by auto
qed

lemma apply_command_Accepted:
  assumes "apply_command x topic c now (ag, w) = (aw', Inr Accepted)"
  shows "\<exists>a r t. acceptance x topic c now ag (w_fs w) a r
    \<and> accept x (commit_command ag c (command_fingerprint x c) a (observed now) r)
        (expire_command_journal (ag_state ag) (unwrap_or (u64_try_from_i64 (observed now)) u64_max)) = Inr t
    \<and> fst aw' = ag\<lparr> ag_state := t \<rparr>"
proof -
  let ?fp = "command_fingerprint x c" and ?s = "ag_state ag"
  have m: "command_match ?s (command_id_expose (dc_command_id c)) ?fp now = None"
    and n: "apply_new x topic c ?fp now (observed now) (ag, w) = (aw', Inr Accepted)"
    using assms
    by (simp_all add: apply_command_def Let_def rejection_not_accepted split: option.splits if_splits)
  have idle: "\<not> rotation_in_flight ?s" using n by (auto simp: apply_new_def plift_def)
  obtain identity where i: "current_identity x ?s = Inr identity"
    using n idle by (cases "current_identity x ?s") (auto simp: apply_new_def)
  then have id: "identity = state_identity ?s" by (simp add: current_identity_Inr)
  obtain w1 q where res: "catalog_resolve x (ag_catalog ag) identity c now w = (w1, q)" by fastforce
  have topic: "accepts_command (topic_set_new x identity) topic" "dc_device_id c = di_device identity"
    and dead: "now < dc_deadline_epoch_seconds c"
    using n idle i by (simp_all add: apply_new_def not_le rejection_not_accepted split: if_splits)
  obtain a where q: "q = Inr a" and adm: "admit_artifact x c ?fp a (observed now) (ag, w1) = (aw', Inr Accepted)"
    using n idle i topic res
    by (cases q) (simp_all add: apply_new_def dead [folded not_le] rejection_not_accepted)
  have guards: "current_fence ?s \<le> fence_epoch_get (dc_fence_epoch c)"
    "current_generation ?s < generation_get (dc_desired_generation c)"
    "current_credential_generation ?s < credential_generation_get (ra_credential_generation a)"
    and com: "commit x c ?fp a (observed now) (ag, w1) = (aw', Inr Accepted)"
    using adm
    by (auto simp: admit_artifact_def Let_def not_less not_le rejection_not_accepted order.order_iff_strict
        split: if_splits)
  obtain r t where rt: "next_revision ?s = Inr r"
    "accept x (commit_command ag c ?fp a (observed now) r)
        (expire_command_journal ?s (unwrap_or (u64_try_from_i64 (observed now)) u64_max)) = Inr t"
    "fst aw' = ag\<lparr> ag_state := t \<rparr>"
    using commit_Accepted [OF com] by auto
  have "acceptance x topic c now ag (w_fs w) a r"
    unfolding acceptance_def Let_def
    using idle m topic dead guards rt(1) catalog_resolve_sound [OF res [unfolded q]]
    by (simp add: id accepts_command_def state_identity_def scope_identity_def)
  with rt show ?thesis by blast
qed

section \<open>Duplicates and backpressure\<close>

lemma find_append_new: "\<forall>y \<in> set xs. \<not> P y \<Longrightarrow> P c \<Longrightarrow> find P (xs @ [c]) = Some c"
  by (induction xs) auto

lemma match_none_expire:
  assumes "command_match s cid fp now = None" "st_pending_inbound s = None"
  shows "\<forall>c \<in> set (st_command_journal (expire_command_journal s now)). cm_command_id c \<noteq> cid"
  using assms by (auto simp: command_match_def expire_command_journal_def find_None_iff)

lemma duplicate_after_accept:
  assumes v: "valid_state x i (ag_state ag)" and now: "uint now \<le> i64_max"
    and acc: "apply_command x topic c now (ag, w) = ((ag', w'), Inr Accepted)"
    and later: "later < retention_deadline ag (observed now)"
  shows "apply_command x topic' c later (ag', w'') = ((ag', w''), Inr Duplicate)"
proof -
  let ?fp = "command_fingerprint x c" and ?cid = "command_id_expose (dc_command_id c)"
  obtain a r t where A: "acceptance x topic c now ag (w_fs w) a r"
    and t: "accept x (commit_command ag c ?fp a (observed now) r)
        (expire_command_journal (ag_state ag) now) = Inr t" and ag': "ag' = ag\<lparr> ag_state := t \<rparr>"
    using apply_command_Accepted [OF acc] by (auto simp: observed_back [OF now])
  note f = accept_fields [OF t]
  have idle: "\<not> rotation_in_flight (ag_state ag)" and none: "command_match (ag_state ag) ?cid ?fp now = None"
    using A by (auto simp: acceptance_def Let_def)
  have new: "\<forall>j \<in> set (st_command_journal (expire_command_journal (ag_state ag) now)). cm_command_id j \<noteq> ?cid"
    by (rule match_none_expire [OF none valid_idle(1) [OF v idle]])
  have "command_match t ?cid ?fp later = Some True"
    unfolding command_match_def f(3)
    by (subst find_append_new) (use new later in \<open>auto simp: commit_command_def\<close>)
  moreover have "has_command_ack ?cid t"
    by (simp add: has_command_ack_def f(2) is_ack_of_def accepted_ack_def commit_command_def)
  ultimately show ?thesis by (simp add: apply_command_def Let_def ag' replay_known_def preturn_def)
qed

lemma backpressure:
  assumes "rotation_in_flight (ag_state ag)"
    "command_match (ag_state ag) (command_id_expose (dc_command_id c)) (command_fingerprint x c) now = None"
  shows "apply_command x topic c now (ag, w) = ((ag, w), Inl RotationInFlight)"
  using assms by (simp add: apply_command_def Let_def apply_new_def plift_def)

section \<open>Identities of deliveries\<close>

lemma delivery_identity_scope:
  assumes v: "valid_state x i (ag_state ag)" and d: "delivery_identity x ag topic cid = Inr j"
  shows "topic = ts_command (topic_set_new x j)" "di_tenant j = di_tenant i" "di_device j = di_device i"
    "j = state_identity (ag_state ag) \<or> pending_command_id ag = Some cid"
proof -
  let ?s = "ag_state ag"
  have co: "si_tenant_id (st_identity ?s) = di_tenant i" "si_device_id (st_identity ?s) = di_device i"
    using valid_stateD(1) [OF v] by (simp_all add: coordinates_valid_def)
  consider (cur) "j = state_identity ?s" "topic = ts_command (topic_set_new x (state_identity ?s))"
    | (pend) p where "st_pending_inbound ?s = Some p" "pi_topic p = topic" "pi_command_id p = cid"
        "j = scope_identity ?s (pi_credential_generation p)"
    using d unfolding delivery_identity_def agent_current_identity_def pending_inbound_def
    by (auto simp: current_identity_Inr accepts_command_def device_identity_try_new_Inr state_identity_def
        scope_identity_def split: if_splits option.splits)
  note cases = this
  show "topic = ts_command (topic_set_new x j)"
    using cases by cases (use valid_stateD(4) [OF v] in \<open>auto simp: pending_valid_def\<close>)
  show "di_tenant j = di_tenant i" "di_device j = di_device i"
    using cases co by (cases; simp add: state_identity_def scope_identity_def)+
  show "j = state_identity ?s \<or> pending_command_id ag = Some cid"
    using cases by cases (simp_all add: pending_command_id_def pending_inbound_def)
qed

lemma reconnect_revision_current:
  assumes "valid_state x i (ag_state ag)" "agent_reconnect_revision ag = Inr (Some r)"
  shows "credential_revision_get r = current_revision (ag_state ag)"
  using assms
  by (auto simp: agent_reconnect_revision_def current_revision_def valid_state_def phase_valid_def
      credential_revision_try_from_def split: option.splits if_splits)

lemma reconnect_revision_total:
  assumes "valid_state x i (ag_state ag)"
  shows "\<exists>r. agent_reconnect_revision ag = Inr r"
  using assms
  by (auto simp: agent_reconnect_revision_def valid_state_def phase_valid_def coordinates_valid_def
      credential_revision_try_from_def split: option.splits)

end
