(* ===== verification/Agent_Accepts.thy ===== *)
theory Agent_Accepts
  imports Agent_Facts
begin

text \<open>
  Acceptance: on a healthy disk a fresh, authorised and fresh-numbered command whose artifact
  resolves is accepted, its material installed and the new state saved.
\<close>

section \<open>Calls that succeed\<close>

definition alive :: "world \<Rightarrow> bool" where
  "alive w \<longleftrightarrow> \<not> w_dead w \<and> w_script w = []"

lemma alive_simps [simp]:
  "alive (set_fs fs w) = alive w" "alive (w\<lparr> w_log := l \<rparr>) = alive w"
  by (simp_all add: alive_def)

lemma alive_syscall: "alive w \<Longrightarrow> act (w_fs w) = Inr (fs, a) \<Longrightarrow> syscall act part w = (set_fs fs w, Inr a)"
  by (simp add: alive_def syscall_healthy)

lemma alive_read: "alive w \<Longrightarrow> read_call q w = (w, q (w_fs w))"
  by (simp add: alive_def read_call_healthy)

lemma alive_sync: "alive w \<Longrightarrow> fs_get (w_fs w) p \<noteq> None \<Longrightarrow> sync_directory p w = (w\<lparr> w_log := [] \<rparr>, Inr ())"
  by (simp add: alive_def sync_directory_def pmap_err_def sync_dir_healthy)

lemma alive_write_synced:
  assumes a: "alive w" and par: "parent_ok (w_fs w) p = Inr ()" and none: "fs_get (w_fs w) p = None"
  obtains w1 where "write_synced p b m w = (w1, Inr ())" "alive w1"
proof -
  define w1 where "w1 = set_fs (fs_put p (File [] m False) (w_fs w)) w"
  define w2 where "w2 = set_fs (put_contents p b (w_fs w1)) w1"
  have p: "p \<noteq> []" using par by (auto simp: parent_ok_def)
  have c: "create_new p m w = (w1, Inr ())"
    unfolding create_new_def w1_def by (rule alive_syscall [OF a]) (simp add: par none)
  have wr: "write_all p b w1 = (w2, Inr ())"
    unfolding write_all_def w2_def by (rule alive_syscall) (simp_all add: w1_def a)
  have get: "fs_get (w_fs w2) p = Some (File b m False)" using p by (simp add: w2_def w1_def put_contents_def)
  have s: "sync_file p w2 = (set_fs (fs_put p (File b m True) (w_fs w2)) w2, Inr ())"
    unfolding sync_file_def by (rule alive_syscall) (simp_all add: get, simp add: w2_def w1_def a)
  show thesis
    by (rule that [of "set_fs (fs_put p (File b m True) (w_fs w2)) w2"])
      (simp_all add: write_synced_def pbind_ok c wr s, simp add: w2_def w1_def a)
qed

section \<open>Installing material on a ready disk\<close>

definition install_ready :: "path \<Rightarrow> u64 \<Rightarrow> world \<Rightarrow> bool" where
  "install_ready root n w \<longleftrightarrow> alive w
     \<and> fs_get (w_fs w) (credentials_root root) = Some Dir
     \<and> fs_stat (w_fs w) (revision_root root n) = None \<and> fs_get (w_fs w) (revision_root root n) = None
     \<and> (fs_get (w_fs w) (staging_root root n) = Some Dir \<or> (\<forall>q. fs_get (w_fs w) (staging_root root n @ q) = None))"

definition same_outside :: "path \<Rightarrow> fs \<Rightarrow> fs \<Rightarrow> bool" where
  "same_outside p fs fs' \<longleftrightarrow> (\<forall>q. \<not> strict_prefix p q \<longrightarrow> fs_get fs' q = fs_get fs q)"

lemma staging_below [simp]:
  "strict_prefix (credentials_root root) (staging_root root n @ q)"
  "strict_prefix (credentials_root root) (revision_root root n @ q)"
  "strict_prefix (credentials_root root) (staging_root root n)"
  "strict_prefix (credentials_root root) (revision_root root n)"
  by (auto simp: staging_root_def revision_root_def strict_prefix_def)

lemma staging_parts [simp]:
  "butlast (staging_root root n) = credentials_root root" "butlast (revision_root root n) = credentials_root root"
  "staging_root root n \<noteq> []" "revision_root root n \<noteq> []" "credentials_root root \<noteq> []"
  "revision_root root n \<noteq> staging_root root n" "staging_root root n \<noteq> revision_root root n"
  "staging_root root n \<noteq> credentials_root root" "credentials_root root \<noteq> staging_root root n"
  "\<not> prefix (staging_root root n) (credentials_root root)" "\<not> prefix (revision_root root n) (credentials_root root)"
  "\<not> prefix (staging_root root n) (revision_root root n)" "\<not> prefix (revision_root root n) (staging_root root n)"
  using staging_target [of root n n "[]"]
  by (auto simp: staging_root_def revision_root_def credentials_root_def butlast_append)

lemma same_outside_trans: "same_outside p a b \<Longrightarrow> same_outside p b c \<Longrightarrow> same_outside p a c"
  by (simp add: same_outside_def)

text \<open>A fresh staging directory: what a stale one held is gone.\<close>

lemma fresh_staging:
  assumes "install_ready root n w"
  obtains w2 where "pbind (remove_stale_directory (staging_root root n)) (\<lambda>_.
      pmap_err (\<lambda>_. StoreUnavailable) (create_dir (staging_root root n))) w = (w2, Inr ())"
    "alive w2" "fs_get (w_fs w2) (staging_root root n) = Some Dir"
    "\<And>q. q \<noteq> [] \<Longrightarrow> fs_get (w_fs w2) (staging_root root n @ q) = None"
    "fs_get (w_fs w2) (revision_root root n) = None"
    "same_outside (credentials_root root) (w_fs w) (w_fs w2)"
proof -
  let ?s = "staging_root root n"
  have a: "alive w" and cr: "fs_get (w_fs w) (credentials_root root) = Some Dir"
    and tn: "fs_get (w_fs w) (revision_root root n) = None"
    using assms by (simp_all add: install_ready_def)
  obtain w1 where r: "remove_stale_directory ?s w = (w1, Inr ())" "alive w1"
      "\<And>q. fs_get (w_fs w1) (?s @ q) = None"
      "\<And>q. \<not> prefix ?s q \<Longrightarrow> fs_get (w_fs w1) q = fs_get (w_fs w) q"
  proof (cases "fs_get (w_fs w) ?s = Some Dir")
    case True
    then have d: "remove_dir_all ?s w = (set_fs (fs_del_tree ?s (w_fs w)) w, Inr ())"
      unfolding remove_dir_all_def by (intro alive_syscall [OF a]) simp
    have "sync_parent ?s (set_fs (fs_del_tree ?s (w_fs w)) w)
        = ((set_fs (fs_del_tree ?s (w_fs w)) w)\<lparr> w_log := [] \<rparr>, Inr ())"
      by (simp add: sync_parent_def alive_sync a cr fs_get_del_tree)
    with d a show thesis
      by (intro that [of "(set_fs (fs_del_tree ?s (w_fs w)) w)\<lparr> w_log := [] \<rparr>"])
        (auto simp: remove_stale_directory_def fs_get_del_tree fs_get_def [of _ "[]"])
  next
    case False
    then have none: "\<forall>q. fs_get (w_fs w) (?s @ q) = None" using assms by (auto simp: install_ready_def)
    then have "fs_get (w_fs w) ?s = None" using none [rule_format, of "[]"] by simp
    then have "remove_stale_directory ?s w = (w, Inr ())"
      using a by (simp add: remove_stale_directory_def remove_dir_all_def alive_def syscall_healthy)
    with none a show thesis by (intro that [of w]) auto
  qed
  have par: "parent_ok (w_fs w1) ?s = Inr ()" using r(4) [of "credentials_root root"] cr
    by (simp add: parent_ok_def)
  have none: "fs_get (w_fs w1) ?s = None" using r(3) [of "[]"] by simp
  have c: "create_dir ?s w1 = (set_fs (fs_put ?s Dir (w_fs w1)) w1, Inr ())"
    unfolding create_dir_def by (rule alive_syscall [OF r(2)]) (simp add: par none)
  have other: "\<not> prefix ?s q" if "\<not> strict_prefix (credentials_root root) q" for q
    using that staging_below(1) [of root n] by (auto elim!: prefixE)
  show thesis
    by (rule that [of "set_fs (fs_put ?s Dir (w_fs w1)) w1"])
      (use other in \<open>auto simp: pbind_ok r(1) pmap_err_def c r(2,3,4) tn same_outside_def fs_get_def [of _ "[]"]\<close>)
qed

lemma stage_revision_ready:
  assumes a: "alive w" and s: "fs_get (w_fs w) (staging_root (ss_root store) n) = Some Dir"
    and empty: "\<And>q. q \<noteq> [] \<Longrightarrow> fs_get (w_fs w) (staging_root (ss_root store) n @ q) = None"
    and target: "fs_get (w_fs w) (revision_root (ss_root store) n) = None"
    and cr: "fs_get (w_fs w) (credentials_root (ss_root store)) = Some Dir"
  obtains w' where "stage_revision store (staging_root (ss_root store) n) (revision_root (ss_root store) n) c w = (w', Inr ())"
    "alive w'" "same_outside (credentials_root (ss_root store)) (w_fs w) (w_fs w')"
proof -
  let ?s = "staging_root (ss_root store) n" and ?t = "revision_root (ss_root store) n"
  have par: "parent_ok (w_fs v) (?s @ [name]) = Inr ()" if "fs_get (w_fs v) ?s = Some Dir" for v name
    using that by (simp add: parent_ok_def)
  obtain w1 where w1: "write_synced (?s @ [''ca.pem'']) (vc_ca c) 0x180 w = (w1, Inr ())" "alive w1"
    using alive_write_synced [OF a par [OF s] empty, of "''ca.pem''"] by (metis list.distinct(1))
  note k1 = write_synced_result(3) [OF w1(1)]
  have e2: "fs_get (w_fs w1) ?s = Some Dir" "fs_get (w_fs w1) (?s @ [''certificate.pem'']) = None"
    using s empty by (simp_all add: k1)
  obtain w2 where w2: "write_synced (?s @ [''certificate.pem'']) (vc_certificate c) 0x180 w1 = (w2, Inr ())" "alive w2"
    using alive_write_synced [OF w1(2) par [OF e2(1)] e2(2)] by metis
  note k2 = write_synced_result(3) [OF w2(1)]
  have e3: "fs_get (w_fs w2) ?s = Some Dir" "fs_get (w_fs w2) (?s @ [''private-key.pem'']) = None"
    using s empty by (simp_all add: k1 k2)
  obtain w3 where w3: "write_synced (?s @ [''private-key.pem'']) (vc_private_key c) 0x180 w2 = (w3, Inr ())" "alive w3"
    using alive_write_synced [OF w2(2) par [OF e3(1)] e3(2)] by metis
  note k3 = write_synced_result(3) [OF w3(1)]
  have keep: "fs_get (w_fs w3) q = fs_get (w_fs w) q" if "\<not> strict_prefix ?s q" for q
  proof -
    have "q \<noteq> ?s @ [name]" for name using that by (auto simp: strict_prefix_def)
    then show ?thesis by (simp add: k1 k2 k3)
  qed
  have g3: "fs_get (w_fs w3) ?s = Some Dir" "fs_get (w_fs w3) ?t = None"
    "fs_get (w_fs w3) (credentials_root (ss_root store)) = Some Dir"
    using s target cr keep [of ?s] keep [of ?t] keep [of "credentials_root (ss_root store)"]
    by (auto simp: strict_prefix_def)
  define w4 where "w4 = w3\<lparr> w_log := [] \<rparr>"
  have ren: "rename ?s ?t w4 = (set_fs (fs_move ?s ?t (w_fs w3)) w4, Inr ())"
    unfolding rename_def
    by (rule alive_syscall)
      (use w3(2) g3 in \<open>auto simp: w4_def rename_ok_def parent_ok_def\<close>)
  define w5 where "w5 = set_fs (fs_move ?s ?t (w_fs w3)) w4"
  have cr5: "fs_get (w_fs w5) (credentials_root (ss_root store)) = Some Dir"
    using g3(3) by (simp add: w5_def fs_get_move_other)
  have "sync_directory (credentials_root (ss_root store)) w5 = (w5\<lparr> w_log := [] \<rparr>, Inr ())"
    by (rule alive_sync) (simp_all add: cr5, simp add: w5_def w4_def w3(2))
  then have run: "stage_revision store ?s ?t c w = (w5\<lparr> w_log := [] \<rparr>, Inr ())"
    using w3(2) g3 by (simp add: stage_revision_def pbind_ok w1 w2 w3 alive_sync ren pmap_err_def
        flip: w4_def w5_def)
  have "fs_get (w_fs w5) q = fs_get (w_fs w) q" if q: "\<not> strict_prefix (credentials_root (ss_root store)) q" for q
  proof -
    have "\<not> prefix ?s q" "\<not> prefix ?t q" using q by (auto elim!: prefixE)
    then show ?thesis using keep [of q] by (auto simp: w5_def fs_get_move_other strict_prefix_def)
  qed
  then show thesis
    by (intro that [OF run]) (simp_all add: same_outside_def w5_def w4_def w3(2))
qed

lemma install_revision_ready:
  assumes r: "install_ready (ss_root store) (credential_revision_get n) w"
  obtains w' where "install_revision store n c w = (w', Inr ())" "alive w'"
    "same_outside (credentials_root (ss_root store)) (w_fs w) (w_fs w')"
proof -
  let ?root = "ss_root store" and ?n = "credential_revision_get n"
  have a: "alive w" and absent: "fs_stat (w_fs w) (revision_root ?root ?n) = None"
    and cr: "fs_get (w_fs w) (credentials_root ?root) = Some Dir"
    using r by (simp_all add: install_ready_def)
  obtain w2 where f: "pbind (remove_stale_directory (staging_root ?root ?n)) (\<lambda>_.
      pmap_err (\<lambda>_. StoreUnavailable) (create_dir (staging_root ?root ?n))) w = (w2, Inr ())"
    "alive w2" "fs_get (w_fs w2) (staging_root ?root ?n) = Some Dir"
    "\<And>q. q \<noteq> [] \<Longrightarrow> fs_get (w_fs w2) (staging_root ?root ?n @ q) = None"
    "fs_get (w_fs w2) (revision_root ?root ?n) = None"
    "same_outside (credentials_root ?root) (w_fs w) (w_fs w2)"
    using fresh_staging [OF r] by metis
  have cr2: "fs_get (w_fs w2) (credentials_root ?root) = Some Dir" using f(6) cr by (simp add: same_outside_def)
  obtain w' where s: "stage_revision store (staging_root ?root ?n) (revision_root ?root ?n) c w2 = (w', Inr ())"
    "alive w'" "same_outside (credentials_root ?root) (w_fs w2) (w_fs w')"
    using stage_revision_ready [OF f(2-5) cr2] by metis
  have ex: "pquery (path_exists (revision_root ?root ?n)) w = (w, Inr False)"
    using a absent by (simp add: pquery_def path_exists_def alive_read)
  from f(1) obtain w1 where w1: "remove_stale_directory (staging_root ?root ?n) w = (w1, Inr ())"
    "pmap_err (\<lambda>_. StoreUnavailable) (create_dir (staging_root ?root ?n)) w1 = (w2, Inr ())"
    by (auto simp: pbind_Inr)
  have "install_revision store n c w = (w', Inr ())"
    by (simp add: install_revision_def Let_def pbind_def [of "pquery _"] pbind_ok ex w1 stage_or_clean_def s(1))
  then show thesis using that s(2) same_outside_trans [OF f(6) s(3)] by blast
qed

section \<open>Accepting a command\<close>

text \<open>Everything an acceptance needs beyond the checks of \<open>apply_command\<close>: room in the outbox, the
  journal and the sequence, an event id not in use, a disk that works.\<close>

definition ready_to_accept ::
  "'z catalog_externals_scheme \<Rightarrow> reference_device_agent \<Rightarrow> device_command \<Rightarrow> u64 \<Rightarrow> u64 \<Rightarrow> world \<Rightarrow> bool" where
  "ready_to_accept x ag c now n w \<longleftrightarrow>
     command_intake_open ag now \<and> sequence_room (ag_state ag) 2
     \<and> event_id x ''ack'' (command_id_expose (dc_command_id c)) \<notin> outbound_event_id ` set (st_outbox (ag_state ag))
     \<and> healthy (ag_store ag) w \<and> install_ready (ss_root (ag_store ag)) n w"

lemma healthy_after_install:
  assumes "healthy store w" "alive w'" "same_outside (credentials_root (ss_root store)) (w_fs w) (w_fs w')"
  shows "healthy store w'"
proof -
  have "\<not> strict_prefix (credentials_root (ss_root store)) (ss_root store)"
    "\<not> strict_prefix (credentials_root (ss_root store)) (temporary_path (ss_root store))"
    "\<not> strict_prefix (credentials_root (ss_root store)) (state_path (ss_root store))"
    by (auto simp: strict_prefix_def credentials_root_def temporary_path_def state_path_def)
  with assms show ?thesis by (simp add: healthy_def alive_def same_outside_def)
qed

lemma commit_accepts:
  assumes l: "linked_state x i (ag_state ag)" and wf: "wf_identity x i" "wf_command c"
    and ext: "digest_contract x" "codec_total x"
    and acc: "acceptance x topic c now ag disk a r" and exp: "0 < vc_expires_at (ra_credential a)"
    and ready: "ready_to_accept x ag c now (credential_revision_get r) w"
    and now: "0 < now" "uint now \<le> i64_max"
  obtains ag' w' where "commit x c (command_fingerprint x c) a (observed now) (ag, w) = ((ag', w'), Inr Accepted)"
    "linked_state x i (ag_state ag')" "healthy (ag_store ag') w'"
proof -
  let ?s = "ag_state ag" and ?e = "expire_command_journal (ag_state ag) now"
  let ?c = "commit_command ag c (command_fingerprint x c) a (observed now) r"
  note obs = observed_back [OF now(2)]
  note v = linked_stateD(1) [OF l]
  have idle: "\<not> rotation_in_flight ?s" and rv: "next_revision ?s = Inr r"
    and none: "command_match ?s (command_id_expose (dc_command_id c)) (command_fingerprint x c) now = None"
    and gens: "0 < credential_generation_get (ra_credential_generation a)" "wf_digest (sha256_digest_expose (ra_digest a))"
    using acc by (auto simp: acceptance_def Let_def artifact_sound_def word_gt_0)
  note res = intake_reserves [OF _ v now(2), unfolded obs]
  have r2: "reserve_outbox ?e 2 = Inr ()" "reserve_command_journal ?e = Inr ()"
    using ready res by (simp_all add: ready_to_accept_def)
  have "0 < retention_deadline ag (observed now)"
    using less_le_trans [OF now(1) saturating_add_mono] by (simp add: retention_deadline_def obs)
  then have "wf_accepted ?c"
    using wf(2) exp gens next_revision_Inr [OF rv] hex_digest_wf [OF ext(1)]
    by (simp add: wf_accepted_def commit_command_def wf_command_def wf_command_id_nonempty word_gt_0
        command_fingerprint_def i64_try_from_u64_def i64_max_def)
  moreover have "command_id_expose (dc_command_id c) \<notin> cm_command_id ` set (st_command_journal ?e)"
    using match_none_expire [OF none valid_idle(1) [OF v idle]] by auto
  ultimately have ar: "accept_ready x ?c ?e"
    using idle ready r2
    by (simp add: accept_ready_def ready_to_accept_def reserve_outbox_Inr reserve_command_journal_Inr
        sequence_room_def rotation_in_flight_def commit_command_def)
  have lx: "linked_state x i ?e" by (rule linked_expire [OF l])
  have wfe: "wf_identity x (state_identity ?e)" by (rule valid_state_own_identity(1) [OF linked_stateD(1) [OF lx] wf(1)])
  obtain t where t: "accept x ?c ?e = Inr t" using accept_total [OF wfe] by blast
  note lt = linked_accept [OF lx ar ext(1) t]
  obtain w1 where w1: "install_revision (ag_store ag) r (ra_credential a) w = (w1, Inr ())" "alive w1"
      "same_outside (credentials_root (ss_root (ag_store ag))) (w_fs w) (w_fs w1)"
    using install_revision_ready [of "ag_store ag" r w] ready by (auto simp: ready_to_accept_def)
  have h1: "healthy (ag_store ag) w1"
    using healthy_after_install [OF _ w1(2,3)] ready by (simp add: ready_to_accept_def)
  obtain w2 where w2: "persist_candidate x t (ag, w1) = ((ag\<lparr> ag_state := t \<rparr>, w2), Inr ())" "healthy (ag_store ag) w2"
    using persist_candidate_healthy [OF linked_stateD(1) [OF lt] wf(1), of "(ag, w1)"] h1 ext(2) by auto
  have i1: "on_world (pmap_err Store (install_revision (ag_store ag) r (ra_credential a))) (ag, w) = ((ag, w1), Inr ())"
    by (simp add: on_world_def pmap_err_def w1(1))
  have "commit x c (command_fingerprint x c) a (observed now) (ag, w) = ((ag\<lparr> ag_state := t \<rparr>, w2), Inr Accepted)"
    by (simp add: commit_def Let_def obs r2 rv i1 t [unfolded commit_command_def] w2(1) pbind_ok plift_def
        preturn_def)
  then show thesis by (rule that) (use lt w2(2) in simp_all)
qed

lemma apply_command_accepts:
  assumes l: "linked_state x i (ag_state ag)" and wf: "wf_identity x i" "wf_command c"
    and ext: "digest_contract x" "codec_total x"
    and acc: "acceptance x topic c now ag (w_fs w) a r" and exp: "0 < vc_expires_at (ra_credential a)"
    and res: "catalog_resolve x (ag_catalog ag) (state_identity (ag_state ag)) c now w = (w, Inr a)"
    and ready: "ready_to_accept x ag c now (credential_revision_get r) w"
    and now: "0 < now" "uint now \<le> i64_max"
  shows "\<exists>ag' w'. apply_command x topic c now (ag, w) = ((ag', w'), Inr Accepted)
    \<and> linked_state x i (ag_state ag') \<and> healthy (ag_store ag') w'"
proof -
  let ?s = "ag_state ag" and ?fp = "command_fingerprint x c"
  obtain ag' w' where c: "commit x c ?fp a (observed now) (ag, w) = ((ag', w'), Inr Accepted)"
    and r: "linked_state x i (ag_state ag')" "healthy (ag_store ag') w'"
    using commit_accepts [OF l wf ext acc exp ready now] by metis
  have id: "current_identity x ?s = Inr (state_identity ?s)"
    using valid_state_own_identity(1) [OF linked_stateD(1) [OF l] wf(1)] by (simp add: current_identity_Inr)
  have "admit_artifact x c ?fp a (observed now) (ag, w) = ((ag', w'), Inr Accepted)"
    using acc c by (simp add: admit_artifact_def acceptance_def Let_def not_less [symmetric]) (metis order.asym order.irrefl not_le)
  moreover have "\<not> dc_deadline_epoch_seconds c \<le> now" using acc by (simp add: acceptance_def Let_def not_le)
  ultimately have "apply_new x topic c ?fp now (observed now) (ag, w) = ((ag', w'), Inr Accepted)"
    using acc id res by (simp add: apply_new_def acceptance_def Let_def accepts_command_def pbind_ok plift_def
        state_identity_def scope_identity_def)
  then have "apply_command x topic c now (ag, w) = ((ag', w'), Inr Accepted)"
    using acc by (simp add: apply_command_def acceptance_def Let_def)
  with r show ?thesis by blast
qed

end
