(* ===== verification/Agent_Recovery.thy ===== *)
theory Agent_Recovery
  imports Agent_Accepts
begin

text \<open>
  Crash and restart: what the agent reads back from the disk a crash leaves, after any operation and
  after any run of operations.
\<close>

section \<open>Steps keep the configured device\<close>

lemma step_device:
  assumes "protocol_step x s t"
  shows "si_tenant_id (st_identity t) = si_tenant_id (st_identity s)
    \<and> si_device_id (st_identity t) = si_device_id (st_identity s)"
  using assms
proof cases
  case (Accept now c r)
  then show ?thesis using accept_fields(5) [OF Accept(9)] by simp
qed (auto dest: replay_fields confirm_fields reconnected_fields settled_fields
    simp: reject_fields conflict_fields)

lemma validated_step_valid:
  assumes v: "valid_state x i s" and st: "validated_step x s t"
  shows "valid_state x i t"
proof -
  have "valid_state x (state_identity t) t" and p: "protocol_step x s t"
    using st by (simp_all add: validated_step_def validate_iff)
  with step_device [OF p] valid_stateD(1) [OF v] show ?thesis
    by (auto simp: valid_state_def coordinates_valid_def state_identity_def scope_identity_def)
qed

interpretation device_machine: guarded_machine "validated_step x" "valid_state x i"
  for x :: "'z externals_scheme" and i
  by unfold_locales (rule validated_step_valid)

section \<open>Reading back after a crash\<close>

lemma read_state_recovered:
  assumes f: "fs_get f (state_path (ss_root store)) = state_image x t"
    and path: "fs_resolve f (state_path (ss_root store)) = Some (state_path (ss_root store))"
    and codec: "codec_total x" "codec_roundtrip x t" and v: "valid_state x i t"
  shows "read_state x store i (reboot f []) = (reboot f [], Inr t)"
proof -
  obtain b where b: "state_to_vec x t = Some b" "state_from_slice x b = Some t"
    using codec by (auto simp: codec_total_def codec_roundtrip_def)
  have "read_node f (state_path (ss_root store)) = Inr b"
    using f path b by (simp add: read_node_def fs_stat_def state_image_def)
  moreover have "read_call q (reboot f []) = (reboot f [], q f)" for q :: "fs \<Rightarrow> (io_error, bytes) result"
    by (simp add: read_call_healthy reboot_def)
  moreover have "verify x t i = Inr ()" using v by (simp add: verify_iff_valid)
  ultimately show ?thesis
    using b(2) by (simp add: read_state_def fs_read_def pmap_err_def pbind_def plift_def preturn_def)
qed

lemma shows_recovered:
  assumes "shows_state store w C" "may_recover w f" "\<And>n. n \<in> C \<Longrightarrow> \<exists>s. n = state_image x s"
  shows "fs_get f (state_path (ss_root store)) \<in> C"
proof -
  have "synced_node (state_image x s)" for s by (simp add: synced_node_def state_image_def split: option.splits)
  then obtain g where "state_node (ss_root store) g \<in> C"
      "fs_get f (state_path (ss_root store)) = fs_get g (state_path (ss_root store))"
    using recover_synced [OF assms(1) [unfolded shows_state_def] assms(2), of "state_path (ss_root store)"] assms(3)
    by (metis state_node_def)
  then show ?thesis by (simp add: state_node_def)
qed

text \<open>The outcome of an operation as memory and a later restart see it.\<close>

lemma run_op_restart:
  assumes codec: "codec_total x" "\<forall>s. codec_roundtrip x s" and v: "valid_state x i (ag_state ag)"
    and disk: "shows_state (ag_store ag) w {state_image x (ag_state ag)}"
    and run: "run_op x op (ag, w) = ((ag', w'), r)" and rec: "may_recover w' f"
    and path: "fs_resolve f (state_path (ss_root (ag_store ag))) = Some (state_path (ss_root (ag_store ag)))"
  shows "\<exists>t u. (t = ag_state ag \<or> validated_step x (ag_state ag) t)
    \<and> ag_state ag' \<in> {ag_state ag, t} \<and> u \<in> {ag_state ag, t}
    \<and> read_state x (ag_store ag) i (reboot f []) = (reboot f [], Inr u)
    \<and> (is_ok r \<longrightarrow> ag_state ag' = t \<and> u = t)"
proof -
  let ?s = "ag_state ag"
  from run_op_tracked [of x "(ag, w)" op, unfolded run] obtain t where
    t: "t = ?s \<or> validated_step x ?s t" and m: "ag' = ag \<or> ag' = ag\<lparr> ag_state := t \<rparr>"
    and sh: "\<And>C. shows_state (ag_store ag) w C \<Longrightarrow> shows_state (ag_store ag) w' (insert (state_image x t) C)"
    and ok: "is_ok r \<Longrightarrow> ag' = ag\<lparr> ag_state := t \<rparr> \<and> (t \<noteq> ?s \<longrightarrow> shows_state (ag_store ag) w' {state_image x t})"
    unfolding tracked_def Let_def by auto
  have vt: "valid_state x i t" using t validated_step_valid [OF v] v by auto
  have both: "shows_state (ag_store ag) w' {state_image x t, state_image x ?s}" using sh [OF disk] .
  have shows_ok: "shows_state (ag_store ag) w' {state_image x t}" if "is_ok r"
    using ok [OF that] both by (cases "t = ?s") auto
  have "\<exists>u \<in> {?s, t}. fs_get f (state_path (ss_root (ag_store ag))) = state_image x u \<and> (is_ok r \<longrightarrow> u = t)"
  proof (cases "is_ok r")
    case True
    then show ?thesis using shows_recovered [OF shows_ok [OF True] rec, of x] by auto
  next
    case False
    then show ?thesis using shows_recovered [OF both rec, of x] by auto
  qed
  then obtain u where u: "u \<in> {?s, t}" "fs_get f (state_path (ss_root (ag_store ag))) = state_image x u"
    "is_ok r \<longrightarrow> u = t" by blast
  have "read_state x (ag_store ag) i (reboot f []) = (reboot f [], Inr u)"
    by (rule read_state_recovered [OF u(2) path codec(1)]) (use codec(2) u(1) v vt in auto)
  with t m u ok show ?thesis by (intro exI [of _ t] exI [of _ u]) auto
qed

section \<open>Opening\<close>

lemma fs_read_Inr: "fs_read p w = (w', Inr b) \<Longrightarrow> read_node (w_fs w) p = Inr b \<and> w_fs w' = w_fs w"
  using read_call_Inr [of "\<lambda>fs. read_node fs p" w w' b] read_call_pair [of "\<lambda>fs. read_node fs p" w w' "Inr b"]
  by (simp add: fs_read_def)

lemma read_state_Inr:
  assumes "read_state x store i w = (w', Inr s)"
  shows "valid_state x i s" "w_fs w' = w_fs w"
  using assms by (auto simp: read_state_def pbind_Inr preturn_def verify_iff_valid dest!: fs_read_Inr)

lemma store_open_Inr: "store_open root w = (w', Inr store) \<Longrightarrow> ss_root store = root"
  by (auto simp: store_open_def pbind_Inr preturn_def Let_def)

text \<open>The material of the current revision, checked against the state on the disk it was read from.\<close>

definition current_material_sound ::
  "'z tls_externals_scheme \<Rightarrow> state_store \<Rightarrow> state_v1 \<Rightarrow> u64 \<Rightarrow> fs \<Rightarrow> bool" where
  "current_material_sound x store s now disk \<longleftrightarrow>
     (let files = store_credential_files store (current_revision s) in
      \<exists>ca certificate key v.
        read_node disk (cf_ca_certificate files) = Inr ca
        \<and> read_node disk (cf_certificate_chain files) = Inr certificate
        \<and> read_node disk (cf_private_key files) = Inr key
        \<and> validate_credential_bytes x ca certificate key (state_identity s) now = Inr v
        \<and> ''sha256:'' @ sha256_hex x (artifact_preimage ca certificate key) = current_artifact_digest s)"

lemma validate_credential_Inr:
  assumes "validate_credential x files i now w = (w', Inr v)"
  shows "w_fs w' = w_fs w" "\<exists>ca certificate key. read_node (w_fs w) (cf_ca_certificate files) = Inr ca
    \<and> read_node (w_fs w) (cf_certificate_chain files) = Inr certificate
    \<and> read_node (w_fs w) (cf_private_key files) = Inr key
    \<and> validate_credential_bytes x ca certificate key i now = Inr v"
  using assms
  by (auto simp: validate_credential_def require_private_key_mode_def fs_metadata_def pbind_Inr
      dest!: fs_read_Inr read_call_pair)

lemma compute_artifact_digest_Inr:
  assumes "compute_artifact_digest x files w = (w', Inr d)"
  shows "w_fs w' = w_fs w" "\<exists>ca certificate key. read_node (w_fs w) (cf_ca_certificate files) = Inr ca
    \<and> read_node (w_fs w) (cf_certificate_chain files) = Inr certificate
    \<and> read_node (w_fs w) (cf_private_key files) = Inr key
    \<and> sha256_digest_expose d = ''sha256:'' @ sha256_hex x (artifact_preimage ca certificate key)
    \<and> wf_digest (sha256_digest_expose d)"
  using assms
  by (auto simp: compute_artifact_digest_def compute_artifact_digest_bytes_def sha256_digest_try_from_Inr pbind_Inr
      dest!: fs_read_Inr)

lemma open_existing_sound:
  assumes "open_existing x config now w = (w', Inr (store, s))"
  shows "valid_state x (cfg_identity config) s" "ss_root store = cfg_state_directory config"
    "current_material_sound x store s now (w_fs w')"
proof -
  let ?files = "store_credential_files store (current_revision s)"
  from assms obtain w0 w1 w2 v d where o: "store_open (cfg_state_directory config) w = (w0, Inr store)"
    and r: "read_state x store (cfg_identity config) w0 = (w1, Inr s)"
    and c: "validate_credential x ?files (state_identity s) now w1 = (w2, Inr v)"
    and d: "compute_artifact_digest x ?files w2 = (w', Inr d)" "sha256_digest_expose d = current_artifact_digest s"
    by (auto simp: open_existing_def store_load_def pbind_Inr preturn_def Let_def current_identity_Inr
        split: if_splits)
  show "valid_state x (cfg_identity config) s" by (rule read_state_Inr [OF r])
  show "ss_root store = cfg_state_directory config" by (rule store_open_Inr [OF o])
  show "current_material_sound x store s now (w_fs w')"
    using validate_credential_Inr [OF c] compute_artifact_digest_Inr [OF d(1)] d(2)
    by (auto simp: current_material_sound_def Let_def)
qed

lemma open_initial_valid:
  assumes o: "open_initial x config now w = (w', Inr (store, s))"
    and cfg: "wf_identity x (cfg_identity config)" "wf_position (cfg_initial_position config)"
    and era: "\<And>e c. x509_from_der x e = Some c \<Longrightarrow> 0 < x5_not_after c"
  shows "valid_state x (cfg_identity config) s" "ss_root store = cfg_state_directory config"
proof -
  from o obtain w1 w2 v d where v: "validate_credential x (cfg_initial_credentials config) (cfg_identity config) now w = (w1, Inr v)"
    and d: "compute_artifact_digest x (cfg_initial_credentials config) w1 = (w2, Inr d)"
    and i: "open_or_initialize x (cfg_state_directory config) (cfg_identity config) (cfg_initial_position config) v d w2
      = (w', Inr (store, s))"
    by (auto simp: open_initial_def pbind_Inr)
  have "0 < vc_expires_at v"
    using validate_credential_Inr(2) [OF v] era
    by (fastforce dest!: validate_credential_bytes_sound(1) simp: credential_sound_def)
  then have fresh: "valid_state x (cfg_identity config)
      (state_initial (cfg_identity config) (cfg_initial_position config) d (vc_expires_at v))"
    using linked_stateD(1) [OF linked_initial] cfg compute_artifact_digest_Inr(2) [OF d] by blast
  show "valid_state x (cfg_identity config) s"
    using i fresh by (auto simp: open_or_initialize_def pbind_Inr preturn_def Let_def split: if_splits
        dest: read_state_Inr(1))
  show "ss_root store = cfg_state_directory config"
    using i by (auto simp: open_or_initialize_def pbind_Inr preturn_def Let_def split: if_splits
        dest: store_open_Inr)
qed

lemma agent_open_valid:
  assumes "agent_open x config now w = (w', Inr ag)"
    and "wf_identity x (cfg_identity config)" "wf_position (cfg_initial_position config)"
    and "\<forall>e c. x509_from_der x e = Some c \<longrightarrow> 0 < x5_not_after c"
  shows "valid_state x (cfg_identity config) (ag_state ag)" "ss_root (ag_store ag) = cfg_state_directory config"
    "alive w \<Longrightarrow> fs_stat (w_fs w) (state_path (cfg_state_directory config)) \<noteq> None \<Longrightarrow>
       current_material_sound x (ag_store ag) (ag_state ag) now (w_fs w')"
proof -
  from assms(1) obtain w1 b where b: "path_exists (state_path (cfg_state_directory config)) w = (w1, b)"
    and o: "(if b then open_existing x config now else open_initial x config now) w1 = (w', Inr (ag_store ag, ag_state ag))"
    by (auto simp: agent_open_def pbind_Inr pquery_def preturn_def split: prod.splits)
  have "valid_state x (cfg_identity config) (ag_state ag) \<and> ss_root (ag_store ag) = cfg_state_directory config"
  proof (cases b)
    case True
    then show ?thesis using o open_existing_sound(1,2) [of x config now w1 w' "ag_store ag" "ag_state ag"] by simp
  next
    case False
    then show ?thesis using o open_initial_valid [OF _ assms(2,3), of now w1 w' "ag_store ag" "ag_state ag"] assms(4) by simp
  qed
  then show "valid_state x (cfg_identity config) (ag_state ag)" "ss_root (ag_store ag) = cfg_state_directory config"
    by simp_all
  show "current_material_sound x (ag_store ag) (ag_state ag) now (w_fs w')"
    if "alive w" "fs_stat (w_fs w) (state_path (cfg_state_directory config)) \<noteq> None"
  proof -
    have b using b that by (auto simp: path_exists_def alive_read)
    then show ?thesis using o open_existing_sound(3) [of x config now w1 w' "ag_store ag" "ag_state ag"] by simp
  qed
qed

end
