(* ===== verification/Config.thy ===== *)
theory Config
  imports Driver Agent_Recovery
begin

text \<open>
  Start-up of the device agent: \<^verbatim>\<open>apps/reference-device-agent/src/config.rs\<close> and the head of \<open>main\<close> in
  \<^verbatim>\<open>main.rs\<close>. Parsing of the configuration file is \<^verbatim>\<open>serde_json\<close>'s, a field of \<open>config_externals\<close>.
\<close>

section \<open>Configuration\<close>

datatype config_error =
    ConfigUnavailable
  | InvalidJson
  | UnsupportedSchema
  | MissingBaseDirectory
  | InvalidIdentity
  | ClientIdentityMismatch
  | InvalidDesiredGeneration
  | InvalidFenceEpoch
  | InvalidCredentialRevision
  | InvalidSessionExpiry
  | InvalidRequestCapacity
  | InvalidBrokerAssertionKey
  | InvalidMqtt

record mqtt_config =
  rw_host :: string
  rw_port :: u16
  rw_client_id :: string
  rw_session_expiry_seconds :: u32
  rw_request_capacity :: nat
  rw_broker_assertion_public_key :: string

record initial_config =
  rw_desired_generation :: u64
  rw_fence_epoch :: u64
  rw_credential_revision :: u64
  rw_ca_path :: string
  rw_certificate_path :: string
  rw_private_key_path :: string

record config_v1 =
  rw_schema_version :: u8
  rw_tenant_id :: uuid
  rw_device_id :: uuid
  rw_credential_generation :: u64
  rw_state_directory :: string
  rw_artifact_catalog :: string
  rw_mqtt :: mqtt_config
  rw_initial :: initial_config

record config_externals = transport_externals +
  config_from_slice :: "bytes \<Rightarrow> config_v1 option"

record runtime_config =
  rt_agent :: agent_config
  rt_mqtt :: mqtt_connection_config

text \<open>A path of the file system from the text of a \<open>PathBuf\<close>: its named components.\<close>

definition path_names :: "string \<Rightarrow> path" where
  "path_names raw = map (\<lambda>c. case c of Normal n \<Rightarrow> n | ParentDir \<Rightarrow> ''..'' | CurDir \<Rightarrow> ''.'' | RootDir \<Rightarrow> [])
     (filter (\<lambda>c. c \<noteq> RootDir \<and> c \<noteq> CurDir) (path_components raw))"

definition resolve :: "path \<Rightarrow> string \<Rightarrow> path" where
  "resolve base raw = (if is_absolute raw then path_names raw else base @ path_names raw)"

definition path_parent :: "path \<Rightarrow> path option" where
  "path_parent p = (if p = [] then None else Some (butlast p))"

definition config_build ::
  "'z config_externals_scheme \<Rightarrow> path \<Rightarrow> config_v1 \<Rightarrow> (config_error, runtime_config) result" where
  "config_build x path raw =
     (if rw_schema_version raw \<noteq> 1 then Inl UnsupportedSchema
      else
        rbind (ok_or MissingBaseDirectory (path_parent path)) (\<lambda>base.
        rbind (map_err (\<lambda>_. InvalidIdentity) (credential_generation_try_from (rw_credential_generation raw))) (\<lambda>generation.
        rbind (map_err (\<lambda>_. InvalidIdentity)
          (device_identity_try_new x (rw_tenant_id raw) (rw_device_id raw) generation)) (\<lambda>identity.
        if rw_client_id (rw_mqtt raw) \<noteq> mqtt_client_id x identity then Inl ClientIdentityMismatch
        else
          rbind (if rw_session_expiry_seconds (rw_mqtt raw) = 0 then Inl InvalidSessionExpiry
                 else Inr (rw_session_expiry_seconds (rw_mqtt raw))) (\<lambda>session_expiry.
          rbind (map_err (\<lambda>_. InvalidDesiredGeneration)
            (generation_try_from (rw_desired_generation (rw_initial raw)))) (\<lambda>desired.
          rbind (map_err (\<lambda>_. InvalidFenceEpoch) (fence_epoch_try_from (rw_fence_epoch (rw_initial raw)))) (\<lambda>fence.
          rbind (map_err (\<lambda>_. InvalidCredentialRevision)
            (credential_revision_try_from (rw_credential_revision (rw_initial raw)))) (\<lambda>revision.
          let agent = \<lparr> cfg_identity = identity,
                cfg_state_directory = resolve base (rw_state_directory raw),
                cfg_catalog = \<lparr> catalog_path = resolve base (rw_artifact_catalog raw) \<rparr>,
                cfg_initial_position = \<lparr> ip_desired_generation = desired, ip_fence_epoch = fence,
                  ip_credential_revision = revision \<rparr>,
                cfg_initial_credentials = \<lparr> cf_ca_certificate = resolve base (rw_ca_path (rw_initial raw)),
                  cf_certificate_chain = resolve base (rw_certificate_path (rw_initial raw)),
                  cf_private_key = resolve base (rw_private_key_path (rw_initial raw)) \<rparr>,
                cfg_command_retention_seconds = session_expiry \<rparr> in
          rbind (map_err (\<lambda>_. InvalidBrokerAssertionKey)
            (from_base64 x (rw_broker_assertion_public_key (rw_mqtt raw)))) (\<lambda>verifier.
          rbind (if rw_request_capacity (rw_mqtt raw) = 0 then Inl InvalidRequestCapacity
                 else Inr (rw_request_capacity (rw_mqtt raw))) (\<lambda>capacity.
          rbind (map_err (\<lambda>_. InvalidMqtt)
            (mqtt_connection_config_new (rw_host (rw_mqtt raw)) (rw_port (rw_mqtt raw)) (rw_client_id (rw_mqtt raw))
               session_expiry capacity verifier)) (\<lambda>mqtt.
          Inr \<lparr> rt_agent = agent, rt_mqtt = mqtt \<rparr>)))))))))))"

definition runtime_config_load ::
  "'z config_externals_scheme \<Rightarrow> path \<Rightarrow> (world, config_error, runtime_config) proc" where
  "runtime_config_load x path =
     pbind (pmap_err (\<lambda>_. ConfigUnavailable) (fs_read path)) (\<lambda>bytes.
     pbind (plift (ok_or InvalidJson (config_from_slice x bytes))) (\<lambda>raw.
     plift (config_build x path raw)))"

section \<open>Start-up\<close>

datatype main_error =
    Usage
  | MainConfig config_error
  | MainAgent agent_error
  | MainSession session_error

text \<open>The program: its arguments, the clock when the agent opens, and the scripts of its sessions. The
  result is \<open>None\<close> while it waits.\<close>

definition agent_main ::
  "'z config_externals_scheme \<Rightarrow> string list \<Rightarrow> u64 \<Rightarrow> ((select_outcome \<times> clock) list \<times> bool) list \<Rightarrow> world
     \<Rightarrow> world \<times> (main_error, unit) result option" where
  "agent_main x arguments now scripts w = (case arguments of
     [config_path] \<Rightarrow>
       if \<not> is_absolute config_path then (w, Some (Inl Usage))
       else
         (case runtime_config_load x (path_names config_path) w of
            (w1, Inl e) \<Rightarrow> (w1, Some (Inl (MainConfig e)))
          | (w1, Inr runtime) \<Rightarrow>
              (case agent_open x (rt_agent runtime) now w1 of
                 (w2, Inl e) \<Rightarrow> (w2, Some (Inl (MainAgent e)))
               | (w2, Inr ag) \<Rightarrow>
                   (case main_loop x (rt_mqtt runtime) scripts (ag, w2, 1000) of
                      ((_, w3, _), r) \<Rightarrow> (w3, map_option (map_err MainSession) r))))
   | _ \<Rightarrow> (w, Some (Inl Usage)))"

section \<open>What a loaded configuration guarantees\<close>

definition runtime_sound :: "'z config_externals_scheme \<Rightarrow> runtime_config \<Rightarrow> bool" where
  "runtime_sound x r \<longleftrightarrow>
     wf_identity x (cfg_identity (rt_agent r)) \<and> wf_position (cfg_initial_position (rt_agent r))
     \<and> mc_client_id (rt_mqtt r) = mqtt_client_id x (cfg_identity (rt_agent r))
     \<and> cfg_command_retention_seconds (rt_agent r) = mc_session_expiry_seconds (rt_mqtt r)
     \<and> mc_session_expiry_seconds (rt_mqtt r) \<noteq> 0 \<and> mc_request_capacity (rt_mqtt r) \<noteq> 0 \<and> mc_port (rt_mqtt r) \<noteq> 0
     \<and> \<not> list_all is_whitespace (chars (mc_host (rt_mqtt r)))
     \<and> length (public_key (mc_assertion_verifier (rt_mqtt r))) = 32
     \<and> \<not> list_all (\<lambda>byte. byte = CHR 0x00) (public_key (mc_assertion_verifier (rt_mqtt r)))"

lemma config_build_sound:
  assumes "config_build x path raw = Inr r"
  shows "runtime_sound x r"
  using assms
  by (auto simp: config_build_def Let_def runtime_sound_def wf_identity_def wf_position_def from_base64_Inr
      mqtt_connection_config_new_Inr device_identity_try_new_Inr credential_generation_try_from_def
      generation_try_from_def fence_epoch_try_from_def credential_revision_try_from_def split: if_splits)

lemma runtime_config_load_Inr:
  assumes "runtime_config_load x path w = (w', Inr r)"
  shows "runtime_sound x r" "\<exists>raw b. read_node (w_fs w) path = Inr b \<and> config_from_slice x b = Some raw \<and> config_build x path raw = Inr r"
  using assms config_build_sound
  by (auto simp: runtime_config_load_def pbind_Inr dest!: fs_read_Inr)

text \<open>A relative entry of the configuration stays below the directory of the configuration file as
  long as it does not climb.\<close>

lemma resolve_below: "\<not> is_absolute raw \<Longrightarrow> prefix base (resolve base raw)"
  by (simp add: resolve_def)

end
