(* ===== verification/Agent_Sending.thy ===== *)
theory Agent_Sending
  imports Agent_Facts
begin

text \<open>
  What a driver may rely on while one of the agent's facts is on the wire: no operation other than
  its confirmation makes the fact unknown, and a credential that waits for its reconnect keeps
  waiting until it is marked connected.
\<close>

text \<open>The entry of the outbox \<open>confirm_outbound\<close> would look at is one it would take.\<close>

definition confirmable :: "string \<Rightarrow> state_v1 \<Rightarrow> bool" where
  "confirmable event s \<longleftrightarrow> (\<exists>k. iter_position (\<lambda>e. outbound_event_id e = event) (st_outbox s) = Some k
     \<and> ready_fact (st_outbox s ! k) \<noteq> None \<and> (is_ready_report (st_outbox s ! k) \<longrightarrow> pending_settled s))"

lemma confirmable_confirm: "confirmable event s \<Longrightarrow> fst (confirm_outbound event s)"
  by (auto simp: confirmable_def confirm_outbound_def Let_def)

text \<open>The entry handed out by \<open>next_outbound\<close> is such a one when event identifiers are distinct.\<close>

lemma iter_position_unique:
  assumes "e \<in> set es" "distinct (map f es)"
  shows "\<exists>k. iter_position (\<lambda>y. f y = f e) es = Some k \<and> es ! k = e"
  using assms
proof (induction es)
  case (Cons a es)
  show ?case
  proof (cases "f a = f e")
    case True
    then have "a = e" using Cons.prems by (metis distinct_map inj_onD list.set_intros(1))
    with True show ?thesis by simp
  next
    case False
    then obtain k where "iter_position (\<lambda>y. f y = f e) es = Some k" "es ! k = e" using Cons by auto
    with False show ?thesis by simp
  qed
qed simp

lemma next_outbound_sendable:
  assumes "valid_state x i s" "next_outbound s = Some f"
  shows "confirmable (outbound_fact_event_id f) s"
proof -
  obtain e where e: "e \<in> set (st_outbox s)" "ready_fact e = Some f" "is_ready_report e \<longrightarrow> pending_settled s"
    using assms(2) unfolding next_outbound_def by (fastforce dest!: find_map_Some split: if_splits)
  have "outbound_event_id e = outbound_fact_event_id f" using e(2) by (cases e) auto
  moreover have "distinct (map outbound_event_id (st_outbox s))"
    using assms(1) by (simp add: valid_state_def outbox_valid_def)
  ultimately show ?thesis
    using iter_position_unique [OF e(1), of outbound_event_id] e by (fastforce simp: confirmable_def)
qed

section \<open>Operations that only add\<close>

definition follows :: "state_v1 \<Rightarrow> state_v1 \<Rightarrow> bool" where
  "follows s t \<longleftrightarrow> (\<forall>e. confirmable e s \<longrightarrow> confirmable e t)
     \<and> (st_reconnect_revision s \<noteq> None \<longrightarrow> st_reconnect_revision t \<noteq> None)"

lemma follows_refl [simp]: "follows s s"
  by (simp add: follows_def)

lemma iter_position_append:
  "iter_position P xs = Some k \<Longrightarrow> iter_position P (xs @ ys) = Some k"
  by (induction xs arbitrary: k) (auto split: if_splits)

lemma confirmable_append:
  assumes "confirmable e s" "st_outbox t = st_outbox s @ new"
    and "\<And>k. k < length (st_outbox s) \<Longrightarrow> is_ready_report (st_outbox s ! k) \<Longrightarrow> pending_settled s \<Longrightarrow> pending_settled t"
  shows "confirmable e t"
proof -
  obtain k where k: "iter_position (\<lambda>y. outbound_event_id y = e) (st_outbox s) = Some k"
      "ready_fact (st_outbox s ! k) \<noteq> None" "is_ready_report (st_outbox s ! k) \<longrightarrow> pending_settled s"
    using assms(1) by (auto simp: confirmable_def)
  have "k < length (st_outbox s)" using iter_position_Some [OF k(1)] by simp
  then show ?thesis
    using k iter_position_append [OF k(1), of new] assms(2,3)
    by (auto simp: confirmable_def nth_append)
qed

lemma follows_replay: "replay_command x cid fp s = Inr t \<Longrightarrow> follows s t"
  by (auto simp: replay_command_def follows_def pending_settled_def elim!: confirmable_append)

lemma follows_conflict: "follows s (reject_conflicting_replay x cid fp g f u s)"
  by (auto simp: reject_conflicting_replay_def follows_def pending_settled_def Let_def elim!: confirmable_append)

lemma follows_reject: "follows s (reject x c (expire_command_journal s now))"
  by (auto simp: reject_def expire_command_journal_def follows_def pending_settled_def Let_def
      elim!: confirmable_append)

lemma follows_accept:
  assumes "accept x c (expire_command_journal s now) = Inr t" "\<not> rotation_in_flight s"
  shows "follows s t"
proof -
  have "\<not> is_ready_report e" if "e \<in> set (st_outbox s)" for e
    using that assms(2) by (auto simp: rotation_in_flight_def list_ex_iff is_ready_report_iff)
  then show ?thesis
    using accept_fields(2,7) [OF assms(1)]
    by (auto simp: follows_def expire_command_journal_def Let_def elim!: confirmable_append)
qed

lemma follows_settled: "mark_inbound_settled token s = (b, t) \<Longrightarrow> follows s t"
  by (auto simp: mark_inbound_settled_def follows_def confirmable_def pending_settled_def
      split: option.splits if_splits)

section \<open>Operations of the agent\<close>

definition agent_follows :: "reference_device_agent \<times> world \<Rightarrow> (reference_device_agent \<times> world) \<times> 'r \<Rightarrow> bool" where
  "agent_follows aw res \<longleftrightarrow> follows (ag_state (fst aw)) (ag_state (fst (fst res)))"

lemma agent_follows_stop [simp]: "agent_follows aw ((fst aw, w), r)" "agent_follows aw (aw, r)"
  by (simp_all add: agent_follows_def)

lemma agent_follows_persist:
  "follows (ag_state (fst aw)) t \<Longrightarrow> agent_follows aw (persist_candidate x t aw)"
  using persist_candidate_cases [of x t aw "fst (persist_candidate x t aw)" "snd (persist_candidate x t aw)"]
  by (force simp: agent_follows_def)

lemma agent_follows_return: "agent_follows aw (m aw) \<Longrightarrow> agent_follows aw (pbind m (\<lambda>_. preturn c) aw)"
  by (auto simp: agent_follows_def pbind_def preturn_def split: prod.splits sum.splits)

lemma agent_follows_guard:
  "(\<And>a. r = Inr a \<Longrightarrow> agent_follows aw (f a aw)) \<Longrightarrow> agent_follows aw (pbind (plift (map_err Store r)) f aw)"
  by (cases r) simp_all

lemma agent_follows_world:
  "(\<And>a w1. agent_follows (fst aw, w1) (f a (fst aw, w1))) \<Longrightarrow> agent_follows aw (pbind (on_world m) f aw)"
  by (auto simp: agent_follows_def pbind_def on_world_def split: prod.splits sum.splits)

lemmas agent_follows_intros = agent_follows_guard agent_follows_world agent_follows_return agent_follows_persist

lemma replay_known_follows: "agent_follows aw (replay_known x cid fp aw)"
  by (auto simp: replay_known_def Let_def preturn_def intro!: agent_follows_intros follows_replay)

lemma refuse_conflicting_follows: "agent_follows aw (refuse_conflicting x cid fp g f u aw)"
  by (auto simp: refuse_conflicting_def Let_def preturn_def intro!: agent_follows_intros follows_conflict)

lemma persist_rejection_follows: "agent_follows aw (persist_rejection x c fp rej u aw)"
  by (auto simp: persist_rejection_def Let_def intro!: agent_follows_intros follows_reject)

lemma persist_raw_rejection_follows: "agent_follows aw (persist_raw_rejection x c fp now aw)"
  by (auto simp: persist_raw_rejection_def Let_def intro!: agent_follows_intros follows_reject)

lemma commit_follows:
  "\<not> rotation_in_flight (ag_state (fst aw)) \<Longrightarrow> agent_follows aw (commit x c fp a u aw)"
  unfolding commit_def Let_def
  by (intro agent_follows_intros, simp, rule follows_accept)

lemma admit_artifact_follows:
  "\<not> rotation_in_flight (ag_state (fst aw)) \<Longrightarrow> agent_follows aw (admit_artifact x c fp a u aw)"
  by (simp add: admit_artifact_def Let_def persist_rejection_follows commit_follows)

lemma apply_new_follows: "agent_follows aw (apply_new x topic c fp now u aw)"
proof (cases "rotation_in_flight (ag_state (fst aw))")
  case True
  then show ?thesis by (simp add: apply_new_def plift_def)
next
  case False
  have "agent_follows aw (persist_rejection x c fp rej u (fst aw, w1))" for rej w1
    using persist_rejection_follows [of "(fst aw, w1)"] by (simp add: agent_follows_def)
  moreover have "agent_follows aw (admit_artifact x c fp a u (fst aw, w1))" for a w1
    using admit_artifact_follows [of "(fst aw, w1)"] False by (simp add: agent_follows_def)
  ultimately show ?thesis
    unfolding apply_new_def using False
    by (auto intro!: agent_follows_guard persist_rejection_follows split: prod.splits sum.splits)
qed

lemma apply_command_follows: "agent_follows aw (apply_command x topic c now aw)"
  by (auto simp: apply_command_def Let_def replay_known_follows refuse_conflicting_follows apply_new_follows
      split: option.splits)

lemma reject_malformed_follows: "agent_follows aw (reject_malformed_delivery x topic cid payload now aw)"
  unfolding reject_malformed_delivery_def Let_def
  by (rule agent_follows_guard) (auto simp: plift_def replay_known_follows refuse_conflicting_follows
      persist_raw_rejection_follows split: option.splits)

lemma settlement_follows: "agent_follows aw (persist_inbound_settlement x token aw)"
  by (auto simp: persist_inbound_settlement_def Let_def plift_def split: prod.splits
      intro!: agent_follows_persist intro: follows_settled)

text \<open>Marking the credential connected keeps what is on the wire confirmable.\<close>

lemma unblock_id [simp]: "outbound_event_id (unblock_report e) = outbound_event_id e"
  by (cases e) auto

lemma iter_position_map: "(\<And>y. P (g y) = P y) \<Longrightarrow> iter_position P (map g xs) = iter_position P xs"
  by (induction xs) auto

lemma connected_confirmable:
  assumes "mark_current_credential_connected x revision aw = (aw', r)" "confirmable e (ag_state (fst aw))"
  shows "confirmable e (ag_state (fst aw'))"
proof -
  have step: "confirmable e t" if "mark_reconnected rv (ag_state (fst aw)) = (b, t)" for rv b t
  proof -
    obtain k where k: "iter_position (\<lambda>y. outbound_event_id y = e) (st_outbox (ag_state (fst aw))) = Some k"
        "ready_fact (st_outbox (ag_state (fst aw)) ! k) \<noteq> None"
        "is_ready_report (st_outbox (ag_state (fst aw)) ! k) \<longrightarrow> pending_settled (ag_state (fst aw))"
      using assms(2) by (auto simp: confirmable_def)
    have "k < length (st_outbox (ag_state (fst aw)))" using iter_position_Some [OF k(1)] by simp
    moreover have "unblock_report (st_outbox (ag_state (fst aw)) ! k) = st_outbox (ag_state (fst aw)) ! k"
      using k(2) by (cases "st_outbox (ag_state (fst aw)) ! k") auto
    ultimately show ?thesis
      using that k assms(2) by (auto simp: mark_reconnected_def confirmable_def iter_position_map pending_settled_def split: if_splits)
  qed
  show ?thesis
    using assms step
    by (auto simp: mark_current_credential_connected_def Let_def plift_def split: prod.splits if_splits
        elim: persist_candidate_cases)
qed

end
