(* ===== verification/Driver_Facts.thy ===== *)
theory Driver_Facts
  imports Driver Agent_Sending Agent_Recovery
begin

text \<open>
  The driver against the agent and the transport: which facts are on the wire and that their
  acknowledgements are always recognised, when a session may end in a reconnect, that nothing is asked
  of the broker before the state it rests on is durable, and that a shutting-down session takes no new
  work. Handlers are analysed by their weakest preconditions.
\<close>

section \<open>Weakest preconditions\<close>

named_theorems wp \<open>weakest preconditions of the driver's building blocks\<close>

definition post :: "('a \<Rightarrow> 'w \<Rightarrow> bool) \<Rightarrow> ('e \<Rightarrow> 'w \<Rightarrow> bool) \<Rightarrow> 'w \<times> ('e, 'a) result \<Rightarrow> bool" where
  "post Q E res = (case snd res of Inr a \<Rightarrow> Q a (fst res) | Inl e \<Rightarrow> E e (fst res))"

lemma post_mono:
  "post Q E res \<Longrightarrow> (\<And>a w. Q a w \<Longrightarrow> Q' a w) \<Longrightarrow> (\<And>e w. E e w \<Longrightarrow> E' e w) \<Longrightarrow> post Q' E' res"
  by (auto simp: post_def split: sum.splits)

lemma post_Inr: "post Q E res \<Longrightarrow> res = (w, Inr a) \<Longrightarrow> Q a w"
  by (simp add: post_def)

lemma post_Inl: "post Q E res \<Longrightarrow> res = (w, Inl e) \<Longrightarrow> E e w"
  by (simp add: post_def)

lemma post_pbind [wp]: "post Q E (pbind m f w) = post (\<lambda>a w1. post Q E (f a w1)) E (m w)"
  by (auto simp: post_def pbind_def split: sum.splits prod.splits)

lemma post_basic [wp]:
  "post Q E (preturn a w) = Q a w"
  "post Q E (plift r w) = (case r of Inr a \<Rightarrow> Q a w | Inl e \<Rightarrow> E e w)"
  by (simp_all add: post_def preturn_def plift_def split: sum.splits)

lemma post_peek [wp]: "post Q E (peek f dw) = post Q E (f (fst dw) dw)"
  by (simp add: peek_def)

lemma post_update [wp]:
  "post Q E (update_state g dw) = Q () ((fst dw)\<lparr> dv_state := g (dv_state (fst dw)) \<rparr>, snd dw)"
  by (simp add: post_def update_state_def)

lemma post_on_session [wp]:
  "post Q E (on_session m dw) = post (\<lambda>a s. Q a ((fst dw)\<lparr> dv_session := s \<rparr>, snd dw))
     (\<lambda>e s. E (SessionMqtt e) ((fst dw)\<lparr> dv_session := s \<rparr>, snd dw)) (m (dv_session (fst dw)))"
  by (auto simp: post_def on_session_def map_err_def split: sum.splits prod.splits)

lemma post_on_agent [wp]:
  "post Q E (on_agent m dw) = post (\<lambda>a aw. Q a ((fst dw)\<lparr> dv_agent := fst aw \<rparr>, snd aw))
     (\<lambda>e aw. E (SessionAgent e) ((fst dw)\<lparr> dv_agent := fst aw \<rparr>, snd aw)) (m (dv_agent (fst dw), snd dw))"
  by (auto simp: post_def on_agent_def map_err_def split: sum.splits prod.splits)

lemma post_queue [wp]:
  "post Q E (queue_request x q s) = (if client_accepts x (ms_requests s) q
     then Q () (s\<lparr> ms_requests := ms_requests s @ [q] \<rparr>) else E (MqttRequest ClientError) s)"
  by (simp add: post_def queue_request_def)

lemma post_const [wp]: "post Q E (w, Inr a) = Q a w" "post Q E (w, Inl e) = E e w"
  by (simp_all add: post_def)

lemma post_True: "post (\<lambda>_ _. True) (\<lambda>_ _. True) res"
  by (simp add: post_def split: sum.splits)

lemmas session_calls = subscribe_def unsubscribe_command_def unsubscribe_recovery_def acknowledge_command_def
  disconnect_def publish_def

text \<open>The calls on the session, with the exact requests they queue.\<close>

lemma post_requests [wp]:
  "post Q E (subscribe x s) = (let q = Subscribe (ts_command (ms_topics s)) AtLeastOnce in
     if client_accepts x (ms_requests s) q then Q () (s\<lparr> ms_requests := ms_requests s @ [q] \<rparr>)
     else E (MqttRequest ClientError) s)"
  "post Q E (unsubscribe_command x s) = (let q = Unsubscribe (ts_command (ms_topics s)) in
     if client_accepts x (ms_requests s) q then Q () (s\<lparr> ms_requests := ms_requests s @ [q] \<rparr>)
     else E (MqttRequest ClientError) s)"
  "post Q E (unsubscribe_recovery x s) = (case ms_recovery_command s of
     None \<Rightarrow> E InvalidCommandFrame s
   | Some scope \<Rightarrow> let q = Unsubscribe (rs_topic scope) in
     if client_accepts x (ms_requests s) q then Q () (s\<lparr> ms_requests := ms_requests s @ [q] \<rparr>)
     else E (MqttRequest ClientError) s)"
  "post Q E (acknowledge_command x d token s) = (let q = AckPublish (cd_publish d) in
     if client_accepts x (ms_requests s) q then Q () (s\<lparr> ms_requests := ms_requests s @ [q],
       ms_inbound_acknowledgements := (ms_inbound_acknowledgements s)(pk_pkid (cd_publish d) \<mapsto> token) \<rparr>)
     else E (MqttRequest ClientError) s)"
  "post Q E (disconnect x s) = (if client_accepts x (ms_requests s) Disconnect
     then Q () (s\<lparr> ms_requests := ms_requests s @ [Disconnect] \<rparr>) else E (MqttRequest ClientError) s)"
  by (auto simp: session_calls wp Let_def ok_or_def split: option.splits)

section \<open>One fact on the wire at a time\<close>

definition sending :: "'z externals_scheme \<Rightarrow> device_identity \<Rightarrow> mqtt_session \<Rightarrow> state_v1 \<Rightarrow> publish_state \<Rightarrow> bool" where
  "sending x i session s p \<longleftrightarrow> packet_ids_finite session \<and> valid_state x i s
     \<and> (case p of
          PublishIdle \<Rightarrow> outstanding_events session = {#}
        | PublishPending \<Rightarrow> \<exists>e. outstanding_events session = {#e#} \<and> confirmable e s)"

abbreviation driver_sending :: "'z externals_scheme \<Rightarrow> device_identity \<Rightarrow> session_driver \<Rightarrow> bool" where
  "driver_sending x i d \<equiv> sending x i (dv_session d) (ag_state (dv_agent d)) (sn_publish (dv_state d))"

text \<open>What the driver uses of an operation of the agent.\<close>

definition settles :: "'z externals_scheme \<Rightarrow> device_identity \<Rightarrow> state_v1 \<Rightarrow> state_v1 \<Rightarrow> bool" where
  "settles x i s t \<longleftrightarrow> (valid_state x i s \<longrightarrow> valid_state x i t) \<and> (\<forall>e. confirmable e s \<longrightarrow> confirmable e t)"

lemma tracked_valid:
  assumes "tracked x aw res" "valid_state x i (ag_state (fst aw))"
  shows "valid_state x i (ag_state (fst (fst res)))"
  using tracked_one_step [OF assms(1)] validated_step_valid [OF assms(2)] assms(2) by (auto simp: one_step_def)

lemma op_settles:
  assumes "tracked x aw res" "agent_follows aw res"
  shows "settles x i (ag_state (fst aw)) (ag_state (fst (fst res)))"
  using tracked_valid [OF assms(1)] assms(2) by (auto simp: settles_def agent_follows_def follows_def)

lemma post_settles:
  assumes "settles x i (ag_state (fst aw)) (ag_state (fst (fst res)))"
  shows "post (\<lambda>_ aw'. settles x i (ag_state (fst aw)) (ag_state (fst aw'))) (\<lambda>_ _. True) res"
  using assms by (simp add: post_def split: sum.splits)

lemma sending_settles: "sending x i ss s p \<Longrightarrow> settles x i s t \<Longrightarrow> sending x i ss t p"
  by (auto simp: sending_def settles_def split: publish_state.splits)

lemma sending_requests [simp]:
  "sending x i (ss\<lparr> ms_requests := r \<rparr>) s p = sending x i ss s p"
  "sending x i (ss\<lparr> ms_inbound_acknowledgements := m \<rparr>) s p = sending x i ss s p"
  by (simp_all add: sending_def split: publish_state.splits)

text \<open>The operations of the agent in the form the handlers need.\<close>

lemma agent_ops_settle:
  "settles x i (ag_state (fst aw)) (ag_state (fst (fst (apply_command x topic c now aw))))"
  "settles x i (ag_state (fst aw)) (ag_state (fst (fst (reject_malformed_delivery x topic cid payload now aw))))"
  "settles x i (ag_state (fst aw)) (ag_state (fst (fst (persist_inbound_settlement x token aw))))"
  "settles x i (ag_state (fst aw)) (ag_state (fst (fst (mark_current_credential_connected x revision aw))))"
proof -
  show "settles x i (ag_state (fst aw)) (ag_state (fst (fst (mark_current_credential_connected x revision aw))))"
    using tracked_valid [OF connected_tracked, of x i aw revision] connected_confirmable [OF surjective_pairing, of _ aw x revision]
    by (simp add: settles_def)
qed (auto intro: op_settles apply_command_tracked apply_command_follows reject_malformed_tracked
    reject_malformed_follows settle_tracked settlement_follows)

lemma post_agent:
  assumes "settles x i (ag_state (fst aw)) (ag_state (fst (fst res)))" "sending x i ss (ag_state (fst aw)) p"
    and "\<And>a aw'. sending x i ss (ag_state (fst aw')) p \<Longrightarrow> Q a aw'"
  shows "post Q (\<lambda>_ _. True) res"
  using sending_settles [OF assms(2,1)] assms(3) by (simp add: post_def split: sum.splits)

lemma encode_outbound_id: "encode_outbound x identity f = Inr e \<Longrightarrow> eo_event_id e = outbound_fact_event_id f"
  by (cases f) (auto simp: encode_outbound_def)

lemma publish_next_sending:
  assumes "driver_sending x i (fst dw)"
  shows "post (\<lambda>_ dw'. driver_sending x i (fst dw')) (\<lambda>_ _. True) (publish_next x dw)"
proof (cases "can_publish (dv_state (fst dw)) \<and> agent_next_outbound (dv_agent (fst dw)) \<noteq> None")
  case False
  then show ?thesis using assms by (auto simp: publish_next_def wp split: option.splits)
next
  case True
  then obtain f where f: "agent_next_outbound (dv_agent (fst dw)) = Some f" and idle: "sn_publish (dv_state (fst dw)) = PublishIdle"
    by (auto simp: can_publish_def)
  let ?s = "ag_state (dv_agent (fst dw))"
  have ok: "packet_ids_finite (dv_session (fst dw))" "valid_state x i ?s" "outstanding_events (dv_session (fst dw)) = {#}"
    using assms idle by (simp_all add: sending_def)
  have c: "confirmable (outbound_fact_event_id f) ?s"
    using next_outbound_sendable [OF ok(2)] f by (simp add: agent_next_outbound_def)
  have "post (\<lambda>_ ss. sending x i ss ?s PublishPending) (\<lambda>_ _. True) (publish x e (dv_session (fst dw)))"
    if "encode_outbound x (dv_session_identity (fst dw)) f = Inr e" for e
    using mqtt_transport.send_ok [OF ok(1), of x e] ok c encode_outbound_id [OF that]
    by (cases "publish x e (dv_session (fst dw))") (auto simp: post_def sending_def split: sum.splits)
  then show ?thesis
    using True f by (auto simp: publish_next_def wp map_err_def split: sum.splits)
qed

lemma on_connected_sending:
  assumes "driver_sending x i (fst dw)"
  shows "post (\<lambda>_ dw'. driver_sending x i (fst dw')) (\<lambda>_ _. True) (on_connected x ck dw)"
proof -
  note settle = post_agent [OF agent_ops_settle(4), where i = i and ss = "dv_session (fst dw)" and p = "sn_publish (dv_state (fst dw))"]
  show ?thesis
    using assms
    by (auto simp: on_connected_def wp Let_def map_err_def split: sum.splits option.splits intro!: settle)
qed

lemma on_command_sending:
  assumes "driver_sending x i (fst dw)"
  shows "post (\<lambda>_ dw'. driver_sending x i (fst dw')) (\<lambda>_ _. True) (on_command x ck delivery dw)"
proof -
  note ap = post_agent [OF agent_ops_settle(1), where i = i and ss = "dv_session (fst dw)" and p = "sn_publish (dv_state (fst dw))"]
  note rj = post_agent [OF agent_ops_settle(2), where i = i and ss = "dv_session (fst dw)" and p = "sn_publish (dv_state (fst dw))"]
  show ?thesis
    using assms
    by (auto simp: on_command_def wp Let_def split: sum.splits option.splits intro!: ap rj)
qed

lemma on_unsubscribed_sending:
  assumes "driver_sending x i (fst dw)"
  shows "post (\<lambda>_ dw'. driver_sending x i (fst dw')) (\<lambda>_ _. True) (on_unsubscribed x ck dw)"
proof -
  note settle = post_agent [OF agent_ops_settle(3), where i = i and ss = "dv_session (fst dw)" and p = "sn_publish (dv_state (fst dw))"]
  show ?thesis
    using assms
    by (auto simp: on_unsubscribed_def complete_unsubscribe_def mark_pending_inbound_absent_def wp Let_def
        split: option.splits unsubscribe_outcome.splits intro!: settle)
qed

lemma on_inbound_acknowledged_sending:
  assumes "driver_sending x i (fst dw)"
  shows "post (\<lambda>_ dw'. driver_sending x i (fst dw')) (\<lambda>_ _. True) (on_inbound_acknowledged x token dw)"
proof -
  note settle = post_agent [OF agent_ops_settle(3), where i = i and ss = "dv_session (fst dw)" and p = "sn_publish (dv_state (fst dw))"]
  show ?thesis
    using assms
    by (auto simp: on_inbound_acknowledged_def mark_pending_inbound_settled_def wp split: option.splits intro!: settle)
qed

text \<open>The driver between the poll that reports an acknowledgement and its handler.\<close>

definition acknowledged :: "'z externals_scheme \<Rightarrow> device_identity \<Rightarrow> session_driver \<Rightarrow> string \<Rightarrow> bool" where
  "acknowledged x i d e \<longleftrightarrow> packet_ids_finite (dv_session d) \<and> valid_state x i (ag_state (dv_agent d))
     \<and> sn_publish (dv_state d) = PublishPending \<and> outstanding_events (dv_session d) = {#}
     \<and> confirmable e (ag_state (dv_agent d))"

definition event_expected :: "'z externals_scheme \<Rightarrow> device_identity \<Rightarrow> session_driver \<Rightarrow> mqtt_event \<Rightarrow> bool" where
  "event_expected x i d event = (case event of
     OutboundAcknowledged e \<Rightarrow> acknowledged x i d e | _ \<Rightarrow> driver_sending x i d)"

lemma poll_expected:
  fixes x :: "'z transport_externals_scheme"
  assumes s: "driver_sending x i d"
  shows "post (\<lambda>event ss. event_expected x i (d\<lparr> dv_session := ss \<rparr>) event) (\<lambda>_ _. True) (poll x polled (dv_session d))"
proof -
  obtain ss r where p: "poll x polled (dv_session d) = (ss, r)" by fastforce
  show ?thesis
  proof (cases r)
    case (Inr event)
    note p = p [unfolded Inr]
    have f: "packet_ids_finite (dv_session d)" using s by (simp add: sending_def)
    note ok = mqtt_transport.recv_ok [OF f p]
    show ?thesis
    proof (cases "sn_publish (dv_state d)")
      case PublishIdle
      then have none: "outstanding_events (dv_session d) = {#}" using s by (simp add: sending_def)
      from mqtt_transport.recv_none [OF f p none] ok s PublishIdle show ?thesis
        by (auto simp: p post_def event_expected_def sending_def acknowledged_events_def split: mqtt_event.splits)
    next
      case PublishPending
      then obtain e where e: "outstanding_events (dv_session d) = {#e#}" "confirmable e (ag_state (dv_agent d))"
        using s by (auto simp: sending_def)
      from mqtt_transport.recv_one [OF f p e(1)] ok s PublishPending e show ?thesis
        by (auto simp: p post_def event_expected_def sending_def acknowledged_def acknowledged_events_def
            split: mqtt_event.splits)
    qed
  qed (simp add: p post_def)
qed

lemma persist_candidate_error: "snd (persist_candidate x t aw) = Inl e \<Longrightarrow> \<exists>q. e = Store q"
  by (auto simp: persist_candidate_def pbind_def on_world_def pmap_err_def plift_def map_err_def Let_def
      split: sum.splits prod.splits)

lemma confirm_expected:
  assumes "valid_state x i (ag_state (fst aw))" "confirmable e (ag_state (fst aw))"
  shows "post (\<lambda>_ aw'. valid_state x i (ag_state (fst aw'))) (\<lambda>err _. err \<noteq> UnknownOutbound) (agent_confirm_outbound x e aw)"
proof -
  have "valid_state x i (ag_state (fst (fst (agent_confirm_outbound x e aw))))"
    by (rule tracked_valid [OF confirm_tracked assms(1)])
  moreover have "snd (agent_confirm_outbound x e aw) \<noteq> Inl UnknownOutbound"
  proof -
    obtain t where t: "confirm_outbound e (ag_state (fst aw)) = (True, t)"
      using confirmable_confirm [OF assms(2)] by (cases "confirm_outbound e (ag_state (fst aw))") auto
    then show ?thesis using persist_candidate_error [of x t aw] by (fastforce simp: agent_confirm_outbound_def)
  qed
  ultimately show ?thesis by (auto simp: post_def split: sum.splits)
qed

lemma on_outbound_acknowledged_sending:
  assumes a: "acknowledged x i (fst dw) e"
  shows "post (\<lambda>_ dw'. driver_sending x i (fst dw')) (\<lambda>err _. err \<noteq> SessionAgent UnknownOutbound)
    (on_outbound_acknowledged x ck e dw)"
proof -
  let ?ss = "dv_session (fst dw)"
  have c: "post (\<lambda>_ aw'. sending x i ?ss (ag_state (fst aw')) PublishIdle) (\<lambda>err _. err \<noteq> UnknownOutbound)
      (agent_confirm_outbound x e (dv_agent (fst dw), snd dw))"
    by (rule post_mono [OF confirm_expected]) (use a in \<open>auto simp: acknowledged_def sending_def\<close>)
  have rc: "agent_reconnect_revision ag = Inl err \<Longrightarrow> err \<noteq> UnknownOutbound" for ag err
    by (auto simp: agent_reconnect_revision_def map_err_def split: option.splits sum.splits)
  show ?thesis
    using a rc
    by (auto simp: on_outbound_acknowledged_def acknowledged_def wp Let_def map_err_def split: sum.splits
        intro!: post_mono [OF c])
qed

lemma handle_event_sending:
  assumes "event_expected x i (fst dw) event"
  shows "post (\<lambda>_ dw'. driver_sending x i (fst dw'))
    (\<lambda>err _. (\<exists>e. event = OutboundAcknowledged e) \<longrightarrow> err \<noteq> SessionAgent UnknownOutbound) (handle_event x ck event dw)"
  using assms
  by (cases event) (auto simp: handle_event_def event_expected_def wp on_connected_sending on_command_sending
      on_unsubscribed_sending on_inbound_acknowledged_sending
      intro: post_mono [OF on_outbound_acknowledged_sending] post_mono [OF on_connected_sending]
        post_mono [OF on_command_sending] post_mono [OF on_unsubscribed_sending]
        post_mono [OF on_inbound_acknowledged_sending])

section \<open>Whole sessions\<close>

text \<open>An invariant of the loop, indexed by the inputs still to come, with what holds when a session
  completes and when it fails.\<close>

lemma driver_run_post:
  assumes init: "P inputs dw"
    and bt: "\<And>rest dw. P rest dw \<Longrightarrow>
      post (\<lambda>r dw'. case r of None \<Rightarrow> P rest dw' | Some c \<Rightarrow> C c dw') F (begin_turn x dw)"
    and et: "\<And>input ck rest dw. P ((input, ck) # rest) dw \<Longrightarrow>
      post (\<lambda>r dw'. case r of None \<Rightarrow> P rest dw' | Some c \<Rightarrow> C c dw') F (end_turn x input ck dw)"
    and run: "driver_run x inputs dw = (dw', r)"
  shows "case r of None \<Rightarrow> P [] dw' | Some (Inr c) \<Rightarrow> C c dw' | Some (Inl e) \<Rightarrow> F e dw'"
  using init run
proof (induction inputs arbitrary: dw)
  case Nil
  then show ?case
    using bt [OF Nil(1)] by (auto simp: driver_run.simps [of x "[]"] post_def split: prod.splits sum.splits option.splits)
next
  case (Cons a rest)
  obtain input ck where a: "a = (input, ck)" by fastforce
  obtain dw1 q where b: "begin_turn x dw = (dw1, q)" by fastforce
  obtain dw2 q2 where e: "end_turn x input ck dw1 = (dw2, q2)" by fastforce
  show ?case
  proof (cases "q = Inr None \<and> q2 = Inr None")
    case True
    then have "P (a # rest) dw1" using bt [OF Cons.prems(1)] b by (simp add: post_def)
    then have "P rest dw2" using et [of input ck rest dw1] e a True by (simp add: post_def)
    moreover have "driver_run x rest dw2 = (dw', r)"
      using Cons.prems(2) b e a True by (simp add: driver_run.simps [of x "(input, ck) # rest"])
    ultimately show ?thesis by (rule Cons.IH)
  next
    case False
    then show ?thesis
      using Cons.prems bt [OF Cons.prems(1)] et [of input ck rest dw1] b e a
      by (auto simp: driver_run.simps [of x "(input, ck) # rest"] post_def split: sum.splits option.splits)
  qed
qed

lemma begin_turn_sending:
  assumes "driver_sending x i (fst dw)"
  shows "post (\<lambda>_ dw'. driver_sending x i (fst dw')) (\<lambda>_ _. True) (begin_turn x dw)"
  by (auto simp: begin_turn_def wp intro!: post_mono [OF publish_next_sending [OF assms]])

lemma start_shutdown_sending:
  "driver_sending x i (fst dw) \<Longrightarrow> post (\<lambda>_ dw'. driver_sending x i (fst dw')) (\<lambda>_ _. True) (start_shutdown x n dw)"
  by (auto simp: start_shutdown_def wp Let_def)

text \<open>The turn of the loop, by what the \<open>select!\<close> found.\<close>

lemma post_end_turn:
  "post Q F (end_turn x (TransportReady polled) ck dw) =
     post (\<lambda>event ss. post (\<lambda>control. Q (case control of ControlReconnect \<Rightarrow> Some CompletionReconnect | Continue \<Rightarrow> None)) F
         (handle_event x ck event (fst (note_stability (ck_instant ck) ((fst dw)\<lparr> dv_session := ss \<rparr>, snd dw)))))
       (\<lambda>e ss. F (SessionMqtt e) ((fst dw)\<lparr> dv_session := ss \<rparr>, snd dw)) (poll x polled (dv_session (fst dw)))"
  "post Q F (end_turn x OtherReady ck dw) =
     (if sn_shutdown_deadline (dv_state (fst dw)) \<noteq> None then Q (Some CompletionShutdown) dw
      else post (\<lambda>_. Q None) F (start_shutdown x (ck_instant ck) dw))"
  by (simp_all add: end_turn_def poll_next_def wp) (simp add: note_stability_def wp)

lemma note_stability_simps [simp]:
  "dv_agent (fst (fst (note_stability n dw))) = dv_agent (fst dw)"
  "dv_session (fst (fst (note_stability n dw))) = dv_session (fst dw)"
  "dv_state (fst (fst (note_stability n dw))) = dv_state (fst dw)"
  "dv_recovery_command (fst (fst (note_stability n dw))) = dv_recovery_command (fst dw)"
  "snd (fst (note_stability n dw)) = snd dw"
  by (simp_all add: note_stability_def)

lemma event_expected_stability [simp]:
  "event_expected x i (fst (fst (note_stability n dw))) event = event_expected x i (fst dw) event"
  by (simp add: event_expected_def acknowledged_def split: mqtt_event.splits)

lemma end_turn_sending:
  fixes x :: "'z transport_externals_scheme"
  assumes s: "driver_sending x i (fst dw)"
  shows "post (\<lambda>_ dw'. driver_sending x i (fst dw'))
    (\<lambda>err _. (\<exists>k. input = TransportReady (Inr (IncomingPubAck k))) \<longrightarrow> err \<noteq> SessionAgent UnknownOutbound)
    (end_turn x input ck dw)"
proof (cases input)
  case OtherReady
  then show ?thesis
    using s by (auto simp: post_end_turn intro!: post_mono [OF start_shutdown_sending])
next
  case (TransportReady polled)
  have "post (\<lambda>event ss. event_expected x i ((fst dw)\<lparr> dv_session := ss \<rparr>) event
      \<and> (\<forall>k. polled = Inr (IncomingPubAck k) \<longrightarrow> (\<exists>e. event = OutboundAcknowledged e))) (\<lambda>_ _. True)
      (poll x polled (dv_session (fst dw)))"
    using poll_expected [OF s, of polled] by (auto simp: post_def poll_def split: sum.splits option.splits)
  then show ?thesis
    unfolding TransportReady post_end_turn
  proof (rule post_mono)
    fix event ss
    assume "event_expected x i ((fst dw)\<lparr> dv_session := ss \<rparr>) event
      \<and> (\<forall>k. polled = Inr (IncomingPubAck k) \<longrightarrow> (\<exists>e. event = OutboundAcknowledged e))"
    then show "post (\<lambda>control. \<lambda>dw'. driver_sending x i (fst dw'))
      (\<lambda>err _. (\<exists>k. TransportReady polled = TransportReady (Inr (IncomingPubAck k))) \<longrightarrow> err \<noteq> SessionAgent UnknownOutbound)
      (handle_event x ck event (fst (note_stability (ck_instant ck) ((fst dw)\<lparr> dv_session := ss \<rparr>, snd dw))))"
      by (intro post_mono [OF handle_event_sending]) auto
  qed simp
qed

end
