(* ===== verification/Driver_Safety.thy ===== *)
theory Driver_Safety
  imports Driver_Facts
begin

text \<open>
  Safety of whole sessions: acknowledgements are recognised, reconnects happen only for an activated
  and settled credential, the broker is told nothing that is not durable, shutdown takes no new work,
  and the retry delay stays within its bounds.
\<close>

section \<open>Acknowledgements\<close>

definition fresh_session :: "mqtt_session \<Rightarrow> bool" where
  "fresh_session s \<longleftrightarrow> ms_awaiting_packet_id s = [] \<and> ms_packet_events s = Map.empty \<and> ms_requests s = []"

lemma mqtt_session_new_fresh:
  "mqtt_session_new config files topics recovery w = (w', Inr s) \<Longrightarrow> fresh_session s"
  by (auto simp: mqtt_session_new_def pbind_Inr fresh_session_def)

lemma driver_new_sending:
  "fresh_session session \<Longrightarrow> valid_state x i (ag_state ag) \<Longrightarrow> driver_sending x i (driver_new ag session identity recovery delay)"
  by (simp add: driver_new_def sending_def session_state_default_def fresh_session_def packet_ids_finite_def
      outstanding_events_def)

lemma driver_run_keeps:
  assumes "P dw" "driver_run x inputs dw = (dw', None)"
    and bt: "\<And>dw. P dw \<Longrightarrow> post (\<lambda>_ dw'. P dw') (\<lambda>_ _. True) (begin_turn x dw)"
    and et: "\<And>input ck dw. P dw \<Longrightarrow> post (\<lambda>_ dw'. P dw') (\<lambda>_ _. True) (end_turn x input ck dw)"
  shows "P dw'"
proof -
  have "case None :: (session_error, session_completion) result option of
      None \<Rightarrow> P dw' | Some (Inr c) \<Rightarrow> True | Some (Inl e) \<Rightarrow> True"
    by (rule driver_run_post [of "\<lambda>_. P", OF assms(1) _ _ assms(2)])
      (auto intro: post_mono [OF bt] post_mono [OF et] split: option.splits)
  then show ?thesis by simp
qed

lemma driver_run_sending:
  assumes "driver_sending x i (fst dw)" "driver_run x inputs dw = (dw', None)"
  shows "driver_sending x i (fst dw')"
  by (rule driver_run_keeps [where P = "\<lambda>dw. driver_sending x i (fst dw)", OF assms begin_turn_sending])
    (auto intro: post_mono [OF end_turn_sending])

section \<open>Durability\<close>

definition durable :: "'z store_externals_scheme \<Rightarrow> reference_device_agent \<times> world \<Rightarrow> bool" where
  "durable x aw = shows_state (ag_store (fst aw)) (snd aw) {state_image x (ag_state (fst aw))}"

abbreviation driver_durable :: "'z store_externals_scheme \<Rightarrow> session_driver \<times> world \<Rightarrow> bool" where
  "driver_durable x dw \<equiv> durable x (dv_agent (fst dw), snd dw)"

lemma tracked_durable:
  assumes t: "tracked x aw res" and d: "durable x aw"
  shows "post (\<lambda>_ aw'. durable x aw') (\<lambda>_ _. True) res"
proof (cases "snd res")
  case (Inr a)
  from t obtain s where s: "s = ag_state (fst aw) \<longrightarrow> (\<forall>C. shows_state (ag_store (fst aw)) (snd aw) C \<longrightarrow>
        state_image x (ag_state (fst aw)) \<in> C \<longrightarrow> shows_state (ag_store (fst aw)) (snd (fst res)) C)"
      "fst (fst res) = (fst aw)\<lparr> ag_state := s \<rparr>"
      "s \<noteq> ag_state (fst aw) \<longrightarrow> shows_state (ag_store (fst aw)) (snd (fst res)) {state_image x s}"
    using Inr unfolding tracked_def Let_def by auto
  then have "durable x (fst res)" using d by (cases "s = ag_state (fst aw)") (auto simp: durable_def)
  then show ?thesis using Inr by (simp add: post_def)
qed (simp add: post_def)

lemmas agent_durable =
  tracked_durable [OF apply_command_tracked] tracked_durable [OF reject_malformed_tracked]
  tracked_durable [OF confirm_tracked] tracked_durable [OF settle_tracked] tracked_durable [OF connected_tracked]

definition asked :: "session_driver \<times> world \<Rightarrow> client_request list" where
  "asked dw = ms_requests (dv_session (fst dw))"

lemma handle_event_durable:
  assumes "driver_durable x dw"
  shows "post (\<lambda>_ dw'. driver_durable x dw') (\<lambda>_ dw'. driver_durable x dw' \<or> asked dw' = asked dw) (handle_event x ck event dw)"
proof -
  note d = assms agent_durable [of x "(dv_agent (fst dw), snd dw)"]
  show ?thesis
  proof (cases event)
    case Connected
    then show ?thesis using d
      by (auto simp: handle_event_def on_connected_def wp Let_def map_err_def asked_def split: sum.splits option.splits
          intro!: post_mono [OF d(6)])
  next
    case (Command delivery)
    then show ?thesis using d
      by (auto simp: handle_event_def on_command_def wp Let_def asked_def split: sum.splits option.splits
          intro!: post_mono [OF d(2)] post_mono [OF d(3)])
  next
    case (OutboundAcknowledged e)
    then show ?thesis using d
      by (auto simp: handle_event_def on_outbound_acknowledged_def wp Let_def map_err_def asked_def split: sum.splits
          intro!: post_mono [OF d(4)])
  next
    case Unsubscribed
    then show ?thesis using d
      by (auto simp: handle_event_def on_unsubscribed_def complete_unsubscribe_def mark_pending_inbound_absent_def wp
          Let_def asked_def split: option.splits unsubscribe_outcome.splits intro!: post_mono [OF d(5)])
  next
    case (InboundAcknowledged token)
    then show ?thesis using d
      by (auto simp: handle_event_def on_inbound_acknowledged_def mark_pending_inbound_settled_def wp asked_def
          split: option.splits intro!: post_mono [OF d(5)])
  qed (use d in \<open>auto simp: handle_event_def wp\<close>)
qed

lemma publish_next_agent:
  "post (\<lambda>_ dw'. dv_agent (fst dw') = dv_agent (fst dw) \<and> snd dw' = snd dw)
     (\<lambda>_ dw'. dv_agent (fst dw') = dv_agent (fst dw) \<and> snd dw' = snd dw) (publish_next x dw)"
  by (auto simp: publish_next_def wp Let_def publish_def map_err_def split: option.splits sum.splits)

lemma begin_turn_durable:
  "driver_durable x dw \<Longrightarrow> post (\<lambda>_ dw'. driver_durable x dw') (\<lambda>_ dw'. driver_durable x dw') (begin_turn x dw)"
  by (auto simp: begin_turn_def wp intro!: post_mono [OF publish_next_agent])

lemma poll_requests: "ms_requests (fst (poll x polled s)) = ms_requests s"
  by (auto simp: poll_def Let_def split: sum.splits transport_event.splits option.splits list.splits)

lemma end_turn_durable:
  assumes d: "driver_durable x dw"
  shows "post (\<lambda>_ dw'. driver_durable x dw') (\<lambda>_ dw'. driver_durable x dw' \<or> asked dw' = asked dw) (end_turn x input ck dw)"
proof (cases input)
  case OtherReady
  then show ?thesis using d by (auto simp: post_end_turn start_shutdown_def wp Let_def)
next
  case (TransportReady polled)
  have "post (\<lambda>_ ss. ms_requests ss = ms_requests (dv_session (fst dw))) (\<lambda>_ ss. ms_requests ss = ms_requests (dv_session (fst dw)))
      (poll x polled (dv_session (fst dw)))"
    using poll_requests [of x polled "dv_session (fst dw)"] by (simp add: post_def split: sum.splits)
  then show ?thesis
    unfolding TransportReady post_end_turn
  proof (rule post_mono)
    fix event and ss :: mqtt_session assume ss: "ms_requests ss = ms_requests (dv_session (fst dw))"
    let ?dw = "fst (note_stability (ck_instant ck) ((fst dw)\<lparr> dv_session := ss \<rparr>, snd dw))"
    have "driver_durable x ?dw" "asked ?dw = asked dw" using d ss by (simp_all add: asked_def)
    then show "post (\<lambda>control dw'. driver_durable x dw') (\<lambda>_ dw'. driver_durable x dw' \<or> asked dw' = asked dw)
        (handle_event x ck event ?dw)"
      using handle_event_durable [of x ?dw ck event] by simp
  qed (use d in \<open>auto simp: asked_def\<close>)
qed

lemma driver_run_durable:
  assumes "driver_durable x dw" "driver_run x inputs dw = (dw', None)"
  shows "driver_durable x dw'"
  by (rule driver_run_keeps [where P = "driver_durable x", OF assms])
    (auto intro: post_mono [OF begin_turn_durable] post_mono [OF end_turn_durable])

section \<open>Held acknowledgements\<close>

lemma on_command_accepted:
  assumes r: "on_command x ck delivery dw = (dw', Inr ())"
    and c: "decode_command x (cd_identity delivery) (cd_command_id delivery) (pk_payload (cd_publish delivery)) = Inr command"
    and a: "apply_command x (cd_topic delivery) command (ck_now ck) (dv_agent (fst dw), snd dw) = ((ag, w), Inr Accepted)"
  shows "dv_agent (fst dw') = ag \<and> snd dw' = w
    \<and> asked dw' = asked dw @ [Unsubscribe (ts_command (ms_topics (dv_session (fst dw))))]
    \<and> sn_subscription (dv_state (fst dw')) = Unsubscribing
    \<and> sn_pending_command_ack (dv_state (fst dw'))
        = Some (delivery, pending_delivery_settlement_token ag (cd_topic delivery) (cd_command_id delivery))"
proof -
  have "post (\<lambda>_ dw'. dv_agent (fst dw') = ag \<and> snd dw' = w
    \<and> asked dw' = asked dw @ [Unsubscribe (ts_command (ms_topics (dv_session (fst dw))))]
    \<and> sn_subscription (dv_state (fst dw')) = Unsubscribing
    \<and> sn_pending_command_ack (dv_state (fst dw'))
        = Some (delivery, pending_delivery_settlement_token ag (cd_topic delivery) (cd_command_id delivery)))
    (\<lambda>_ _. True) (on_command x ck delivery dw)"
    by (auto simp: on_command_def wp c a should_hold_command_ack_def Let_def asked_def split: option.splits)
  from post_Inr [OF this r] show ?thesis .
qed

lemma on_unsubscribed_releases:
  assumes r: "on_unsubscribed x ck dw = (dw', Inr c)"
    and h: "sn_pending_command_ack (dv_state (fst dw)) = Some (delivery, token)"
  shows "asked dw' = asked dw @ [AckPublish (cd_publish delivery)] \<and> c = Continue
    \<and> sn_pending_command_ack (dv_state (fst dw')) = None
    \<and> ms_inbound_acknowledgements (dv_session (fst dw')) (pk_pkid (cd_publish delivery)) = Some token"
proof -
  have "post (\<lambda>c dw'. asked dw' = asked dw @ [AckPublish (cd_publish delivery)] \<and> c = Continue
    \<and> sn_pending_command_ack (dv_state (fst dw')) = None
    \<and> ms_inbound_acknowledgements (dv_session (fst dw')) (pk_pkid (cd_publish delivery)) = Some token)
    (\<lambda>_ _. True) (on_unsubscribed x ck dw)"
    by (auto simp: on_unsubscribed_def wp h Let_def asked_def)
  from post_Inr [OF this r] show ?thesis .
qed

section \<open>Shutdown\<close>

fun is_subscribe :: "client_request \<Rightarrow> bool" where
  "is_subscribe (Subscribe _ _) = True"
| "is_subscribe _ = False"

definition intake_requests :: "session_driver \<times> world \<Rightarrow> client_request list" where
  "intake_requests dw = filter is_subscribe (asked dw)"

abbreviation shutting_down :: "session_driver \<times> world \<Rightarrow> bool" where
  "shutting_down dw \<equiv> sn_shutdown_deadline (dv_state (fst dw)) \<noteq> None"

lemma post_any: "(\<And>a w. Q a w) \<Longrightarrow> (\<And>e w. F e w) \<Longrightarrow> post Q F res"
  by (simp add: post_def split: sum.splits)

lemma handle_event_shutdown:
  assumes "shutting_down dw" "intake_requests dw = rs"
  shows "post (\<lambda>_ dw'. shutting_down dw' \<and> intake_requests dw' = rs) (\<lambda>_ dw'. intake_requests dw' = rs) (handle_event x ck event dw)"
  using assms
  by (cases event)
    (auto simp: handle_event_def on_connected_def on_command_def on_outbound_acknowledged_def on_unsubscribed_def
      complete_unsubscribe_def on_inbound_acknowledged_def can_subscribe_def wp Let_def map_err_def intake_requests_def asked_def
      split: sum.splits option.splits unsubscribe_outcome.splits intro!: post_any)

lemma begin_turn_shutdown:
  assumes "shutting_down dw" "intake_requests dw = rs"
  shows "post (\<lambda>_ dw'. shutting_down dw' \<and> intake_requests dw' = rs) (\<lambda>_ dw'. intake_requests dw' = rs) (begin_turn x dw)"
  using assms
  by (auto simp: begin_turn_def publish_next_def publish_def wp Let_def map_err_def intake_requests_def asked_def
      split: sum.splits option.splits)

lemma end_turn_shutdown:
  assumes "shutting_down dw" "intake_requests dw = rs"
  shows "post (\<lambda>_ dw'. shutting_down dw' \<and> intake_requests dw' = rs) (\<lambda>_ dw'. intake_requests dw' = rs) (end_turn x input ck dw)"
proof (cases input)
  case OtherReady
  then show ?thesis using assms by (auto simp: post_end_turn)
next
  case (TransportReady polled)
  let ?same = "\<lambda>_ ss. ms_requests ss = ms_requests (dv_session (fst dw))"
  have "post ?same ?same (poll x polled (dv_session (fst dw)))"
    using poll_requests [of x polled "dv_session (fst dw)"] by (simp add: post_def split: sum.splits)
  then show ?thesis
    unfolding TransportReady post_end_turn
  proof (rule post_mono)
    fix event and ss :: mqtt_session assume "ms_requests ss = ms_requests (dv_session (fst dw))"
    then show "post (\<lambda>control dw'. shutting_down dw' \<and> intake_requests dw' = rs) (\<lambda>_ dw'. intake_requests dw' = rs)
        (handle_event x ck event (fst (note_stability (ck_instant ck) ((fst dw)\<lparr> dv_session := ss \<rparr>, snd dw))))"
      using assms by (intro handle_event_shutdown) (simp_all add: intake_requests_def asked_def)
  qed (use assms in \<open>auto simp: intake_requests_def asked_def\<close>)
qed

lemma driver_run_shutdown:
  assumes "shutting_down dw" "driver_run x inputs dw = (dw', r)"
  shows "intake_requests dw' = intake_requests dw"
proof -
  have "case r of None \<Rightarrow> shutting_down dw' \<and> intake_requests dw' = intake_requests dw
      | Some (Inr c) \<Rightarrow> intake_requests dw' = intake_requests dw | Some (Inl e) \<Rightarrow> intake_requests dw' = intake_requests dw"
    by (rule driver_run_post [of "\<lambda>_ dw'. shutting_down dw' \<and> intake_requests dw' = intake_requests dw", OF _ _ _ assms(2)])
      (use assms(1) in \<open>auto intro!: post_mono [OF begin_turn_shutdown] post_mono [OF end_turn_shutdown] split: option.splits\<close>)
  then show ?thesis by (auto split: option.splits sum.splits)
qed

section \<open>Reconnects\<close>

text \<open>Connection acknowledgements still to come; the transport sends one per session.\<close>

definition connacks :: "(select_outcome \<times> clock) list \<Rightarrow> nat" where
  "connacks inputs = length (filter (\<lambda>(input, _). input = TransportReady (Inr IncomingConnAck)) inputs)"

definition activated :: "reference_device_agent \<Rightarrow> bool" where
  "activated ag \<longleftrightarrow> st_reconnect_revision (ag_state ag) \<noteq> None"

definition reconnect_waits :: "session_driver \<Rightarrow> bool" where
  "reconnect_waits d \<longleftrightarrow> (sn_reconnect (dv_state d) = ReconnectReady \<longrightarrow> activated (dv_agent d) \<and> is_connected (dv_state d))
     \<and> (sn_publish (dv_state d) = PublishPending \<longrightarrow> is_connected (dv_state d))"

definition reconnect_allowed :: "session_driver \<Rightarrow> bool" where
  "reconnect_allowed d \<longleftrightarrow> activated (dv_agent d) \<and> pending_inbound_settled (dv_agent d)
     \<and> \<not> unsubscribe_pending (dv_state d)"

lemma post_activated:
  "agent_follows aw res \<Longrightarrow> post (\<lambda>_ aw'. activated (fst aw) \<longrightarrow> activated (fst aw')) (\<lambda>_ _. True) res"
  by (auto simp: post_def agent_follows_def follows_def activated_def split: sum.splits)

lemma settled_pending:
  "post (\<lambda>_ aw'. (activated (fst aw) \<longrightarrow> activated (fst aw')) \<and> pending_inbound_settled (fst aw')) (\<lambda>_ _. True)
     (persist_inbound_settlement x token aw)"
proof (cases "snd (persist_inbound_settlement x token aw)")
  case (Inr u)
  then obtain t where t: "mark_inbound_settled token (ag_state (fst aw)) = (True, t)"
      and p: "persist_inbound_settlement x token aw = persist_candidate x t aw"
    by (auto simp: persist_inbound_settlement_def plift_def split: prod.splits if_splits)
  have "ag_state (fst (fst (persist_candidate x t aw))) = t"
    using persist_candidate_cases [of x t aw "fst (persist_candidate x t aw)" "snd (persist_candidate x t aw)"] Inr p
    by force
  moreover have "agent_follows aw (persist_inbound_settlement x token aw)" by (rule settlement_follows)
  ultimately show ?thesis
    using Inr t p
    by (auto simp: post_def agent_follows_def follows_def activated_def pending_inbound_settled_def pending_inbound_def
        mark_inbound_settled_def split: option.splits if_splits)
qed (simp add: post_def)

lemma confirm_activated: "confirm_outbound e s = (b, t) \<Longrightarrow> st_reconnect_revision s \<noteq> None \<Longrightarrow> st_reconnect_revision t \<noteq> None"
  by (auto simp: confirm_outbound_def Let_def split: option.splits if_splits stored_outbound.splits)

lemma post_confirm_activated:
  "post (\<lambda>_ aw'. activated (fst aw) \<longrightarrow> activated (fst aw')) (\<lambda>_ _. True) (agent_confirm_outbound x e aw)"
proof -
  obtain b t where t: "confirm_outbound e (ag_state (fst aw)) = (b, t)" by fastforce
  have "ag_state (fst (fst (persist_candidate x t aw))) \<in> {t, ag_state (fst aw)}"
    using persist_candidate_cases [of x t aw "fst (persist_candidate x t aw)" "snd (persist_candidate x t aw)"] by force
  then show ?thesis
    using confirm_activated [OF t]
    by (auto simp: agent_confirm_outbound_def t post_def activated_def plift_def split: sum.splits)
qed

lemma reconnect_revision_activated: "agent_reconnect_revision ag = Inr (Some rv) \<Longrightarrow> activated ag"
  by (auto simp: agent_reconnect_revision_def activated_def split: option.splits)

lemma handle_event_reconnect:
  assumes w: "reconnect_waits (fst dw)" and c: "event = Connected \<longrightarrow> \<not> is_connected (dv_state (fst dw))"
  shows "post (\<lambda>r dw'. case r of Continue \<Rightarrow> reconnect_waits (fst dw') \<and> (is_connected (dv_state (fst dw')) \<longrightarrow>
        is_connected (dv_state (fst dw)) \<or> event = Connected)
      | ControlReconnect \<Rightarrow> reconnect_allowed (fst dw')) (\<lambda>_ _. True) (handle_event x ck event dw)"
proof -
  let ?aw = "(dv_agent (fst dw), snd dw)"
  note ops = post_activated [OF apply_command_follows, of ?aw] post_activated [OF reject_malformed_follows, of ?aw]
    settled_pending [of ?aw]
  note defs = handle_event_def reconnect_waits_def reconnect_allowed_def is_connected_def wp Let_def map_err_def
  show ?thesis
  proof (cases event)
    case Connected
    then have "sn_reconnect (dv_state (fst dw)) = Dormant" "sn_publish (dv_state (fst dw)) = PublishIdle"
      using w c by (auto simp: reconnect_waits_def intro: reconnect_state.exhaust publish_state.exhaust)
    with Connected show ?thesis
      by (auto simp: on_connected_def defs split: sum.splits option.splits intro!: post_any)
  next
    case (Command delivery)
    with w show ?thesis
      by (auto simp: on_command_def defs split: sum.splits option.splits connection_state.splits
          intro!: post_mono [OF ops(1)] post_mono [OF ops(2)])
  next
    case (OutboundAcknowledged e)
    with w show ?thesis
      by (auto simp: on_outbound_acknowledged_def defs split: sum.splits option.splits connection_state.splits
          dest: reconnect_revision_activated intro!: post_mono [OF post_confirm_activated])
  next
    case Unsubscribed
    with w show ?thesis
      by (auto simp: on_unsubscribed_def complete_unsubscribe_def unsubscribe_completion_def unsubscribe_pending_def
          mark_pending_inbound_absent_def defs split: option.splits connection_state.splits intro!: post_mono [OF ops(3)])
  next
    case (InboundAcknowledged token)
    with w show ?thesis
      by (auto simp: on_inbound_acknowledged_def mark_pending_inbound_settled_def defs
          split: option.splits connection_state.splits intro!: post_mono [OF ops(3)])
  qed (use w in \<open>auto simp: defs\<close>)
qed

definition awaiting_connack :: "(select_outcome \<times> clock) list \<Rightarrow> session_driver \<times> world \<Rightarrow> bool" where
  "awaiting_connack inputs dw \<longleftrightarrow> reconnect_waits (fst dw)
     \<and> connacks inputs + (if is_connected (dv_state (fst dw)) then 1 else 0) \<le> 1"

definition completion_allowed :: "session_completion \<Rightarrow> session_driver \<times> world \<Rightarrow> bool" where
  "completion_allowed c dw \<longleftrightarrow> (c = CompletionReconnect \<longrightarrow> reconnect_allowed (fst dw))"

lemma begin_turn_reconnect:
  assumes "awaiting_connack inputs dw"
  shows "post (\<lambda>r dw'. case r of None \<Rightarrow> awaiting_connack inputs dw' | Some c \<Rightarrow> completion_allowed c dw') (\<lambda>_ _. True) (begin_turn x dw)"
  using assms
  by (auto simp: begin_turn_def publish_next_def publish_def wp Let_def map_err_def awaiting_connack_def completion_allowed_def
      reconnect_waits_def can_publish_def is_connected_def split: sum.splits option.splits connection_state.splits)

lemma poll_connected:
  "post (\<lambda>event ss. event = Connected \<longleftrightarrow> polled = Inr IncomingConnAck) (\<lambda>_ _. True) (poll x polled s)"
  using command_delivery_Inr [of x s]
  by (fastforce simp: poll_def post_def Let_def split: sum.splits transport_event.splits option.splits list.splits)

lemma end_turn_reconnect:
  assumes a: "awaiting_connack ((input, ck) # rest) dw"
  shows "post (\<lambda>r dw'. case r of None \<Rightarrow> awaiting_connack rest dw' | Some c \<Rightarrow> completion_allowed c dw') (\<lambda>_ _. True) (end_turn x input ck dw)"
proof (cases input)
  case OtherReady
  then show ?thesis
    using a by (auto simp: post_end_turn start_shutdown_def wp Let_def awaiting_connack_def completion_allowed_def connacks_def
        reconnect_waits_def is_connected_def split: connection_state.splits)
next
  case (TransportReady polled)
  show ?thesis
    unfolding TransportReady post_end_turn
  proof (rule post_mono [OF poll_connected])
    fix event and ss :: mqtt_session assume ev: "event = Connected \<longleftrightarrow> polled = Inr IncomingConnAck"
    let ?dw = "fst (note_stability (ck_instant ck) ((fst dw)\<lparr> dv_session := ss \<rparr>, snd dw))"
    have w: "reconnect_waits (fst ?dw)" using a by (simp add: awaiting_connack_def reconnect_waits_def)
    have c: "event = Connected \<longrightarrow> \<not> is_connected (dv_state (fst ?dw))"
      using a ev TransportReady by (auto simp: awaiting_connack_def connacks_def)
    show "post (\<lambda>control dw'. case (case control of ControlReconnect \<Rightarrow> Some CompletionReconnect | Continue \<Rightarrow> None) of
          None \<Rightarrow> awaiting_connack rest dw' | Some c \<Rightarrow> completion_allowed c dw') (\<lambda>_ _. True) (handle_event x ck event ?dw)"
      by (rule post_mono [OF handle_event_reconnect [OF w c]])
        (use a ev TransportReady in \<open>auto simp: awaiting_connack_def completion_allowed_def connacks_def split: driver_control.splits if_splits\<close>)
  qed simp
qed

lemma driver_run_reconnect:
  assumes "connacks inputs \<le> 1"
    and run: "driver_run x inputs (driver_new ag session identity recovery delay, w) = (dw', Some (Inr CompletionReconnect))"
  shows "reconnect_allowed (fst dw')"
proof -
  have "awaiting_connack inputs (driver_new ag session identity recovery delay, w)"
    using assms(1) by (simp add: awaiting_connack_def reconnect_waits_def driver_new_def session_state_default_def is_connected_def)
  then have "case Some (Inr CompletionReconnect :: (session_error, session_completion) result) of
      None \<Rightarrow> awaiting_connack [] dw' | Some (Inr c) \<Rightarrow> completion_allowed c dw' | Some (Inl e) \<Rightarrow> True"
    by (rule driver_run_post [where P = awaiting_connack, OF _ begin_turn_reconnect end_turn_reconnect run])
  then show ?thesis by (simp add: completion_allowed_def)
qed

section \<open>Retries\<close>

definition delay_bounded :: "nat \<Rightarrow> bool" where
  "delay_bounded delay \<longleftrightarrow> 1000 \<le> delay \<and> delay \<le> 30000"

lemma delay_bounded_next: "delay_bounded delay \<Longrightarrow> delay_bounded (next_retry_delay delay)"
  by (simp add: delay_bounded_def next_retry_delay_def)

lemma post_both: "post (\<lambda>_ w. P w) (\<lambda>_ w. P w) res = P (fst res)"
  by (simp add: post_def split: sum.splits)

lemma handlers_delay:
  "dv_retry_delay (fst (fst (handle_event x ck event dw))) = dv_retry_delay (fst dw)"
  "dv_retry_delay (fst (fst (begin_turn x dw))) = dv_retry_delay (fst dw)"
  "dv_retry_delay (fst (fst (start_shutdown x n dw))) = dv_retry_delay (fst dw)"
proof -
  note defs = on_connected_def on_command_def on_outbound_acknowledged_def on_unsubscribed_def
      complete_unsubscribe_def on_inbound_acknowledged_def publish_next_def publish_def begin_turn_def
      start_shutdown_def wp Let_def map_err_def
  show "dv_retry_delay (fst (fst (handle_event x ck event dw))) = dv_retry_delay (fst dw)"
    by (rule post_both [THEN iffD1], cases event)
      (auto simp: handle_event_def defs split: sum.splits option.splits unsubscribe_outcome.splits intro!: post_any)
  show "dv_retry_delay (fst (fst (begin_turn x dw))) = dv_retry_delay (fst dw)"
    by (rule post_both [THEN iffD1]) (auto simp: defs split: sum.splits option.splits)
  show "dv_retry_delay (fst (fst (start_shutdown x n dw))) = dv_retry_delay (fst dw)"
    by (rule post_both [THEN iffD1]) (auto simp: defs)
qed

abbreviation driver_delay_bounded :: "session_driver \<times> world \<Rightarrow> bool" where
  "driver_delay_bounded dw \<equiv> delay_bounded (dv_retry_delay (fst dw))"

lemma turns_delay:
  assumes "driver_delay_bounded dw"
  shows "post (\<lambda>_ dw'. driver_delay_bounded dw') (\<lambda>_ dw'. driver_delay_bounded dw') (begin_turn x dw)"
    "post (\<lambda>_ dw'. driver_delay_bounded dw') (\<lambda>_ dw'. driver_delay_bounded dw') (end_turn x input ck dw)"
proof -
  show "post (\<lambda>_ dw'. driver_delay_bounded dw') (\<lambda>_ dw'. driver_delay_bounded dw') (begin_turn x dw)"
    by (simp add: post_both handlers_delay assms)
  show "post (\<lambda>_ dw'. driver_delay_bounded dw') (\<lambda>_ dw'. driver_delay_bounded dw') (end_turn x input ck dw)"
  proof (cases input)
    case OtherReady
    show ?thesis unfolding OtherReady post_end_turn using assms by (simp add: post_both handlers_delay)
  next
    case (TransportReady polled)
    show ?thesis
      unfolding TransportReady post_end_turn
      using assms by (auto simp: post_both handlers_delay note_stability_def delay_bounded_def intro!: post_any)
  qed
qed

lemma driver_run_delay:
  assumes "driver_delay_bounded dw" "driver_run x inputs dw = (dw', r)"
  shows "driver_delay_bounded dw'"
proof -
  have "case r of None \<Rightarrow> driver_delay_bounded dw' | Some (Inr c) \<Rightarrow> driver_delay_bounded dw' | Some (Inl e) \<Rightarrow> driver_delay_bounded dw'"
    by (rule driver_run_post [of "\<lambda>_. driver_delay_bounded", OF assms(1) _ _ assms(2)])
      (auto intro: post_mono [OF turns_delay(1)] post_mono [OF turns_delay(2)] split: option.splits)
  then show ?thesis by (auto split: option.splits sum.splits)
qed

lemma run_session_delay:
  assumes "delay_bounded delay" "run_session x mqtt inputs (ag, w, delay) = ((ag', w', delay'), r)"
  shows "delay_bounded delay'"
  using assms driver_run_delay [of "(driver_new ag session identity recovery delay, w1)" x inputs for session identity recovery w1]
  by (fastforce simp: run_session_def driver_new_def split: sum.splits prod.splits)

lemma main_loop_delay:
  "delay_bounded delay \<Longrightarrow> main_loop x mqtt scripts (ag, w, delay) = ((ag', w', delay'), r) \<Longrightarrow> delay_bounded delay'"
proof (induction scripts arbitrary: ag w delay)
  case (Cons script rest)
  obtain inputs cancelled where s: "script = (inputs, cancelled)" by fastforce
  obtain ag1 w1 delay1 r1 where run: "run_session x mqtt inputs (ag, w, delay) = ((ag1, w1, delay1), r1)"
    by (metis prod_cases3 surj_pair)
  have d: "delay_bounded delay1" by (rule run_session_delay [OF Cons.prems(1) run])
  have one: "delay_bounded 1000" by (simp add: delay_bounded_def)
  show ?case
    using Cons.prems(2) Cons.IH d one delay_bounded_next [OF d]
    by (auto simp: s run split: option.splits sum.splits session_completion.splits session_error.splits if_splits)
qed simp

text \<open>So the program waits at least a second and never much longer than thirty between two attempts.\<close>

lemma retry_wait_bounds:
  "delay_bounded delay \<Longrightarrow> 1000 \<le> retry_wait delay reading \<and> retry_wait delay reading \<le> 30250"
proof -
  assume "delay_bounded delay"
  moreover have "retry_jitter reading < 251" by (simp add: retry_jitter_def)
  ultimately show ?thesis by (simp add: delay_bounded_def retry_wait_def)
qed

end
