(* ===== verification/Samples.thy ===== *)
theory Samples
  imports "HOL-Library.Countable" Config Driver_Safety
begin

text \<open>
  Concrete values on which the theorems are evaluated: an identity, a credential position, protocol
  states on the way through one rotation, and a small disk.
\<close>

section \<open>A codec\<close>

text \<open>A total encoding of protocol states that can be decoded: the records are countable.\<close>

instance word :: (len) countable
  by (rule countable_classI [of unat]) (simp add: word_unat_eq_iff)

instance stored_rejection :: countable
  by countable_datatype

instance stored_inbound_settlement_ext :: (countable) countable
  by (rule countable_classI [of "\<lambda>r. to_nat (pi_topic r, pi_command_id r, pi_fingerprint r, pi_credential_generation r,
       pi_settlement_token r, pi_settled r,
       stored_inbound_settlement.more r)"])
    (auto intro: stored_inbound_settlement.equality)

instance stored_identity_ext :: (countable) countable
  by (rule countable_classI [of "\<lambda>r. to_nat (si_tenant_id r, si_device_id r, si_credential_generation r,
       stored_identity.more r)"])
    (auto intro: stored_identity.equality)

instance stored_current_ext :: (countable) countable
  by (rule countable_classI [of "\<lambda>r. to_nat (sc_desired_generation r, sc_fence_epoch r, sc_credential_revision r, sc_artifact_digest
       r, sc_expires_at r,
       stored_current.more r)"])
    (auto intro: stored_current.equality)

instance stored_ack_ext :: (countable) countable
  by (rule countable_classI [of "\<lambda>r. to_nat (ak_command_id r, ak_event_cause r, ak_desired_generation r, ak_fence_epoch r,
       ak_device_sequence r, ak_observed_at r, ak_rejection r, ak_activates_revision r,
       ak_settled_replay r,
       stored_ack.more r)"])
    (auto intro: stored_ack.equality)

instance stored_report_ext :: (countable) countable
  by (rule countable_classI [of "\<lambda>r. to_nat (rr_command_id r, rr_observed_generation r, rr_fence_epoch r, rr_device_sequence r,
       rr_observed_at r, rr_state_hash r, rr_artifact_digest r, rr_expires_at r,
       rr_credential_generation r, rr_credential_revision r,
       stored_report.more r)"])
    (auto intro: stored_report.equality)

instance stored_outbound :: countable
  by countable_datatype

instance stored_command_ext :: (countable) countable
  by (rule countable_classI [of "\<lambda>r. to_nat (cm_command_id r, cm_fingerprint r, cm_acknowledgement r, cm_retain_until_epoch_seconds r,
       stored_command.more r)"])
    (auto intro: stored_command.equality)

instance state_v1_ext :: (countable) countable
  by (rule countable_classI [of "\<lambda>r. to_nat (st_schema_version r, st_identity r, st_current r, st_device_sequence r,
       st_command_journal r, st_outbox r, st_reconnect_revision r, st_pending_inbound r,
       state_v1.more r)"])
    (auto intro: state_v1.equality)

definition sample_to_vec :: "state_v1 \<Rightarrow> bytes option" where
  "sample_to_vec s = Some (show_nat (to_nat s))"

definition sample_from_slice :: "bytes \<Rightarrow> state_v1 option" where
  "sample_from_slice b = (if \<exists>s. sample_to_vec s = Some b then Some (THE s. sample_to_vec s = Some b) else None)"

lemma sample_codec: "sample_from_slice (show_nat (to_nat s)) = Some s"
  by (auto simp: sample_from_slice_def sample_to_vec_def dest!: show_nat_inj)

section \<open>Third-party calls\<close>

text \<open>Contents of files stand for what they parse to; the digest is constant.\<close>

definition sample_identity :: device_identity where
  "sample_identity = \<lparr> di_tenant = 1, di_device = 2, di_credential_generation = CredentialGeneration 1 \<rparr>"

definition sample_digest :: string where
  "sample_digest = ''sha256:'' @ replicate 64 CHR ''a''"

definition sample_entry :: catalog_entry_v1 where
  "sample_entry = \<lparr> ce_artifact_id = ''credential-artifact-2'', ce_artifact_digest = sample_digest, ce_tenant_id = 1,
     ce_device_id = 2, ce_credential_generation = 2, ce_desired_generation = 2, ce_fence_epoch = 2,
     ce_intent_digest = sample_digest, ce_policy_hash = sample_digest, ce_ca_path = ''ca.pem'',
     ce_certificate_path = ''certificate.pem'', ce_private_key_path = ''key.pem'', ce_revoked = False \<rparr>"

definition sample_rotated_identity :: device_identity where
  "sample_rotated_identity = sample_identity\<lparr> di_credential_generation := CredentialGeneration 2 \<rparr>"

text \<open>A signature is valid when it is the constant one; base64 and the client do nothing special.\<close>

definition sample_apply_request :: dto_apply_request where
  "sample_apply_request = \<lparr> dq_device_id = 2, dq_artifact_id = ''credential-artifact-2'', dq_artifact_digest = sample_digest,
     dq_authorization_receipt_id = 7, dq_deadline_epoch_seconds = 100, dq_desired_generation = 2, dq_fence_epoch = 2,
     dq_intent_digest = sample_digest, dq_policy_hash = sample_digest \<rparr>"

definition sample_signature :: bytes where
  "sample_signature = replicate 64 CHR ''s''"

definition sample_key :: bytes where
  "sample_key = replicate 32 CHR ''k''"

definition sample_config_v1 :: config_v1 where
  "sample_config_v1 = \<lparr> rw_schema_version = 1, rw_tenant_id = 1, rw_device_id = 2, rw_credential_generation = 1,
     rw_state_directory = ''/agent'', rw_artifact_catalog = ''/catalog/catalog.json'',
     rw_mqtt = \<lparr> rw_host = ''broker'', rw_port = 8883, rw_client_id = mqtt_client_id sample_externals sample_identity,
       rw_session_expiry_seconds = 60, rw_request_capacity = 16, rw_broker_assertion_public_key = sample_key \<rparr>,
     rw_initial = \<lparr> rw_desired_generation = 1, rw_fence_epoch = 1, rw_credential_revision = 1,
       rw_ca_path = ''ca.pem'', rw_certificate_path = ''certificate.pem'', rw_private_key_path = ''key.pem'' \<rparr> \<rparr>"

definition sample_x :: config_externals where
  "sample_x = \<lparr> uuid_is_nil = (\<lambda>u. u = 0), uuid_hyphenated = sample_hyphenated,
     uuid_as_bytes = (\<lambda>u. be_bytes 16 (unat u)),
     sha256_raw = (\<lambda>m. replicate 32 CHR ''a''), sha256_hex = (\<lambda>m. replicate 64 CHR ''a''),
     pemfile_certs = (\<lambda>b. Some [b]), pemfile_private_key = (\<lambda>b. Some (Some b)),
     certified_keys_match = (\<lambda>chain key. chain = [''certificate''] \<and> key = ''key''),
     add_parsable_certificates = length, client_verifier_build = (\<lambda>roots. True),
     verify_client_cert = (\<lambda>roots e is now. roots = [''ca''] \<and> now < 2000),
     x509_from_der = (\<lambda>e. Some \<lparr> x5_subject_alternative_name =
         SanNames [URI (principal_urn sample_externals sample_rotated_identity)], x5_not_after = 2000 \<rparr>),
     state_to_vec = sample_to_vec, state_from_slice = sample_from_slice,
     catalog_from_slice = (\<lambda>b. Some \<lparr> cv_schema_version = 1, cv_artifacts = [sample_entry] \<rparr>),
     base64url_decode = Some, base64url_encode = (\<lambda>b. b),
     ed25519_verify = (\<lambda>key message signature. key = sample_key \<and> signature = sample_signature),
     san_item_ok = (\<lambda>_. True), policy_try_new_ok = (\<lambda>_. True), policy_request_try_new_ok = (\<lambda>_. True),
     policy_request_to_vec = (\<lambda>_. Some ''policy''), policy_put_method = ''PUT'', policy_put_path = ''/policy/{deviceId}'',
     status_get_method = ''GET'', status_get_path = ''/status/{deviceId}'',
     policy_response_from_slice = (\<lambda>_. None), validation_from_slice = (\<lambda>_. None), not_found_from_slice = (\<lambda>_. None),
     conflict_from_slice = (\<lambda>_. None), status_from_slice = (\<lambda>_. None),
     apply_request_from_slice = (\<lambda>b. if b = ''command'' then Some sample_apply_request else None),
     ack_command_id_ok = (\<lambda>v. v \<noteq> []), report_digest_ok = wf_digest,
     ack_to_vec = (\<lambda>_. Some ''ack''), report_to_vec = (\<lambda>_. Some ''report''),
     client_accepts = (\<lambda>_ _. True), config_from_slice = (\<lambda>_. Some sample_config_v1) \<rparr>"

lemma sample_x_simps [simp]:
  "uuid_is_nil sample_x u \<longleftrightarrow> u = 0" "uuid_hyphenated sample_x = sample_hyphenated"
  "uuid_as_bytes sample_x u = be_bytes 16 (unat u)" "sha256_hex sample_x m = replicate 64 CHR ''a''"
  "state_to_vec sample_x s = Some (show_nat (to_nat s))" "state_from_slice sample_x = sample_from_slice"
  "catalog_from_slice sample_x b = Some \<lparr> cv_schema_version = 1, cv_artifacts = [sample_entry] \<rparr>"
  "pemfile_certs sample_x b = Some [b]" "pemfile_private_key sample_x b = Some (Some b)"
  "certified_keys_match sample_x chain key \<longleftrightarrow> chain = [''certificate''] \<and> key = ''key''"
  "add_parsable_certificates sample_x roots = length roots" "client_verifier_build sample_x roots"
  "verify_client_cert sample_x roots e is now \<longleftrightarrow> roots = [''ca''] \<and> now < 2000"
  "x509_from_der sample_x e = Some \<lparr> x5_subject_alternative_name =
     SanNames [URI (principal_urn sample_externals sample_rotated_identity)], x5_not_after = 2000 \<rparr>"
  "base64url_decode sample_x = Some" "base64url_encode sample_x = (\<lambda>b. b)"
  "ed25519_verify sample_x key m sg \<longleftrightarrow> key = sample_key \<and> sg = sample_signature"
  "apply_request_from_slice sample_x b = (if b = ''command'' then Some sample_apply_request else None)"
  "ack_command_id_ok sample_x v \<longleftrightarrow> v \<noteq> []" "report_digest_ok sample_x = wf_digest"
  "ack_to_vec sample_x p = Some ''ack''" "report_to_vec sample_x r = Some ''report''" "client_accepts sample_x rs q"
  "config_from_slice sample_x b = Some sample_config_v1" "sha256_raw sample_x m = replicate 32 CHR ''a''"
  by (simp_all add: sample_x_def sample_to_vec_def)

lemma sample_x_contracts:
  "digest_contract sample_x" "codec_total sample_x" "codec_roundtrip sample_x s" "uuid_contract sample_x"
proof -
  show "digest_contract sample_x"
    by (simp add: digest_contract_def sample_x_def is_lower_hex_def list_all_iff)
  show "codec_total sample_x" "codec_roundtrip sample_x s"
    by (simp_all add: codec_total_def codec_roundtrip_def sample_codec)
  show "uuid_contract sample_x"
    using sample_uuid_contract by (simp add: uuid_contract_def sample_x_def sample_externals_def del: be_bytes.simps)
qed

lemma sample_x_same [simp]: "principal_urn sample_x i = principal_urn sample_externals i"
  by (simp add: principal_urn_def sample_externals_def)

section \<open>States of a rotation\<close>

definition sample_position :: installed_credential_position where
  "sample_position = \<lparr> ip_desired_generation = Generation 1, ip_fence_epoch = FenceEpoch 1,
     ip_credential_revision = CredentialRevision 1 \<rparr>"

definition sample_initial :: state_v1 where
  "sample_initial = state_initial sample_identity sample_position (Sha256Digest sample_digest) 2000000000"

definition sample_accepted_command :: accepted_command where
  "sample_accepted_command = \<lparr>
     ac_command_id = ''command-1'', ac_fingerprint = sample_digest, ac_generation = 2, ac_fence = 2,
     ac_credential_generation = 2, ac_revision = 2, ac_artifact_digest = sample_digest,
     ac_expires_at = 2000000100, ac_observed_at = 1000, ac_retain_until_epoch_seconds = 5000 \<rparr>"

definition sample_rejected_command :: rejected_command where
  "sample_rejected_command = \<lparr>
     rj_command_id = ''command-0'', rj_fingerprint = sample_digest, rj_generation = 2, rj_fence = 2,
     rj_rejection = PolicyRejected, rj_observed_at = 1000, rj_retain_until_epoch_seconds = 5000 \<rparr>"

definition sample_accepted :: state_v1 where
  "sample_accepted = projr (accept sample_x sample_accepted_command sample_initial)"

lemma sample_digest_wf [simp]: "wf_digest sample_digest"
  by (simp add: wf_digest_def sample_digest_def is_lower_hex_def list_all_iff)

lemma sample_identity_wf [simp]: "wf_identity sample_x sample_identity"
  by (simp add: wf_identity_def sample_identity_def)

lemma sample_initial_linked: "linked_state sample_x sample_identity sample_initial"
  unfolding sample_initial_def
  by (rule linked_initial) (simp_all add: wf_position_def sample_position_def)

lemma sample_initial_fields [simp]:
  "st_outbox sample_initial = []" "st_command_journal sample_initial = []"
  "st_device_sequence sample_initial = 0" "st_pending_inbound sample_initial = None"
  "state_identity sample_initial = sample_identity"
  by (simp_all add: sample_initial_def state_initial_def state_identity_def scope_identity_def
      stored_identity_from_def sample_identity_def)

lemma sample_accept_ready: "accept_ready sample_x sample_accepted_command sample_initial"
  by (simp add: accept_ready_def wf_accepted_def sample_accepted_command_def rotation_in_flight_def
      sequence_room_def OUTBOX_LIMIT_def COMMAND_JOURNAL_LIMIT_def)

lemma sample_accepts: "accept sample_x sample_accepted_command sample_initial = Inr sample_accepted"
  using accept_total [of sample_x sample_initial sample_accepted_command]
  by (auto simp: sample_accepted_def)

lemma sample_accepted_linked: "linked_state sample_x sample_identity sample_accepted"
  by (rule linked_accept [OF sample_initial_linked sample_accept_ready sample_x_contracts(1) sample_accepts])

text \<open>The states the rotation goes through: acknowledged, reconnected, settled.\<close>

definition sample_acknowledged :: state_v1 where
  "sample_acknowledged = snd (confirm_outbound (event_id sample_x ''ack'' ''command-1'') sample_accepted)"

definition sample_reconnected :: state_v1 where
  "sample_reconnected = snd (mark_reconnected 2 sample_acknowledged)"

definition sample_reporting :: state_v1 where
  "sample_reporting = snd (mark_inbound_settled None sample_reconnected)"

lemma sample_command_fields [simp]:
  "ac_command_id sample_accepted_command = ''command-1''" "ac_revision sample_accepted_command = 2"
  by (simp_all add: sample_accepted_command_def)

lemma sample_accepted_outbox:
  "st_outbox sample_accepted = [Ack (event_id sample_x ''ack'' ''command-1'') (accepted_ack sample_accepted_command sample_initial),
     ReportBlocked (event_id sample_x ''report'' ''command-1'') (accepted_report sample_x sample_accepted_command sample_initial)]"
  using accept_fields(2) [OF sample_accepts] by simp

lemma sample_acknowledges:
  "confirm_outbound (event_id sample_x ''ack'' ''command-1'') sample_accepted = (True, sample_acknowledged)"
  by (simp add: sample_acknowledged_def confirm_outbound_def sample_accepted_outbox Let_def accepted_ack_def)

lemma sample_acknowledged_linked: "linked_state sample_x sample_identity sample_acknowledged"
  by (rule linked_confirm [OF sample_accepted_linked _ sample_acknowledges])
    (simp add: publishable_def sample_accepted_outbox)

lemma sample_acknowledged_fields:
  "st_outbox sample_acknowledged = [ReportBlocked (event_id sample_x ''report'' ''command-1'')
     (accepted_report sample_x sample_accepted_command sample_initial)]"
  "st_reconnect_revision sample_acknowledged = Some 2"
  "st_pending_inbound sample_acknowledged = st_pending_inbound sample_accepted"
  by (simp_all add: sample_acknowledged_def confirm_outbound_def sample_accepted_outbox Let_def accepted_ack_def
      accepted_report_def is_blocked_with_revision_def remove_at_def)

lemma sample_reconnects: "mark_reconnected 2 sample_acknowledged = (True, sample_reconnected)"
  by (simp add: sample_reconnected_def mark_reconnected_def sample_acknowledged_fields)

lemma sample_reconnected_fields:
  "st_outbox sample_reconnected = [ReportReady (event_id sample_x ''report'' ''command-1'')
     (accepted_report sample_x sample_accepted_command sample_initial)]"
  "st_pending_inbound sample_reconnected = st_pending_inbound sample_accepted"
  by (simp_all add: sample_reconnected_def mark_reconnected_def sample_acknowledged_fields)

lemma sample_settles: "mark_inbound_settled None sample_reconnected = (True, sample_reporting)"
  using accept_fields(9) [OF sample_accepts]
  by (simp add: sample_reporting_def mark_inbound_settled_def sample_reconnected_fields)

lemma sample_reporting_linked: "linked_state sample_x sample_identity sample_reporting"
  by (rule linked_settled [OF linked_reconnected [OF sample_acknowledged_linked sample_reconnects] sample_settles])

lemma sample_reporting_next:
  "next_outbound sample_reporting = Some (CertificateReported (event_id sample_x ''report'' ''command-1'')
     (report_fact_of (accepted_report sample_x sample_accepted_command sample_initial)))"
  using accept_fields(9) [OF sample_accepts]
  by (simp add: next_outbound_def sample_reporting_def mark_inbound_settled_def sample_reconnected_fields
      pending_settled_def)

section \<open>An agent on a small disk\<close>

definition sample_command :: device_command where
  "sample_command = \<lparr> dc_command_id = CommandId ''command-1'', dc_device_id = 2,
     dc_artifact_id = ArtifactId ''credential-artifact-2'', dc_artifact_digest = Sha256Digest sample_digest,
     dc_authorization_receipt_id = 7, dc_deadline_epoch_seconds = 100,
     dc_desired_generation = Generation 2, dc_fence_epoch = FenceEpoch 2,
     dc_intent_digest = Sha256Digest sample_digest, dc_policy_hash = Sha256Digest sample_digest \<rparr>"

definition sample_root :: path where
  "sample_root = [''agent'']"

definition sample_disk :: "state_v1 \<Rightarrow> fs" where
  "sample_disk s = [([''agent''], Dir), ([''agent'', ''credentials''], Dir),
     ([''agent'', ''state.v1.json''], File (show_nat (to_nat s)) 0x180 True),
     ([''catalog''], Dir), ([''catalog'', ''catalog.json''], File ''{}'' 0x180 True),
     ([''catalog'', ''ca.pem''], File ''ca'' 0x180 True),
     ([''catalog'', ''certificate.pem''], File ''certificate'' 0x180 True),
     ([''catalog'', ''key.pem''], File ''key'' 0x180 True)]"

definition sample_world :: "state_v1 \<Rightarrow> outcome list \<Rightarrow> world" where
  "sample_world s script = reboot (sample_disk s) script"

definition sample_agent :: "state_v1 \<Rightarrow> reference_device_agent" where
  "sample_agent s = \<lparr> ag_store = \<lparr> ss_root = sample_root \<rparr>, ag_state = s,
     ag_catalog = \<lparr> catalog_path = [''catalog'', ''catalog.json''] \<rparr>, ag_command_retention_seconds = 60 \<rparr>"

definition sample_topic :: string where
  "sample_topic = ts_command (topic_set_new sample_x sample_identity)"

section \<open>Running the example\<close>

text \<open>Only the head of a sequence of calls is rewritten.\<close>

lemma pbind_head: "m = m' \<Longrightarrow> pbind m f = pbind m' f"
  by simp

lemma read_call_closed: "read_call q = read_call q"
  by simp

lemmas run_defs = pbind_def preturn_def plift_def pmap_err_def pquery_def Let_def read_call_def
  sample_world_def reboot_def sample_disk_def fs_get_def fs_read_def read_node_def fs_stat_def fs_resolve_def

lemmas catalog_defs = catalog_resolve_def find_entry_def validate_binding_def read_catalog_file_def
  validated_relative_path_def path_components_def is_absolute_def starts_with_def canonicalize_def
  openat_def openat_error_def read_open_catalog_file_def private_mode_def

lemmas material_defs = resolve_material_def compute_artifact_digest_bytes_def validate_credential_bytes_def
  parse_certificates_def parse_private_key_def verify_key_matches_def verify_chain_def verify_identity_def
  credential_generation_try_from_def device_identity_try_new_def

definition sample_artifact :: resolved_artifact where
  "sample_artifact = \<lparr> ra_credential_generation = CredentialGeneration 2,
     ra_credential = \<lparr> vc_ca = ''ca'', vc_certificate = ''certificate'', vc_private_key = ''key'', vc_expires_at = 2000 \<rparr>,
     ra_digest = Sha256Digest sample_digest \<rparr>"

lemma sample_digest_parses: "sha256_digest_try_from sample_digest = Inr (Sha256Digest sample_digest)"
  by (simp add: sha256_digest_try_from_Inr)

lemma sample_material:
  "resolve_material sample_x sample_identity sample_command 10 sample_entry ''ca'' ''certificate'' ''key'' = Inr sample_artifact"
  using sample_digest_parses
  by (simp add: material_defs sample_command_def sample_entry_def sample_identity_def sample_artifact_def
      sample_rotated_identity_def sample_digest_def [simplified, symmetric])

lemma sample_resolves:
  "catalog_resolve sample_x (ag_catalog (sample_agent s)) sample_identity sample_command 10 (sample_world s [])
     = (sample_world s [], Inr sample_artifact)"
  using sample_material
  by (simp add: run_defs catalog_defs sample_agent_def sample_entry_def sample_identity_def sample_command_def
      cong: pbind_head read_call_closed)

lemma sample_agent_simps [simp]:
  "ag_state (sample_agent s) = s" "ss_root (ag_store (sample_agent s)) = [''agent'']"
  "w_fs (sample_world s sc) = sample_disk s" "w_log (sample_world s sc) = []" "w_script (sample_world s sc) = sc"
  "\<not> w_dead (sample_world s sc)"
  by (simp_all add: sample_agent_def sample_root_def sample_world_def reboot_def)

lemma sample_current [simp]:
  "current_generation sample_initial = 1" "current_fence sample_initial = 1"
  "current_credential_generation sample_initial = 1" "current_revision sample_initial = 1"
  "st_identity sample_initial = \<lparr> si_tenant_id = 1, si_device_id = 2, si_credential_generation = 1 \<rparr>"
  "st_reconnect_revision sample_initial = None"
  by (simp_all add: sample_initial_def state_initial_def current_generation_def current_fence_def
      current_credential_generation_def current_revision_def sample_position_def stored_identity_from_def
      sample_identity_def)

lemma sample_command_wf: "wf_command sample_command"
  by (simp add: wf_command_def sample_command_def) code_simp

lemma sample_acceptance:
  "acceptance sample_x sample_topic sample_command 10 (sample_agent sample_initial) (sample_disk sample_initial) sample_artifact (CredentialRevision 2)"
proof -
  have "next_revision sample_initial = Inr (CredentialRevision 2)"
    by (simp add: next_revision_def checked_add_def credential_revision_try_from_def)
  moreover have "command_match sample_initial cid fp now = None" for cid fp now
    by (simp add: command_match_def)
  ultimately show ?thesis
    using catalog_resolve_sound [OF sample_resolves]
    by (simp add: acceptance_def sample_topic_def sample_command_def rotation_in_flight_def sample_artifact_def)
qed

lemma sample_healthy: "healthy (ag_store (sample_agent s)) (sample_world s [])"
  by (simp add: healthy_def sample_disk_def fs_get_def temporary_path_def state_path_def)

lemma sample_ready: "ready_to_accept sample_x (sample_agent sample_initial) sample_command 10 2 (sample_world sample_initial [])"
proof -
  have "install_ready [''agent''] 2 (sample_world sample_initial [])"
    by (simp add: install_ready_def alive_def sample_disk_def credentials_root_def revision_root_def
        staging_root_def fs_get_def fs_stat_def fs_resolve_def show_u64_def show_nat.simps)
  then show ?thesis
    by (simp add: ready_to_accept_def sample_healthy command_intake_open_def sequence_room_def is_ok_iff reserve_outbox_Inr
        command_journal_has_capacity_def OUTBOX_LIMIT_def COMMAND_JOURNAL_LIMIT_def)
qed

lemma sample_shows: "shows_state (ag_store (sample_agent s)) (sample_world s sc) {state_image sample_x s}"
  by (simp add: shows_state_def all_disks_def state_image_def state_node_def state_path_def sample_disk_def fs_get_def)

text \<open>A crash in the first system call of a save leaves the disk as it was.\<close>

lemma persist_crash:
  "\<not> w_dead w \<Longrightarrow> w_script w = Crash n # sc \<Longrightarrow> state_to_vec x t = Some b \<Longrightarrow>
     w_fs (fst (persist x store t w)) = w_fs w"
  by (simp add: persist_def remove_stale_file_def remove_file_def syscall_def no_part_def set_fs_def Let_def
      pbind_def plift_def)

lemma sample_crash:
  "w_fs (snd (fst (run_op sample_x (ConfirmOutbound e) (sample_agent s, sample_world s [Crash 0])))) = sample_disk s"
proof -
  have c: "w_fs (snd (fst (persist_candidate sample_x t (sample_agent s, sample_world s [Crash 0])))) = sample_disk s" for t
  proof -
    obtain aw r where p: "persist_candidate sample_x t (sample_agent s, sample_world s [Crash 0]) = (aw, r)" by fastforce
    have d: "w_fs (fst (persist sample_x (ag_store (sample_agent s)) t (sample_world s [Crash 0]))) = sample_disk s"
      using persist_crash [of "sample_world s [Crash 0]" 0 "[]" sample_x t] by simp
    show ?thesis unfolding p using p by (cases rule: persist_candidate_cases) (use d in auto)
  qed
  show ?thesis by (simp add: run_op_def agent_confirm_outbound_def plift_def c split: prod.splits)
qed

lemma sample_recovers: "w_fs w = sample_disk s \<Longrightarrow> may_recover w (sample_disk s)"
  by (auto simp: may_recover_def torn_node_def sample_disk_def fs_get_def split: option.splits node.splits bool.splits)

lemma sample_state_path: "fs_resolve (sample_disk s) (state_path sample_root) = Some (state_path sample_root)"
  by (simp add: fs_resolve_def sample_disk_def fs_get_def state_path_def sample_root_def)

lemma sample_applies:
  "\<exists>ag' w'. apply_command sample_x sample_topic sample_command 10
     (sample_agent sample_initial, sample_world sample_initial []) = ((ag', w'), Inr Accepted)"
proof -
  have "\<exists>ag' w'. apply_command sample_x sample_topic sample_command 10
      (sample_agent sample_initial, sample_world sample_initial []) = ((ag', w'), Inr Accepted)
    \<and> linked_state sample_x sample_identity (ag_state ag') \<and> healthy (ag_store ag') w'"
    by (rule apply_command_accepts [of _ _ _ _ _ _ _ sample_artifact "CredentialRevision 2"])
      (simp_all add: sample_initial_linked sample_command_wf sample_x_contracts sample_acceptance sample_resolves
        sample_ready, simp_all add: sample_artifact_def i64_max_def)
  then show ?thesis by blast
qed

lemma sample_retention: "retention_deadline (sample_agent s) (observed 10) = 70"
  by (simp add: retention_deadline_def i64_try_from_u64_def i64_max_def sample_agent_def u64_try_from_i64_def saturating_add_def)

lemma sample_absent:
  "all_disks (revision_absent (revision_root sample_root 2)) (sample_world s sc)"
  "fs_stat (sample_disk s) (revision_root sample_root 2) = None"
  by (auto simp: all_disks_def revision_absent_def sample_disk_def fs_get_def fs_stat_def fs_resolve_def
      revision_root_def credentials_root_def sample_root_def show_u64_def show_nat.simps)

lemma sample_key_read:
  "read_catalog_file [''catalog''] ''key.pem'' True (sample_world sample_initial []) = (sample_world sample_initial [], Inr ''key'')"
  by (simp add: run_defs catalog_defs cong: pbind_head read_call_closed)

section \<open>A first start\<close>

text \<open>The initial credential lies in a directory of its own and names the initial identity.\<close>

definition sample_x0 :: config_externals where
  "sample_x0 = sample_x\<lparr> x509_from_der := (\<lambda>e. Some \<lparr> x5_subject_alternative_name =
     SanNames [URI (principal_urn sample_externals sample_identity)], x5_not_after = 2000 \<rparr>) \<rparr>"

definition sample_config :: agent_config where
  "sample_config = \<lparr> cfg_identity = sample_identity, cfg_state_directory = [''agent''],
     cfg_catalog = \<lparr> catalog_path = [''catalog'', ''catalog.json''] \<rparr>, cfg_initial_position = sample_position,
     cfg_initial_credentials = \<lparr> cf_ca_certificate = [''init'', ''ca.pem''],
       cf_certificate_chain = [''init'', ''certificate.pem''], cf_private_key = [''init'', ''key.pem''] \<rparr>,
     cfg_command_retention_seconds = 60 \<rparr>"

definition sample_fresh_disk :: fs where
  "sample_fresh_disk = [([''init''], Dir), ([''init'', ''ca.pem''], File ''ca'' 0x180 True),
     ([''init'', ''certificate.pem''], File ''certificate'' 0x180 True), ([''init'', ''key.pem''], File ''key'' 0x180 True)]"

lemma syscall_closed: "syscall act part = syscall act part"
  by simp

lemmas write_defs = syscall_def set_fs_def create_dir_all_def add_dirs_def open_lock_file_def parent_ok_def
  flock_def fs_put_def fs_read_dir_def fs_children_def path_exists_def fs_metadata_def

lemma sample_x0_simps [simp]:
  "x509_from_der sample_x0 e = Some \<lparr> x5_subject_alternative_name =
     SanNames [URI (principal_urn sample_externals sample_identity)], x5_not_after = 2000 \<rparr>"
  "uuid_is_nil sample_x0 = uuid_is_nil sample_x" "uuid_hyphenated sample_x0 = uuid_hyphenated sample_x"
  "sha256_hex sample_x0 = sha256_hex sample_x" "pemfile_certs sample_x0 = pemfile_certs sample_x"
  "pemfile_private_key sample_x0 = pemfile_private_key sample_x"
  "certified_keys_match sample_x0 = certified_keys_match sample_x"
  "add_parsable_certificates sample_x0 = add_parsable_certificates sample_x"
  "client_verifier_build sample_x0 = client_verifier_build sample_x"
  "verify_client_cert sample_x0 = verify_client_cert sample_x" "state_to_vec sample_x0 = state_to_vec sample_x"
  "principal_urn sample_x0 i = principal_urn sample_externals i"
  by (simp_all add: sample_x0_def principal_urn_def sample_externals_def)

lemma sample_position_wf: "wf_position sample_position" "wf_identity sample_x0 sample_identity"
  by (simp_all add: wf_position_def sample_position_def wf_identity_def sample_identity_def)

lemma sample_validates:
  "validate_credential sample_x0 (cfg_initial_credentials sample_config) sample_identity 10 (reboot sample_fresh_disk [])
     = (reboot sample_fresh_disk [], Inr (ra_credential sample_artifact))"
  by (simp add: validate_credential_def require_private_key_mode_def run_defs write_defs sample_config_def
      sample_fresh_disk_def material_defs private_mode_def sample_artifact_def cong: pbind_head read_call_closed)

lemma sample_digests:
  "compute_artifact_digest sample_x0 (cfg_initial_credentials sample_config) (reboot sample_fresh_disk [])
     = (reboot sample_fresh_disk [], Inr (Sha256Digest sample_digest))"
  using sample_digest_parses
  by (simp add: compute_artifact_digest_def compute_artifact_digest_bytes_def run_defs sample_config_def
      sample_fresh_disk_def sample_digest_def [simplified, symmetric] cong: pbind_head read_call_closed)

definition sample_opened_disk :: fs where
  "sample_opened_disk = ([''agent'', ''credentials''], Dir) # ([''agent'', ''state.owner.lock''], File [] 0x180 False)
     # ([''agent''], Dir) # sample_fresh_disk"

lemma sample_prepares:
  obtains w where "store_open [''agent''] (reboot sample_fresh_disk []) = (w, Inr \<lparr> ss_root = [''agent''] \<rparr>)"
    and "\<exists>w'. pmap_err (\<lambda>_. StoreUnavailable) (create_dir_all [''agent'', ''credentials'']) w = (w', Inr ())
      \<and> w_fs w' = sample_opened_disk \<and> alive w'"
  by (rule that [of "fst (store_open [''agent''] (reboot sample_fresh_disk []))"])
    (simp_all add: store_open_def run_defs write_defs sample_fresh_disk_def sample_opened_disk_def alive_def
      cong: pbind_head read_call_closed syscall_closed)

lemma sample_opens:
  "\<exists>ag w'. agent_open sample_x0 sample_config 10 (reboot sample_fresh_disk []) = (w', Inr ag)"
proof -
  obtain w1 w2 where o: "store_open [''agent''] (reboot sample_fresh_disk []) = (w1, Inr \<lparr> ss_root = [''agent''] \<rparr>)"
    and c: "create_dir_all [''agent'', ''credentials''] w1 = (w2, Inr ())"
    and fs: "w_fs w2 = sample_opened_disk" and a: "alive w2"
    by (rule sample_prepares) auto
  have e0: "path_exists (state_path [''agent'']) (reboot sample_fresh_disk []) = (reboot sample_fresh_disk [], False)"
    by (simp add: run_defs write_defs sample_fresh_disk_def state_path_def)
  have e2: "path_exists (state_path [''agent'']) w2 = (w2, False)"
    using a fs by (simp add: path_exists_def alive_read sample_opened_disk_def sample_fresh_disk_def state_path_def
        fs_stat_def fs_resolve_def fs_get_def)
  have no: "has_committed_revision \<lparr> ss_root = [''agent''] \<rparr> w2 = (w2, Inr False)"
    using a fs by (simp add: has_committed_revision_def fs_read_dir_def alive_read sample_opened_disk_def
        sample_fresh_disk_def credentials_root_def fs_stat_def fs_resolve_def fs_get_def fs_children_def)
  have "install_ready [''agent''] 1 w2"
    using a fs by (simp add: install_ready_def sample_opened_disk_def sample_fresh_disk_def credentials_root_def
        revision_root_def staging_root_def fs_get_def fs_stat_def fs_resolve_def show_u64_def show_nat.simps)
  then obtain w3 where i: "install_revision \<lparr> ss_root = [''agent''] \<rparr> (CredentialRevision 1) (ra_credential sample_artifact) w2 = (w3, Inr ())"
    "alive w3" "same_outside (credentials_root [''agent'']) (w_fs w2) (w_fs w3)"
    using install_revision_ready [of "\<lparr> ss_root = [''agent''] \<rparr>" "CredentialRevision 1" w2] by auto
  have "healthy \<lparr> ss_root = [''agent''] \<rparr> w2"
    using a fs by (simp add: healthy_def alive_def sample_opened_disk_def sample_fresh_disk_def fs_get_def
        temporary_path_def state_path_def)
  then have "healthy \<lparr> ss_root = [''agent''] \<rparr> w3" using healthy_after_install i by simp
  then obtain w4 where p: "persist sample_x0 \<lparr> ss_root = [''agent''] \<rparr> (state_initial sample_identity sample_position
      (Sha256Digest sample_digest) (vc_expires_at (ra_credential sample_artifact))) w3 = (w4, Inr ())"
    by (rule persist_healthy [where x = sample_x0]) (simp, rule that)
  have "\<exists>r w'. open_or_initialize sample_x0 [''agent''] sample_identity sample_position (ra_credential sample_artifact)
      (Sha256Digest sample_digest) (reboot sample_fresh_disk []) = (w', Inr r)"
    using o c e2 no i(1) p
    by (simp add: open_or_initialize_def pbind_def pmap_err_def pquery_def credentials_root_def
        Let_def preturn_def sample_position_def [THEN arg_cong, of ip_credential_revision])
  then show ?thesis
    using e0 sample_validates sample_digests
    by (auto simp: agent_open_def open_initial_def pbind_def pquery_def pmap_err_def preturn_def sample_config_def)
qed

section \<open>A digest that tells two commands apart\<close>

definition sample_other_command :: device_command where
  "sample_other_command = sample_command\<lparr> dc_command_id := CommandId ''command-2'' \<rparr>"

definition sample_two :: externals where
  "sample_two = sample_externals\<lparr> sha256_hex := (\<lambda>m. replicate 64
     (if m = command_preimage sample_externals sample_command then CHR ''a'' else CHR ''b'')) \<rparr>"

lemma sample_two_simps:
  "uuid_hyphenated sample_two = uuid_hyphenated sample_externals" "uuid_as_bytes sample_two = uuid_as_bytes sample_externals"
  "sha256_hex sample_two m = replicate 64
     (if m = command_preimage sample_externals sample_command then CHR ''a'' else CHR ''b'')"
  by (simp_all add: sample_two_def)

lemma sample_other_wf: "wf_command sample_other_command"
  using sample_command_wf by (simp add: sample_other_command_def wf_command_def) code_simp

lemma sample_two_separates:
  "collision_free_on sample_two {command_preimage sample_two sample_command, command_preimage sample_two sample_other_command}"
proof -
  have pre: "command_preimage sample_two c = command_preimage sample_externals c" for c
    by (simp add: command_preimage_def sample_two_simps)
  have "sample_command \<noteq> sample_other_command" by (simp add: sample_other_command_def sample_command_def)
  then have "command_preimage sample_externals sample_command \<noteq> command_preimage sample_externals sample_other_command"
    using command_preimage_inj [OF sample_uuid_contract sample_command_wf sample_other_wf] by blast
  then show ?thesis by (auto simp: collision_free_on_def pre sample_two_simps inj_on_def)
qed

lemma sample_two_uuid: "uuid_contract sample_two"
  using sample_uuid_contract unfolding uuid_contract_def sample_two_simps .

end
