(* ===== verification/Journey.thy ===== *)
theory Journey
  imports Wire
begin

text \<open>
  The journey checker, \<^verbatim>\<open>journeys/secure-device-rotation/src/lib.rs\<close>: what a consumer that sees only
  public projections accepts as a trace of a rotation. The checker is compared with a declarative
  reading of a trace, and what an agent sends for an accepted command is shown to satisfy it.
\<close>

section \<open>The checker\<close>

datatype journey_error =
    LineageMismatch
  | ExpectedReceivedAck
  | ReadyBeforeReceipt
  | ExpectedCommittedReceipt
  | MissingReadyObservation
  | ExpectedForbidden
  | ExpectedRevokedRejection
  | ReadyAfterRevocation
  | EventIdentityCollision

definition journey_error_display :: "journey_error \<Rightarrow> string" where
  "journey_error_display e = (case e of
     LineageMismatch \<Rightarrow> ''external trace lineage mismatch''
   | ExpectedReceivedAck \<Rightarrow> ''external trace expected a received ACK''
   | ReadyBeforeReceipt \<Rightarrow> ''external trace observed Ready before receipt''
   | ExpectedCommittedReceipt \<Rightarrow> ''external trace expected a committed receipt''
   | MissingReadyObservation \<Rightarrow> ''external trace has no matching Ready observation''
   | ExpectedForbidden \<Rightarrow> ''external trace expected a closed forbidden response''
   | ExpectedRevokedRejection \<Rightarrow> ''external trace expected a revoked policy rejection''
   | ReadyAfterRevocation \<Rightarrow> ''external trace observed Ready after revocation''
   | EventIdentityCollision \<Rightarrow> ''external trace event identities collide'')"

definition has_ready_true :: "status_projection \<Rightarrow> bool" where
  "has_ready_true status =
     list_ex (\<lambda>condition. cj_type condition = Ready \<and> cj_status condition = StatusTrue) (sj_conditions status)"

definition has_matching_ready :: "status_projection \<Rightarrow> bool" where
  "has_matching_ready status =
     list_ex (\<lambda>condition. cj_type condition = Ready \<and> cj_status condition = StatusTrue
       \<and> cj_reason condition = StateMatches
       \<and> cj_observed_generation condition = sj_observed_generation status) (sj_conditions status)"

definition verify_positive_trace ::
  "'z externals_scheme \<Rightarrow> rotation_accepted \<Rightarrow> command_acknowledgement \<Rightarrow> status_projection \<Rightarrow> credential_report
     \<Rightarrow> application_receipt_observation \<Rightarrow> status_projection \<Rightarrow> (journey_error, unit) result" where
  "verify_positive_trace x accepted acknowledgement status_after_ack report receipt final_status =
     (if ca_outcome acknowledgement \<noteq> AckReceived then Inl ExpectedReceivedAck
      else if has_ready_true status_after_ack then Inl ReadyBeforeReceipt
      else
        let generation = ra_accepted_generation accepted in
        case sj_active_command status_after_ack of
          None \<Rightarrow> Inl LineageMismatch
        | Some active_command \<Rightarrow>
            if ca_coordinates acknowledgement \<noteq> rotation_accepted.ra_coordinates accepted
               \<or> cr_coordinates report \<noteq> rotation_accepted.ra_coordinates accepted
               \<or> ar_coordinates receipt \<noteq> rotation_accepted.ra_coordinates accepted
               \<or> ca_desired_generation acknowledgement \<noteq> generation
               \<or> cr_observed_generation report \<noteq> generation
               \<or> cr_fence_epoch report \<noteq> ca_fence_epoch acknowledgement
               \<or> device_sequence_get (cr_device_sequence report) \<le> device_sequence_get (ca_device_sequence acknowledgement)
               \<or> sj_desired_generation status_after_ack \<noteq> Some (generation_get generation)
               \<or> aj_state active_command \<noteq> CommandReceived
               \<or> aj_fence_epoch active_command \<noteq> fence_epoch_get (ca_fence_epoch acknowledgement)
               \<or> map_option (uuid_hyphenated x) (sj_authorization_receipt_id status_after_ack)
                   \<noteq> Some (authorization_receipt_ref_expose (ra_authorization_receipt accepted))
            then Inl LineageMismatch
            else
              case ar_outcome receipt of
                Committed lin \<Rightarrow>
                  if rl_desired_generation lin \<noteq> generation
                     \<or> rl_authorization_receipt lin \<noteq> ra_authorization_receipt accepted
                     \<or> sj_desired_generation final_status \<noteq> Some (generation_get generation)
                     \<or> sj_observed_generation final_status \<noteq> generation_get generation
                     \<or> map_option (uuid_hyphenated x) (sj_authorization_receipt_id final_status)
                         \<noteq> Some (authorization_receipt_ref_expose (ra_authorization_receipt accepted))
                  then Inl LineageMismatch
                  else if event_ref_expose (ca_event acknowledgement) = event_ref_expose (cr_event report)
                     \<or> event_ref_expose (ca_event acknowledgement) = event_ref_expose (ar_event receipt)
                     \<or> event_ref_expose (cr_event report) = event_ref_expose (ar_event receipt)
                  then Inl EventIdentityCollision
                  else if \<not> has_matching_ready final_status then Inl MissingReadyObservation
                  else Inr ()
              | _ \<Rightarrow> Inl ExpectedCommittedReceipt)"

definition verify_forbidden :: "policy_response \<Rightarrow> (journey_error, unit) result" where
  "verify_forbidden response = (case response of
     PolicyRejectedWith d \<Rightarrow>
       if dg_kind d = Forbidden \<and> \<not> dg_retryable d then Inr () else Inl ExpectedForbidden
   | PolicyAccepted _ \<Rightarrow> Inl ExpectedForbidden)"

definition verify_revoked_no_advance ::
  "command_acknowledgement \<Rightarrow> status_projection \<Rightarrow> (journey_error, unit) result" where
  "verify_revoked_no_advance acknowledgement status =
     (if ca_outcome acknowledgement \<noteq> AckRejected ReasonPolicyRejected then Inl ExpectedRevokedRejection
      else if has_ready_true status then Inl ReadyAfterRevocation
      else if sj_desired_generation status \<noteq> Some (generation_get (ca_desired_generation acknowledgement))
         \<or> sj_observed_generation status \<ge> generation_get (ca_desired_generation acknowledgement)
      then Inl LineageMismatch
      else Inr ())"

section \<open>What a trace has to show\<close>

text \<open>The part of a trace that the device is responsible for.\<close>

definition device_confirms :: "rotation_accepted \<Rightarrow> command_acknowledgement \<Rightarrow> credential_report \<Rightarrow> bool" where
  "device_confirms accepted acknowledgement report \<longleftrightarrow>
     ca_outcome acknowledgement = AckReceived
     \<and> ca_coordinates acknowledgement = rotation_accepted.ra_coordinates accepted
     \<and> cr_coordinates report = rotation_accepted.ra_coordinates accepted
     \<and> ca_desired_generation acknowledgement = ra_accepted_generation accepted
     \<and> cr_observed_generation report = ra_accepted_generation accepted
     \<and> cr_fence_epoch report = ca_fence_epoch acknowledgement
     \<and> device_sequence_get (ca_device_sequence acknowledgement) < device_sequence_get (cr_device_sequence report)"

text \<open>The part that the server is responsible for: the command is received and not ready after the
  acknowledgement, the receipt is committed under the accepted authorisation, and the status ends ready.\<close>

definition server_confirms ::
  "'z externals_scheme \<Rightarrow> rotation_accepted \<Rightarrow> u64 \<Rightarrow> status_projection \<Rightarrow> application_receipt_observation
     \<Rightarrow> status_projection \<Rightarrow> bool" where
  "server_confirms x accepted fence status_after_ack receipt final_status \<longleftrightarrow>
     (let generation = ra_accepted_generation accepted;
          authorised = (\<lambda>status. sj_desired_generation status = Some (generation_get generation)
            \<and> map_option (uuid_hyphenated x) (sj_authorization_receipt_id status)
                = Some (authorization_receipt_ref_expose (ra_authorization_receipt accepted)))
      in authorised status_after_ack \<and> \<not> has_ready_true status_after_ack
         \<and> sj_active_command status_after_ack = Some \<lparr> aj_fence_epoch = fence, aj_state = CommandReceived \<rparr>
         \<and> ar_coordinates receipt = rotation_accepted.ra_coordinates accepted
         \<and> ar_outcome receipt = Committed \<lparr> rl_authorization_receipt = ra_authorization_receipt accepted,
             rl_desired_generation = generation \<rparr>
         \<and> authorised final_status \<and> sj_observed_generation final_status = generation_get generation
         \<and> has_matching_ready final_status)"

lemma verify_positive_trace_iff:
  "verify_positive_trace x accepted acknowledgement status_after_ack report receipt final_status = Inr ()
     \<longleftrightarrow> device_confirms accepted acknowledgement report
       \<and> server_confirms x accepted (fence_epoch_get (ca_fence_epoch acknowledgement)) status_after_ack receipt final_status
       \<and> distinct [ca_event acknowledgement, cr_event report, ar_event receipt]"
proof -
  have e: "event_ref_expose a = event_ref_expose b \<longleftrightarrow> a = b" for a b by (cases a; cases b) simp
  have c: "(c :: active_command_projection) = \<lparr> aj_fence_epoch = f, aj_state = u \<rparr> \<longleftrightarrow> aj_fence_epoch c = f \<and> aj_state c = u"
    for c f u by (cases c) simp
  have l: "(r :: receipt_lineage) = \<lparr> rl_authorization_receipt = a, rl_desired_generation = g \<rparr>
      \<longleftrightarrow> rl_authorization_receipt r = a \<and> rl_desired_generation r = g" for r a g by (cases r) simp
  show ?thesis
    unfolding verify_positive_trace_def device_confirms_def server_confirms_def Let_def e
    by (auto simp: c l not_le split: option.splits application_receipt_outcome.splits if_splits)
qed

lemma verify_forbidden_iff:
  "verify_forbidden (decode_policy_response x status body) = Inr () \<longleftrightarrow> status = 403"
  unfolding verify_forbidden_def decode_policy_response_def Let_def
  by (auto simp: diagnostic_new_def diagnostic_conflict_def diagnostic_kind_retryable_def
      split: option.splits prod.splits)

lemma revoked_not_positive:
  "verify_revoked_no_advance acknowledgement status = Inr ()
     \<Longrightarrow> verify_positive_trace x accepted acknowledgement s1 report receipt s2 \<noteq> Inr ()"
  by (auto simp: verify_revoked_no_advance_def verify_positive_trace_iff device_confirms_def split: if_splits)

section \<open>What the agent sends satisfies the checker\<close>

lemma successor_in_i64:
  assumes "uint (saturating_add a 1) \<le> i64_max"
  shows "a < saturating_add a 1"
proof (cases "unat a + 1 < 2 ^ 64")
  case True
  then have "saturating_add a 1 = a + 1" by (simp add: saturating_add_def)
  moreover have "unat (a + 1) = unat a + 1" using True by (simp add: unat_word_ariths)
  ultimately show ?thesis by (simp add: word_less_nat_alt)
next
  case False
  then have "saturating_add a 1 = u64_max" by (simp add: saturating_add_def)
  moreover have "uint u64_max = 2 ^ 64 - 1" by (simp add: u64_max_def unsigned_minus_1_eq_mask mask_eq_exp_minus_1)
  ultimately show ?thesis using assms by (simp add: i64_max_def)
qed

text \<open>Printable ASCII text is its own list of characters, and digests are printable.\<close>

lemma utf8_decode_ascii: "list_all (\<lambda>c. (of_char c :: nat) < 128) s \<Longrightarrow> utf8_decode s = Some (map of_char s)"
  by (induction s) (simp_all add: Let_def)

lemma printable_chars:
  assumes "list_all (\<lambda>c. 32 \<le> (of_char c :: nat) \<and> (of_char c :: nat) < 127) s"
  shows "chars s = map of_char s"
proof -
  have "list_all (\<lambda>c. (of_char c :: nat) < 128) s" using assms by (force simp: list_all_iff)
  then show ?thesis by (simp add: chars_def utf8_decode_ascii)
qed

lemma printable_text:
  assumes "list_all (\<lambda>c. 32 \<le> (of_char c :: nat) \<and> (of_char c :: nat) < 127) s"
  shows "\<not> list_ex is_control (chars s)"
  using printable_chars [OF assms] assms by (auto simp: list_all_iff list_ex_iff is_control_def)

lemma graphic_reference:
  assumes "s \<noteq> []" "list_all (\<lambda>c. 32 < (of_char c :: nat) \<and> (of_char c :: nat) < 127) s"
  shows "wf_reference s"
proof -
  have p: "list_all (\<lambda>c. 32 \<le> (of_char c :: nat) \<and> (of_char c :: nat) < 127) s"
    using assms(2) by (rule list.pred_mono_strong) simp
  obtain c r where s: "s = c # r" using assms(1) by (cases s) auto
  then have "\<not> is_whitespace (of_char c)" using assms(2) by (auto simp: is_whitespace_def)
  then show ?thesis using printable_text [OF p] printable_chars [OF p] s by (simp add: wf_reference_def)
qed

lemma digest_reference:
  assumes "wf_digest d"
  shows "wf_reference d"
proof -
  have d: "d = ''sha256:'' @ drop 7 d" using assms by (metis append_take_drop_id wf_digest_def)
  have "list_all (\<lambda>c. 32 < (of_char c :: nat) \<and> (of_char c :: nat) < 127) (''sha256:'' @ drop 7 d)"
    using assms by (auto simp: wf_digest_def is_lower_hex_def list_all_iff)
  then have "list_all (\<lambda>c. 32 < (of_char c :: nat) \<and> (of_char c :: nat) < 127) d" using d by metis
  moreover have "d \<noteq> []" using d by auto
  ultimately show ?thesis by (rule graphic_reference [rotated])
qed

lemma accepted_facts_confirm:
  assumes a: "accept x c s = Inr t" and v: "valid_state x i t" and k: "contracts_accept x"
    and id: "ack_command_id_ok x (ac_command_id c)" "wf_reference (ac_command_id c)"
    and small: "uint (st_device_sequence t) \<le> i64_max"
    and dev: "mx_expected_device_id context = di_device identity"
    and acc: "rotation_accepted.ra_coordinates accepted = mx_coordinates context"
      "generation_get (ra_accepted_generation accepted) = ac_generation c"
  shows "\<exists>p q ack report. ack_payload x identity (ack_fact_of (accepted_ack c s)) = Inr p
    \<and> report_payload_of x identity (report_fact_of (accepted_report x c s)) = Inr q
    \<and> map_acknowledgement context e1 p = Inr ack \<and> map_report context e2 q = Inr report
    \<and> device_confirms accepted ack report \<and> fence_epoch_get (ca_fence_epoch ack) = ac_fence c
    \<and> ca_event ack = e1 \<and> cr_event report = e2"
proof -
  let ?a = "accepted_ack c s" and ?r = "accepted_report x c s"
  have out: "Ack (event_id x ''ack'' (ac_command_id c)) ?a \<in> set (st_outbox t)"
      "ReportBlocked (event_id x ''report'' (ac_command_id c)) ?r \<in> set (st_outbox t)"
    using accept_fields(2) [OF a] by simp_all
  have va: "stored_ack_semantic_valid ?a" and vr: "stored_report_semantic_valid ?r"
    using valid_entryD(1) [OF v out(1)] valid_entryD(1) [OF v out(2)] by (auto simp: entry_valid_def)
  have sr: "uint (rr_device_sequence ?r) \<le> i64_max" using small accept_fields(4) [OF a] by simp
  have order: "ak_device_sequence ?a < rr_device_sequence ?r"
    using successor_in_i64 [of "saturating_add (st_device_sequence s) 1"] sr by (simp add: accepted_ack_def accepted_report_def)
  then have sa: "uint (ak_device_sequence ?a) \<le> i64_max" using sr by (simp add: word_less_def)
  obtain p where p: "ack_payload x identity (ack_fact_of ?a) = Inr p"
    using encode_stored_ack [OF va sa] id(1) by (auto simp: accepted_ack_def)
  obtain q where q: "report_payload_of x identity (report_fact_of ?r) = Inr q"
    using encode_stored_report [OF vr sr, of x identity] k unfolding contracts_accept_def by blast
  have hash: "wf_reference (rf_state_hash (report_fact_of ?r))" "wf_reference (rf_artifact_digest (report_fact_of ?r))"
    using vr by (auto simp: report_fact_of_def stored_report_semantic_valid_def sha256_digest_is_ok intro!: digest_reference)
  obtain ack where ack: "map_acknowledgement context e1 p = Inr ack"
      "generation_get (ca_desired_generation ack) = ac_generation c" "fence_epoch_get (ca_fence_epoch ack) = ac_fence c"
      "device_sequence_get (ca_device_sequence ack) = ak_device_sequence ?a" "ca_outcome ack = AckReceived"
    using ack_reaches_controller [OF p dev] id(2)
    by (fastforce simp: ack_fact_of_def accepted_ack_def controller_outcome_def)
  obtain report where report: "map_report context e2 q = Inr report"
      "generation_get (cr_observed_generation report) = ac_generation c" "fence_epoch_get (cr_fence_epoch report) = ac_fence c"
      "device_sequence_get (cr_device_sequence report) = rr_device_sequence ?r"
    using report_reaches_controller [OF q dev hash] by (fastforce simp: report_fact_of_def accepted_report_def)
  have "device_confirms accepted ack report"
    using ack report order acc map_acknowledgement_device [OF ack(1)] map_report_device [OF report(1)]
    by (simp add: device_confirms_def generation.expand fence_epoch.expand)
  with p q ack report map_acknowledgement_device [OF ack(1)] map_report_device [OF report(1)] show ?thesis by blast
qed

text \<open>Composed: when the server confirms the rotation, the checker accepts the trace of any accepted command.\<close>

lemma accepted_trace_verifies:
  assumes a: "accept x c s = Inr t" and v: "valid_state x i t" and k: "contracts_accept x"
    and id: "ack_command_id_ok x (ac_command_id c)" "wf_reference (ac_command_id c)"
    and small: "uint (st_device_sequence t) \<le> i64_max"
    and dev: "mx_expected_device_id context = di_device identity"
    and acc: "rotation_accepted.ra_coordinates accepted = mx_coordinates context"
      "generation_get (ra_accepted_generation accepted) = ac_generation c"
    and srv: "server_confirms x accepted (ac_fence c) s1 receipt s2"
      "event_ref_expose (ar_event receipt) \<notin> outbound_event_id ` set (st_outbox t)"
  shows "\<exists>e1 e2 p q ack report.
      Ack e1 (accepted_ack c s) \<in> set (st_outbox t) \<and> ReportBlocked e2 (accepted_report x c s) \<in> set (st_outbox t)
    \<and> ack_payload x identity (ack_fact_of (accepted_ack c s)) = Inr p
    \<and> report_payload_of x identity (report_fact_of (accepted_report x c s)) = Inr q
    \<and> map_acknowledgement context (EventRef e1) p = Inr ack \<and> map_report context (EventRef e2) q = Inr report
    \<and> verify_positive_trace x accepted ack s1 report receipt s2 = Inr ()"
proof -
  let ?e1 = "event_id x ''ack'' (ac_command_id c)" and ?e2 = "event_id x ''report'' (ac_command_id c)"
  note out = accept_fields(2) [OF a]
  have "?e1 \<noteq> ?e2" using v out by (auto simp: valid_state_def outbox_valid_def)
  moreover have "event_ref_expose (ar_event receipt) \<notin> {?e1, ?e2}" using srv(2) out by auto
  ultimately have d: "distinct [EventRef ?e1, EventRef ?e2, ar_event receipt]" by (cases "ar_event receipt") auto
  from accepted_facts_confirm [OF a v k id small dev acc, of "EventRef ?e1" "EventRef ?e2"] srv(1) d out
  show ?thesis by (fastforce simp: verify_positive_trace_iff)
qed

end
