(* ===== verification/App_Samples.thy ===== *)
theory App_Samples
  imports Samples Journey
begin

text \<open>
  The concrete session on which the theorems about the application are evaluated: a signed command
  frame, a session of the sample device, and its driver.
\<close>

section \<open>Wire\<close>

lemma sample_wire_contracts: "deadlines_positive sample_x" "contracts_accept sample_x"
  by (simp_all add: deadlines_positive_def contracts_accept_def sample_apply_request_def)

lemma sample_reference: "wf_reference ''command-1''" "wf_reference sample_digest" "wf_reference ''command-9''"
  by (simp_all add: graphic_reference digest_reference)

lemma sample_uuids: "wf_reference (sample_hyphenated u)"
proof (rule graphic_reference)
  have u: "length (sample_hyphenated u) = 36" "list_all (\<lambda>c. is_lower_hex c \<or> c = CHR ''-'') (sample_hyphenated u)"
    using sample_uuid_contract by (simp_all add: uuid_contract_def sample_externals_def)
  then show "sample_hyphenated u \<noteq> []" by auto
  show "list_all (\<lambda>c. 32 < (of_char c :: nat) \<and> (of_char c :: nat) < 127) (sample_hyphenated u)"
    using u(2) by (rule list.pred_mono_strong) (auto simp: is_lower_hex_def)
qed

lemma sample_values:
  "command_id_try_from ''command-1'' = Inr (CommandId ''command-1'')" "command_id_try_from ''command-9'' = Inr (CommandId ''command-9'')"
  "artifact_id_try_from ''credential-artifact-2'' = Inr (ArtifactId ''credential-artifact-2'')"
  by code_simp+

lemma sample_decodes:
  "decode_command sample_x sample_identity ''command-1'' ''command'' = Inr sample_command"
  using sample_uuids sample_reference(1) sample_values sample_digest_parses
  by (simp add: decode_command_def sample_identity_def opaque_try_from_defs opaque_reference_def
      validate_reference_Inr [THEN iffD2] correlate_command_def require_device_def sample_apply_request_def
      generation_try_from_def fence_epoch_try_from_def sample_command_def)

lemma sample_decodes_other:
  "decode_command sample_x sample_identity ''command-9'' ''command'' = Inr (sample_command\<lparr> dc_command_id := CommandId ''command-9'' \<rparr>)"
  using sample_uuids sample_reference(3) sample_values sample_digest_parses
  by (simp add: decode_command_def sample_identity_def opaque_try_from_defs opaque_reference_def
      validate_reference_Inr [THEN iffD2] correlate_command_def require_device_def sample_apply_request_def
      generation_try_from_def fence_epoch_try_from_def sample_command_def)

section \<open>A signed frame\<close>

definition sample_packet :: "string \<Rightarrow> publish_packet" where
  "sample_packet t = \<lparr> pk_topic = t, pk_qos = AtLeastOnce, pk_retain = False, pk_pkid = 7,
     pk_payload = ''command'', pk_properties = Some \<lparr> pp_correlation_data = Some ''command-1'',
       pp_user_properties = [(VERSION_KEY, VERSION), (PRINCIPAL_KEY, principal_urn sample_externals sample_identity),
         (SIGNATURE_KEY, sample_signature)] \<rparr> \<rparr>"

definition sample_delivery :: "string \<Rightarrow> command_delivery" where
  "sample_delivery t = \<lparr> cd_publish = sample_packet t, cd_topic = t, cd_command_id = ''command-1'',
     cd_identity = sample_identity \<rparr>"

definition sample_session :: "string \<Rightarrow> mqtt_session" where
  "sample_session t = \<lparr>
     ms_options = \<lparr> mo_client_id = ''client'', mo_host = ''broker'', mo_port = 8883, mo_clean_start = False,
       mo_session_expiry_interval = Some 60, mo_receive_maximum = Some 1, mo_manual_acks = True, mo_keep_alive_seconds = 15,
       mo_transport = \<lparr> tc_ca = ''ca'', tc_client_auth = (''certificate'', ''key'') \<rparr>, mo_request_capacity = 16 \<rparr>,
     ms_requests = [], ms_topics = (topic_set_new sample_x sample_identity)\<lparr> ts_command := t \<rparr>,
     ms_awaiting_packet_id = [], ms_packet_events = Map.empty, ms_inbound_acknowledgements = Map.empty,
     ms_recovery_command = None, ms_assertion_verifier = BrokerAssertionVerifier sample_key \<rparr>"

lemma sample_session_fresh: "fresh_session (sample_session t)"
  by (simp add: fresh_session_def sample_session_def)

definition sample_frame :: broker_publish_frame where
  "sample_frame = delivery_frame (sample_delivery ''commands'')"

lemma sample_authentic: "frame_authentic sample_x (BrokerAssertionVerifier sample_key) sample_identity sample_frame"
proof -
  have urn: "length (principal_urn sample_externals sample_identity) < 4294967296"
    by (simp add: principal_urn_def sample_externals_def sample_identity_def sample_hyphenated_def length_hyphenate show_u64_def show_nat.simps)
  show ?thesis
    unfolding frame_authentic_def
    by (simp add: sample_frame_def delivery_frame_def sample_delivery_def sample_packet_def urn reserved_keys_known_def
        VERSION_KEY_def PRINCIPAL_KEY_def SIGNATURE_KEY_def RESERVED_PREFIX_def VERSION_def starts_with_def
        canonical_bytes_def append_field_def Let_def sample_signature_def)
qed

lemma sample_polls:
  "poll sample_x (Inr (IncomingPublish (sample_packet ''commands''))) (sample_session ''commands'')
     = (sample_session ''commands'', Inr (Command (sample_delivery ''commands'')))"
proof -
  have "from_utf8 ''commands'' = Some ''commands''" "from_utf8 ''command-1'' = Some ''command-1''"
    by code_simp+
  moreover have "verify_command sample_x (BrokerAssertionVerifier sample_key) sample_identity ''commands'' ''command'' ''command-1'' 1 False
      [(VERSION_KEY, VERSION), (PRINCIPAL_KEY, principal_urn sample_externals sample_identity), (SIGNATURE_KEY, sample_signature)] = Inr ()"
    using sample_authentic
    by (simp add: verify_command_def verify_frame_iff sample_frame_def delivery_frame_def sample_delivery_def sample_packet_def)
  ultimately show ?thesis
    using sample_values
    by (simp add: poll_def command_delivery_def sample_packet_def sample_session_def accepts_command_def topic_set_new_def
        sample_delivery_def Let_def)
qed

section \<open>A driver\<close>

definition sample_clock :: clock where
  "sample_clock = \<lparr> ck_instant = 5, ck_now = 10, ck_later = 10 \<rparr>"

definition sample_driver :: "string \<Rightarrow> state_v1 \<Rightarrow> session_driver" where
  "sample_driver t s = driver_new (sample_agent s) (sample_session t) sample_identity None 1000"

lemma sample_durable: "driver_durable sample_x (sample_driver t s, sample_world s sc)"
  using sample_shows [of s sc] by (simp add: durable_def sample_driver_def driver_new_def)

lemmas drive = peek_def pbind_def preturn_def plift_def on_session_def on_agent_def update_state_def Let_def
  queue_request_def subscribe_def unsubscribe_command_def publish_def acknowledge_command_def

lemmas sample_driver_defs = sample_driver_def driver_new_def session_state_default_def sample_session_def

text \<open>A fresh session waits for its connection.\<close>

lemma sample_waits:
  "driver_run sample_x [] (sample_driver t s, w) = ((sample_driver t s, w), None)"
  by (simp add: driver_run.simps begin_turn_def publish_next_def drive can_publish_def is_connected_def
      shutdown_is_quiescent_def transport_is_quiescent_def sample_driver_defs)

text \<open>An idle agent subscribes once it is connected.\<close>

lemma sample_subscribes:
  "end_turn sample_x (TransportReady (Inr IncomingConnAck)) sample_clock (sample_driver t sample_initial, w) = (dw', r) \<Longrightarrow>
     asked dw' = [Subscribe t AtLeastOnce] \<and> r = Inr None"
  by (auto simp: end_turn_def poll_next_def poll_def note_stability_def connection_is_stable_def handle_event_def on_connected_def
      agent_reconnect_revision_def drive agent_rotation_in_flight_def rotation_in_flight_def command_intake_open_def
      is_ok_iff reserve_outbox_Inr command_journal_has_capacity_def OUTBOX_LIMIT_def COMMAND_JOURNAL_LIMIT_def asked_def
      sample_driver_defs topic_set_new_def)

text \<open>The command is accepted and its acknowledgement held.\<close>

lemma sample_takes_command:
  "\<exists>dw' ag w. on_command sample_x sample_clock (sample_delivery sample_topic) (sample_driver sample_topic sample_initial, sample_world sample_initial [])
     = (dw', Inr ())
   \<and> apply_command sample_x sample_topic sample_command 10 (sample_agent sample_initial, sample_world sample_initial []) = ((ag, w), Inr Accepted)"
proof -
  obtain ag w where a: "apply_command sample_x sample_topic sample_command 10
      (sample_agent sample_initial, sample_world sample_initial []) = ((ag, w), Inr Accepted)"
    using sample_applies by blast
  show ?thesis
    using a sample_decodes
    by (simp add: on_command_def drive should_hold_command_ack_def sample_delivery_def sample_packet_def sample_clock_def
        sample_driver_defs)
qed

section \<open>A session that ends in a reconnect\<close>

definition sample_settled :: state_v1 where
  "sample_settled = snd (mark_inbound_settled None sample_accepted)"

lemma sample_settles_early: "mark_inbound_settled None sample_accepted = (True, sample_settled)"
  using accept_fields(9) [OF sample_accepts] by (simp add: sample_settled_def mark_inbound_settled_def)

lemma sample_settled_linked: "linked_state sample_x sample_identity sample_settled"
  by (rule linked_settled [OF sample_accepted_linked sample_settles_early])

lemma sample_settled_fields:
  "st_outbox sample_settled = st_outbox sample_accepted" "st_reconnect_revision sample_settled = None" "pending_settled sample_settled"
  using accept_fields(7,9) [OF sample_accepts]
  by (simp_all add: sample_settled_def mark_inbound_settled_def pending_settled_def)

definition sample_inputs :: "(select_outcome \<times> clock) list" where
  "sample_inputs = map (\<lambda>e. (TransportReady (Inr e), sample_clock)) [IncomingConnAck, OutgoingPublish 1, IncomingPubAck 1]"

abbreviation sample_ack_id :: string where
  "sample_ack_id \<equiv> event_id sample_x ''ack'' ''command-1''"

definition sample_activated :: state_v1 where
  "sample_activated = snd (confirm_outbound sample_ack_id sample_settled)"

lemma sample_activates: "confirm_outbound sample_ack_id sample_settled = (True, sample_activated)"
  by (simp add: sample_activated_def confirm_outbound_def sample_settled_fields sample_accepted_outbox Let_def accepted_ack_def)

lemma sample_activated_fields:
  "st_reconnect_revision sample_activated = Some 2" "pending_inbound_settled (ag\<lparr> ag_state := sample_activated \<rparr>)"
  using accept_fields(9) [OF sample_accepts]
  by (simp_all add: sample_activated_def confirm_outbound_def sample_settled_fields sample_accepted_outbox Let_def
      accepted_ack_def accepted_report_def is_blocked_with_revision_def remove_at_def pending_inbound_settled_def
      pending_inbound_def sample_settled_def mark_inbound_settled_def)

lemma sample_activated_linked: "linked_state sample_x sample_identity sample_activated"
  by (rule linked_confirm [OF sample_settled_linked _ sample_activates])
    (simp add: publishable_def sample_settled_fields sample_accepted_outbox)

lemma sample_confirms:
  "\<exists>w'. agent_confirm_outbound sample_x sample_ack_id (sample_agent sample_settled, sample_world sample_settled [])
     = ((sample_agent sample_activated, w'), Inr ())"
proof -
  obtain w' where "persist_candidate sample_x sample_activated (sample_agent sample_settled, sample_world sample_settled [])
      = (((sample_agent sample_settled)\<lparr> ag_state := sample_activated \<rparr>, w'), Inr ())"
    using persist_candidate_healthy [of sample_x sample_identity sample_activated "(sample_agent sample_settled, sample_world sample_settled [])"]
      linked_stateD(1) [OF sample_activated_linked] sample_healthy sample_x_contracts(2) by auto
  then show ?thesis by (simp add: agent_confirm_outbound_def sample_activates) (simp add: sample_agent_def)
qed

definition sample_sent :: encoded_outbound where
  "sample_sent = \<lparr> eo_event_id = sample_ack_id, eo_kind = KindCommandAcknowledged, eo_payload = ''ack'' \<rparr>"

lemma sample_next_encoded:
  "\<exists>f. agent_next_outbound (sample_agent sample_settled) = Some f
     \<and> encode_outbound sample_x sample_identity f = Inr sample_sent"
  by (simp add: agent_next_outbound_def next_outbound_def sample_settled_fields sample_accepted_outbox is_ready_report_def
      encode_outbound_def encode_ack_def ack_payload_def ack_fact_of_def accepted_ack_def non_zero_def i64_try_from_u64_def
      sample_accepted_command_def saturating_add_def i64_max_def sample_sent_def Let_def)

lemmas turn_defs = begin_turn_def publish_next_def end_turn_def poll_next_def poll_def note_stability_def
  connection_is_stable_def handle_event_def on_connected_def on_outbound_acknowledged_def agent_reconnect_revision_def
  can_publish_def is_connected_def unsubscribe_pending_def shutdown_is_quiescent_def transport_is_quiescent_def
  agent_rotation_in_flight_def

lemma sample_reconnects_session:
  "\<exists>dw'. driver_run sample_x sample_inputs (sample_driver ''commands'' sample_settled, sample_world sample_settled [])
     = (dw', Some (Inr CompletionReconnect))"
proof -
  obtain f where f: "agent_next_outbound (sample_agent sample_settled) = Some f"
      "encode_outbound sample_x sample_identity f = Inr sample_sent"
    using sample_next_encoded by blast
  obtain w' where c: "agent_confirm_outbound sample_x sample_ack_id (sample_agent sample_settled, sample_world sample_settled [])
      = ((sample_agent sample_activated, w'), Inr ())"
    using sample_confirms by blast
  have flight: "rotation_in_flight sample_settled"
    by (simp add: rotation_in_flight_def sample_settled_fields sample_accepted_outbox)
  have settled: "pending_inbound_settled (sample_agent sample_activated)"
    using sample_activated_fields(2) [of "sample_agent sample_activated"] by (simp add: sample_agent_def)
  show ?thesis
    by (simp add: sample_inputs_def driver_run.simps turn_defs drive sample_clock_def sample_driver_defs f c flight settled
        sample_settled_fields sample_activated_fields sample_sent_def credential_revision_try_from_def)
qed

lemma sample_publishes:
  "\<exists>dw'. driver_run sample_x (take 2 sample_inputs) (sample_driver ''commands'' sample_settled, sample_world sample_settled [])
     = (dw', None) \<and> sn_publish (dv_state (fst dw')) = PublishPending"
proof -
  obtain f where f: "agent_next_outbound (sample_agent sample_settled) = Some f"
      "encode_outbound sample_x sample_identity f = Inr sample_sent"
    using sample_next_encoded by blast
  have flight: "rotation_in_flight sample_settled"
    by (simp add: rotation_in_flight_def sample_settled_fields sample_accepted_outbox)
  show ?thesis
    by (simp add: sample_inputs_def driver_run.simps turn_defs drive sample_clock_def sample_driver_defs f flight
        sample_settled_fields sample_sent_def credential_revision_try_from_def)
qed

section \<open>Intake reopened while a rotation is in flight\<close>

text \<open>The acknowledgement of an earlier refusal arrives after a command was accepted and the command
  topic left: the handler subscribes again although the rotation is in flight, and the next unknown
  command ends the session with an error of the agent.\<close>

lemma subscribe_during_rotation:
  assumes "sn_publish (dv_state d) = PublishPending" "can_subscribe (dv_state d)"
    and "agent_confirm_outbound x e (dv_agent d, w) = ((ag, w'), Inr ())" "st_reconnect_revision (ag_state ag) = None"
    and "command_intake_open ag (ck_now ck)"
    and "client_accepts x (ms_requests (dv_session d)) (Subscribe (ts_command (ms_topics (dv_session d))) AtLeastOnce)"
  shows "\<exists>d'. on_outbound_acknowledged x ck e (d, w) = ((d', w'), Inr Continue) \<and> dv_agent d' = ag
    \<and> dv_session d' = (dv_session d)\<lparr> ms_requests := ms_requests (dv_session d) @ [Subscribe (ts_command (ms_topics (dv_session d))) AtLeastOnce] \<rparr>"
  using assms
  by (simp add: on_outbound_acknowledged_def drive agent_reconnect_revision_def can_subscribe_def)

lemma command_during_rotation:
  assumes "rotation_in_flight (ag_state (dv_agent d))"
    and "decode_command x (cd_identity delivery) (cd_command_id delivery) (pk_payload (cd_publish delivery)) = Inr c"
    and "command_match (ag_state (dv_agent d)) (command_id_expose (dc_command_id c)) (command_fingerprint x c) (ck_now ck) = None"
  shows "snd (on_command x ck delivery (d, w)) = Inl (SessionAgent RotationInFlight)"
  using backpressure [of "dv_agent d" c x "ck_now ck" "cd_topic delivery" w] assms
  by (auto simp: on_command_def drive split: option.splits)

definition sample_conflicted :: state_v1 where
  "sample_conflicted = reject_conflicting_replay sample_x ''command-0'' sample_digest 1 1 5 sample_initial"

definition sample_rotating :: state_v1 where
  "sample_rotating = projr (accept sample_x sample_accepted_command sample_conflicted)"

abbreviation sample_refusal_id :: string where
  "sample_refusal_id \<equiv> event_id sample_x ''rejected'' (conflict_source ''command-0'' sample_digest)"

definition sample_reopened :: state_v1 where
  "sample_reopened = snd (confirm_outbound sample_refusal_id sample_rotating)"

lemma sample_conflicted_linked: "linked_state sample_x sample_identity sample_conflicted"
  unfolding sample_conflicted_def
  by (rule linked_reject_conflicting_replay [OF sample_initial_linked])
    (simp_all add: sequence_room_def OUTBOX_LIMIT_def has_conflicting_replay_def)

lemma sample_rotates: "accept sample_x sample_accepted_command sample_conflicted = Inr sample_rotating"
  using accept_total [of sample_x sample_conflicted sample_accepted_command]
  by (auto simp: sample_rotating_def sample_conflicted_def reject_conflicting_replay_def Let_def state_identity_def
      scope_identity_def wf_identity_def)

lemma sample_conflicted_outbox: "\<exists>a. st_outbox sample_conflicted = [Ack sample_refusal_id a] \<and> ak_activates_revision a = None"
  by (simp add: sample_conflicted_def reject_conflicting_replay_def Let_def)

lemma sample_rotating_linked: "linked_state sample_x sample_identity sample_rotating"
proof (rule linked_accept [OF sample_conflicted_linked _ sample_x_contracts(1) sample_rotates])
  show "accept_ready sample_x sample_accepted_command sample_conflicted"
    by (simp add: accept_ready_def wf_accepted_def sample_accepted_command_def rotation_in_flight_def sample_conflicted_def
        reject_conflicting_replay_def Let_def sequence_room_def OUTBOX_LIMIT_def COMMAND_JOURNAL_LIMIT_def event_id_def
        saturating_add_def)
qed

lemma sample_rotating_outbox:
  "\<exists>a. st_outbox sample_rotating = [Ack sample_refusal_id a, Ack sample_ack_id (accepted_ack sample_accepted_command sample_conflicted),
     ReportBlocked (event_id sample_x ''report'' ''command-1'') (accepted_report sample_x sample_accepted_command sample_conflicted)]
   \<and> ak_activates_revision a = None"
  using accept_fields(2) [OF sample_rotates] sample_conflicted_outbox by auto

lemma sample_reopens: "confirm_outbound sample_refusal_id sample_rotating = (True, sample_reopened)"
  using sample_rotating_outbox by (auto simp: sample_reopened_def confirm_outbound_def Let_def is_ready_report_def)

lemma sample_reopened_fields:
  "st_reconnect_revision sample_reopened = None" "rotation_in_flight sample_reopened" "length (st_outbox sample_reopened) = 2"
  "st_command_journal sample_reopened = st_command_journal sample_rotating"
  using sample_rotating_outbox accept_fields(7) [OF sample_rotates]
  by (auto simp: sample_reopened_def confirm_outbound_def Let_def is_ready_report_def rotation_in_flight_def remove_at_def
      sample_conflicted_def reject_conflicting_replay_def)

definition sample_busy :: session_driver where
  "sample_busy = (sample_driver ''commands'' sample_rotating)\<lparr> dv_state := session_state_default\<lparr> sn_publish := PublishPending,
     sn_connection := ConnectedAt 1 \<rparr> \<rparr>"

theorem intake_reopens_during_rotation:
  "\<exists>d w. on_outbound_acknowledged sample_x sample_clock sample_refusal_id (sample_busy, sample_world sample_rotating []) = ((d, w), Inr Continue)
     \<and> ms_requests (dv_session d) = [Subscribe ''commands'' AtLeastOnce] \<and> rotation_in_flight (ag_state (dv_agent d))
     \<and> snd (on_command sample_x sample_clock (sample_delivery sample_topic\<lparr> cd_command_id := ''command-9'' \<rparr>) (d, w))
         = Inl (SessionAgent RotationInFlight)"
proof -
  have l: "linked_state sample_x sample_identity sample_reopened"
    by (rule linked_confirm [OF sample_rotating_linked _ sample_reopens])
      (use sample_rotating_outbox in \<open>auto simp: publishable_def event_id_def\<close>)
  obtain w' where p: "agent_confirm_outbound sample_x sample_refusal_id (sample_agent sample_rotating, sample_world sample_rotating [])
      = ((sample_agent sample_reopened, w'), Inr ())"
    using persist_candidate_healthy [of sample_x sample_identity sample_reopened "(sample_agent sample_rotating, sample_world sample_rotating [])"]
      linked_stateD(1) [OF l] sample_healthy sample_x_contracts(2)
    by (auto simp: agent_confirm_outbound_def sample_reopens sample_agent_def)
  have j: "st_command_journal sample_reopened = [\<lparr> cm_command_id = ''command-1'', cm_fingerprint = sample_digest,
       cm_acknowledgement = accepted_ack sample_accepted_command sample_conflicted, cm_retain_until_epoch_seconds = 5000 \<rparr>]"
    using accept_fields(3) [OF sample_rotates]
    by (simp add: sample_reopened_fields sample_conflicted_def reject_conflicting_replay_def Let_def sample_accepted_command_def)
  have o: "command_intake_open (sample_agent sample_reopened) 10"
    by (simp add: command_intake_open_def is_ok_iff reserve_outbox_Inr sample_reopened_fields(3) OUTBOX_LIMIT_def
        command_journal_has_capacity_def j COMMAND_JOURNAL_LIMIT_def)
  obtain d where d: "on_outbound_acknowledged sample_x sample_clock sample_refusal_id (sample_busy, sample_world sample_rotating []) = ((d, w'), Inr Continue)"
      "dv_agent d = sample_agent sample_reopened" "ms_requests (dv_session d) = [Subscribe ''commands'' AtLeastOnce]"
    using subscribe_during_rotation [of sample_busy sample_x sample_refusal_id "sample_world sample_rotating []" "sample_agent sample_reopened" w' sample_clock]
      p o sample_reopened_fields(1)
    by (auto simp: sample_busy_def can_subscribe_def sample_driver_defs sample_clock_def)
  have "snd (on_command sample_x sample_clock (sample_delivery sample_topic\<lparr> cd_command_id := ''command-9'' \<rparr>) (d, w'))
      = Inl (SessionAgent RotationInFlight)"
  proof (rule command_during_rotation)
    show "decode_command sample_x (cd_identity (sample_delivery sample_topic\<lparr> cd_command_id := ''command-9'' \<rparr>))
        (cd_command_id (sample_delivery sample_topic\<lparr> cd_command_id := ''command-9'' \<rparr>))
        (pk_payload (cd_publish (sample_delivery sample_topic\<lparr> cd_command_id := ''command-9'' \<rparr>)))
      = Inr (sample_command\<lparr> dc_command_id := CommandId ''command-9'' \<rparr>)"
      using sample_decodes_other by (simp add: sample_delivery_def sample_packet_def)
  qed (simp_all add: d sample_reopened_fields(2) command_match_def j)
  with d show ?thesis using sample_reopened_fields(2) by auto
qed

section \<open>Start-up\<close>

lemma sample_client_id:
  "mqtt_client_id sample_externals sample_identity \<noteq> []"
  "\<not> list_ex is_control (chars (mqtt_client_id sample_externals sample_identity))"
  "trim_chars (chars ''broker'') \<noteq> []" "\<not> list_ex is_control (chars ''broker'')"
proof -
  have u: "list_all (\<lambda>c. 32 \<le> (of_char c :: nat) \<and> (of_char c :: nat) < 127) (uuid_hyphenated sample_externals v)" for v
  proof -
    have "list_all (\<lambda>c. is_lower_hex c \<or> c = CHR ''-'') (uuid_hyphenated sample_externals v)"
      using sample_uuid_contract unfolding uuid_contract_def by blast
    then show ?thesis by (rule list.pred_mono_strong) (auto simp: is_lower_hex_def)
  qed
  show "mqtt_client_id sample_externals sample_identity \<noteq> []" by (simp add: mqtt_client_id_def)
  show "\<not> list_ex is_control (chars (mqtt_client_id sample_externals sample_identity))"
    by (rule printable_text) (simp add: mqtt_client_id_def u)
  have "wf_reference ''broker''" by (rule graphic_reference) simp_all
  then show "trim_chars (chars ''broker'') \<noteq> []" "\<not> list_ex is_control (chars ''broker'')"
    by (simp_all add: wf_reference_def trim_chars_empty)
qed

lemma sample_x0_client: "mqtt_client_id sample_x0 i = mqtt_client_id sample_externals i"
  by (simp add: mqtt_client_id_def sample_externals_def)

lemma sample_paths:
  "path_names ''/agent'' = [''agent'']" "path_names ''/catalog/catalog.json'' = [''catalog'', ''catalog.json'']"
  "path_names ''ca.pem'' = [''ca.pem'']" "path_names ''certificate.pem'' = [''certificate.pem'']"
  "path_names ''key.pem'' = [''key.pem'']" "is_absolute ''/agent''" "is_absolute ''/catalog/catalog.json''"
  "\<not> is_absolute ''ca.pem''" "\<not> is_absolute ''certificate.pem''" "\<not> is_absolute ''key.pem''"
  by code_simp+

lemma sample_builds:
  "\<exists>m. config_build sample_x0 [''init'', ''config.json''] sample_config_v1 = Inr \<lparr> rt_agent = sample_config, rt_mqtt = m \<rparr>"
proof -
  have id: "device_identity_try_new sample_x0 1 2 (CredentialGeneration 1) = Inr sample_identity"
    by (simp add: device_identity_try_new_def sample_identity_def)
  have key: "from_base64 sample_x0 sample_key = Inr (BrokerAssertionVerifier sample_key)"
    by (simp add: from_base64_Inr sample_x0_def sample_key_def list_all_iff)
  obtain m where "mqtt_connection_config_new ''broker'' 8883 (mqtt_client_id sample_externals sample_identity) 60 16
      (BrokerAssertionVerifier sample_key) = Inr m"
    using sample_client_id by (simp add: mqtt_connection_config_new_def)
  with id key show ?thesis
    by (simp add: config_build_def path_parent_def sample_config_v1_def credential_generation_try_from_def
        generation_try_from_def fence_epoch_try_from_def credential_revision_try_from_def resolve_def sample_paths
        sample_x0_client sample_config_def sample_position_def)
qed

lemma sample_loads:
  "\<exists>m. runtime_config_load sample_x0 [''init'', ''key.pem''] (reboot sample_fresh_disk [])
     = (reboot sample_fresh_disk [], Inr \<lparr> rt_agent = sample_config, rt_mqtt = m \<rparr>)"
proof -
  have "config_build x [''init'', ''key.pem''] raw = config_build x [''init'', ''config.json''] raw" for x :: config_externals and raw
    by (simp add: config_build_def path_parent_def)
  moreover have "config_from_slice sample_x0 b = Some sample_config_v1" for b by (simp add: sample_x0_def)
  ultimately show ?thesis
    using sample_builds
    by (simp add: runtime_config_load_def run_defs sample_fresh_disk_def)
qed

section \<open>The controller's side\<close>

definition sample_context :: mapping_context where
  "sample_context = \<lparr> mx_coordinates = \<lparr> rc_rotation_id = RotationId ''rotation-1'', rc_tenant = TenantRef ''tenant-1'',
     rc_device = DeviceRef ''device-2'' \<rparr>, mx_expected_device_id = 2 \<rparr>"

abbreviation sample_ack_fact :: ack_fact where
  "sample_ack_fact \<equiv> ack_fact_of (accepted_ack sample_accepted_command sample_initial)"

lemma sample_ack_encodes: "\<exists>p. ack_payload sample_x sample_identity sample_ack_fact = Inr p"
  by (simp add: ack_payload_def ack_fact_of_def accepted_ack_def non_zero_def i64_try_from_u64_def
      sample_accepted_command_def saturating_add_def i64_max_def Let_def)

lemma sample_context_device: "mx_expected_device_id sample_context = di_device sample_identity"
  by (simp add: sample_context_def sample_identity_def)

lemma sample_fact_fields: "af_command_id sample_ack_fact = ''command-1''" "af_rejection sample_ack_fact = None"
  by (simp_all add: ack_fact_of_def accepted_ack_def)

section \<open>A journey\<close>

definition sample_rotation :: rotation_accepted where
  "sample_rotation = \<lparr> ra_coordinates = mx_coordinates sample_context,
     ra_authorization_receipt = AuthorizationReceiptRef (sample_hyphenated 4),
     ra_accepted_generation = Generation 2, ra_condition = AcceptPendingDevice \<rparr>"

definition sample_status :: "u64 \<Rightarrow> active_command_projection option \<Rightarrow> condition_projection list \<Rightarrow> status_projection" where
  "sample_status seen command conditions = \<lparr> sj_desired_generation = Some 2, sj_authorization_receipt_id = Some 4,
     sj_observed_generation = seen, sj_active_command = command, sj_conditions = conditions \<rparr>"

definition sample_status_received :: status_projection where
  "sample_status_received = sample_status 1 (Some \<lparr> aj_fence_epoch = 2, aj_state = CommandReceived \<rparr>) []"

definition sample_status_ready :: status_projection where
  "sample_status_ready = sample_status 2 None [\<lparr> cj_observed_generation = 2, cj_reason = StateMatches,
     cj_status = StatusTrue, cj_type = Ready, cj_last_transition_at = 1000 \<rparr>]"

definition sample_receipt :: application_receipt_observation where
  "sample_receipt = \<lparr> ar_coordinates = mx_coordinates sample_context, ar_event = EventRef ''receipt-1'',
     ar_ingress_envelope = IngressEnvelopeRef ''envelope-1'',
     ar_outcome = Committed \<lparr> rl_authorization_receipt = AuthorizationReceiptRef (sample_hyphenated 4),
       rl_desired_generation = Generation 2 \<rparr>, ar_committed_at = UnixTimestamp 1000 \<rparr>"

lemma sample_server_confirms:
  "server_confirms sample_x sample_rotation 2 sample_status_received sample_receipt sample_status_ready"
  by (simp add: server_confirms_def sample_rotation_def sample_status_received_def sample_status_ready_def sample_receipt_def
      sample_status_def has_ready_true_def has_matching_ready_def)

lemma sample_journey:
  "ac_command_id sample_accepted_command = ''command-1''" "ac_fence sample_accepted_command = 2"
  "ac_generation sample_accepted_command = 2" "uint (st_device_sequence sample_accepted) \<le> i64_max"
  "event_ref_expose (ar_event sample_receipt) \<notin> outbound_event_id ` set (st_outbox sample_accepted)"
  "rotation_accepted.ra_coordinates sample_rotation = mx_coordinates sample_context"
  "generation_get (ra_accepted_generation sample_rotation) = 2"
  using accept_fields(4) [OF sample_accepts]
  by (simp_all add: sample_accepted_command_def sample_accepted_outbox sample_receipt_def event_id_def sample_rotation_def
      accepted_report_def saturating_add_def i64_max_def)

end
