(* ===== verification/Control_Url.thy ===== *)
theory Control_Url
  imports Config
begin

text \<open>
  First part of the operator's command line, \<^verbatim>\<open>apps/rotation-control/src/lib.rs\<close>: its errors, the
  checks on addresses, and the parsing of IP literals that they rest on (\<open>IpAddr::from_str\<close> and
  \<open>is_loopback\<close> of the Rust standard library). A \<open>Url\<close> of the \<^verbatim>\<open>url\<close> crate is a record of the
  components the program reads; parsing, joining and printing are fields of \<open>url_externals\<close>.
\<close>

section \<open>Errors\<close>

datatype error_class = ClassInput | ClassAuth | ClassTyped | ClassTransport | ClassUntrusted

datatype error_stage =
    StageInput | StageRuntime | StageDiscovery | StageCallback | StageTokenExchange | StageJwks
  | StageIdToken | StageApi | StageTransport

definition error_stage_as_str :: "error_stage \<Rightarrow> string" where
  "error_stage_as_str s = (case s of
     StageInput \<Rightarrow> ''input'' | StageRuntime \<Rightarrow> ''runtime'' | StageDiscovery \<Rightarrow> ''discovery''
   | StageCallback \<Rightarrow> ''callback'' | StageTokenExchange \<Rightarrow> ''token_exchange'' | StageJwks \<Rightarrow> ''jwks''
   | StageIdToken \<Rightarrow> ''id_token'' | StageApi \<Rightarrow> ''api'' | StageTransport \<Rightarrow> ''transport'')"

record app_error =
  ae_code :: string
  ae_class :: error_class
  ae_stage :: error_stage
  ae_request_id :: "string option"
  ae_retryable :: bool

definition app_error_input :: "string \<Rightarrow> app_error" where
  "app_error_input code = \<lparr> ae_code = code, ae_class = ClassInput, ae_stage = StageInput,
     ae_request_id = None, ae_retryable = False \<rparr>"

definition app_error_auth :: "string \<Rightarrow> app_error" where
  "app_error_auth code = \<lparr> ae_code = code, ae_class = ClassAuth, ae_stage = StageIdToken,
     ae_request_id = None, ae_retryable = False \<rparr>"

definition app_error_transport :: "string \<Rightarrow> bool \<Rightarrow> app_error" where
  "app_error_transport code retryable = \<lparr> ae_code = code, ae_class = ClassTransport, ae_stage = StageTransport,
     ae_request_id = None, ae_retryable = retryable \<rparr>"

definition app_error_untrusted :: "string \<Rightarrow> app_error" where
  "app_error_untrusted code = \<lparr> ae_code = code, ae_class = ClassUntrusted, ae_stage = StageTransport,
     ae_request_id = None, ae_retryable = False \<rparr>"

definition diagnostic_class :: "diagnostic_kind \<Rightarrow> error_class" where
  "diagnostic_class k = (case k of
     Unauthorized \<Rightarrow> ClassAuth | Forbidden \<Rightarrow> ClassAuth
   | Validation \<Rightarrow> ClassTyped | KindNotFound \<Rightarrow> ClassTyped | KindConflict \<Rightarrow> ClassTyped
   | RateLimited \<Rightarrow> ClassTransport | Upstream \<Rightarrow> ClassTransport
   | Malformed \<Rightarrow> ClassUntrusted | UnknownStatus \<Rightarrow> ClassUntrusted)"

definition from_diagnostic :: "diagnostic \<Rightarrow> app_error" where
  "from_diagnostic value = \<lparr> ae_code = diagnostic_kind_code (dg_kind value), ae_class = diagnostic_class (dg_kind value),
     ae_stage = StageApi, ae_request_id = dg_request_id value, ae_retryable = dg_retryable value \<rparr>"

definition at_stage :: "error_stage \<Rightarrow> app_error \<Rightarrow> app_error" where
  "at_stage stage e = e\<lparr> ae_stage := stage \<rparr>"

definition exit_code :: "app_error \<Rightarrow> int" where
  "exit_code e = (case ae_class e of
     ClassInput \<Rightarrow> 2 | ClassAuth \<Rightarrow> 3 | ClassTyped \<Rightarrow> 4 | ClassTransport \<Rightarrow> 5 | ClassUntrusted \<Rightarrow> 6)"

text \<open>\<open>serde_json::Value\<close>.\<close>

datatype json =
    JNull
  | JBool bool
  | JNumber int
  | JString string
  | JArray "json list"
  | JObject "(string \<times> json) list"

definition class_name :: "error_class \<Rightarrow> string" where
  "class_name c = (case c of ClassInput \<Rightarrow> ''input'' | ClassAuth \<Rightarrow> ''auth'' | ClassTyped \<Rightarrow> ''typed''
     | ClassTransport \<Rightarrow> ''transport'' | ClassUntrusted \<Rightarrow> ''untrusted'')"

definition app_error_render :: "app_error \<Rightarrow> json" where
  "app_error_render e = JObject [(''schemaVersion'', JString ''1''), (''outcome'', JString ''error''),
     (''diagnostic'', JObject [(''category'', JString (class_name (ae_class e))),
        (''stage'', JString (error_stage_as_str (ae_stage e))), (''code'', JString (ae_code e)),
        (''retryable'', JBool (ae_retryable e)),
        (''requestId'', case ae_request_id e of None \<Rightarrow> JNull | Some r \<Rightarrow> JString r)])]"

section \<open>IP literals\<close>

datatype ip_addr = V4 nat nat nat nat | V6 "nat list"

definition to_digit :: "nat \<Rightarrow> char \<Rightarrow> nat option" where
  "to_digit radix c =
     (let n = (of_char c :: nat);
          d = (if 48 \<le> n \<and> n \<le> 57 then Some (n - 48) else if 97 \<le> n \<and> n \<le> 122 then Some (n - 87)
               else if 65 \<le> n \<and> n \<le> 90 then Some (n - 55) else None)
      in case d of Some v \<Rightarrow> if v < radix then Some v else None | None \<Rightarrow> None)"

text \<open>\<open>read_number\<close>: the digits at the front, at most \<open>max_digits\<close> of them, below \<open>bound\<close>.\<close>

definition read_number :: "nat \<Rightarrow> nat \<Rightarrow> bool \<Rightarrow> nat \<Rightarrow> string \<Rightarrow> (nat \<times> string) option" where
  "read_number radix max_digits allow_zero_prefix bound s =
     (let digits = takeWhile (\<lambda>c. to_digit radix c \<noteq> None) s;
          value = foldl (\<lambda>acc c. acc * radix + unwrap_or (to_digit radix c) 0) 0 digits
      in if digits = [] \<or> length digits > max_digits \<or> value \<ge> bound then None
         else if \<not> allow_zero_prefix \<and> hd digits = CHR ''0'' \<and> length digits > 1 then None
         else Some (value, drop (length digits) s))"

definition read_separator :: "char \<Rightarrow> nat \<Rightarrow> (string \<Rightarrow> ('a \<times> string) option) \<Rightarrow> string \<Rightarrow> ('a \<times> string) option" where
  "read_separator sep index inner s =
     (if index = 0 then inner s
      else case s of c # r \<Rightarrow> if c = sep then inner r else None | [] \<Rightarrow> None)"

definition read_octet :: "nat \<Rightarrow> string \<Rightarrow> (nat \<times> string) option" where
  "read_octet index = read_separator (CHR ''.'') index (read_number 10 3 False 256)"

definition read_ipv4_addr :: "string \<Rightarrow> ((nat \<times> nat \<times> nat \<times> nat) \<times> string) option" where
  "read_ipv4_addr s =
     Option.bind (read_octet 0 s) (\<lambda>(a, s1).
     Option.bind (read_octet 1 s1) (\<lambda>(b, s2).
     Option.bind (read_octet 2 s2) (\<lambda>(c, s3).
     Option.bind (read_octet 3 s3) (\<lambda>(d, s4). Some ((a, b, c, d), s4)))))"

text \<open>\<open>read_groups\<close>: up to \<open>k\<close> groups from the one numbered \<open>i\<close>, the last two possibly written as an
  IPv4 literal; whether they were, and the rest.\<close>

fun read_groups :: "nat \<Rightarrow> nat \<Rightarrow> string \<Rightarrow> nat list \<times> bool \<times> string" where
  "read_groups i 0 s = ([], False, s)"
| "read_groups i (Suc k) s =
     (case (if k > 0 then read_separator (CHR '':'') i read_ipv4_addr s else None) of
        Some ((a, b, c, d), r) \<Rightarrow> ([a * 256 + b, c * 256 + d], True, r)
      | None \<Rightarrow>
          (case read_separator (CHR '':'') i (read_number 16 4 True 65536) s of
             None \<Rightarrow> ([], False, s)
           | Some (g, r) \<Rightarrow> let (gs, v4, r') = read_groups (Suc i) k r in (g # gs, v4, r')))"

definition read_ipv6_addr :: "string \<Rightarrow> (nat list \<times> string) option" where
  "read_ipv6_addr s =
     (let (head, head_ipv4, r) = read_groups 0 8 s
      in if length head = 8 then Some (head, r)
         else if head_ipv4 then None
         else if prefix ''::'' r then
           let (tail, _, r') = read_groups 0 (8 - (length head + 1)) (drop 2 r)
           in Some (head @ replicate (8 - length head - length tail) 0 @ tail, r')
         else None)"

definition parse_ip_addr :: "string \<Rightarrow> ip_addr option" where
  "parse_ip_addr s = (case read_ipv4_addr s of
     Some ((a, b, c, d), r) \<Rightarrow> if r = [] then Some (V4 a b c d) else None
   | None \<Rightarrow> (case read_ipv6_addr s of
       Some (groups, r) \<Rightarrow> if r = [] then Some (V6 groups) else None
     | None \<Rightarrow> None))"

definition is_loopback :: "ip_addr \<Rightarrow> bool" where
  "is_loopback a = (case a of V4 p _ _ _ \<Rightarrow> p = 127 | V6 groups \<Rightarrow> groups = [0, 0, 0, 0, 0, 0, 0, 1])"

section \<open>Addresses\<close>

record url =
  ur_scheme :: string
  ur_username :: string
  ur_password :: "string option"
  ur_host_str :: "string option"
  ur_port_or_known_default :: "u16 option"
  ur_path :: string
  ur_query :: "string option"
  ur_fragment :: "string option"

record url_externals = contract_externals +
  url_parse :: "string \<Rightarrow> url option"
  url_as_str :: "url \<Rightarrow> string"
  url_join :: "url \<Rightarrow> string \<Rightarrow> url option"
  url_set_path :: "string \<Rightarrow> url \<Rightarrow> url"
  url_query_pairs :: "url \<Rightarrow> (string \<times> string) list"
  url_append_pairs :: "(string \<times> string) list \<Rightarrow> url \<Rightarrow> url"

definition loopback_host :: "url \<Rightarrow> bool" where
  "loopback_host u = (case Option.bind (ur_host_str u) parse_ip_addr of Some ip \<Rightarrow> is_loopback ip | None \<Rightarrow> False)"

definition secure_remote_url :: "url \<Rightarrow> bool \<Rightarrow> (app_error, unit) result" where
  "secure_remote_url u allow_loopback_http =
     (if ur_scheme u = ''https'' then Inr ()
      else if ur_scheme u = ''http'' \<and> allow_loopback_http \<and> loopback_host u then Inr ()
      else Inl (app_error_input ''plaintext_remote_forbidden''))"

definition validate_rss_base_url :: "url \<Rightarrow> (app_error, unit) result" where
  "validate_rss_base_url u =
     rbind (secure_remote_url u False) (\<lambda>_.
     if ur_path u \<noteq> ''/'' \<or> ur_query u \<noteq> None \<or> ur_fragment u \<noteq> None \<or> ur_username u \<noteq> [] \<or> ur_password u \<noteq> None
     then Inl (app_error_input ''rss_base_url_must_be_origin'')
     else Inr ())"

definition trim_end_slashes :: "string \<Rightarrow> string" where
  "trim_end_slashes s = rev (dropWhile (\<lambda>c. c = CHR ''/'') (rev s))"

definition discovery_url :: "'z url_externals_scheme \<Rightarrow> url \<Rightarrow> (app_error, url) result" where
  "discovery_url x issuer =
     (let value = url_set_path x (trim_end_slashes (ur_path issuer) @ ''/'') issuer
      in ok_or (app_error_input ''invalid_issuer'') (url_join x value ''.well-known/openid-configuration''))"

section \<open>Lemmas\<close>

lemma at_stage_simps [simp]:
  "ae_stage (at_stage st e) = st" "ae_code (at_stage st e) = ae_code e" "ae_class (at_stage st e) = ae_class e"
  by (simp_all add: at_stage_def)

lemma exit_code_failure: "exit_code e \<in> {2, 3, 4, 5, 6}"
  by (simp add: exit_code_def split: error_class.splits)

lemma secure_remote_url_Inr:
  "secure_remote_url u allow = Inr () \<longleftrightarrow>
     ur_scheme u = ''https'' \<or> ur_scheme u = ''http'' \<and> allow \<and> loopback_host u"
  by (simp add: secure_remote_url_def)

lemma validate_rss_base_url_Inr:
  "validate_rss_base_url u = Inr () \<longleftrightarrow> ur_scheme u = ''https'' \<and> ur_path u = ''/'' \<and> ur_query u = None
     \<and> ur_fragment u = None \<and> ur_username u = [] \<and> ur_password u = None"
  by (simp add: validate_rss_base_url_def secure_remote_url_def)

text \<open>Reading a number consumes text and respects the bound, so the octets of an address are bytes.\<close>

lemma read_number_bounds:
  assumes "read_number radix m z bound s = Some (v, r)"
  shows "v < bound" "length r < length s"
  using assms by (auto simp: read_number_def Let_def split: if_splits)
    (metis diff_less length_greater_0_conv takeWhile.simps(1))+

lemma parse_ip_addr_octets:
  assumes "parse_ip_addr s = Some (V4 a b c d)"
  shows "a < 256 \<and> b < 256 \<and> c < 256 \<and> d < 256"
proof -
  have "read_octet i t = Some (v, r) \<Longrightarrow> v < 256" for i t v r
    by (auto simp: read_octet_def read_separator_def dest: read_number_bounds split: if_splits list.splits)
  then show ?thesis
    using assms by (auto simp: parse_ip_addr_def read_ipv4_addr_def bind_eq_Some_conv split: option.splits if_splits)
qed

end
