(* ===== verification/Control_Callback.thy ===== *)
theory Control_Callback
  imports Control_Url
begin

text \<open>
  The loopback listener of the operator's login, \<open>receive_callback\<close> and what it calls in
  \<^verbatim>\<open>apps/rotation-control/src/lib.rs\<close>. Connections are scripts of what reading from the socket yields,
  so that every way of cutting a request into reads is covered; a script that ends stands for a peer
  that stays silent until the connection's two seconds are over.
\<close>

section \<open>Text\<close>

definition CRLF :: string where
  "CRLF = [CHR 0x0D, CHR 0x0A]"

text \<open>\<open>split("\r\n").next()\<close>.\<close>

fun first_line :: "string \<Rightarrow> string" where
  "first_line [] = []"
| "first_line (c # r) = (if prefix CRLF (c # r) then [] else c # first_line r)"

text \<open>\<open>str::split_whitespace\<close>: the characters of a \<open>str\<close> as byte sequences, and the runs between
  white space.\<close>

function utf8_pieces :: "bytes \<Rightarrow> bytes list" where
  "utf8_pieces [] = []"
| "utf8_pieces (c # r) = (c # takeWhile is_cont r) # utf8_pieces (dropWhile is_cont r)"
  by pat_completeness auto
termination by (relation "measure length") (auto simp: length_dropWhile_le le_imp_less_Suc)

definition space_piece :: "bytes \<Rightarrow> bool" where
  "space_piece piece = list_all is_whitespace (chars piece)"

fun gather_words :: "string \<Rightarrow> bytes list \<Rightarrow> string list" where
  "gather_words word [] = (if word = [] then [] else [word])"
| "gather_words word (piece # rest) =
     (if space_piece piece then (if word = [] then [] else [word]) @ gather_words [] rest
      else gather_words (word @ piece) rest)"

definition split_whitespace :: "string \<Rightarrow> string list" where
  "split_whitespace s = gather_words [] (utf8_pieces s)"

section \<open>The request\<close>

datatype callback_outcome = CallbackCode string | CallbackRejected

definition CALLBACK_INVALID :: string where
  "CALLBACK_INVALID = ''callback_invalid''"

definition query_values :: "'z url_externals_scheme \<Rightarrow> string \<Rightarrow> url \<Rightarrow> string list" where
  "query_values x key u = map snd (filter (\<lambda>(k, _). k = key) (url_query_pairs x u))"

definition same_endpoint :: "url \<Rightarrow> url \<Rightarrow> bool" where
  "same_endpoint callback redirect \<longleftrightarrow> ur_scheme callback = ur_scheme redirect
     \<and> ur_host_str callback = ur_host_str redirect
     \<and> ur_port_or_known_default callback = ur_port_or_known_default redirect
     \<and> ur_path callback = ur_path redirect \<and> ur_fragment callback = None"

definition parse_callback_url ::
  "'z url_externals_scheme \<Rightarrow> url \<Rightarrow> string \<Rightarrow> callback_outcome option" where
  "parse_callback_url x callback expected_state =
     (case query_values x ''state'' callback of
        [state] \<Rightarrow>
          if state \<noteq> expected_state then None
          else if list_ex (\<lambda>(k, _). k = ''error'') (url_query_pairs x callback) then Some CallbackRejected
          else (case query_values x ''code'' callback of
                  [code] \<Rightarrow> if code = [] then None else Some (CallbackCode code)
                | _ \<Rightarrow> None)
      | _ \<Rightarrow> None)"

definition parse_callback_request ::
  "'z url_externals_scheme \<Rightarrow> bytes \<Rightarrow> url \<Rightarrow> string \<Rightarrow> callback_outcome option" where
  "parse_callback_request x request redirect expected_state =
     Option.bind (from_utf8 request) (\<lambda>text.
     case split_whitespace (first_line text) of
       [verb, target, version] \<Rightarrow>
         if verb \<noteq> ''GET'' \<or> version \<noteq> ''HTTP/1.1'' \<or> \<not> starts_with target ''/'' \<or> starts_with target ''//'' then None
         else Option.bind (url_join x redirect target) (\<lambda>callback.
              if \<not> same_endpoint callback redirect then None else parse_callback_url x callback expected_state)
     | _ \<Rightarrow> None)"

section \<open>Reading from a connection\<close>

definition MAX_CALLBACK_BYTES :: nat where
  "MAX_CALLBACK_BYTES = 8192"

datatype read_event = ReadBytes bytes | ReadFails

definition callback_error :: "string \<Rightarrow> app_error" where
  "callback_error code = at_stage StageCallback (app_error_auth code)"

definition read_size :: "bytes \<Rightarrow> nat" where
  "read_size request = min (MAX_CALLBACK_BYTES - length request) 1024"

text \<open>\<open>socket.read\<close> takes at most the size of its buffer; what it leaves is read next.\<close>

definition unread :: "nat \<Rightarrow> bytes \<Rightarrow> read_event list \<Rightarrow> read_event list" where
  "unread room offered rest = (if length offered \<le> room then rest else ReadBytes (drop room offered) # rest)"

definition has_blank_line :: "bytes \<Rightarrow> bool" where
  "has_blank_line request = str_contains request (CRLF @ CRLF)"

function read_request :: "bytes \<Rightarrow> read_event list \<Rightarrow> (app_error, bytes) result" where
  "read_request request events =
     (if length request < MAX_CALLBACK_BYTES then
        case events of
          [] \<Rightarrow> Inl (callback_error ''callback_connection_timeout'')
        | ReadFails # _ \<Rightarrow> Inl (callback_error ''callback_failed'')
        | ReadBytes offered # rest \<Rightarrow>
            let chunk = take (read_size request) offered
            in if chunk = [] then Inl (callback_error CALLBACK_INVALID)
               else if has_blank_line (request @ chunk) then Inr (request @ chunk)
               else read_request (request @ chunk) (unread (read_size request) offered rest)
      else Inl (callback_error CALLBACK_INVALID))"
  by pat_completeness auto
termination
  by (relation "measure (\<lambda>(request, _). MAX_CALLBACK_BYTES - length request)")
    (auto simp: read_size_def min_def simp flip: length_greater_0_conv)

declare read_request.simps [simp del]

definition read_callback_headers :: "read_event list \<Rightarrow> (app_error, bytes) result" where
  "read_callback_headers events = read_request [] events"

section \<open>Listening\<close>

datatype accepted_socket = AcceptFails | Connection "read_event list"

definition write_callback_page :: "string \<Rightarrow> string \<Rightarrow> string" where
  "write_callback_page status body =
     ''HTTP/1.1 '' @ status @ CRLF @ ''Content-Type: text/plain'' @ CRLF @ ''Content-Length: '' @ show_nat (length body)
     @ CRLF @ ''Connection: close'' @ CRLF @ CRLF @ body"

definition connection_outcome ::
  "'z url_externals_scheme \<Rightarrow> url \<Rightarrow> string \<Rightarrow> read_event list \<Rightarrow> callback_outcome option" where
  "connection_outcome x redirect expected_state events = (case read_callback_headers events of
     Inl _ \<Rightarrow> None | Inr request \<Rightarrow> parse_callback_request x request redirect expected_state)"

text \<open>The loop over the sockets that are accepted: the pages written and the result, \<open>None\<close> while it
  waits for another connection.\<close>

fun receive_callback ::
  "'z url_externals_scheme \<Rightarrow> url \<Rightarrow> string \<Rightarrow> accepted_socket list \<Rightarrow> string list \<times> (app_error, string) result option" where
  "receive_callback x redirect expected_state [] = ([], None)"
| "receive_callback x redirect expected_state (AcceptFails # sockets) =
     ([], Some (Inl (callback_error ''callback_failed'')))"
| "receive_callback x redirect expected_state (Connection events # sockets) =
     (case connection_outcome x redirect expected_state events of
        Some (CallbackCode code) \<Rightarrow>
          ([write_callback_page ''200 OK'' ''Authentication complete.''], Some (Inr code))
      | Some CallbackRejected \<Rightarrow>
          ([write_callback_page ''400 Bad Request'' ''Authentication rejected.''],
           Some (Inl (callback_error ''authorization_rejected'')))
      | None \<Rightarrow>
          (let (pages, result) = receive_callback x redirect expected_state sockets
           in (write_callback_page ''400 Bad Request'' ''Authentication ignored.'' # pages, result)))"

section \<open>What is accepted\<close>

text \<open>The code of a request that answers this login: the request line is a GET of the redirect's own
  address, with exactly one state, the expected one, exactly one code, not empty, and no error.\<close>

definition callback_answers :: "'z url_externals_scheme \<Rightarrow> url \<Rightarrow> string \<Rightarrow> bytes \<Rightarrow> string \<Rightarrow> bool" where
  "callback_answers x redirect expected_state request code \<longleftrightarrow>
     (\<exists>target callback. from_utf8 request \<noteq> None
        \<and> split_whitespace (first_line request) = [''GET'', target, ''HTTP/1.1'']
        \<and> starts_with target ''/'' \<and> \<not> starts_with target ''//''
        \<and> url_join x redirect target = Some callback \<and> same_endpoint callback redirect
        \<and> query_values x ''state'' callback = [expected_state] \<and> query_values x ''code'' callback = [code]
        \<and> code \<noteq> [] \<and> query_values x ''error'' callback = [])"

lemma query_values_empty: "query_values x key u = [] \<longleftrightarrow> \<not> list_ex (\<lambda>(k, _). k = key) (url_query_pairs x u)"
  by (auto simp: query_values_def filter_empty_conv list_ex_iff)

lemma parse_callback_url_code:
  "parse_callback_url x callback expected_state = Some (CallbackCode code) \<longleftrightarrow>
     query_values x ''state'' callback = [expected_state] \<and> query_values x ''code'' callback = [code]
     \<and> code \<noteq> [] \<and> query_values x ''error'' callback = []"
  unfolding parse_callback_url_def query_values_empty [of x "''error''"] by (auto split: list.splits)

lemma parse_callback_request_code:
  "parse_callback_request x request redirect expected_state = Some (CallbackCode code)
     \<longleftrightarrow> callback_answers x redirect expected_state request code"
proof (cases "from_utf8 request")
  case None
  then show ?thesis by (simp add: parse_callback_request_def callback_answers_def)
next
  case (Some decoded)
  then have "decoded = request" by (rule from_utf8_Some)
  with Some show ?thesis
    by (auto simp: parse_callback_request_def callback_answers_def bind_eq_Some_conv parse_callback_url_code
        split: list.splits)
qed

section \<open>What is read\<close>

fun offered_bytes :: "read_event list \<Rightarrow> bytes" where
  "offered_bytes (ReadBytes b # rest) = b @ offered_bytes rest"
| "offered_bytes _ = []"

lemma offered_unread: "take room b @ offered_bytes (unread room b rest) = b @ offered_bytes rest"
  by (simp add: unread_def)

lemma read_request_Inr:
  assumes "read_request request events = Inr r"
  shows "length r \<le> MAX_CALLBACK_BYTES \<and> has_blank_line r \<and> prefix r (request @ offered_bytes events)"
  using assms
proof (induction request events rule: read_request.induct)
  case (1 request events)
  show ?case
  proof (cases "\<exists>offered rest. events = ReadBytes offered # rest \<and> length request < MAX_CALLBACK_BYTES")
    case False
    then show ?thesis using "1.prems" by (auto simp: read_request.simps [of request] split: list.splits read_event.splits if_splits)
  next
    case True
    then obtain offered rest where e: "events = ReadBytes offered # rest" "length request < MAX_CALLBACK_BYTES" by blast
    let ?chunk = "take (read_size request) offered"
    have stream: "request @ offered_bytes events = (request @ ?chunk) @ offered_bytes (unread (read_size request) offered rest)"
      using offered_unread [of "read_size request" offered rest] by (simp add: e)
    have ne: "?chunk \<noteq> []" using "1.prems" e by (auto simp: read_request.simps [of request] Let_def split: if_splits)
    show ?thesis
    proof (cases "has_blank_line (request @ ?chunk)")
      case True
      then have "r = request @ ?chunk" using "1.prems" e ne by (simp add: read_request.simps [of request] Let_def)
      moreover have "length ?chunk \<le> MAX_CALLBACK_BYTES - length request" by (simp add: read_size_def)
      ultimately show ?thesis using True stream e by (simp add: prefix_def)
    next
      case False
      then have "read_request (request @ ?chunk) (unread (read_size request) offered rest) = Inr r"
        using "1.prems" e ne by (simp add: read_request.simps [of request] Let_def)
      from "1.IH" [OF e(2) e(1) _ refl ne False this] show ?thesis by (simp add: stream)
    qed
  qed
qed

text \<open>The listener returns a code only from a connection that answers this login, after having turned
  away every one before it; it fails only when the socket does or when the user refuses.\<close>

lemma receive_callback_code:
  assumes "receive_callback x redirect expected_state sockets = (pages, Some (Inr code))"
  shows "\<exists>events before after request. sockets = map Connection before @ Connection events # after
    \<and> (\<forall>b \<in> set before. connection_outcome x redirect expected_state b = None)
    \<and> read_callback_headers events = Inr request \<and> length request \<le> MAX_CALLBACK_BYTES
    \<and> callback_answers x redirect expected_state request code \<and> length pages = Suc (length before)"
  using assms
proof (induction sockets arbitrary: pages)
  case Nil
  then show ?case by simp
next
  case (Cons s sockets)
  show ?case
  proof (cases s)
    case AcceptFails
    then show ?thesis using Cons.prems by simp
  next
    case (Connection events)
    show ?thesis
    proof (cases "connection_outcome x redirect expected_state events")
      case None
      then obtain rest where "receive_callback x redirect expected_state sockets = (rest, Some (Inr code))"
          "length pages = Suc (length rest)"
        using Cons.prems Connection by (auto split: prod.splits)
      moreover from Cons.IH [OF this(1)] obtain ev before after request where
        "sockets = map Connection before @ Connection ev # after"
        "\<forall>b \<in> set before. connection_outcome x redirect expected_state b = None"
        "read_callback_headers ev = Inr request" "length request \<le> MAX_CALLBACK_BYTES"
        "callback_answers x redirect expected_state request code" "length rest = Suc (length before)" by blast
      ultimately show ?thesis
        using Connection None by (intro exI [of _ ev] exI [of _ "events # before"] exI [of _ after] exI [of _ request]) auto
    next
      case (Some outcome)
      then have "outcome = CallbackCode code" "length pages = 1"
        using Cons.prems Connection by (auto split: callback_outcome.splits)
      moreover obtain request where "read_callback_headers events = Inr request"
          "parse_callback_request x request redirect expected_state = Some outcome"
        using Some by (auto simp: connection_outcome_def split: sum.splits)
      ultimately show ?thesis
        using Connection read_request_Inr [of "[]" events request]
        by (intro exI [of _ events] exI [of _ "[]"] exI [of _ sockets] exI [of _ request])
          (auto simp: parse_callback_request_code read_callback_headers_def)
    qed
  qed
qed

end
