(* ===== verification/Control.thy ===== *)
theory Control
  imports Control_Callback
begin

text \<open>
  The operator's command line, \<^verbatim>\<open>apps/rotation-control/src/lib.rs\<close>: login with an authorisation code
  and PKCE, the rotation and status requests, policy checks and audit records.

  Everything outside the process is a field of \<open>environment\<close>, a function of the trace of what the
  program has done so far: it may answer anything, and may answer the same request differently later.
  The trace records the requests sent, the pages opened and served and the random values drawn. Traits
  of the source (\<open>HttpPort\<close> and the others) are fields of \<open>ports\<close>, and \<open>system_ports\<close> is the
  implementation the program uses. Parsing and checking done by third-party crates are fields of
  \<open>control_externals\<close>.
\<close>

section \<open>Arguments and messages\<close>

record auth_args =
  au_issuer :: url
  au_client_id :: string
  au_tenant_id :: string
  au_redirect_uri :: url
  au_ca_certificate :: "string option"

record rotate_args =
  ro_auth :: auth_args
  ro_rss_base_url :: url
  ro_device_id :: uuid
  ro_input :: string
  ro_expected_generation :: u64
  ro_idempotency_key :: "uuid option"

record status_args =
  sa_auth :: auth_args
  sa_rss_base_url :: url
  sa_device_id :: uuid

datatype control_command =
    LoginCommand auth_args
  | PolicyCheckCommand string
  | RotateCommand rotate_args
  | StatusCommand status_args
  | AuditCommand string

datatype usage_input = UsageClientAuth | UsageServerAuth

record policy_input =
  pn_key_usages :: "usage_input list"
  pn_renew_before_seconds :: u64
  pn_sans :: "string list"
  pn_validity_seconds :: u64

record token_set =
  ts_access_token :: string

record discovery =
  ds_issuer :: string
  ds_authorization_endpoint :: string
  ds_token_endpoint :: string
  ds_jwks_uri :: string

text \<open>An ID token in its compact form, and a key set as it was received.\<close>

type_synonym id_token = string

datatype jwks = Jwks bytes

record token_wire =
  tw_access_token :: string
  tw_id_token :: id_token

record id_claims =
  ic_audiences :: "string list"
  ic_authorized_party :: "string option"
  ic_tenant_id :: string

text \<open>The settings of a \<open>CoreIdTokenVerifier\<close>.\<close>

record id_token_verifier =
  iv_client_id :: string
  iv_issuer :: string
  iv_jwks :: jwks
  iv_algorithms :: "string list"
  iv_other_audience :: "string \<Rightarrow> bool"
  iv_now :: i64
  iv_issue_time :: "i64 \<Rightarrow> bool"

record rotate_record =
  rd_schema_version :: string
  rd_operation :: string
  rd_outcome :: string
  rd_request_id :: uuid
  rd_correlation_id :: uuid
  rd_authorization_receipt_id :: uuid
  rd_accepted_generation :: u64
  rd_condition :: string

record control_externals = url_externals +
  discovery_from_slice :: "bytes \<Rightarrow> discovery option"
  token_from_slice :: "bytes \<Rightarrow> token_wire option"
  jwks_from_slice :: "bytes \<Rightarrow> jwks option"
  json_from_slice :: "bytes \<Rightarrow> json option"
  policy_input_from_slice :: "bytes \<Rightarrow> policy_input option"
  rotate_record_from_slice :: "bytes \<Rightarrow> rotate_record option"
  id_token_claims :: "id_token_verifier \<Rightarrow> id_token \<Rightarrow> string \<Rightarrow> id_claims option"
  issuer_url_ok :: "string \<Rightarrow> bool"
  timestamp_ok :: "i64 \<Rightarrow> bool"
  header_value_ok :: "string \<Rightarrow> bool"
  method_ok :: "string \<Rightarrow> bool"
  pem_certificate_ok :: "bytes \<Rightarrow> bool"
  http_client_ok :: "bytes option \<Rightarrow> bool"

section \<open>The process and its environment\<close>

datatype request_body = NoBody | JsonBody bytes | FormBody "(string \<times> string) list"

record http_request =
  hq_method :: string
  hq_url :: url
  hq_headers :: "(string \<times> string) list"
  hq_body :: request_body

record http_reply =
  hp_status :: u16
  hp_body :: bytes

datatype effect =
    Sent http_request
  | Listened string u16
  | Opened url
  | Served string
  | DrewUuid uuid
  | DrewPkce string string      \<comment> \<open>challenge and verifier\<close>

text \<open>The outcome of a request: the time limit passes, sending fails, or a response with its declared
  length and the chunks of its body.\<close>

datatype transmission =
    TimesOut
  | SendFails
  | Responds u16 "u64 option" "bytes option list"

record environment =
  en_transmit :: "bytes option \<Rightarrow> nat \<Rightarrow> effect list \<Rightarrow> http_request \<Rightarrow> transmission"
  en_browser :: "effect list \<Rightarrow> url \<Rightarrow> bool"
  en_listen :: "effect list \<Rightarrow> string \<Rightarrow> u16 \<Rightarrow> bool"
  en_sockets :: "effect list \<Rightarrow> accepted_socket list"
  en_uuid :: "effect list \<Rightarrow> uuid"
  en_pkce :: "effect list \<Rightarrow> string \<times> string"
  en_unix_seconds :: "effect list \<Rightarrow> u64 option"
  en_instant :: "effect list \<Rightarrow> nat"
  en_timer_fires :: "nat \<Rightarrow> effect list \<Rightarrow> bool"
  en_stdin :: "bytes option"

record console =
  cn_trace :: "effect list"
  cn_world :: world
  cn_directory :: path

type_synonym 'a console_proc = "(console, app_error, 'a) proc"

text \<open>An operation that may wait for ever: \<open>None\<close> when it does.\<close>

type_synonym 'a waiting = "console \<Rightarrow> console \<times> (app_error, 'a) result option"

definition emit :: "effect list \<Rightarrow> console \<Rightarrow> console" where
  "emit es c = c\<lparr> cn_trace := cn_trace c @ es \<rparr>"

definition awaited :: "'a console_proc \<Rightarrow> 'a waiting" where
  "awaited p c = (let (c', r) = p c in (c', Some r))"

definition draw_uuid :: "environment \<Rightarrow> uuid console_proc" where
  "draw_uuid env c = (let u = en_uuid env (cn_trace c) in (emit [DrewUuid u] c, Inr u))"

definition draw_pkce :: "environment \<Rightarrow> (string \<times> string) console_proc" where
  "draw_pkce env c = (let p = en_pkce env (cn_trace c) in (emit [DrewPkce (fst p) (snd p)] c, Inr p))"

definition MAX_RESPONSE_BYTES :: nat where
  "MAX_RESPONSE_BYTES = 1024 * 1024"

definition LOGIN_TIMEOUT :: nat where
  "LOGIN_TIMEOUT = 120000"

definition API_TIMEOUT :: nat where
  "API_TIMEOUT = 30000"

definition read_input :: "string \<Rightarrow> bytes console_proc" where
  "read_input raw c =
     (let (w, r) = fs_read (resolve (cn_directory c) raw) (cn_world c)
      in (c\<lparr> cn_world := w \<rparr>, map_err (\<lambda>_. app_error_input ''input_unreadable'') r))"

definition policy_of_input :: "policy_input \<Rightarrow> (app_error, rotation_policy) result" where
  "policy_of_input value =
     (let usages = map (\<lambda>usage. case usage of UsageClientAuth \<Rightarrow> ClientAuth | UsageServerAuth \<Rightarrow> ServerAuth)
            (pn_key_usages value)
      in map_err (\<lambda>_. app_error_input ''invalid_policy'')
           (rotation_policy_try_new usages (pn_renew_before_seconds value) (pn_sans value) (pn_validity_seconds value)))"

definition read_policy :: "'z control_externals_scheme \<Rightarrow> string \<Rightarrow> rotation_policy console_proc" where
  "read_policy x raw =
     pbind (read_input raw) (\<lambda>bytes.
     if length bytes > MAX_RESPONSE_BYTES then plift (Inl (app_error_input ''input_oversize''))
     else plift (rbind (ok_or (app_error_input ''invalid_policy_json'') (policy_input_from_slice x bytes)) policy_of_input))"

section \<open>Ports\<close>

record ports =
  po_get :: "url \<Rightarrow> nat \<Rightarrow> http_reply console_proc"
  po_post_form :: "url \<Rightarrow> (string \<times> string) list \<Rightarrow> nat \<Rightarrow> http_reply console_proc"
  po_send :: "string \<Rightarrow> url \<Rightarrow> (string \<times> string) list \<Rightarrow> bytes option \<Rightarrow> nat \<Rightarrow> http_reply console_proc"
  po_unix_seconds :: "u64 console_proc"
  po_authorize :: "url \<Rightarrow> string \<Rightarrow> url \<Rightarrow> string waiting"
  po_verify :: "id_token \<Rightarrow> jwks \<Rightarrow> auth_args \<Rightarrow> string \<Rightarrow> u64 \<Rightarrow> (app_error, unit) result"

text \<open>\<open>bounded_bytes\<close>: a chunk that fails to arrive is \<open>None\<close>.\<close>

fun collect_chunks :: "bytes \<Rightarrow> bytes option list \<Rightarrow> (app_error, bytes) result" where
  "collect_chunks bytes [] = Inr bytes"
| "collect_chunks bytes (None # rest) = Inl (app_error_transport ''response_read_failed'' True)"
| "collect_chunks bytes (Some chunk # rest) =
     (if usize_saturating_add (length bytes) (length chunk) > MAX_RESPONSE_BYTES
      then Inl (app_error_untrusted ''response_oversize'')
      else collect_chunks (bytes @ chunk) rest)"

definition bounded_bytes :: "u64 option \<Rightarrow> bytes option list \<Rightarrow> (app_error, bytes) result" where
  "bounded_bytes content_length chunks =
     (if (case content_length of Some n \<Rightarrow> n > of_nat MAX_RESPONSE_BYTES | None \<Rightarrow> False)
      then Inl (app_error_untrusted ''response_oversize'')
      else collect_chunks [] chunks)"

text \<open>\<open>ReqwestHttpPort\<close>: the client is the root certificate it was built with.\<close>

definition reqwest_port_new :: "'z control_externals_scheme \<Rightarrow> string option \<Rightarrow> bytes option console_proc" where
  "reqwest_port_new x ca_certificate =
     pbind (case ca_certificate of
              None \<Rightarrow> preturn None
            | Some raw \<Rightarrow>
                pbind (read_input raw) (\<lambda>bytes.
                if length bytes > MAX_RESPONSE_BYTES then plift (Inl (app_error_input ''ca_certificate_oversize''))
                else if \<not> pem_certificate_ok x bytes then plift (Inl (app_error_input ''invalid_ca_certificate''))
                else preturn (Some bytes))) (\<lambda>root.
     if http_client_ok x root then preturn root
     else plift (Inl (app_error_transport ''http_client_unavailable'' False)))"

definition execute :: "environment \<Rightarrow> bytes option \<Rightarrow> http_request \<Rightarrow> nat \<Rightarrow> http_reply console_proc" where
  "execute env root request limit c =
     (let c1 = emit [Sent request] c
      in (c1, case en_transmit env root limit (cn_trace c) request of
            TimesOut \<Rightarrow> Inl (app_error_transport ''request_timeout'' True)
          | SendFails \<Rightarrow> Inl (app_error_transport ''request_failed'' True)
          | Responds status content_length chunks \<Rightarrow>
              map_ok (\<lambda>body. \<lparr> hp_status = status, hp_body = body \<rparr>) (bounded_bytes content_length chunks)))"

definition http_get :: "environment \<Rightarrow> bytes option \<Rightarrow> url \<Rightarrow> nat \<Rightarrow> http_reply console_proc" where
  "http_get env root u limit =
     execute env root \<lparr> hq_method = ''GET'', hq_url = u, hq_headers = [], hq_body = NoBody \<rparr> limit"

definition http_post_form ::
  "environment \<Rightarrow> bytes option \<Rightarrow> url \<Rightarrow> (string \<times> string) list \<Rightarrow> nat \<Rightarrow> http_reply console_proc" where
  "http_post_form env root u form limit =
     execute env root \<lparr> hq_method = ''POST'', hq_url = u, hq_headers = [], hq_body = FormBody form \<rparr> limit"

definition http_send ::
  "environment \<Rightarrow> bytes option \<Rightarrow> string \<Rightarrow> url \<Rightarrow> (string \<times> string) list \<Rightarrow> bytes option \<Rightarrow> nat
     \<Rightarrow> http_reply console_proc" where
  "http_send env root verb u headers body limit =
     execute env root (case body of
         None \<Rightarrow> \<lparr> hq_method = verb, hq_url = u, hq_headers = headers, hq_body = NoBody \<rparr>
       | Some b \<Rightarrow> \<lparr> hq_method = verb, hq_url = u,
           hq_headers = headers @ [(''content-type'', ''application/json'')], hq_body = JsonBody b \<rparr>) limit"

definition browser_open :: "environment \<Rightarrow> url \<Rightarrow> unit console_proc" where
  "browser_open env u c =
     (emit [Opened u] c, ensure (callback_error ''browser_launch_failed'') (en_browser env (cn_trace c) u))"

definition unix_seconds :: "environment \<Rightarrow> u64 console_proc" where
  "unix_seconds env c = (c, ok_or (app_error_auth ''clock_invalid'') (en_unix_seconds env (cn_trace c)))"

text \<open>\<open>LoopbackCallback::authorize\<close>.\<close>

definition listen_on :: "environment \<Rightarrow> url \<Rightarrow> unit console_proc" where
  "listen_on env redirect c =
     (case (ur_host_str redirect, ur_port_or_known_default redirect) of
        (Some host, Some port) \<Rightarrow>
          (emit [Listened host port] c, ensure (callback_error ''callback_bind_failed'') (en_listen env (cn_trace c) host port))
      | _ \<Rightarrow> (c, Inl (app_error_input ''invalid_redirect'')))"

definition loopback_authorize ::
  "'z url_externals_scheme \<Rightarrow> environment \<Rightarrow> url \<Rightarrow> string \<Rightarrow> url \<Rightarrow> string waiting" where
  "loopback_authorize x env redirect state authorize c =
     (case pbind (listen_on env redirect) (\<lambda>_. browser_open env authorize) c of
        (c1, Inl e) \<Rightarrow> (c1, Some (Inl e))
      | (c1, Inr _) \<Rightarrow>
          (case receive_callback x redirect state (en_sockets env (cn_trace c1)) of
             (pages, result) \<Rightarrow> (emit (map Served pages) c1, result)))"

section \<open>ID tokens\<close>

definition login_verifier :: "'z control_externals_scheme \<Rightarrow> auth_args \<Rightarrow> jwks \<Rightarrow> i64 \<Rightarrow> id_token_verifier" where
  "login_verifier x auth keys now = \<lparr> iv_client_id = au_client_id auth, iv_issuer = url_as_str x (au_issuer auth),
     iv_jwks = keys, iv_algorithms = [''RS256''], iv_other_audience = (\<lambda>_. True), iv_now = now,
     iv_issue_time = (\<lambda>issued_at. issued_at \<le> now) \<rparr>"

definition validate_id_token ::
  "'z control_externals_scheme \<Rightarrow> id_token \<Rightarrow> jwks \<Rightarrow> auth_args \<Rightarrow> string \<Rightarrow> u64 \<Rightarrow> (app_error, unit) result" where
  "validate_id_token x token keys auth nonce now =
     rbind (ok_or (app_error_auth ''clock_invalid'')
       (Option.bind (i64_try_from_u64 now) (\<lambda>seconds. if timestamp_ok x seconds then Some seconds else None))) (\<lambda>now.
     rbind (ensure (app_error_auth ''issuer_invalid'') (issuer_url_ok x (url_as_str x (au_issuer auth)))) (\<lambda>_.
     rbind (ok_or (app_error_auth ''id_token_invalid'')
       (id_token_claims x (login_verifier x auth keys now) token nonce)) (\<lambda>claims.
     if length (ic_audiences claims) > 1 \<and> ic_authorized_party claims \<noteq> Some (au_client_id auth)
     then Inl (app_error_auth ''authorized_party_mismatch'')
     else if (case ic_authorized_party claims of Some party \<Rightarrow> party \<noteq> au_client_id auth | None \<Rightarrow> False)
     then Inl (app_error_auth ''authorized_party_mismatch'')
     else if ic_tenant_id claims \<noteq> au_tenant_id auth then Inl (app_error_auth ''tenant_mismatch'')
     else Inr ())))"

definition system_ports :: "'z control_externals_scheme \<Rightarrow> environment \<Rightarrow> bytes option \<Rightarrow> ports" where
  "system_ports x env root = \<lparr>
     po_get = http_get env root, po_post_form = http_post_form env root, po_send = http_send env root,
     po_unix_seconds = unix_seconds env, po_authorize = loopback_authorize x env,
     po_verify = validate_id_token x \<rparr>"

section \<open>Fetching\<close>

definition fetch_json ::
  "ports \<Rightarrow> (bytes \<Rightarrow> 'a option) \<Rightarrow> url \<Rightarrow> nat \<Rightarrow> error_stage \<Rightarrow> 'a console_proc" where
  "fetch_json http from_slice u limit stage =
     pbind (pmap_err (at_stage stage) (po_get http u limit)) (\<lambda>response.
     if hp_status response \<noteq> 200 then plift (Inl (at_stage stage (app_error_transport ''upstream_rejected'' False)))
     else plift (ok_or (at_stage stage (app_error_untrusted ''malformed_json'')) (from_slice (hp_body response))))"

definition json_get :: "string \<Rightarrow> json \<Rightarrow> json option" where
  "json_get key value = (case value of JObject members \<Rightarrow> map_of members key | _ \<Rightarrow> None)"

definition verify_only :: "json \<Rightarrow> bool" where
  "verify_only key = (case json_get ''key_ops'' key of
     None \<Rightarrow> True
   | Some operations \<Rightarrow> operations = JArray [JString ''verify''])"

definition validate_jwks_key_operations :: "'z control_externals_scheme \<Rightarrow> bytes \<Rightarrow> (app_error, unit) result" where
  "validate_jwks_key_operations x body =
     (let malformed = at_stage StageJwks (app_error_untrusted ''malformed_json'') in
      rbind (ok_or malformed (json_from_slice x body)) (\<lambda>value.
      case json_get ''keys'' value of
        Some (JArray keys) \<Rightarrow> ensure (at_stage StageJwks (app_error_auth ''id_token_key_usage'')) (list_all verify_only keys)
      | _ \<Rightarrow> Inl malformed))"

definition fetch_jwks :: "'z control_externals_scheme \<Rightarrow> ports \<Rightarrow> url \<Rightarrow> jwks console_proc" where
  "fetch_jwks x http u =
     pbind (pmap_err (at_stage StageJwks) (po_get http u LOGIN_TIMEOUT)) (\<lambda>response.
     if hp_status response \<noteq> 200 then plift (Inl (at_stage StageJwks (app_error_transport ''upstream_rejected'' False)))
     else plift (rbind (validate_jwks_key_operations x (hp_body response)) (\<lambda>_.
       ok_or (at_stage StageJwks (app_error_untrusted ''malformed_json'')) (jwks_from_slice x (hp_body response)))))"

section \<open>Login\<close>

text \<open>\<open>timeout_at\<close>: whether the timer fires before the operation completes is the environment's choice,
  and it does fire when the operation waits for ever. An operation that is abandoned is given its
  longest trace.\<close>

definition within_login_deadline ::
  "environment \<Rightarrow> nat \<Rightarrow> error_stage \<Rightarrow> 'a waiting \<Rightarrow> 'a console_proc" where
  "within_login_deadline env deadline stage operation c = (case operation c of
     (c1, None) \<Rightarrow> (c1, Inl (at_stage stage (app_error_auth ''login_timeout'')))
   | (c1, Some r) \<Rightarrow>
       (c1, if en_timer_fires env deadline (cn_trace c1) then Inl (at_stage stage (app_error_auth ''login_timeout''))
            else map_err (at_stage stage) r))"

definition classify_token_response :: "u16 \<Rightarrow> (app_error, unit) result" where
  "classify_token_response status =
     (if status = 200 then Inr ()
      else if status \<in> {400, 401, 403}
      then Inl (at_stage StageTokenExchange (app_error_auth ''token_exchange_rejected''))
      else if status = 429 \<or> (500 \<le> status \<and> status \<le> 599)
      then Inl (at_stage StageTokenExchange (app_error_transport ''token_upstream_rejected'' True))
      else Inl (at_stage StageTokenExchange (app_error_untrusted ''token_status_unknown'')))"

definition authorize_url ::
  "'z control_externals_scheme \<Rightarrow> auth_args \<Rightarrow> url \<Rightarrow> string \<Rightarrow> string \<Rightarrow> string \<Rightarrow> url" where
  "authorize_url x auth endpoint state nonce challenge = url_append_pairs x
     [(''response_type'', ''code''), (''client_id'', au_client_id auth),
      (''redirect_uri'', url_as_str x (au_redirect_uri auth)), (''scope'', ''openid''), (''state'', state),
      (''nonce'', nonce), (''code_challenge'', challenge), (''code_challenge_method'', ''S256'')] endpoint"

definition token_form ::
  "'z control_externals_scheme \<Rightarrow> auth_args \<Rightarrow> string \<Rightarrow> string \<Rightarrow> (string \<times> string) list" where
  "token_form x auth code pkce_verifier =
     [(''grant_type'', ''authorization_code''), (''code'', code),
      (''redirect_uri'', url_as_str x (au_redirect_uri auth)), (''client_id'', au_client_id auth),
      (''code_verifier'', pkce_verifier)]"

text \<open>The endpoints of a discovery document, each parsed and then each required to be secure.\<close>

definition discovered_endpoints ::
  "'z control_externals_scheme \<Rightarrow> auth_args \<Rightarrow> discovery \<Rightarrow> (app_error, url \<times> url \<times> url) result" where
  "discovered_endpoints x auth document =
     (let invalid = at_stage StageDiscovery (app_error_untrusted ''invalid_discovery'') in
      if ds_issuer document \<noteq> url_as_str x (au_issuer auth)
      then Inl (at_stage StageDiscovery (app_error_auth ''issuer_mismatch''))
      else
        rbind (ok_or invalid (url_parse x (ds_authorization_endpoint document))) (\<lambda>authorization_endpoint.
        rbind (ok_or invalid (url_parse x (ds_token_endpoint document))) (\<lambda>token_endpoint.
        rbind (ok_or invalid (url_parse x (ds_jwks_uri document))) (\<lambda>jwks_uri.
        rbind (secure_remote_url authorization_endpoint False) (\<lambda>_.
        rbind (secure_remote_url token_endpoint False) (\<lambda>_.
        rbind (secure_remote_url jwks_uri False) (\<lambda>_.
        Inr (authorization_endpoint, token_endpoint, jwks_uri))))))))"

definition check_login_addresses :: "auth_args \<Rightarrow> (app_error, unit) result" where
  "check_login_addresses auth =
     rbind (secure_remote_url (au_issuer auth) False) (\<lambda>_.
     rbind (secure_remote_url (au_redirect_uri auth) True) (\<lambda>_.
     rbind (ensure (app_error_input ''invalid_redirect'') (ur_host_str (au_redirect_uri auth) \<noteq> None)) (\<lambda>_.
     ensure (app_error_input ''redirect_not_loopback'') (loopback_host (au_redirect_uri auth)))))"

definition exchange_code ::
  "'z control_externals_scheme \<Rightarrow> environment \<Rightarrow> auth_args \<Rightarrow> ports \<Rightarrow> nat \<Rightarrow> url \<Rightarrow> string \<Rightarrow> string
     \<Rightarrow> token_wire console_proc" where
  "exchange_code x env auth po deadline token_endpoint code pkce_verifier =
     pbind (within_login_deadline env deadline StageTokenExchange
       (awaited (po_post_form po token_endpoint (token_form x auth code pkce_verifier) LOGIN_TIMEOUT))) (\<lambda>response.
     plift (rbind (classify_token_response (hp_status response)) (\<lambda>_.
       ok_or (at_stage StageTokenExchange (app_error_untrusted ''malformed_json'')) (token_from_slice x (hp_body response)))))"

text \<open>The second half of \<open>authenticate_inner\<close>, with the endpoints.\<close>

definition complete_login ::
  "'z control_externals_scheme \<Rightarrow> environment \<Rightarrow> auth_args \<Rightarrow> ports \<Rightarrow> nat \<Rightarrow> url \<times> url \<times> url \<Rightarrow> token_set console_proc" where
  "complete_login x env auth po deadline endpoints =
     (let (authorization_endpoint, token_endpoint, jwks_uri) = endpoints in
     pbind (draw_uuid env) (\<lambda>state_id.
     pbind (draw_uuid env) (\<lambda>nonce_id.
     pbind (draw_pkce env) (\<lambda>pkce.
     let state = uuid_hyphenated x state_id; nonce = uuid_hyphenated x nonce_id in
     pbind (within_login_deadline env deadline StageCallback
       (po_authorize po (au_redirect_uri auth) state
          (authorize_url x auth authorization_endpoint state nonce (fst pkce)))) (\<lambda>code.
     pbind (exchange_code x env auth po deadline token_endpoint code (snd pkce)) (\<lambda>token.
     pbind (within_login_deadline env deadline StageJwks (awaited (fetch_jwks x po jwks_uri))) (\<lambda>keys.
     pbind (po_unix_seconds po) (\<lambda>now.
     pbind (plift (po_verify po (tw_id_token token) keys auth nonce now)) (\<lambda>_.
     preturn \<lparr> ts_access_token = tw_access_token token \<rparr>)))))))))"

definition authenticate_inner ::
  "'z control_externals_scheme \<Rightarrow> environment \<Rightarrow> auth_args \<Rightarrow> ports \<Rightarrow> nat \<Rightarrow> token_set console_proc" where
  "authenticate_inner x env auth po deadline =
     pbind (plift (check_login_addresses auth)) (\<lambda>_.
     pbind (plift (discovery_url x (au_issuer auth))) (\<lambda>well_known.
     pbind (within_login_deadline env deadline StageDiscovery
       (awaited (fetch_json po (discovery_from_slice x) well_known LOGIN_TIMEOUT StageDiscovery))) (\<lambda>document.
     pbind (plift (discovered_endpoints x auth document)) (complete_login x env auth po deadline))))"

definition authenticate_with_limit ::
  "'z control_externals_scheme \<Rightarrow> environment \<Rightarrow> auth_args \<Rightarrow> ports \<Rightarrow> nat \<Rightarrow> token_set console_proc" where
  "authenticate_with_limit x env auth po limit c =
     authenticate_inner x env auth po (en_instant env (cn_trace c) + limit) c"

definition authenticate ::
  "'z control_externals_scheme \<Rightarrow> environment \<Rightarrow> auth_args \<Rightarrow> ports \<Rightarrow> token_set console_proc" where
  "authenticate x env auth po = authenticate_with_limit x env auth po LOGIN_TIMEOUT"

definition login :: "'z control_externals_scheme \<Rightarrow> environment \<Rightarrow> auth_args \<Rightarrow> token_set console_proc" where
  "login x env auth =
     pbind (reqwest_port_new x (au_ca_certificate auth)) (\<lambda>root. authenticate x env auth (system_ports x env root))"

section \<open>Requests to the service\<close>

text \<open>The text of a UUID is always a valid header value, so the two \<open>expect\<close>s of the source hold.\<close>

definition send_api ::
  "'z control_externals_scheme \<Rightarrow> url \<Rightarrow> prepared_request \<Rightarrow> token_set \<Rightarrow> string \<Rightarrow> uuid \<Rightarrow> uuid \<Rightarrow> ports
     \<Rightarrow> http_reply console_proc" where
  "send_api x base prepared token tenant request_id correlation_id http =
     pbind (plift (ok_or (app_error_input ''invalid_rss_url'') (url_join x base (pr_path prepared)))) (\<lambda>u.
     pbind (plift (ensure (app_error_untrusted ''invalid_operation'') (method_ok x (pr_method prepared)))) (\<lambda>_.
     let bearer = ''Bearer '' @ ts_access_token token in
     pbind (plift (ensure (app_error_auth ''token_invalid'') (header_value_ok x bearer))) (\<lambda>_.
     pbind (plift (ensure (app_error_input ''invalid_tenant'') (header_value_ok x tenant))) (\<lambda>_.
     pmap_err (at_stage StageApi) (po_send http (pr_method prepared) u
       [(''authorization'', bearer), (''x-tenant-id'', tenant), (''x-request-id'', uuid_hyphenated x request_id),
        (''x-correlation-id'', uuid_hyphenated x correlation_id)] (pr_body prepared) API_TIMEOUT)))))"

definition accepted_json ::
  "'z externals_scheme \<Rightarrow> uuid \<Rightarrow> uuid \<Rightarrow> policy_accepted_projection \<Rightarrow> json" where
  "accepted_json x request_id correlation_id value = JObject
     [(''schemaVersion'', JString ''1''), (''operation'', JString ''rotate''), (''outcome'', JString ''accepted''),
      (''requestId'', JString (uuid_hyphenated x request_id)),
      (''correlationId'', JString (uuid_hyphenated x correlation_id)),
      (''authorizationReceiptId'', JString (uuid_hyphenated x (pa_receipt_id value))),
      (''acceptedGeneration'', JNumber (uint (pa_generation value))),
      (''condition'', JString (policy_condition_as_str (pa_condition value)))]"

definition rotate_with_ports ::
  "'z control_externals_scheme \<Rightarrow> environment \<Rightarrow> rotate_args \<Rightarrow> ports \<Rightarrow> json console_proc" where
  "rotate_with_ports x env args po =
     pbind (plift (validate_rss_base_url (ro_rss_base_url args))) (\<lambda>_.
     pbind (read_policy x (ro_input args)) (\<lambda>policy.
     pbind (authenticate x env (ro_auth args) po) (\<lambda>token.
     pbind (draw_uuid env) (\<lambda>request_id.
     pbind (draw_uuid env) (\<lambda>correlation_id.
     pbind (case ro_idempotency_key args of Some key \<Rightarrow> preturn key | None \<Rightarrow> draw_uuid env) (\<lambda>idempotency_key.
     pbind (plift (map_err (\<lambda>_. app_error_input ''invalid_policy'')
       (prepare_policy_put x (ro_device_id args) (ro_expected_generation args) idempotency_key policy))) (\<lambda>prepared.
     pbind (send_api x (ro_rss_base_url args) prepared token (au_tenant_id (ro_auth args)) request_id correlation_id po) (\<lambda>response.
     plift (case decode_policy_response x (hp_status response) (hp_body response) of
              PolicyAccepted value \<Rightarrow> Inr (accepted_json x request_id correlation_id value)
            | PolicyRejectedWith d \<Rightarrow> Inl (from_diagnostic d))))))))))"

definition rotate_main :: "'z control_externals_scheme \<Rightarrow> environment \<Rightarrow> rotate_args \<Rightarrow> json console_proc" where
  "rotate_main x env args =
     pbind (reqwest_port_new x (au_ca_certificate (ro_auth args))) (\<lambda>root.
     rotate_with_ports x env args (system_ports x env root))"

definition option_json :: "('a \<Rightarrow> json) \<Rightarrow> 'a option \<Rightarrow> json" where
  "option_json f v = (case v of None \<Rightarrow> JNull | Some a \<Rightarrow> f a)"

definition status_json :: "'z externals_scheme \<Rightarrow> uuid \<Rightarrow> uuid \<Rightarrow> status_projection \<Rightarrow> json" where
  "status_json x request_id correlation_id value = JObject
     [(''schemaVersion'', JString ''1''), (''operation'', JString ''status''), (''outcome'', JString ''observed''),
      (''requestId'', JString (uuid_hyphenated x request_id)),
      (''correlationId'', JString (uuid_hyphenated x correlation_id)),
      (''desiredGeneration'', option_json (\<lambda>g. JNumber (uint g)) (sj_desired_generation value)),
      (''authorizationReceiptId'', option_json (\<lambda>u. JString (uuid_hyphenated x u)) (sj_authorization_receipt_id value)),
      (''observedGeneration'', JNumber (uint (sj_observed_generation value))),
      (''activeCommand'', option_json (\<lambda>item. JObject [(''fenceEpoch'', JNumber (uint (aj_fence_epoch item))),
          (''state'', JString (active_command_state_as_str (aj_state item)))]) (sj_active_command value)),
      (''conditions'', JArray (map (\<lambda>item. JObject
          [(''observedGeneration'', JNumber (uint (cj_observed_generation item))),
           (''reason'', JString (condition_reason_as_str (cj_reason item))),
           (''status'', JString (condition_status_as_str (cj_status item))),
           (''type'', JString (condition_type_as_str (cj_type item))),
           (''lastTransitionAt'', JNumber (cj_last_transition_at item))]) (sj_conditions value)))]"

definition status_with_ports ::
  "'z control_externals_scheme \<Rightarrow> environment \<Rightarrow> status_args \<Rightarrow> ports \<Rightarrow> json console_proc" where
  "status_with_ports x env args po =
     pbind (plift (validate_rss_base_url (sa_rss_base_url args))) (\<lambda>_.
     pbind (authenticate x env (sa_auth args) po) (\<lambda>token.
     pbind (draw_uuid env) (\<lambda>request_id.
     pbind (draw_uuid env) (\<lambda>correlation_id.
     pbind (send_api x (sa_rss_base_url args) (prepare_status_get x (sa_device_id args)) token
       (au_tenant_id (sa_auth args)) request_id correlation_id po) (\<lambda>response.
     plift (case decode_status_response x (hp_status response) (hp_body response) of
              Observed value \<Rightarrow> Inr (status_json x request_id correlation_id value)
            | StatusRejected d \<Rightarrow> Inl (from_diagnostic d)))))))"

definition status_main :: "'z control_externals_scheme \<Rightarrow> environment \<Rightarrow> status_args \<Rightarrow> json console_proc" where
  "status_main x env args =
     pbind (reqwest_port_new x (au_ca_certificate (sa_auth args))) (\<lambda>root.
     status_with_ports x env args (system_ports x env root))"

section \<open>Audit\<close>

definition read_audit_input :: "environment \<Rightarrow> string \<Rightarrow> bytes console_proc" where
  "read_audit_input env input =
     (if input = ''-''
      then plift (map_ok (take (MAX_RESPONSE_BYTES + 1)) (ok_or (app_error_input ''input_unreadable'') (en_stdin env)))
      else read_input input)"

definition rotate_record_valid :: "rotate_record \<Rightarrow> bool" where
  "rotate_record_valid r \<longleftrightarrow> rd_schema_version r = ''1'' \<and> rd_operation r = ''rotate'' \<and> rd_outcome r = ''accepted''
     \<and> rd_accepted_generation r \<noteq> 0 \<and> rd_condition r \<in> {''Reconciling'', ''PendingDevice''}"

definition audit_json :: "'z externals_scheme \<Rightarrow> rotate_record \<Rightarrow> json" where
  "audit_json x r = JObject
     [(''schemaVersion'', JString ''1''), (''operation'', JString ''audit''), (''outcome'', JString ''validated''),
      (''requestId'', JString (uuid_hyphenated x (rd_request_id r))),
      (''correlationId'', JString (uuid_hyphenated x (rd_correlation_id r))),
      (''authorizationReceiptId'', JString (uuid_hyphenated x (rd_authorization_receipt_id r))),
      (''acceptedGeneration'', JNumber (uint (rd_accepted_generation r))), (''durableAuditQueried'', JBool False)]"

definition audit :: "'z control_externals_scheme \<Rightarrow> environment \<Rightarrow> string \<Rightarrow> json console_proc" where
  "audit x env input =
     pbind (read_audit_input env input) (\<lambda>bytes.
     if length bytes > MAX_RESPONSE_BYTES then plift (Inl (app_error_input ''input_oversize''))
     else plift (rbind (ok_or (app_error_input ''invalid_rotate_record'') (rotate_record_from_slice x bytes)) (\<lambda>r.
       if rotate_record_valid r then Inr (audit_json x r) else Inl (app_error_input ''invalid_rotate_record''))))"

section \<open>The program\<close>

definition policy_json :: "rotation_policy \<Rightarrow> json" where
  "policy_json policy = JObject
     [(''schemaVersion'', JString ''1''), (''operation'', JString ''policy.check''), (''outcome'', JString ''valid''),
      (''validitySeconds'', JNumber (uint (rp_validity_seconds policy))),
      (''renewBeforeSeconds'', JNumber (uint (rp_renew_before_seconds policy))),
      (''keyUsageCount'', JNumber (int (length (rp_key_usages policy)))),
      (''sanCount'', JNumber (int (length (rp_sans policy))))]"

definition run_command ::
  "'z control_externals_scheme \<Rightarrow> environment \<Rightarrow> control_command \<Rightarrow> json console_proc" where
  "run_command x env command = (case command of
     LoginCommand auth \<Rightarrow> pbind (login x env auth) (\<lambda>_. preturn (JObject
       [(''schemaVersion'', JString ''1''), (''operation'', JString ''login''), (''outcome'', JString ''authenticated''),
        (''tokenPersisted'', JBool False)]))
   | PolicyCheckCommand input \<Rightarrow> pbind (read_policy x input) (\<lambda>policy. preturn (policy_json policy))
   | RotateCommand args \<Rightarrow> rotate_main x env args
   | StatusCommand args \<Rightarrow> status_main x env args
   | AuditCommand input \<Rightarrow> audit x env input)"

text \<open>The outcome of \<open>Cli::try_parse\<close>, and of building the runtime.\<close>

datatype cli_outcome =
    CliParsed control_command
  | CliHelp string
  | CliVersion string
  | CliRefused bool      \<comment> \<open>whether the error goes to the standard error\<close>

definition main_entry ::
  "'z control_externals_scheme \<Rightarrow> environment \<Rightarrow> cli_outcome \<Rightarrow> bool \<Rightarrow> console \<Rightarrow> console \<times> json \<times> int" where
  "main_entry x env cli runtime_built c = (case cli of
     CliHelp t \<Rightarrow> (c, JObject [(''schemaVersion'', JString ''1''), (''operation'', JString ''help''),
         (''outcome'', JString ''success''), (''text'', JString t)], 0)
   | CliVersion t \<Rightarrow> (c, JObject [(''schemaVersion'', JString ''1''), (''operation'', JString ''version''),
         (''outcome'', JString ''success''), (''text'', JString t)], 0)
   | CliRefused use_stderr \<Rightarrow>
       (c, app_error_render (app_error_input (if use_stderr then ''invalid_cli'' else ''cli_help'')), 2)
   | CliParsed command \<Rightarrow>
       if \<not> runtime_built
       then (c, app_error_render (at_stage StageRuntime (app_error_transport ''runtime_unavailable'' False)), 5)
       else (case run_command x env command c of
               (c1, Inr output) \<Rightarrow> (c1, output, 0)
             | (c1, Inl e) \<Rightarrow> (c1, app_error_render e, exit_code e)))"

end
