(* ===== verification/Control_Facts.thy ===== *)
theory Control_Facts
  imports Control
begin

text \<open>
  What the operator's command line does on the network: every request goes over TLS, the access token
  only to the configured service, and a login succeeds only by a run of the whole protocol. The
  facts about login are proved for any HTTP port that sends what it is asked to send.
\<close>

section \<open>Requests\<close>

fun request_of :: "effect \<Rightarrow> http_request list" where
  "request_of (Sent q) = [q]"
| "request_of _ = []"

definition sent :: "console \<Rightarrow> http_request list" where
  "sent c = concat (map request_of (cn_trace c))"

definition get_request :: "url \<Rightarrow> http_request" where
  "get_request u = \<lparr> hq_method = ''GET'', hq_url = u, hq_headers = [], hq_body = NoBody \<rparr>"

definition form_request :: "url \<Rightarrow> (string \<times> string) list \<Rightarrow> http_request" where
  "form_request u form = \<lparr> hq_method = ''POST'', hq_url = u, hq_headers = [], hq_body = FormBody form \<rparr>"

definition carries_token :: "http_request \<Rightarrow> bool" where
  "carries_token q \<longleftrightarrow> ''authorization'' \<in> fst ` set (hq_headers q)"

definition same_origin :: "url \<Rightarrow> url \<Rightarrow> bool" where
  "same_origin u v \<longleftrightarrow> ur_scheme u = ur_scheme v \<and> ur_host_str u = ur_host_str v
     \<and> ur_port_or_known_default u = ur_port_or_known_default v"

text \<open>Documented behaviour of the \<^verbatim>\<open>url\<close> crate: a path, set or joined, changes neither scheme nor host
  nor port. A reference of unreserved characters and slashes that does not begin with two is a path.\<close>

definition path_char :: "char \<Rightarrow> bool" where
  "path_char c \<longleftrightarrow> (let n = (of_char c :: nat) in
     (48 \<le> n \<and> n \<le> 57) \<or> (65 \<le> n \<and> n \<le> 90) \<or> (97 \<le> n \<and> n \<le> 122) \<or> c \<in> set ''-._~/'')"

definition path_reference :: "string \<Rightarrow> bool" where
  "path_reference r \<longleftrightarrow> list_all path_char r \<and> \<not> prefix ''//'' r"

definition url_contract :: "'z url_externals_scheme \<Rightarrow> bool" where
  "url_contract x \<longleftrightarrow>
     (\<forall>base r u. path_reference r \<and> url_join x base r = Some u \<longrightarrow> same_origin u base)
     \<and> (\<forall>p u. same_origin (url_set_path x p u) u)"

text \<open>The paths of the published contract, with a device filled in, are paths.\<close>

definition contract_paths :: "'z contract_externals_scheme \<Rightarrow> bool" where
  "contract_paths x \<longleftrightarrow> (\<forall>d. path_reference (bind_device_path x (policy_put_path x) d)
     \<and> path_reference (bind_device_path x (status_get_path x) d))"

section \<open>A calculus of requests\<close>

text \<open>Whatever the outcome, the requests that a step adds satisfy a predicate.\<close>

definition adds :: "(http_request \<Rightarrow> bool) \<Rightarrow> (console \<Rightarrow> console \<times> 'a) \<Rightarrow> bool" where
  "adds P p \<longleftrightarrow> (\<forall>c. \<exists>qs. sent (fst (p c)) = sent c @ qs \<and> list_all P qs)"

lemma addsI: "(\<And>c. sent (fst (p c)) = sent c @ f c \<and> list_all P (f c)) \<Longrightarrow> adds P p"
  unfolding adds_def by blast

lemma adds_mono: "adds P p \<Longrightarrow> (\<And>q. P q \<Longrightarrow> Q q) \<Longrightarrow> adds Q p"
  unfolding adds_def by (meson list.pred_mono_strong)

lemma adds_none: "(\<And>c. sent (fst (p c)) = sent c) \<Longrightarrow> adds P p"
  by (rule addsI [where f = "\<lambda>_. []"]) simp

lemma adds_pbind:
  assumes "adds P m" "\<And>a. adds P (f a)"
  shows "adds P (pbind m f)"
proof -
  have "\<exists>qs. sent (fst (pbind m f c)) = sent c @ qs \<and> list_all P qs" for c
  proof (cases "m c")
    case (Pair c1 r)
    obtain q1 where q1: "sent c1 = sent c @ q1" "list_all P q1" using assms(1) Pair unfolding adds_def by (metis fst_conv)
    show ?thesis
    proof (cases r)
      case (Inl e)
      with Pair q1 show ?thesis by (simp add: pbind_def)
    next
      case (Inr a)
      obtain q2 where "sent (fst (f a c1)) = sent c1 @ q2" "list_all P q2" using assms(2) unfolding adds_def by metis
      with Pair Inr q1 show ?thesis by (intro exI [of _ "q1 @ q2"]) (simp add: pbind_def)
    qed
  qed
  then show ?thesis by (simp add: adds_def)
qed

text \<open>The first step is known to have succeeded when the second is taken.\<close>

lemma adds_pbind_lift:
  assumes "\<And>a. r = Inr a \<Longrightarrow> adds P (f a)"
  shows "adds P (pbind (plift r) f)"
proof (cases r)
  case (Inl e)
  then show ?thesis by (intro adds_none) (simp add: pbind_def plift_def)
next
  case (Inr a)
  then have "pbind (plift r) f = f a" by (simp add: pbind_def plift_def fun_eq_iff)
  then show ?thesis using assms [OF Inr] by simp
qed

lemma adds_basic:
  "adds P (preturn a)" "adds P (plift r)" "adds P (draw_uuid env)" "adds P (draw_pkce env)" "adds P (read_input raw)"
  by (rule adds_none; simp add: preturn_def plift_def draw_uuid_def draw_pkce_def read_input_def emit_def sent_def Let_def
      split: prod.splits)+

lemma adds_pmap_err: "adds P m \<Longrightarrow> adds P (pmap_err g m)"
  by (simp add: adds_def pmap_err_def split: prod.splits) (metis fst_conv)

lemma adds_deadline: "adds P operation \<Longrightarrow> adds P (within_login_deadline env deadline stage operation)"
  by (simp add: adds_def within_login_deadline_def split: prod.splits option.splits) (metis fst_conv)

lemma adds_awaited: "adds P p \<Longrightarrow> adds P (awaited p)"
  by (simp add: adds_def awaited_def split: prod.splits) (metis fst_conv)

lemmas adds_intros = adds_pbind adds_basic adds_pmap_err adds_deadline adds_awaited

lemma adds_read_policy: "adds P (read_policy x raw)"
  unfolding read_policy_def by (intro adds_intros) (simp add: adds_basic)

lemma adds_port_new: "adds P (reqwest_port_new x ca)"
  unfolding reqwest_port_new_def by (auto intro!: adds_intros split: option.splits)

section \<open>Ports\<close>

definition plain_tls :: "http_request \<Rightarrow> bool" where
  "plain_tls q \<longleftrightarrow> ur_scheme (hq_url q) = ''https'' \<and> \<not> carries_token q"

lemma plain_tls_simps [simp]:
  "plain_tls (get_request u) \<longleftrightarrow> ur_scheme u = ''https''" "plain_tls (form_request u form) \<longleftrightarrow> ur_scheme u = ''https''"
  by (simp_all add: plain_tls_def get_request_def form_request_def carries_token_def)

text \<open>What a command may send: requests over TLS, with the token only to the service.\<close>

definition confined :: "url \<Rightarrow> http_request \<Rightarrow> bool" where
  "confined base q \<longleftrightarrow> ur_scheme (hq_url q) = ''https'' \<and> (carries_token q \<longrightarrow> same_origin (hq_url q) base)"

lemma plain_confined: "plain_tls q \<Longrightarrow> confined base q"
  by (simp add: plain_tls_def confined_def)

lemma discovery_url_Inr:
  assumes "url_contract x" "discovery_url x issuer = Inr u"
  shows "same_origin u issuer"
proof -
  have "path_reference ''.well-known/openid-configuration''" by code_simp
  with assms have "same_origin u (url_set_path x (trim_end_slashes (ur_path issuer) @ ''/'') issuer)"
    by (auto simp: discovery_url_def url_contract_def Let_def ok_or_def split: option.splits)
  moreover have "same_origin (url_set_path x (trim_end_slashes (ur_path issuer) @ ''/'') issuer) issuer"
    using assms(1) by (simp add: url_contract_def)
  ultimately show ?thesis by (simp add: same_origin_def)
qed

lemma discovered_endpoints_Inr:
  assumes "discovered_endpoints x auth document = Inr (a, t, j)"
  shows "ds_issuer document = url_as_str x (au_issuer auth)"
    "url_parse x (ds_authorization_endpoint document) = Some a" "url_parse x (ds_token_endpoint document) = Some t"
    "url_parse x (ds_jwks_uri document) = Some j"
    "ur_scheme a = ''https''" "ur_scheme t = ''https''" "ur_scheme j = ''https''"
  using assms by (auto simp: discovered_endpoints_def secure_remote_url_Inr Let_def split: if_splits)

text \<open>A port is faithful when its requests are the ones it is asked for, and opening the browser and
  waiting for the callback sends none.\<close>

locale faithful_ports =
  fixes po :: ports
  assumes get_sends: "sent (fst (po_get po u limit c)) = sent c @ [get_request u]"
    and post_sends: "sent (fst (po_post_form po u form limit c)) = sent c @ [form_request u form]"
    and send_sends: "\<exists>q. sent (fst (po_send po verb u headers body limit c)) = sent c @ [q] \<and> hq_url q = u"
    and clock_sends: "sent (fst (po_unix_seconds po c)) = sent c"
    and authorize_sends: "sent (fst (po_authorize po redirect state authorize c)) = sent c"
begin

lemma adds_get: "P (get_request u) \<Longrightarrow> adds P (po_get po u limit)"
  by (rule addsI) (use get_sends in auto)

lemma adds_post: "P (form_request u form) \<Longrightarrow> adds P (po_post_form po u form limit)"
  by (rule addsI) (use post_sends in auto)

lemma adds_quiet: "adds P (po_unix_seconds po)" "adds P (po_authorize po redirect state authorize)"
  by (rule adds_none, simp add: clock_sends authorize_sends)+

lemma adds_send:
  assumes "\<And>q. hq_url q = u \<Longrightarrow> P q"
  shows "adds P (po_send po verb u headers body limit)"
proof -
  have "\<exists>qs. sent (fst (po_send po verb u headers body limit c)) = sent c @ qs \<and> list_all P qs" for c
  proof -
    obtain q where "sent (fst (po_send po verb u headers body limit c)) = sent c @ [q]" "hq_url q = u"
      using send_sends [of verb u headers body limit c] by blast
    then show ?thesis using assms by (intro exI [of _ "[q]"]) simp
  qed
  then show ?thesis by (simp add: adds_def)
qed

lemma complete_login_plain:
  assumes "ur_scheme t = ''https''" "ur_scheme j = ''https''"
  shows "adds plain_tls (complete_login x env auth po deadline (a, t, j))"
proof -
  have "adds plain_tls (fetch_jwks x po j)"
    unfolding fetch_jwks_def using assms(2) by (intro adds_intros adds_get) (auto simp: adds_basic)
  moreover have "adds plain_tls (exchange_code x env auth po deadline t code v)" for code v
    unfolding exchange_code_def using assms(1) by (intro adds_intros adds_post) auto
  ultimately show ?thesis
    unfolding complete_login_def Let_def prod.case by (intro adds_intros adds_quiet)
qed

lemma login_plain:
  assumes "url_contract x"
  shows "adds plain_tls (authenticate_inner x env auth po deadline)"
  unfolding authenticate_inner_def
proof (intro adds_pbind_lift adds_pbind)
  fix u w assume a: "check_login_addresses auth = Inr u" and d: "discovery_url x (au_issuer auth) = Inr w"
  have "ur_scheme (au_issuer auth) = ''https''" using a by (auto simp: check_login_addresses_def secure_remote_url_Inr)
  then have "ur_scheme w = ''https''" using discovery_url_Inr [OF assms d] by (simp add: same_origin_def)
  then show "adds plain_tls (within_login_deadline env deadline StageDiscovery
       (awaited (fetch_json po (discovery_from_slice x) w LOGIN_TIMEOUT StageDiscovery)))"
    unfolding fetch_json_def by (intro adds_intros adds_get) (auto simp: adds_basic)
next
  fix document endpoints assume "discovered_endpoints x auth document = Inr endpoints"
  then show "adds plain_tls (complete_login x env auth po deadline endpoints)"
    by (cases endpoints) (auto intro: complete_login_plain dest: discovered_endpoints_Inr)
qed

lemma authenticate_plain: "url_contract x \<Longrightarrow> adds plain_tls (authenticate x env auth po)"
  unfolding authenticate_def authenticate_with_limit_def adds_def
  using login_plain [unfolded adds_def, rule_format] by blast

lemma send_api_confined:
  assumes "url_contract x" "path_reference (pr_path prepared)" "ur_scheme base = ''https''"
  shows "adds (confined base) (send_api x base prepared token tenant request_id correlation_id po)"
  unfolding send_api_def Let_def
proof (intro adds_pbind_lift adds_pmap_err adds_send)
  fix u and q :: http_request
  assume "ok_or (app_error_input ''invalid_rss_url'') (url_join x base (pr_path prepared)) = Inr u" "hq_url q = u"
  then have "same_origin (hq_url q) base" using assms by (auto simp: url_contract_def)
  then show "confined base q" using assms(3) by (simp add: confined_def same_origin_def)
qed

lemma rotate_confined:
  assumes "url_contract x" "contract_paths x"
  shows "adds (confined (ro_rss_base_url args)) (rotate_with_ports x env args po)"
  unfolding rotate_with_ports_def
proof (intro adds_pbind_lift adds_pbind adds_read_policy adds_basic)
  show "adds (confined (ro_rss_base_url args)) (authenticate x env (ro_auth args) po)"
    by (rule adds_mono [OF authenticate_plain [OF assms(1)] plain_confined])
  show "adds (confined (ro_rss_base_url args)) (case ro_idempotency_key args of Some key \<Rightarrow> preturn key | None \<Rightarrow> draw_uuid env)"
    by (cases "ro_idempotency_key args") (simp_all add: adds_basic)
next
  fix u key policy prepared token request_id correlation_id
  assume "validate_rss_base_url (ro_rss_base_url args) = Inr u"
    "map_err (\<lambda>_. app_error_input ''invalid_policy'')
       (prepare_policy_put x (ro_device_id args) (ro_expected_generation args) key policy) = Inr prepared"
  then have "ur_scheme (ro_rss_base_url args) = ''https''" "pr_path prepared = bind_device_path x (policy_put_path x) (ro_device_id args)"
    by (auto simp: validate_rss_base_url_Inr prepare_policy_put_def Let_def)
  then show "adds (confined (ro_rss_base_url args)) (send_api x (ro_rss_base_url args) prepared token
      (au_tenant_id (ro_auth args)) request_id correlation_id po)"
    using assms by (intro send_api_confined) (auto simp: contract_paths_def)
qed

lemma status_confined:
  assumes "url_contract x" "contract_paths x"
  shows "adds (confined (sa_rss_base_url args)) (status_with_ports x env args po)"
  unfolding status_with_ports_def
proof (intro adds_pbind_lift adds_pbind adds_basic)
  show "adds (confined (sa_rss_base_url args)) (authenticate x env (sa_auth args) po)"
    by (rule adds_mono [OF authenticate_plain [OF assms(1)] plain_confined])
next
  fix u token request_id correlation_id
  assume "validate_rss_base_url (sa_rss_base_url args) = Inr u"
  then have "ur_scheme (sa_rss_base_url args) = ''https''" by (simp add: validate_rss_base_url_Inr)
  then show "adds (confined (sa_rss_base_url args)) (send_api x (sa_rss_base_url args) (prepare_status_get x (sa_device_id args)) token
      (au_tenant_id (sa_auth args)) request_id correlation_id po)"
    using assms by (intro send_api_confined) (auto simp: contract_paths_def prepare_status_get_def)
qed

end

section \<open>The ports of the program\<close>

lemma system_ports_simps [simp]:
  "po_get (system_ports x env root) = http_get env root" "po_post_form (system_ports x env root) = http_post_form env root"
  "po_send (system_ports x env root) = http_send env root" "po_unix_seconds (system_ports x env root) = unix_seconds env"
  "po_authorize (system_ports x env root) = loopback_authorize x env" "po_verify (system_ports x env root) = validate_id_token x"
  by (simp_all add: system_ports_def)

lemma sent_emit [simp]: "sent (emit es c) = sent c @ concat (map request_of es)"
  by (simp add: sent_def emit_def)

lemma sent_execute [simp]: "sent (fst (execute env root q limit c)) = sent c @ [q]"
  by (simp add: execute_def Let_def)

lemma sent_authorize: "sent (fst (loopback_authorize x env redirect state authorize c)) = sent c"
  by (auto simp: loopback_authorize_def pbind_def listen_on_def browser_open_def o_def split: option.splits sum.splits prod.splits)

interpretation system: faithful_ports "system_ports x env root" for x :: "'z control_externals_scheme" and env root
proof unfold_locales
  show "\<exists>q. sent (fst (po_send (system_ports x env root) verb u headers body limit c)) = sent c @ [q] \<and> hq_url q = u"
    for verb u headers body limit c
    by (cases body) (simp_all add: http_send_def)
qed (simp_all add: http_get_def http_post_form_def unix_seconds_def get_request_def form_request_def sent_authorize)

text \<open>The service a command talks to.\<close>

definition command_base :: "control_command \<Rightarrow> url option" where
  "command_base command = (case command of RotateCommand args \<Rightarrow> Some (ro_rss_base_url args)
     | StatusCommand args \<Rightarrow> Some (sa_rss_base_url args) | _ \<Rightarrow> None)"

definition token_confined_to :: "url option \<Rightarrow> http_request \<Rightarrow> bool" where
  "token_confined_to base q \<longleftrightarrow> ur_scheme (hq_url q) = ''https''
     \<and> (carries_token q \<longrightarrow> (\<exists>b. base = Some b \<and> same_origin (hq_url q) b))"

lemma run_command_confined:
  assumes "url_contract x" "contract_paths x"
  shows "adds (token_confined_to (command_base command)) (run_command x env command)"
proof -
  have plain: "plain_tls q \<Longrightarrow> token_confined_to b q" for b q by (simp add: plain_tls_def token_confined_to_def)
  have conf: "confined b q \<Longrightarrow> token_confined_to (Some b) q" for b q by (simp add: confined_def token_confined_to_def)
  have login: "adds (token_confined_to b) (login x env auth)" for b auth
    unfolding login_def
    by (intro adds_pbind adds_port_new adds_mono [OF system.authenticate_plain [OF assms(1)]] plain)
  have rotate: "adds (token_confined_to (Some (ro_rss_base_url args))) (rotate_main x env args)" for args
    unfolding rotate_main_def
    by (intro adds_pbind adds_port_new adds_mono [OF system.rotate_confined [OF assms]] conf)
  have status: "adds (token_confined_to (Some (sa_rss_base_url args))) (status_main x env args)" for args
    unfolding status_main_def
    by (intro adds_pbind adds_port_new adds_mono [OF system.status_confined [OF assms]] conf)
  have aud: "adds P (audit x env input)" for P input
    unfolding audit_def read_audit_input_def by (auto intro!: adds_intros)
  show ?thesis
    by (cases command) (auto simp: run_command_def command_base_def rotate status aud intro!: adds_pbind adds_basic login adds_read_policy)
qed

section \<open>Bounded replies\<close>

lemma collect_chunks_bound:
  "collect_chunks bytes chunks = Inr b \<Longrightarrow> length bytes \<le> MAX_RESPONSE_BYTES \<Longrightarrow> length b \<le> MAX_RESPONSE_BYTES"
  by (induction bytes chunks rule: collect_chunks.induct)
    (auto simp: usize_saturating_add_def MAX_RESPONSE_BYTES_def split: if_splits)

lemma bounded_bytes_Inr: "bounded_bytes n chunks = Inr b \<Longrightarrow> length b \<le> MAX_RESPONSE_BYTES"
  using collect_chunks_bound [of "[]" chunks b] by (auto simp: bounded_bytes_def split: if_splits)

lemma execute_Inr:
  assumes "execute env root q limit c = (c1, Inr reply)"
  shows "c1 = emit [Sent q] c" "length (hp_body reply) \<le> MAX_RESPONSE_BYTES"
  using assms bounded_bytes_Inr
  by (auto simp: execute_def Let_def map_ok_def split: transmission.splits sum.splits)

section \<open>A login that succeeds\<close>

lemma within_login_deadline_Inr:
  "within_login_deadline env deadline stage operation c = (c1, Inr a) \<longleftrightarrow>
     operation c = (c1, Some (Inr a)) \<and> \<not> en_timer_fires env deadline (cn_trace c1)"
  by (auto simp: within_login_deadline_def split: prod.splits option.splits if_splits)

lemma awaited_Some: "awaited p c = (c1, Some r) \<longleftrightarrow> p c = (c1, r)"
  by (auto simp: awaited_def split: prod.splits)

lemma plift_Inr: "plift r c = (c1, Inr a) \<longleftrightarrow> c1 = c \<and> r = Inr a"
  by (auto simp: plift_def)

lemma emit_emit [simp]: "emit es (emit ds c) = emit (ds @ es) c"
  by (simp add: emit_def)

lemma cn_trace_emit [simp]: "cn_trace (emit es c) = cn_trace c @ es"
  by (simp add: emit_def)

lemma draws_Inr:
  "draw_uuid env c = (c1, Inr u) \<longleftrightarrow> c1 = emit [DrewUuid u] c \<and> u = en_uuid env (cn_trace c)"
  "draw_pkce env c = (c1, Inr p) \<longleftrightarrow> c1 = emit [DrewPkce (fst p) (snd p)] c \<and> p = en_pkce env (cn_trace c)"
  by (auto simp: draw_uuid_def draw_pkce_def Let_def)

lemma authorize_Inr:
  assumes "loopback_authorize x env redirect state authorize c = (c1, Some (Inr code))"
  shows "\<exists>host port pages request. ur_host_str redirect = Some host
    \<and> c1 = emit ([Listened host port, Opened authorize] @ map Served pages) c
    \<and> length request \<le> MAX_CALLBACK_BYTES \<and> callback_answers x redirect state request code"
proof -
  obtain host port where hp: "ur_host_str redirect = Some host" "ur_port_or_known_default redirect = Some port"
    using assms by (auto simp: loopback_authorize_def listen_on_def pbind_def split: option.splits)
  let ?c = "emit [Listened host port, Opened authorize] c"
  obtain pages where "receive_callback x redirect state (en_sockets env (cn_trace ?c)) = (pages, Some (Inr code))"
      "c1 = emit (map Served pages) ?c"
    using assms hp
    by (auto simp: loopback_authorize_def listen_on_def browser_open_def pbind_def ensure_def split: prod.splits if_splits)
  with receive_callback_code [OF this(1)] hp show ?thesis by auto
qed

lemma fetch_json_Inr:
  assumes "fetch_json (system_ports x env root) f u limit stage c = (c1, Inr v)"
  shows "c1 = emit [Sent (get_request u)] c"
  using assms execute_Inr(1)
  by (auto simp: fetch_json_def pbind_Inr  plift_Inr http_get_def get_request_def split: if_splits)

lemma fetch_jwks_Inr:
  assumes "fetch_jwks x (system_ports x env root) u c = (c1, Inr v)"
  shows "c1 = emit [Sent (get_request u)] c"
  using assms execute_Inr(1)
  by (auto simp: fetch_jwks_def pbind_Inr  plift_Inr http_get_def get_request_def split: if_splits)

lemma exchange_code_Inr:
  assumes "exchange_code x env auth (system_ports x env root) deadline u code v c = (c1, Inr tw)"
  shows "c1 = emit [Sent (form_request u (token_form x auth code v))] c"
  using assms execute_Inr(1)
  by (auto simp: exchange_code_def pbind_Inr within_login_deadline_Inr awaited_Some plift_Inr http_post_form_def form_request_def)

text \<open>The claims a login relies on.\<close>

definition claims_accepted :: "auth_args \<Rightarrow> id_claims \<Rightarrow> bool" where
  "claims_accepted auth claims \<longleftrightarrow> ic_tenant_id claims = au_tenant_id auth
     \<and> (case ic_authorized_party claims of
          None \<Rightarrow> length (ic_audiences claims) \<le> 1 | Some party \<Rightarrow> party = au_client_id auth)"

lemma validate_id_token_Inr:
  "validate_id_token x token keys auth nonce now = Inr () \<longleftrightarrow>
     (\<exists>seconds claims. i64_try_from_u64 now = Some seconds \<and> timestamp_ok x seconds
        \<and> issuer_url_ok x (url_as_str x (au_issuer auth))
        \<and> id_token_claims x (login_verifier x auth keys seconds) token nonce = Some claims \<and> claims_accepted auth claims)"
proof -
  have "(if length (ic_audiences claims) > 1 \<and> ic_authorized_party claims \<noteq> Some (au_client_id auth)
      then Inl (app_error_auth ''authorized_party_mismatch'')
      else if (case ic_authorized_party claims of Some party \<Rightarrow> party \<noteq> au_client_id auth | None \<Rightarrow> False)
      then Inl (app_error_auth ''authorized_party_mismatch'')
      else if ic_tenant_id claims \<noteq> au_tenant_id auth then Inl (app_error_auth ''tenant_mismatch'')
      else Inr ()) = Inr () \<longleftrightarrow> claims_accepted auth claims" for claims
    by (cases "ic_authorized_party claims") (auto simp: claims_accepted_def)
  then show ?thesis
    unfolding validate_id_token_def rbind_Inr ensure_Inr ok_or_Inr by (auto simp: bind_eq_Some_conv split: if_splits)
qed

lemma complete_login_sound:
  assumes "complete_login x env auth (system_ports x env root) deadline (a, t, j) c = (c', Inr token)"
  shows "\<exists>s n ch v host port pages request code (tw :: token_wire) keys seconds claims.
      c' = emit ([DrewUuid s, DrewUuid n, DrewPkce ch v, Listened host port,
             Opened (authorize_url x auth a (uuid_hyphenated x s) (uuid_hyphenated x n) ch)] @ map Served pages
             @ [Sent (form_request t (token_form x auth code v)), Sent (get_request j)]) c
    \<and> length request \<le> MAX_CALLBACK_BYTES \<and> callback_answers x (au_redirect_uri auth) (uuid_hyphenated x s) request code
    \<and> id_token_claims x (login_verifier x auth keys seconds) (tw_id_token tw) (uuid_hyphenated x n) = Some claims
    \<and> claims_accepted auth claims \<and> ts_access_token token = tw_access_token tw"
proof -
  let ?po = "system_ports x env root"
  obtain s n p c1 c2 c3 code c4 tw c5 keys now where
      c1: "c1 = emit [DrewUuid s, DrewUuid n, DrewPkce (fst p) (snd p)] c"
    and c2: "loopback_authorize x env (au_redirect_uri auth) (uuid_hyphenated x s)
        (authorize_url x auth a (uuid_hyphenated x s) (uuid_hyphenated x n) (fst p)) c1 = (c2, Some (Inr code))"
    and c3: "exchange_code x env auth ?po deadline t code (snd p) c2 = (c3, Inr tw)"
    and c4: "fetch_jwks x ?po j c3 = (c4, Inr keys)"
    and v: "validate_id_token x (tw_id_token tw) keys auth (uuid_hyphenated x n) now = Inr ()"
    and c5: "c' = c4" "ts_access_token token = tw_access_token tw"
    using assms
    by (auto simp: complete_login_def Let_def pbind_Inr draws_Inr within_login_deadline_Inr awaited_Some plift_Inr preturn_def
        unix_seconds_def)
  obtain host port pages request where auth: "c2 = emit ([Listened host port,
        Opened (authorize_url x auth a (uuid_hyphenated x s) (uuid_hyphenated x n) (fst p))] @ map Served pages) c1"
      "length request \<le> MAX_CALLBACK_BYTES" "callback_answers x (au_redirect_uri auth) (uuid_hyphenated x s) request code"
    using authorize_Inr [OF c2] by blast
  have "c' = emit ([DrewUuid s, DrewUuid n, DrewPkce (fst p) (snd p), Listened host port,
             Opened (authorize_url x auth a (uuid_hyphenated x s) (uuid_hyphenated x n) (fst p))] @ map Served pages
             @ [Sent (form_request t (token_form x auth code (snd p))), Sent (get_request j)]) c"
    using fetch_jwks_Inr [OF c4] c5(1) unfolding exchange_code_Inr [OF c3] auth(1) c1 by simp
  moreover obtain seconds claims where
      "id_token_claims x (login_verifier x auth keys seconds) (tw_id_token tw) (uuid_hyphenated x n) = Some claims"
      "claims_accepted auth claims"
    using v by (auto simp: validate_id_token_Inr)
  ultimately show ?thesis using auth(2,3) c5(2) by blast
qed

lemma login_sound:
  assumes "authenticate_inner x env auth (system_ports x env root) deadline c = (c', Inr token)"
  shows "\<exists>well_known document a t j s n ch v host port pages request code (tw :: token_wire) keys seconds claims.
      check_login_addresses auth = Inr () \<and> discovery_url x (au_issuer auth) = Inr well_known
    \<and> discovered_endpoints x auth document = Inr (a, t, j)
    \<and> c' = emit ([Sent (get_request well_known), DrewUuid s, DrewUuid n, DrewPkce ch v, Listened host port,
             Opened (authorize_url x auth a (uuid_hyphenated x s) (uuid_hyphenated x n) ch)] @ map Served pages
             @ [Sent (form_request t (token_form x auth code v)), Sent (get_request j)]) c
    \<and> length request \<le> MAX_CALLBACK_BYTES \<and> callback_answers x (au_redirect_uri auth) (uuid_hyphenated x s) request code
    \<and> id_token_claims x (login_verifier x auth keys seconds) (tw_id_token tw) (uuid_hyphenated x n) = Some claims
    \<and> claims_accepted auth claims \<and> ts_access_token token = tw_access_token tw"
proof -
  obtain well_known document a t j c1 where
      pre: "check_login_addresses auth = Inr ()" "discovery_url x (au_issuer auth) = Inr well_known"
        "discovered_endpoints x auth document = Inr (a, t, j)"
    and f: "fetch_json (system_ports x env root) (discovery_from_slice x) well_known LOGIN_TIMEOUT StageDiscovery c = (c1, Inr document)"
    and l: "complete_login x env auth (system_ports x env root) deadline (a, t, j) c1 = (c', Inr token)"
    using assms
    by (auto simp: authenticate_inner_def pbind_Inr within_login_deadline_Inr awaited_Some plift_Inr)
  have c1: "c1 = emit [Sent (get_request well_known)] c" by (rule fetch_json_Inr [OF f])
  from complete_login_sound [OF l] show ?thesis using pre unfolding c1 emit_emit append.simps by blast
qed

text \<open>When nobody answers the listener, the deadline ends the login.\<close>

lemma unanswered_login_times_out:
  assumes "operation c = (c1, None)"
  shows "within_login_deadline env deadline stage operation c = (c1, Inl (at_stage stage (app_error_auth ''login_timeout'')))"
  using assms by (simp add: within_login_deadline_def)

section \<open>What rotate prints, audit accepts\<close>

text \<open>The object that \<open>RotateRecord\<close> is read from: its fields under their camel-case names.\<close>

definition rotate_record_json :: "'z externals_scheme \<Rightarrow> rotate_record \<Rightarrow> json" where
  "rotate_record_json x r = JObject
     [(''schemaVersion'', JString (rd_schema_version r)), (''operation'', JString (rd_operation r)),
      (''outcome'', JString (rd_outcome r)), (''requestId'', JString (uuid_hyphenated x (rd_request_id r))),
      (''correlationId'', JString (uuid_hyphenated x (rd_correlation_id r))),
      (''authorizationReceiptId'', JString (uuid_hyphenated x (rd_authorization_receipt_id r))),
      (''acceptedGeneration'', JNumber (uint (rd_accepted_generation r))), (''condition'', JString (rd_condition r))]"

text \<open>\<open>println!\<close> of a value, as the next program in a pipe reads it.\<close>

definition printed :: "(json \<Rightarrow> bytes) \<Rightarrow> json \<Rightarrow> bytes" where
  "printed display v = display v @ [CHR 0x0A]"

definition record_codec :: "'z control_externals_scheme \<Rightarrow> (json \<Rightarrow> bytes) \<Rightarrow> rotate_record \<Rightarrow> bool" where
  "record_codec x display r \<longleftrightarrow> rotate_record_from_slice x (printed display (rotate_record_json x r)) = Some r"

text \<open>The generation of a policy response is a \<open>NonZeroU64\<close>.\<close>

definition generations_positive :: "'z contract_externals_scheme \<Rightarrow> bool" where
  "generations_positive x \<longleftrightarrow> (\<forall>b v. policy_response_from_slice x b = Some v \<longrightarrow> ds_accepted_generation v \<noteq> 0)"

lemma accepted_generation_positive:
  assumes "decode_policy_response x st body = PolicyAccepted v" "generations_positive x"
  shows "pa_generation v \<noteq> 0"
  using assms by (auto simp: decode_policy_response_def generations_positive_def Let_def split: if_splits option.splits prod.splits)

lemma rotate_output:
  assumes "rotate_main x env args c = (c1, Inr output)" "generations_positive x"
  shows "\<exists>r. output = rotate_record_json x r \<and> rotate_record_valid r"
proof -
  obtain request_id correlation_id v st body where out: "output = accepted_json x request_id correlation_id v"
      and dec: "decode_policy_response x st body = PolicyAccepted v"
  proof -
    obtain request_id correlation_id and reply :: http_reply where "(case decode_policy_response x (hp_status reply) (hp_body reply) of
        PolicyAccepted value \<Rightarrow> Inr (accepted_json x request_id correlation_id value)
      | PolicyRejectedWith d \<Rightarrow> Inl (from_diagnostic d)) = Inr output"
      using assms(1) by (simp add: rotate_main_def rotate_with_ports_def pbind_Inr plift_Inr) blast
    then show thesis using that by (cases "decode_policy_response x (hp_status reply) (hp_body reply)") auto
  qed
  let ?r = "\<lparr> rd_schema_version = ''1'', rd_operation = ''rotate'', rd_outcome = ''accepted'', rd_request_id = request_id,
     rd_correlation_id = correlation_id, rd_authorization_receipt_id = pa_receipt_id v,
     rd_accepted_generation = pa_generation v, rd_condition = policy_condition_as_str (pa_condition v) \<rparr>"
  have "output = rotate_record_json x ?r" by (simp add: out accepted_json_def rotate_record_json_def)
  moreover have "rotate_record_valid ?r"
    using accepted_generation_positive [OF dec assms(2)]
    by (simp add: rotate_record_valid_def policy_condition_as_str_def split: policy_condition.splits)
  ultimately show ?thesis by blast
qed

lemma audit_printed:
  assumes "record_codec x display r" "rotate_record_valid r" "en_stdin env = Some (printed display (rotate_record_json x r))"
    and "length (printed display (rotate_record_json x r)) \<le> MAX_RESPONSE_BYTES"
  shows "audit x env ''-'' c = (c, Inr (audit_json x r))"
  using assms by (simp add: audit_def read_audit_input_def pbind_def plift_def map_ok_def record_codec_def)

section \<open>The process\<close>

lemma main_entry_exit:
  "main_entry x env (CliParsed command) True c = (c1, out, code) \<Longrightarrow>
     (code = 0 \<longleftrightarrow> is_ok (snd (run_command x env command c))) \<and> code \<in> {0, 2, 3, 4, 5, 6}"
  by (auto simp: main_entry_def is_ok_def exit_code_def split: sum.splits prod.splits error_class.splits)

end
