(* ===== verification/Control_Secrecy.thy ===== *)
theory Control_Secrecy
  imports Control_Facts
begin

text \<open>
  Secrecy of the access token and of the PKCE verifier, as noninterference. Two environments that
  differ only in these secrets cannot be told apart by what a command prints, by its exit code, or by
  anything it does except the values of the \<^verbatim>\<open>authorization\<close> header and the \<^verbatim>\<open>code_verifier\<close> field, which
  are sent where the protocol wants them (see \<open>Control_Facts\<close>).
\<close>

section \<open>The public view\<close>

definition mask_field :: "string \<Rightarrow> string \<times> string \<Rightarrow> string \<times> string" where
  "mask_field secret field = (fst field, if fst field = secret then [] else snd field)"

definition mask_body :: "request_body \<Rightarrow> request_body" where
  "mask_body b = (case b of FormBody form \<Rightarrow> FormBody (map (mask_field ''code_verifier'') form) | _ \<Rightarrow> b)"

definition mask_request :: "http_request \<Rightarrow> http_request" where
  "mask_request q = q\<lparr> hq_headers := map (mask_field ''authorization'') (hq_headers q), hq_body := mask_body (hq_body q) \<rparr>"

fun mask_effect :: "effect \<Rightarrow> effect" where
  "mask_effect (Sent q) = Sent (mask_request q)"
| "mask_effect (DrewPkce challenge verifier) = DrewPkce challenge []"
| "mask_effect e = e"

definition public_view :: "console \<Rightarrow> console" where
  "public_view c = c\<lparr> cn_trace := map mask_effect (cn_trace c) \<rparr>"

text \<open>Two answers of a token endpoint that differ in the access token only. Whether a token can be
  sent in a header at all is visible: the program refuses one that cannot.\<close>

definition sendable :: "'z control_externals_scheme \<Rightarrow> string \<Rightarrow> bool" where
  "sendable x token = header_value_ok x (''Bearer '' @ token)"

definition tokens_alike :: "'z control_externals_scheme \<Rightarrow> token_wire \<Rightarrow> token_wire \<Rightarrow> bool" where
  "tokens_alike x v w \<longleftrightarrow> tw_id_token v = tw_id_token w \<and> (sendable x (tw_access_token v) \<longleftrightarrow> sendable x (tw_access_token w))"

definition bodies_alike :: "'z control_externals_scheme \<Rightarrow> bytes \<Rightarrow> bytes \<Rightarrow> bool" where
  "bodies_alike x a b \<longleftrightarrow> rel_option (tokens_alike x) (token_from_slice x a) (token_from_slice x b)"

definition replies_alike :: "'z control_externals_scheme \<Rightarrow> request_body \<Rightarrow> transmission \<Rightarrow> transmission \<Rightarrow> bool" where
  "replies_alike x body r s \<longleftrightarrow> r = s \<or> (case (body, r, s) of
     (FormBody _, Responds status m cs, Responds status' n ds) \<Rightarrow> status = status'
       \<and> rel_sum (=) (bodies_alike x) (bounded_bytes m cs) (bounded_bytes n ds)
   | _ \<Rightarrow> False)"

text \<open>Environments that answer alike whenever the public part of what was done is the same.\<close>

definition environments_alike :: "'z control_externals_scheme \<Rightarrow> environment \<Rightarrow> environment \<Rightarrow> bool" where
  "environments_alike x e d \<longleftrightarrow> en_stdin e = en_stdin d \<and> (\<forall>s t. map mask_effect s = map mask_effect t \<longrightarrow>
     (\<forall>root limit p q. mask_request p = mask_request q \<longrightarrow>
        replies_alike x (hq_body p) (en_transmit e root limit s p) (en_transmit d root limit t q))
     \<and> en_browser e s = en_browser d t \<and> en_listen e s = en_listen d t \<and> en_sockets e s = en_sockets d t
     \<and> en_uuid e s = en_uuid d t \<and> fst (en_pkce e s) = fst (en_pkce d t) \<and> en_unix_seconds e s = en_unix_seconds d t
     \<and> en_instant e s = en_instant d t \<and> (\<forall>deadline. en_timer_fires e deadline s = en_timer_fires d deadline t))"

lemma environments_alikeD:
  assumes "environments_alike x e d" "map mask_effect s = map mask_effect t"
  shows "mask_request p = mask_request q \<Longrightarrow>
      replies_alike x (hq_body p) (en_transmit e root limit s p) (en_transmit d root limit t q)"
    and "en_browser e s = en_browser d t" "en_listen e s = en_listen d t" "en_sockets e s = en_sockets d t"
    and "en_uuid e s = en_uuid d t" "fst (en_pkce e s) = fst (en_pkce d t)" "en_unix_seconds e s = en_unix_seconds d t"
    and "en_instant e s = en_instant d t" "en_timer_fires e deadline s = en_timer_fires d deadline t"
  using assms unfolding environments_alike_def by blast+

lemma public_viewD:
  assumes "public_view c = public_view d"
  shows "map mask_effect (cn_trace c) = map mask_effect (cn_trace d)" "cn_world c = cn_world d" "cn_directory c = cn_directory d"
  using assms by (cases c; cases d; simp add: public_view_def)+

lemma public_view_emit [simp]:
  "public_view (emit es c) = public_view (emit fs d) \<longleftrightarrow>
     map mask_effect (cn_trace c @ es) = map mask_effect (cn_trace d @ fs) \<and> cn_world c = cn_world d \<and> cn_directory c = cn_directory d"
  by (cases c; cases d) (auto simp: public_view_def emit_def)

section \<open>A calculus of indistinguishable steps\<close>

definition alike_by :: "('a \<Rightarrow> 'b \<Rightarrow> bool) \<Rightarrow> (console \<Rightarrow> console \<times> 'a) \<Rightarrow> (console \<Rightarrow> console \<times> 'b) \<Rightarrow> bool" where
  "alike_by R p q \<longleftrightarrow> (\<forall>c d. public_view c = public_view d \<longrightarrow>
     public_view (fst (p c)) = public_view (fst (q d)) \<and> R (snd (p c)) (snd (q d)))"

abbreviation alike :: "('a \<Rightarrow> 'b \<Rightarrow> bool) \<Rightarrow> 'a console_proc \<Rightarrow> 'b console_proc \<Rightarrow> bool" where
  "alike R \<equiv> alike_by (rel_sum (=) R)"

abbreviation alike_waiting :: "('a \<Rightarrow> 'b \<Rightarrow> bool) \<Rightarrow> 'a waiting \<Rightarrow> 'b waiting \<Rightarrow> bool" where
  "alike_waiting R \<equiv> alike_by (rel_option (rel_sum (=) R))"

lemma alike_byI:
  "(\<And>c d. public_view c = public_view d \<Longrightarrow> public_view (fst (p c)) = public_view (fst (q d)) \<and> R (snd (p c)) (snd (q d)))
     \<Longrightarrow> alike_by R p q"
  unfolding alike_by_def by blast

lemma alike_byD:
  assumes "alike_by R p q" "public_view c = public_view d" "p c = (c1, r)" "q d = (d1, s)"
  shows "public_view c1 = public_view d1" "R r s"
  using assms(1) [unfolded alike_by_def, rule_format, OF assms(2)] assms(3,4) by simp_all

lemma alike_map:
  "alike_by R m n \<Longrightarrow> (\<And>a b. R a b \<Longrightarrow> S (f a) (g b))
     \<Longrightarrow> alike_by S (\<lambda>c. (fst (m c), f (snd (m c)))) (\<lambda>c. (fst (n c), g (snd (n c))))"
  by (simp add: alike_by_def)

lemma alike_pbind:
  assumes "alike R m n" "\<And>a b. R a b \<Longrightarrow> alike S (f a) (g b)"
  shows "alike S (pbind m f) (pbind n g)"
proof (rule alike_byI)
  fix c d assume v: "public_view c = public_view d"
  obtain c1 r d1 s where e: "m c = (c1, r)" "n d = (d1, s)" by (metis surj_pair)
  note 1 = alike_byD [OF assms(1) v e]
  from 1(2) show "public_view (fst (pbind m f c)) = public_view (fst (pbind n g d))
      \<and> rel_sum (=) S (snd (pbind m f c)) (snd (pbind n g d))"
  proof (cases rule: rel_sum.cases)
    case (1 a b)
    then show ?thesis using \<open>public_view c1 = public_view d1\<close> e by (simp add: pbind_def)
  next
    case (2 a b)
    then show ?thesis using \<open>public_view c1 = public_view d1\<close> e assms(2) [of a b] by (simp add: pbind_def alike_by_def)
  qed
qed

lemma alike_plift: "rel_sum (=) R r s \<Longrightarrow> alike R (plift r) (plift s)"
  by (rule alike_byI) (simp add: plift_def)

lemma alike_refl: "alike (=) (plift r) (plift r)" "alike (=) (preturn a) (preturn a)"
  by (rule alike_byI, simp add: plift_def preturn_def sum.rel_eq)+

lemma alike_pmap_err:
  assumes "alike R m n"
  shows "alike R (pmap_err g m) (pmap_err g n)"
proof -
  have "pmap_err g p = (\<lambda>c. (fst (p c), map_err g (snd (p c))))" for p :: "'a console_proc"
    by (simp add: fun_eq_iff pmap_err_def split_beta Let_def)
  moreover have "pmap_err g p = (\<lambda>c. (fst (p c), map_err g (snd (p c))))" for p :: "'b console_proc"
    by (simp add: fun_eq_iff pmap_err_def split_beta Let_def)
  moreover have "rel_sum (=) R (map_err g r) (map_err g s)" if "rel_sum (=) R r s" for r s
    using that by (cases rule: rel_sum.cases) (simp_all add: map_err_def)
  ultimately show ?thesis using alike_map [OF assms, of "rel_sum (=) R" "map_err g" "map_err g"] by simp
qed

lemma alike_awaited:
  assumes "alike R m n"
  shows "alike_waiting R (awaited m) (awaited n)"
proof -
  have "awaited p = (\<lambda>c. (fst (p c), Some (snd (p c))))" for p :: "'a console_proc"
    by (simp add: fun_eq_iff awaited_def split_beta Let_def)
  moreover have "awaited p = (\<lambda>c. (fst (p c), Some (snd (p c))))" for p :: "'b console_proc"
    by (simp add: fun_eq_iff awaited_def split_beta Let_def)
  ultimately show ?thesis using alike_map [OF assms, of "rel_option (rel_sum (=) R)" Some Some] by simp
qed

lemma alike_read_input: "alike (=) (read_input raw) (read_input raw)"
proof (rule alike_byI)
  fix c d assume "public_view c = public_view d"
  note w = public_viewD [OF this]
  then show "public_view (fst (read_input raw c)) = public_view (fst (read_input raw d))
      \<and> rel_sum (=) (=) (snd (read_input raw c)) (snd (read_input raw d))"
    by (simp add: read_input_def public_view_def sum.rel_eq split_beta Let_def)
qed

lemma alike_draws:
  assumes "environments_alike x e d"
  shows "alike (=) (draw_uuid e) (draw_uuid d)" "alike (\<lambda>p q. fst p = fst q) (draw_pkce e) (draw_pkce d)"
    "alike (=) (unix_seconds e) (unix_seconds d)"
proof -
  note env = environments_alikeD [OF assms public_viewD(1)]
  show "alike (=) (draw_uuid e) (draw_uuid d)"
  proof (rule alike_byI)
    fix c c' assume v: "public_view c = public_view c'"
    show "public_view (fst (draw_uuid e c)) = public_view (fst (draw_uuid d c')) \<and> rel_sum (=) (=) (snd (draw_uuid e c)) (snd (draw_uuid d c'))"
      using env(5) [OF v] public_viewD [OF v] by (simp add: draw_uuid_def Let_def)
  qed
  show "alike (\<lambda>p q. fst p = fst q) (draw_pkce e) (draw_pkce d)"
  proof (rule alike_byI)
    fix c c' assume v: "public_view c = public_view c'"
    show "public_view (fst (draw_pkce e c)) = public_view (fst (draw_pkce d c'))
        \<and> rel_sum (=) (\<lambda>p q. fst p = fst q) (snd (draw_pkce e c)) (snd (draw_pkce d c'))"
      using env(6) [OF v] public_viewD [OF v] by (simp add: draw_pkce_def Let_def)
  qed
  show "alike (=) (unix_seconds e) (unix_seconds d)"
  proof (rule alike_byI)
    fix c c' assume v: "public_view c = public_view c'"
    show "public_view (fst (unix_seconds e c)) = public_view (fst (unix_seconds d c'))
        \<and> rel_sum (=) (=) (snd (unix_seconds e c)) (snd (unix_seconds d c'))"
      using env(7) [OF v] v by (simp add: unix_seconds_def sum.rel_eq)
  qed
qed

lemma alike_deadline:
  assumes "environments_alike x e d" "alike_waiting R m n"
  shows "alike R (within_login_deadline e deadline stage m) (within_login_deadline d deadline stage n)"
proof (rule alike_byI)
  fix c c' assume v: "public_view c = public_view c'"
  obtain c1 r d1 s where q: "m c = (c1, r)" "n c' = (d1, s)" by (metis surj_pair)
  note 1 = alike_byD [OF assms(2) v q]
  have "en_timer_fires e deadline (cn_trace c1) = en_timer_fires d deadline (cn_trace d1)"
    by (rule environments_alikeD [OF assms(1) public_viewD(1) [OF 1(1)]])
  with 1 q show "public_view (fst (within_login_deadline e deadline stage m c)) = public_view (fst (within_login_deadline d deadline stage n c'))
      \<and> rel_sum (=) R (snd (within_login_deadline e deadline stage m c)) (snd (within_login_deadline d deadline stage n c'))"
    by (cases rule: option.rel_cases [OF 1(2)])
      (auto simp: within_login_deadline_def map_err_def elim: rel_sum.cases)
qed

lemmas alike_intros = alike_pbind alike_refl alike_pmap_err alike_awaited alike_read_input

section \<open>Requests\<close>

lemma mask_field_simps [simp]:
  "fst field = secret \<Longrightarrow> mask_field secret field = (secret, [])" "fst field \<noteq> secret \<Longrightarrow> mask_field secret field = field"
  by (cases field; auto simp: mask_field_def)+

text \<open>A reply that can differ at all answers a form.\<close>

definition reply_bodies_alike :: "'z control_externals_scheme \<Rightarrow> http_reply \<Rightarrow> http_reply \<Rightarrow> bool" where
  "reply_bodies_alike x a b \<longleftrightarrow> hp_status a = hp_status b \<and> bodies_alike x (hp_body a) (hp_body b)"

lemma tokens_alike_refl: "tokens_alike x w w"
  by (simp add: tokens_alike_def)

lemma bodies_alike_refl: "bodies_alike x b b"
  by (simp add: bodies_alike_def option.rel_refl tokens_alike_refl)

lemma replies_alike_plain: "replies_alike x body r s \<Longrightarrow> (\<And>form. body \<noteq> FormBody form) \<Longrightarrow> r = s"
  by (cases body) (auto simp: replies_alike_def)

lemma alike_execute:
  assumes "environments_alike x e d" "mask_request p = mask_request q" "\<And>form. hq_body p \<noteq> FormBody form"
  shows "alike (=) (execute e root p limit) (execute d root q limit)"
proof (rule alike_byI)
  fix c c' assume v: "public_view c = public_view c'"
  have "en_transmit e root limit (cn_trace c) p = en_transmit d root limit (cn_trace c') q"
    by (rule replies_alike_plain [OF environments_alikeD(1) [OF assms(1) public_viewD(1) [OF v] assms(2)] assms(3)])
  then show "public_view (fst (execute e root p limit c)) = public_view (fst (execute d root q limit c'))
      \<and> rel_sum (=) (=) (snd (execute e root p limit c)) (snd (execute d root q limit c'))"
    using public_viewD [OF v] assms(2) by (simp add: execute_def Let_def sum.rel_eq)
qed

lemma alike_execute_form:
  assumes "environments_alike x e d" "mask_request p = mask_request q"
  shows "alike (reply_bodies_alike x) (execute e root p limit) (execute d root q limit)"
proof (rule alike_byI)
  fix c c' assume v: "public_view c = public_view c'"
  have "replies_alike x (hq_body p) (en_transmit e root limit (cn_trace c) p) (en_transmit d root limit (cn_trace c') q)"
    by (rule environments_alikeD(1) [OF assms(1) public_viewD(1) [OF v] assms(2)])
  then have "rel_sum (=) (reply_bodies_alike x) (snd (execute e root p limit c)) (snd (execute d root q limit c'))"
    unfolding replies_alike_def
    by (auto simp: execute_def Let_def map_ok_def reply_bodies_alike_def bodies_alike_refl
        split: transmission.splits sum.splits request_body.splits elim: rel_sum.cases)
  then show "public_view (fst (execute e root p limit c)) = public_view (fst (execute d root q limit c'))
      \<and> rel_sum (=) (reply_bodies_alike x) (snd (execute e root p limit c)) (snd (execute d root q limit c'))"
    using public_viewD [OF v] assms(2) by (simp add: execute_def Let_def)
qed

lemma alike_get: "environments_alike x e d \<Longrightarrow> alike (=) (http_get e root u limit) (http_get d root u limit)"
  unfolding http_get_def by (rule alike_execute) auto

lemma alike_authorize:
  assumes "environments_alike x e d"
  shows "alike_waiting (=) (loopback_authorize y e redirect state authorize) (loopback_authorize y d redirect state authorize)"
proof (rule alike_byI)
  fix c c' assume v: "public_view c = public_view c'"
  note w = public_viewD [OF v]
  have s: "en_sockets e (cn_trace c @ es) = en_sockets d (cn_trace c' @ es)"
    and l: "en_listen e (cn_trace c) = en_listen d (cn_trace c')"
    and b: "en_browser e (cn_trace c @ es) = en_browser d (cn_trace c' @ es)" for es
    using environments_alikeD [OF assms] w(1) by (metis map_append)+
  show "public_view (fst (loopback_authorize y e redirect state authorize c)) = public_view (fst (loopback_authorize y d redirect state authorize c'))
      \<and> rel_option (rel_sum (=) (=)) (snd (loopback_authorize y e redirect state authorize c)) (snd (loopback_authorize y d redirect state authorize c'))"
    using v w
    by (auto simp: loopback_authorize_def pbind_def listen_on_def browser_open_def ensure_def s l b sum.rel_eq option.rel_eq
        split: option.splits prod.splits)
qed

section \<open>Commands\<close>

lemma alike_fetch:
  assumes "environments_alike x e d"
  shows "alike (=) (fetch_json (system_ports y e root) f u limit stage) (fetch_json (system_ports y d root) f u limit stage)"
    "alike (=) (fetch_jwks y (system_ports y e root) u) (fetch_jwks y (system_ports y d root) u)"
  unfolding fetch_json_def fetch_jwks_def
  by (auto intro!: alike_intros alike_get [OF assms])

lemma alike_exchange_code:
  assumes "environments_alike x e d"
  shows "alike (tokens_alike x) (exchange_code x e auth (system_ports x e root) deadline u code v)
           (exchange_code x d auth (system_ports x d root) deadline u code w)"
proof -
  have "mask_request \<lparr> hq_method = ''POST'', hq_url = u, hq_headers = [], hq_body = FormBody (token_form x auth code v) \<rparr>
      = mask_request \<lparr> hq_method = ''POST'', hq_url = u, hq_headers = [], hq_body = FormBody (token_form x auth code w) \<rparr>"
    by (simp add: mask_request_def mask_body_def token_form_def)
  then have "alike (reply_bodies_alike x) (po_post_form (system_ports x e root) u (token_form x auth code v) LOGIN_TIMEOUT)
      (po_post_form (system_ports x d root) u (token_form x auth code w) LOGIN_TIMEOUT)"
    by (simp add: http_post_form_def alike_execute_form [OF assms])
  then show ?thesis
    unfolding exchange_code_def
    by (rule alike_pbind [OF alike_deadline [OF assms alike_awaited]])
      (auto intro!: alike_plift simp: reply_bodies_alike_def bodies_alike_def rbind_def ok_or_def split: sum.splits option.splits)
qed

lemma alike_complete_login:
  assumes "environments_alike x e d"
  shows "alike (\<lambda>s t. sendable x (ts_access_token s) \<longleftrightarrow> sendable x (ts_access_token t))
    (complete_login x e auth (system_ports x e root) deadline endpoints)
    (complete_login x d auth (system_ports x d root) deadline endpoints)"
proof -
  obtain a t j where "endpoints = (a, t, j)" by (cases endpoints)
  moreover have "alike (\<lambda>s t. sendable x (ts_access_token s) \<longleftrightarrow> sendable x (ts_access_token t))
      (preturn \<lparr> ts_access_token = tw_access_token v \<rparr>) (preturn \<lparr> ts_access_token = tw_access_token w \<rparr>)"
    if "tokens_alike x v w" for v w
    using that by (auto intro!: alike_byI simp: preturn_def tokens_alike_def)
  moreover have "tw_id_token v = tw_id_token w" if "tokens_alike x v w" for v w
    using that by (simp add: tokens_alike_def)
  ultimately show ?thesis
    unfolding complete_login_def Let_def
    by (auto intro!: alike_pbind alike_refl alike_draws [OF assms] alike_deadline [OF assms] alike_authorize [OF assms]
        alike_awaited alike_fetch [OF assms] alike_exchange_code [OF assms])
qed

lemma alike_authenticate:
  assumes "environments_alike x e d"
  shows "alike (\<lambda>s t. sendable x (ts_access_token s) \<longleftrightarrow> sendable x (ts_access_token t))
    (authenticate x e auth (system_ports x e root)) (authenticate x d auth (system_ports x d root))"
proof -
  have inner: "alike (\<lambda>s t. sendable x (ts_access_token s) \<longleftrightarrow> sendable x (ts_access_token t))
      (authenticate_inner x e auth (system_ports x e root) deadline) (authenticate_inner x d auth (system_ports x d root) deadline)" for deadline
    unfolding authenticate_inner_def
    by (auto intro!: alike_pbind [OF alike_refl(1)] alike_pbind [OF alike_deadline [OF assms alike_awaited [OF alike_fetch(1) [OF assms]]]]
        alike_complete_login [OF assms])
  show ?thesis
  proof (rule alike_byI)
    fix c c' assume v: "public_view c = public_view c'"
    have "en_instant e (cn_trace c) = en_instant d (cn_trace c')" by (rule environments_alikeD [OF assms public_viewD(1) [OF v]])
    then show "public_view (fst (authenticate x e auth (system_ports x e root) c)) = public_view (fst (authenticate x d auth (system_ports x d root) c'))
        \<and> rel_sum (=) (\<lambda>s t. sendable x (ts_access_token s) \<longleftrightarrow> sendable x (ts_access_token t))
            (snd (authenticate x e auth (system_ports x e root) c)) (snd (authenticate x d auth (system_ports x d root) c'))"
      using inner v by (simp add: authenticate_def authenticate_with_limit_def alike_by_def)
  qed
qed

lemma alike_send_api:
  assumes "environments_alike x e d" "sendable x (ts_access_token s) \<longleftrightarrow> sendable x (ts_access_token t)"
  shows "alike (=) (send_api x base prepared s tenant request_id correlation_id (system_ports x e root))
    (send_api x base prepared t tenant request_id correlation_id (system_ports x d root))"
proof -
  have "alike (=) (http_send e root verb u [(''authorization'', ''Bearer '' @ ts_access_token s), (''x-tenant-id'', tenant),
        (''x-request-id'', r), (''x-correlation-id'', q)] body limit)
      (http_send d root verb u [(''authorization'', ''Bearer '' @ ts_access_token t), (''x-tenant-id'', tenant),
        (''x-request-id'', r), (''x-correlation-id'', q)] body limit)" for verb u r q body limit
    unfolding http_send_def
    by (rule alike_execute [OF assms(1)]) (auto simp: mask_request_def mask_body_def split: option.splits)
  then show ?thesis
    unfolding send_api_def Let_def using assms(2)
    by (auto intro!: alike_pbind [OF alike_refl(1)] alike_pmap_err simp: sendable_def)
qed

lemma alike_port_new: "alike (=) (reqwest_port_new x ca) (reqwest_port_new x ca)"
  unfolding reqwest_port_new_def by (auto intro!: alike_intros split: option.splits)

lemma alike_read_policy: "alike (=) (read_policy x raw) (read_policy x raw)"
  unfolding read_policy_def by (auto intro!: alike_intros)

lemma alike_rotate:
  assumes "environments_alike x e d"
  shows "alike (=) (rotate_main x e args) (rotate_main x d args)"
proof -
  have "alike (=) (case ro_idempotency_key args of Some key \<Rightarrow> preturn key | None \<Rightarrow> draw_uuid e)
      (case ro_idempotency_key args of Some key \<Rightarrow> preturn key | None \<Rightarrow> draw_uuid d)"
    by (cases "ro_idempotency_key args") (simp_all add: alike_refl alike_draws [OF assms])
  then show ?thesis
    unfolding rotate_main_def rotate_with_ports_def
    by (auto intro!: alike_pbind [OF alike_port_new] alike_pbind [OF alike_refl(1)] alike_pbind [OF alike_read_policy]
        alike_pbind [OF alike_authenticate [OF assms]] alike_pbind [OF alike_draws(1) [OF assms]] alike_pbind [OF alike_send_api [OF assms]]
        alike_refl intro: alike_pbind)
qed

lemma alike_status:
  assumes "environments_alike x e d"
  shows "alike (=) (status_main x e args) (status_main x d args)"
  unfolding status_main_def status_with_ports_def
  by (auto intro!: alike_pbind [OF alike_port_new] alike_pbind [OF alike_refl(1)]
      alike_pbind [OF alike_authenticate [OF assms]] alike_pbind [OF alike_draws(1) [OF assms]] alike_pbind [OF alike_send_api [OF assms]]
      alike_refl)

lemma alike_run_command:
  assumes "environments_alike x e d"
  shows "alike (=) (run_command x e command) (run_command x d command)"
proof -
  have login: "alike (=) (pbind (login x e auth) (\<lambda>_. preturn j)) (pbind (login x d auth) (\<lambda>_. preturn j))" for auth j
    unfolding login_def
    by (rule alike_pbind [OF alike_pbind [OF alike_port_new] alike_refl(2)]) (use alike_authenticate [OF assms] in auto)
  have "read_audit_input e input = read_audit_input d input" for input
    using assms by (simp add: read_audit_input_def environments_alike_def)
  moreover have "alike (=) (read_audit_input d input) (read_audit_input d input)" for input
    unfolding read_audit_input_def by (auto intro: alike_intros)
  ultimately have audits: "alike (=) (audit x e input) (audit x d input)" for input
    unfolding audit_def by (auto intro!: alike_pbind alike_refl)
  show ?thesis
    unfolding run_command_def
    by (cases command) (auto intro!: login audits alike_rotate [OF assms] alike_status [OF assms] alike_pbind [OF alike_read_policy] alike_refl)
qed

lemma main_entry_indistinguishable:
  assumes "environments_alike x e d" "public_view c = public_view c'"
  shows "public_view (fst (main_entry x e cli built c)) = public_view (fst (main_entry x d cli built c'))"
    "snd (main_entry x e cli built c) = snd (main_entry x d cli built c')"
proof -
  have "public_view (fst (run_command x e command c)) = public_view (fst (run_command x d command c'))
      \<and> snd (run_command x e command c) = snd (run_command x d command c')" for command
    using alike_run_command [OF assms(1), of command] assms(2) by (simp add: alike_by_def sum.rel_eq)
  then have r: "run_command x e command c = (c1, r) \<Longrightarrow> run_command x d command c' = (d1, s) \<Longrightarrow> public_view c1 = public_view d1 \<and> r = s"
    for command c1 r d1 s by (metis fst_conv snd_conv)
  show "public_view (fst (main_entry x e cli built c)) = public_view (fst (main_entry x d cli built c'))"
    "snd (main_entry x e cli built c) = snd (main_entry x d cli built c')"
    using assms(2) by (auto simp: main_entry_def split: cli_outcome.split prod.split sum.split dest: r)
qed

end
