(* ===== verification/Control_Samples.thy ===== *)
theory Control_Samples
  imports Control_Secrecy Journey
begin

text \<open>
  A concrete login and rotation of the operator's command line, on which its theorems are evaluated:
  third-party functions that meet the contracts, an environment that answers, and the run.
\<close>

section \<open>Externals and environment\<close>

definition sample_url :: "string \<Rightarrow> string \<Rightarrow> string \<Rightarrow> url" where
  "sample_url scheme host p = \<lparr> ur_scheme = scheme, ur_username = [], ur_password = None, ur_host_str = Some host,
     ur_port_or_known_default = Some 443, ur_path = p, ur_query = None, ur_fragment = None \<rparr>"

text \<open>A reference is a path with an optional query; a query is a state of 36 characters and a code.\<close>

definition sample_join :: "url \<Rightarrow> string \<Rightarrow> url option" where
  "sample_join base r = Some (base\<lparr> ur_path := takeWhile (\<lambda>c. c \<noteq> CHR ''?'') r,
     ur_query := (case dropWhile (\<lambda>c. c \<noteq> CHR ''?'') r of [] \<Rightarrow> None | _ # q \<Rightarrow> Some q) \<rparr>)"

definition sample_pairs :: "url \<Rightarrow> (string \<times> string) list" where
  "sample_pairs u = (case ur_query u of None \<Rightarrow> [] | Some q \<Rightarrow> [(''state'', take 36 q), (''code'', drop 36 q)])"

definition sample_record :: rotate_record where
  "sample_record = \<lparr> rd_schema_version = ''1'', rd_operation = ''rotate'', rd_outcome = ''accepted'',
     rd_request_id = 1, rd_correlation_id = 1, rd_authorization_receipt_id = 4, rd_accepted_generation = 2,
     rd_condition = ''Reconciling'' \<rparr>"

definition sample_cx :: control_externals where
  "sample_cx = \<lparr> uuid_is_nil = (\<lambda>u. u = 0), uuid_hyphenated = sample_hyphenated,
     uuid_as_bytes = (\<lambda>u. be_bytes 16 (unat u)),
     sha256_raw = (\<lambda>m. replicate 32 CHR ''a''), sha256_hex = (\<lambda>m. replicate 64 CHR ''a''),
     pemfile_certs = (\<lambda>b. None), pemfile_private_key = (\<lambda>b. None), certified_keys_match = (\<lambda>chain key. False),
     add_parsable_certificates = length, client_verifier_build = (\<lambda>roots. False),
     verify_client_cert = (\<lambda>roots e is now. False), x509_from_der = (\<lambda>e. None),
     state_to_vec = (\<lambda>s. None), state_from_slice = (\<lambda>b. None), catalog_from_slice = (\<lambda>b. None),
     base64url_decode = Some, base64url_encode = (\<lambda>b. b), ed25519_verify = (\<lambda>key message signature. False),
     san_item_ok = (\<lambda>_. True), policy_try_new_ok = (\<lambda>_. True), policy_request_try_new_ok = (\<lambda>_. True),
     policy_request_to_vec = (\<lambda>_. Some ''policy''), policy_put_method = ''PUT'', policy_put_path = ''/devices/{deviceId}'',
     status_get_method = ''GET'', status_get_path = ''/devices/{deviceId}'',
     policy_response_from_slice = (\<lambda>b. if b = ''accepted'' then Some \<lparr> ds_authorization_receipt_id = 4,
       ds_accepted_generation = 2, ds_condition = DtoReconciling \<rparr> else None),
     validation_from_slice = (\<lambda>_. None), not_found_from_slice = (\<lambda>_. None), conflict_from_slice = (\<lambda>_. None),
     status_from_slice = (\<lambda>_. None), apply_request_from_slice = (\<lambda>b. None),
     ack_command_id_ok = (\<lambda>v. v \<noteq> []), report_digest_ok = wf_digest,
     ack_to_vec = (\<lambda>_. Some ''ack''), report_to_vec = (\<lambda>_. Some ''report''),
     url_parse = (\<lambda>s. Some (sample_url ''https'' ''issuer'' s)), url_as_str = ur_path, url_join = sample_join,
     url_set_path = (\<lambda>p u. u\<lparr> ur_path := p \<rparr>), url_query_pairs = sample_pairs, url_append_pairs = (\<lambda>ps u. u),
     discovery_from_slice = (\<lambda>b. Some \<lparr> ds_issuer = ''/'', ds_authorization_endpoint = ''/authorize'',
       ds_token_endpoint = ''/token'', ds_jwks_uri = ''/keys'' \<rparr>),
     token_from_slice = (\<lambda>b. Some \<lparr> tw_access_token = b, tw_id_token = ''id'' \<rparr>),
     jwks_from_slice = (\<lambda>b. Some (Jwks b)), json_from_slice = (\<lambda>b. Some (JObject [(''keys'', JArray [])])),
     policy_input_from_slice = (\<lambda>b. Some \<lparr> pn_key_usages = [UsageClientAuth], pn_renew_before_seconds = 60,
       pn_sans = [], pn_validity_seconds = 300 \<rparr>),
     rotate_record_from_slice = (\<lambda>b. if b = printed (\<lambda>_. ''record'') JNull then Some sample_record else None),
     id_token_claims = (\<lambda>v token nonce. if token = ''id'' \<and> nonce = sample_hyphenated 1 \<and> iv_client_id v = ''client''
       then Some \<lparr> ic_audiences = [''client''], ic_authorized_party = None, ic_tenant_id = ''tenant'' \<rparr> else None),
     issuer_url_ok = (\<lambda>_. True), timestamp_ok = (\<lambda>_. True), header_value_ok = (\<lambda>_. True), method_ok = (\<lambda>_. True),
     pem_certificate_ok = (\<lambda>_. True), http_client_ok = (\<lambda>_. True) \<rparr>"

definition sample_auth :: auth_args where
  "sample_auth = \<lparr> au_issuer = sample_url ''https'' ''issuer'' ''/'', au_client_id = ''client'', au_tenant_id = ''tenant'',
     au_redirect_uri = sample_url ''http'' ''127.0.0.1'' ''/callback'', au_ca_certificate = None \<rparr>"

definition sample_answer :: bytes where
  "sample_answer = ''GET /callback?00000000-0000-0000-0000-000000000001secret HTTP/1.1'' @ CRLF @ CRLF"

definition sample_env :: environment where
  "sample_env = \<lparr>
     en_transmit = (\<lambda>root limit trace q. Responds 200 None
       [Some (if hq_method q = ''POST'' then ''token'' else if hq_method q = ''PUT'' then ''accepted'' else ''document'')]),
     en_browser = (\<lambda>trace u. True), en_listen = (\<lambda>trace host port. True),
     en_sockets = (\<lambda>trace. [Connection [ReadBytes sample_answer]]),
     en_uuid = (\<lambda>trace. 1), en_pkce = (\<lambda>trace. (''challenge'', ''verifier'')), en_unix_seconds = (\<lambda>trace. Some 1000),
     en_instant = (\<lambda>trace. 0), en_timer_fires = (\<lambda>deadline trace. False), en_stdin = None \<rparr>"

definition sample_console :: console where
  "sample_console = \<lparr> cn_trace = [], cn_world = reboot [([''policy.json''], File ''policy'' 0x180 True)] [], cn_directory = [] \<rparr>"

definition sample_rotate_args :: rotate_args where
  "sample_rotate_args = \<lparr> ro_auth = sample_auth, ro_rss_base_url = sample_url ''https'' ''service'' ''/'', ro_device_id = 2,
     ro_input = ''policy.json'', ro_expected_generation = 1, ro_idempotency_key = Some 3 \<rparr>"

section \<open>Contracts\<close>

lemma sample_url_contract: "url_contract sample_cx"
  by (auto simp: url_contract_def sample_cx_def sample_join_def same_origin_def)

lemma sample_generations: "generations_positive sample_cx"
  by (simp add: generations_positive_def sample_cx_def)

section \<open>The run\<close>

lemma hex_char_values: "hex_char 0 = CHR ''0''" "hex_char 1 = CHR ''1''"
proof -
  have "(48 :: nat) = of_char (CHR ''0'')" "(49 :: nat) = of_char (CHR ''1'')" by simp_all
  then have "char_of (48 :: nat) = CHR ''0''" "char_of (49 :: nat) = CHR ''1''" by (metis char_of_char)+
  then show "hex_char 0 = CHR ''0''" "hex_char 1 = CHR ''1''" by (simp_all add: hex_char_def)
qed

lemma hex_digits_zero: "hex_digits k 0 = replicate k (CHR ''0'')"
  by (induction k) (simp_all add: hex_char_values replicate_append_same)

lemma sample_hyphenated_one: "sample_hyphenated 1 = ''00000000-0000-0000-0000-000000000001''"
proof -
  have "hex_digits (Suc 31) 1 = replicate 31 (CHR ''0'') @ ''1''"
    unfolding hex_digits.simps(2) by (simp add: hex_digits_zero hex_char_values(2) [simplified])
  moreover have "hyphenate (replicate 31 (CHR ''0'') @ ''1'') = ''00000000-0000-0000-0000-000000000001''"
    by (simp add: hyphenate_def) (simp add: numeral_eq_Suc)
  ultimately show ?thesis by (simp add: sample_hyphenated_def)
qed

lemma sample_request: "read_callback_headers [ReadBytes sample_answer] = Inr sample_answer"
  by code_simp

text \<open>On printable ASCII text, words are separated by spaces.\<close>

lemma space_piece_printable:
  assumes "32 \<le> (of_char c :: nat)" "(of_char c :: nat) < 127"
  shows "space_piece [c] \<longleftrightarrow> c = CHR '' ''"
proof -
  have "chars [c] = [of_char c]" using printable_chars [of "[c]"] assms by simp
  moreover have "is_whitespace (of_char c) \<longleftrightarrow> of_char c = (32 :: nat)" using assms by (auto simp: is_whitespace_def)
  moreover have "of_char c = (of_char (CHR '' '') :: nat) \<longleftrightarrow> c = CHR '' ''" by (simp only: of_char_eq_iff)
  ultimately show ?thesis by (simp add: space_piece_def)
qed

lemma ascii_pieces: "list_all (\<lambda>c. (of_char c :: nat) < 128) s \<Longrightarrow> utf8_pieces s = map (\<lambda>c. [c]) s"
proof (induction s)
  case (Cons c r)
  then have "takeWhile is_cont r = []" "dropWhile is_cont r = r" by (cases r; simp add: is_cont_def)+
  with Cons show ?case by simp
qed simp

lemma sample_words: "split_whitespace (first_line sample_answer)
    = [''GET'', ''/callback?00000000-0000-0000-0000-000000000001secret'', ''HTTP/1.1'']"
proof -
  have "first_line sample_answer = ''GET /callback?00000000-0000-0000-0000-000000000001secret HTTP/1.1''" by code_simp
  then show ?thesis by (simp add: split_whitespace_def ascii_pieces space_piece_printable del: utf8_pieces.simps)
qed

lemma sample_text: "from_utf8 sample_answer = Some sample_answer"
  by code_simp

lemma sample_cx_simps [simp]:
  "uuid_hyphenated sample_cx = sample_hyphenated" "url_join sample_cx = sample_join" "url_query_pairs sample_cx = sample_pairs"
  "url_parse sample_cx s = Some (sample_url ''https'' ''issuer'' s)" "url_as_str sample_cx = ur_path"
  "url_set_path sample_cx p u = u\<lparr> ur_path := p \<rparr>" "url_append_pairs sample_cx ps u = u"
  "discovery_from_slice sample_cx b = Some \<lparr> ds_issuer = ''/'', ds_authorization_endpoint = ''/authorize'',
       ds_token_endpoint = ''/token'', ds_jwks_uri = ''/keys'' \<rparr>"
  "token_from_slice sample_cx b = Some \<lparr> tw_access_token = b, tw_id_token = ''id'' \<rparr>"
  "jwks_from_slice sample_cx b = Some (Jwks b)" "json_from_slice sample_cx b = Some (JObject [(''keys'', JArray [])])"
  "policy_input_from_slice sample_cx b = Some \<lparr> pn_key_usages = [UsageClientAuth], pn_renew_before_seconds = 60,
       pn_sans = [], pn_validity_seconds = 300 \<rparr>"
  "id_token_claims sample_cx v token nonce = (if token = ''id'' \<and> nonce = sample_hyphenated 1 \<and> iv_client_id v = ''client''
       then Some \<lparr> ic_audiences = [''client''], ic_authorized_party = None, ic_tenant_id = ''tenant'' \<rparr> else None)"
  "issuer_url_ok sample_cx i" "timestamp_ok sample_cx n" "header_value_ok sample_cx h" "method_ok sample_cx k"
  "http_client_ok sample_cx root" "san_item_ok sample_cx san" "policy_try_new_ok sample_cx p1"
  "policy_request_try_new_ok sample_cx p2" "policy_request_to_vec sample_cx p2 = Some ''policy''"
  "policy_put_method sample_cx = ''PUT''" "policy_put_path sample_cx = ''/devices/{deviceId}''"
  "status_get_path sample_cx = ''/devices/{deviceId}''"
  "policy_response_from_slice sample_cx b = (if b = ''accepted'' then Some \<lparr> ds_authorization_receipt_id = 4,
       ds_accepted_generation = 2, ds_condition = DtoReconciling \<rparr> else None)"
  by (simp_all add: sample_cx_def)

lemma sample_env_simps [simp]:
  "en_transmit sample_env root limit trace q = Responds 200 None
       [Some (if hq_method q = ''POST'' then ''token'' else if hq_method q = ''PUT'' then ''accepted'' else ''document'')]"
  "en_browser sample_env trace u" "en_listen sample_env trace host port"
  "en_sockets sample_env trace = [Connection [ReadBytes sample_answer]]"
  "en_uuid sample_env trace = 1" "en_pkce sample_env trace = (''challenge'', ''verifier'')"
  "en_unix_seconds sample_env trace = Some 1000" "\<not> en_timer_fires sample_env deadline trace" "en_instant sample_env trace = 0"
  by (simp_all add: sample_env_def)

lemma sample_device_path: "bind_device_path sample_cx ''/devices/{deviceId}'' d = ''/devices/'' @ sample_hyphenated d"
  by (simp add: bind_device_path_def str_replace.simps)

lemma sample_path_chars: "list_all path_char (sample_hyphenated d)"
proof -
  have "list_all (\<lambda>c. is_lower_hex c \<or> c = CHR ''-'') (sample_hyphenated d)"
    using sample_uuid_contract by (simp add: uuid_contract_def sample_externals_def)
  then show ?thesis by (rule list.pred_mono_strong) (auto simp: is_lower_hex_def path_char_def Let_def)
qed

lemma sample_contract_paths: "contract_paths sample_cx"
  using sample_path_chars by (simp add: contract_paths_def sample_device_path path_reference_def path_char_def)

lemma sample_callback:
  "connection_outcome sample_cx (au_redirect_uri sample_auth) (sample_hyphenated 1) [ReadBytes sample_answer] = Some (CallbackCode ''secret'')"
  by (simp add: connection_outcome_def sample_request parse_callback_request_def sample_text sample_words starts_with_def
      sample_join_def sample_auth_def sample_url_def same_endpoint_def parse_callback_url_def query_values_def sample_pairs_def
      sample_hyphenated_one)

lemma sample_loopback: "loopback_host (au_redirect_uri sample_auth)"
proof -
  have "parse_ip_addr ''127.0.0.1'' = Some (V4 127 0 0 1)" by code_simp
  then show ?thesis by (simp add: loopback_host_def sample_auth_def sample_url_def is_loopback_def)
qed

lemma sample_auth_simps [simp]:
  "ur_scheme (au_issuer sample_auth) = ''https''" "ur_path (au_issuer sample_auth) = ''/''"
  "ur_scheme (au_redirect_uri sample_auth) = ''http''" "ur_host_str (au_redirect_uri sample_auth) = Some ''127.0.0.1''"
  "ur_port_or_known_default (au_redirect_uri sample_auth) = Some 443" "au_client_id sample_auth = ''client''"
  "au_tenant_id sample_auth = ''tenant''" "au_ca_certificate sample_auth = None"
  "ur_scheme (sample_url sc h p) = sc"
  by (simp_all add: sample_auth_def sample_url_def)

lemma sample_execute [simp]:
  "execute sample_env root q limit c = (emit [Sent q] c, Inr \<lparr> hp_status = 200,
     hp_body = (if hq_method q = ''POST'' then ''token'' else if hq_method q = ''PUT'' then ''accepted'' else ''document'') \<rparr>)"
  by (simp add: execute_def bounded_bytes_def usize_saturating_add_def MAX_RESPONSE_BYTES_def map_ok_def)

lemmas login_defs = authenticate_inner_def complete_login_def exchange_code_def fetch_json_def fetch_jwks_def
  discovered_endpoints_def check_login_addresses_def discovery_url_def secure_remote_url_def within_login_deadline_def
  awaited_def draw_uuid_def draw_pkce_def classify_token_response_def validate_jwks_key_operations_def json_get_def
  http_get_def http_post_form_def http_send_def loopback_authorize_def listen_on_def
  browser_open_def unix_seconds_def validate_id_token_def login_verifier_def

lemma sample_logs_in:
  "\<exists>c'. authenticate_inner sample_cx sample_env sample_auth (system_ports sample_cx sample_env None) deadline c
     = (c', Inr \<lparr> ts_access_token = ''token'' \<rparr>) \<and> cn_world c' = cn_world c \<and> cn_directory c' = cn_directory c"
proof -
  note sample_loopback [simp] sample_callback [simp]
  show ?thesis
    by (simp add: login_defs pbind_def plift_def pmap_err_def preturn_def Let_def sample_join_def i64_try_from_u64_def i64_max_def)
      (simp add: emit_def)
qed

lemma sample_reads_policy:
  "\<exists>policy w. read_policy sample_cx ''policy.json'' sample_console = (sample_console\<lparr> cn_world := w \<rparr>, Inr policy)
     \<and> rp_sans policy = [] \<and> rp_renew_before_seconds policy = 60 \<and> rp_validity_seconds policy = 300"
proof -
  have p: "resolve [] ''policy.json'' = [''policy.json'']" by code_simp
  have f: "fs_stat [([''policy.json''], File ''policy'' 0x180 True)] [''policy.json''] = Some (File ''policy'' 0x180 True)"
    by code_simp
  show ?thesis
    by (simp add: read_policy_def read_input_def pbind_def plift_def fs_read_def read_call_def read_node_def sample_console_def
        reboot_def p f Let_def policy_of_input_def rotation_policy_try_new_def MAX_RESPONSE_BYTES_def)
qed

definition sample_put :: http_request where
  "sample_put = \<lparr> hq_method = ''PUT'', hq_url = (sample_url ''https'' ''service'' ''/'')\<lparr> ur_path := ''/devices/'' @ sample_hyphenated 2 \<rparr>,
     hq_headers = [(''authorization'', ''Bearer token''), (''x-tenant-id'', ''tenant''), (''x-request-id'', sample_hyphenated 1),
       (''x-correlation-id'', sample_hyphenated 1), (''content-type'', ''application/json'')], hq_body = JsonBody ''policy'' \<rparr>"

lemma sample_joins: "sample_join base (''/devices/'' @ sample_hyphenated d) = Some (base\<lparr> ur_path := ''/devices/'' @ sample_hyphenated d, ur_query := None \<rparr>)"
proof -
  have "\<not> path_char (CHR ''?'')" by (simp add: path_char_def)
  then have "\<forall>c \<in> set (sample_hyphenated d). c \<noteq> CHR ''?''" using sample_path_chars by (metis list_all_iff)
  then show ?thesis by (simp add: sample_join_def takeWhile_eq_all_conv [THEN iffD2] dropWhile_eq_Nil_conv [THEN iffD2])
qed

lemma sample_operator_rotates:
  "\<exists>c'. rotate_main sample_cx sample_env sample_rotate_args sample_console = (c', Inr (rotate_record_json sample_cx sample_record))
     \<and> (\<exists>qs. sent c' = qs @ [sample_put]) \<and> sent sample_console = []"
proof -
  obtain policy w where r: "read_policy sample_cx ''policy.json'' sample_console = (sample_console\<lparr> cn_world := w \<rparr>, Inr policy)"
      and p: "rp_sans policy = []" "rp_renew_before_seconds policy = 60" "rp_validity_seconds policy = 300"
    using sample_reads_policy by blast
  obtain c1 where l: "authenticate_inner sample_cx sample_env sample_auth (system_ports sample_cx sample_env None) LOGIN_TIMEOUT
      (sample_console\<lparr> cn_world := w \<rparr>) = (c1, Inr \<lparr> ts_access_token = ''token'' \<rparr>)"
    using sample_logs_in by blast
  have "\<exists>c'. rotate_main sample_cx sample_env sample_rotate_args sample_console = (c', Inr (rotate_record_json sample_cx sample_record))
     \<and> c' = emit [DrewUuid 1, DrewUuid 1, Sent sample_put] c1"
    by (simp add: rotate_main_def reqwest_port_new_def rotate_with_ports_def sample_rotate_args_def validate_rss_base_url_def
        secure_remote_url_def sample_url_def r l p authenticate_def authenticate_with_limit_def draw_uuid_def send_api_def
        prepare_policy_put_def i64_or_invalid_def i64_try_from_u64_def i64_max_def sample_device_path sample_joins [simplified] http_send_def
        decode_policy_response_def accepted_json_def rotate_record_json_def sample_record_def policy_condition_as_str_def
        sample_put_def pbind_def plift_def pmap_err_def preturn_def Let_def)
  moreover have "sent sample_console = []" by (simp add: sample_console_def sent_def)
  ultimately show ?thesis by auto
qed

lemma rotate_record_json_inj:
  assumes "uuid_contract x" "rotate_record_json x r = rotate_record_json x q"
  shows "(r :: rotate_record) = q"
proof -
  have "inj (uuid_hyphenated x)" using assms(1) unfolding uuid_contract_def by (rule conjunct1)
  then have u: "uuid_hyphenated x a = uuid_hyphenated x b \<longleftrightarrow> a = b" for a b by (rule inj_eq)
  have f: "rd_schema_version r = rd_schema_version q" "rd_operation r = rd_operation q" "rd_outcome r = rd_outcome q"
      "rd_request_id r = rd_request_id q" "rd_correlation_id r = rd_correlation_id q"
      "rd_authorization_receipt_id r = rd_authorization_receipt_id q" "rd_accepted_generation r = rd_accepted_generation q"
      "rd_condition r = rd_condition q"
    using assms(2) by (simp_all add: rotate_record_json_def u word_uint_eq_iff [of "rd_accepted_generation r"])
  show ?thesis by (rule rotate_record.equality) (simp_all add: f)
qed

lemma sample_record_codec:
  assumes "rotate_record_json sample_cx sample_record = rotate_record_json sample_cx r"
  shows "record_codec sample_cx (\<lambda>_. ''record'') r"
proof -
  have "uuid_contract sample_cx"
    using sample_uuid_contract by (simp add: uuid_contract_def sample_cx_def sample_externals_def del: be_bytes.simps)
  then have "r = sample_record" using rotate_record_json_inj assms by metis
  then show ?thesis by (simp add: record_codec_def sample_cx_def printed_def)
qed

section \<open>Other secrets\<close>

text \<open>The same environment with another access token and another verifier.\<close>

definition other_secrets :: environment where
  "other_secrets = sample_env\<lparr>
     en_transmit := (\<lambda>root limit trace q. case hq_body q of
       FormBody form \<Rightarrow> Responds 200 None [Some ''hunter2''] | _ \<Rightarrow> en_transmit sample_env root limit trace q),
     en_pkce := (\<lambda>trace. (''challenge'', ''hidden'')) \<rparr>"

lemma mask_request_same:
  assumes "mask_request p = mask_request q"
  shows "hq_method p = hq_method q" "(\<exists>form. hq_body p = FormBody form) \<longleftrightarrow> (\<exists>form. hq_body q = FormBody form)"
  using assms by (cases p; cases q; auto simp: mask_request_def mask_body_def split: request_body.splits)+

lemma sample_bodies: "bodies_alike sample_cx a b"
  by (simp add: bodies_alike_def tokens_alike_def sendable_def)

lemma other_secrets_alike: "environments_alike sample_cx sample_env other_secrets"
proof -
  have "replies_alike sample_cx (hq_body p) (en_transmit sample_env root limit s p) (en_transmit other_secrets root limit t q)"
    if m: "mask_request p = mask_request q" for root limit s t p q
  proof (cases "hq_body q")
    case (FormBody form)
    then obtain form' where "hq_body p = FormBody form'" using mask_request_same(2) [OF m] by blast
    with FormBody show ?thesis
      by (simp add: replies_alike_def other_secrets_def bounded_bytes_def usize_saturating_add_def MAX_RESPONSE_BYTES_def sample_bodies)
  qed (use mask_request_same(1) [OF m] in \<open>simp_all add: replies_alike_def other_secrets_def\<close>)
  then show ?thesis by (simp add: environments_alike_def other_secrets_def sample_env_def)
qed

lemma other_secrets_pkce: "en_pkce other_secrets [] \<noteq> en_pkce sample_env []"
  by (simp add: other_secrets_def)

end
