(* ===== verification/Defects.thy ===== *)
theory Defects
  imports Driver_Safety Control_Facts
begin

text \<open>
  Behaviour of the program that its authors are unlikely to want, each shown of the model as a
  theorem. \<open>App_Samples.intake_reopens_during_rotation\<close> shows one more, on a run of the session driver.
\<close>

section \<open>An installed revision that was never committed\<close>

text \<open>\<open>commit\<close> installs the material of the next revision before the state that names it is
  persisted. When the second step fails, or the process dies between them, the directory stays. The
  next revision is then the same number, and a command with any other material fails on it.\<close>

lemma install_over_orphan:
  assumes "alive w" "fs_stat (w_fs w) (revision_root (ss_root store) (credential_revision_get n)) \<noteq> None"
    and "read_node (w_fs w) (revision_root (ss_root store) (credential_revision_get n) @ [''certificate.pem'']) \<noteq> Inr (vc_certificate c)"
  shows "install_revision store n c w = (w, Inl RevisionConflict)"
  using assms
  by (simp add: install_revision_def verify_existing_revision_def pbind_def pquery_def path_exists_def file_matches_def
      fs_read_def alive_read plift_def Let_def)

theorem orphan_revision_blocks:
  assumes "alive w" "next_revision (ag_state ag) = Inr n"
    and "fs_stat (w_fs w) (revision_root (ss_root (ag_store ag)) (credential_revision_get n)) \<noteq> None"
    and "read_node (w_fs w) (revision_root (ss_root (ag_store ag)) (credential_revision_get n) @ [''certificate.pem''])
           \<noteq> Inr (vc_certificate (ra_credential artifact))"
  shows "snd (commit x command fingerprint artifact observed_at (ag, w)) \<noteq> Inr Accepted"
proof -
  have "next_revision (expire_command_journal (ag_state ag) t) = next_revision (ag_state ag)" for t
    by (simp add: next_revision_def current_revision_def expire_command_journal_def)
  then show ?thesis
    using assms(2) install_over_orphan [OF assms(1,3,4)]
    by (auto simp: commit_def Let_def on_world_def pbind_def plift_def pmap_err_def map_err_def split: sum.splits)
qed

section \<open>A journal entry that expires before its acknowledgement is published\<close>

text \<open>The identifier of an acknowledgement depends on the command alone. A refused command that is
  delivered again after its journal entry has expired, while its acknowledgement still waits in the
  outbox, is not refused again: the state with two equal events does not validate.\<close>

theorem stale_ack_blocks:
  assumes "event_id x ''ack'' (rj_command_id c) \<in> outbound_event_id ` set (st_outbox (ag_state ag))"
  shows "persist_candidate x (reject x c (expire_command_journal (ag_state ag) t)) (ag, w) = ((ag, w), Inl (Store InvalidState))"
proof -
  let ?s = "reject x c (expire_command_journal (ag_state ag) t)"
  have "\<not> distinct (map outbound_event_id (st_outbox ?s))"
    using assms by (auto simp: reject_def expire_command_journal_def Let_def)
  then have "validate x ?s \<noteq> Inr ()" by (auto simp: validate_iff valid_state_def outbox_valid_def)
  then show ?thesis using validate_cases [of x ?s]
    by (auto simp: persist_candidate_def pbind_def plift_def map_err_def)
qed

section \<open>The IPv6 loopback address\<close>

text \<open>A \<open>Url\<close> gives an IPv6 host in brackets, which \<open>IpAddr\<close> does not parse: no redirect to the IPv6
  loopback address passes, although \<open>IpAddr::is_loopback\<close> is asked.\<close>

theorem ipv6_loopback_refused:
  assumes "ur_host_str (au_redirect_uri auth) = Some ''[::1]''"
  shows "check_login_addresses auth \<noteq> Inr ()"
proof -
  have "to_digit radix (CHR ''['') = None" for radix by (simp add: to_digit_def)
  then have n: "read_number radix m z b ''[::1]'' = None" for radix m z b by (simp add: read_number_def)
  have "read_ipv4_addr ''[::1]'' = None" by (simp add: read_ipv4_addr_def read_octet_def read_separator_def n)
  moreover from this have "read_groups 0 (Suc k) ''[::1]'' = ([], False, ''[::1]'')" for k by (simp add: read_separator_def n)
  from this [of 7] have "read_groups 0 8 ''[::1]'' = ([], False, ''[::1]'')" by simp
  ultimately have "parse_ip_addr ''[::1]'' = None" by (simp add: parse_ip_addr_def read_ipv6_addr_def)
  then show ?thesis using assms by (simp add: check_login_addresses_def loopback_host_def)
qed

end
