(* ===== verification/Redaction.thy ===== *)
theory Redaction
  imports Mqtt Control
begin

text \<open>
  What the program writes of its values when they are formatted for debugging. The \<open>Debug\<close>
  implementations of the source are written by hand where a value holds an identifier, a payload or a
  secret; they are modelled here with those the compiler derives around them, and shown to depend
  on nothing but the numbers, outcomes and kinds that are meant to show.
\<close>

section \<open>Formatting\<close>

text \<open>The builders of \<open>std::fmt\<close>, without the alternate flag. Text is quoted; the only text printed here
  is of the program itself and has nothing to escape.\<close>

definition comma_separated :: "string list \<Rightarrow> string" where
  "comma_separated parts = (case parts of [] \<Rightarrow> [] | p # ps \<Rightarrow> p @ concat (map (\<lambda>q. '', '' @ q) ps))"

definition debug_struct :: "string \<Rightarrow> (string \<times> string) list \<Rightarrow> string" where
  "debug_struct name entries =
     (if entries = [] then name
      else name @ '' { '' @ comma_separated (map (\<lambda>(k, v). k @ '': '' @ v) entries) @ '' }'')"

definition debug_tuple :: "string \<Rightarrow> string list \<Rightarrow> string" where
  "debug_tuple name entries = (if entries = [] then name else name @ ''('' @ comma_separated entries @ '')'')"

definition debug_list :: "('a \<Rightarrow> string) \<Rightarrow> 'a list \<Rightarrow> string" where
  "debug_list f xs = ''['' @ comma_separated (map f xs) @ '']''"

definition debug_option :: "('a \<Rightarrow> string) \<Rightarrow> 'a option \<Rightarrow> string" where
  "debug_option f v = (case v of None \<Rightarrow> ''None'' | Some a \<Rightarrow> debug_tuple ''Some'' [f a])"

definition debug_text :: "string \<Rightarrow> string" where
  "debug_text s = [CHR 0x22] @ s @ [CHR 0x22]"

definition debug_bool :: "bool \<Rightarrow> string" where
  "debug_bool b = (if b then ''true'' else ''false'')"

definition debug_i64 :: "i64 \<Rightarrow> string" where
  "debug_i64 n = (if n < 0 then ''-'' @ show_nat (nat (- n)) else show_nat (nat n))"

section \<open>The rotation model\<close>

text \<open>The macro \<open>opaque_reference!\<close> gives every reference the same text but for its name.\<close>

definition debug_reference :: "string \<Rightarrow> string" where
  "debug_reference name = name @ ''([REDACTED])''"

definition debug_key_usage :: "key_usage \<Rightarrow> string" where
  "debug_key_usage u = (case u of ClientAuth \<Rightarrow> ''ClientAuth'' | ServerAuth \<Rightarrow> ''ServerAuth'')"

definition debug_rotation_policy :: "rotation_policy \<Rightarrow> string" where
  "debug_rotation_policy p = debug_struct ''RotationPolicy''
     [(''key_usages'', debug_list debug_key_usage (rp_key_usages p)),
      (''renew_before_seconds'', show_u64 (rp_renew_before_seconds p)),
      (''sans'', ''[REDACTED; '' @ show_nat (length (rp_sans p)) @ '']''),
      (''validity_seconds'', show_u64 (rp_validity_seconds p))]"

definition debug_generation :: "generation \<Rightarrow> string" where
  "debug_generation g = debug_tuple ''Generation'' [show_u64 (generation_get g)]"

definition debug_fence_epoch :: "fence_epoch \<Rightarrow> string" where
  "debug_fence_epoch f = debug_tuple ''FenceEpoch'' [show_u64 (fence_epoch_get f)]"

definition debug_device_sequence :: "device_sequence \<Rightarrow> string" where
  "debug_device_sequence s = debug_tuple ''DeviceSequence'' [show_u64 (device_sequence_get s)]"

definition debug_unix_timestamp :: "unix_timestamp \<Rightarrow> string" where
  "debug_unix_timestamp t = debug_tuple ''UnixTimestamp'' [debug_i64 (unix_timestamp_get t)]"

definition debug_coordinates :: "rotation_coordinates \<Rightarrow> string" where
  "debug_coordinates c = debug_struct ''RotationCoordinates''
     [(''rotation_id'', debug_reference ''RotationId''), (''tenant'', debug_reference ''TenantRef''),
      (''device'', debug_reference ''DeviceRef'')]"

definition debug_acceptance_condition :: "acceptance_condition \<Rightarrow> string" where
  "debug_acceptance_condition c = (case c of AcceptReconciling \<Rightarrow> ''Reconciling'' | AcceptPendingDevice \<Rightarrow> ''PendingDevice'')"

definition debug_rotation_accepted :: "rotation_accepted \<Rightarrow> string" where
  "debug_rotation_accepted a = debug_struct ''RotationAccepted''
     [(''coordinates'', debug_coordinates (rotation_accepted.ra_coordinates a)),
      (''authorization_receipt'', debug_reference ''AuthorizationReceiptRef''),
      (''accepted_generation'', debug_generation (ra_accepted_generation a)),
      (''condition'', debug_acceptance_condition (ra_condition a))]"

definition debug_command_rejection_reason :: "command_rejection_reason \<Rightarrow> string" where
  "debug_command_rejection_reason r = (case r of
     ReasonArtifactUnavailable \<Rightarrow> ''ArtifactUnavailable'' | ReasonArtifactDigestMismatch \<Rightarrow> ''ArtifactDigestMismatch''
   | ReasonPolicyRejected \<Rightarrow> ''PolicyRejected'' | ReasonGenerationStale \<Rightarrow> ''GenerationStale''
   | ReasonFenceEpochStale \<Rightarrow> ''FenceEpochStale'' | ReasonMalformedCommand \<Rightarrow> ''MalformedCommand''
   | ReasonDeviceFailure \<Rightarrow> ''DeviceFailure'')"

definition debug_ack_outcome :: "command_acknowledgement_outcome \<Rightarrow> string" where
  "debug_ack_outcome out = (case out of AckReceived \<Rightarrow> ''Received''
     | AckRejected r \<Rightarrow> debug_tuple ''Rejected'' [debug_command_rejection_reason r])"

definition debug_ack_position :: "command_ack_position \<Rightarrow> string" where
  "debug_ack_position p = debug_struct ''CommandAckPosition''
     [(''desired_generation'', debug_generation (ap_desired_generation p)), (''fence_epoch'', debug_fence_epoch (ap_fence_epoch p)),
      (''device_sequence'', debug_device_sequence (ap_device_sequence p)), (''observed_at'', debug_unix_timestamp (ap_observed_at p))]"

definition debug_acknowledgement :: "command_acknowledgement \<Rightarrow> string" where
  "debug_acknowledgement a = debug_struct ''CommandAcknowledgement''
     [(''coordinates'', debug_coordinates (ca_coordinates a)), (''event'', debug_reference ''EventRef''),
      (''command'', debug_reference ''CommandRef''), (''position'', debug_ack_position (ca_position a)),
      (''outcome'', debug_ack_outcome (ca_outcome a))]"

definition debug_report_position :: "report_position \<Rightarrow> string" where
  "debug_report_position p = debug_struct ''ReportPosition''
     [(''observed_generation'', debug_generation (rpos_observed_generation p)), (''fence_epoch'', debug_fence_epoch (rpos_fence_epoch p)),
      (''device_sequence'', debug_device_sequence (rpos_device_sequence p)), (''observed_at'', debug_unix_timestamp (rpos_observed_at p))]"

definition debug_credential_report :: "credential_report \<Rightarrow> string" where
  "debug_credential_report r = debug_struct ''CredentialReport''
     [(''coordinates'', debug_coordinates (cr_coordinates r)), (''event'', debug_reference ''EventRef''),
      (''position'', debug_report_position (cr_position r)), (''state_hash'', debug_reference ''StateHash''),
      (''artifact_digest'', debug_reference ''ArtifactDigest''),
      (''expires_at'', debug_option debug_unix_timestamp (cr_expires_at r))]"

definition debug_stale_reason :: "application_stale_reason \<Rightarrow> string" where
  "debug_stale_reason r = (case r of StaleGeneration \<Rightarrow> ''GenerationStale'' | StaleFenceEpoch \<Rightarrow> ''FenceEpochStale''
     | StaleDeviceSequence \<Rightarrow> ''DeviceSequenceStale'')"

definition debug_application_rejection :: "application_rejection_reason \<Rightarrow> string" where
  "debug_application_rejection r = (case r of RejectNotAccepted \<Rightarrow> ''NotAccepted'' | RejectSchemaRejected \<Rightarrow> ''SchemaRejected''
     | RejectProtocolViolation \<Rightarrow> ''ProtocolViolation'')"

definition debug_lineage :: "receipt_lineage \<Rightarrow> string" where
  "debug_lineage l = debug_struct ''ReceiptLineage''
     [(''authorization_receipt'', debug_reference ''AuthorizationReceiptRef''),
      (''desired_generation'', debug_generation (rl_desired_generation l))]"

definition debug_receipt_outcome :: "application_receipt_outcome \<Rightarrow> string" where
  "debug_receipt_outcome out = (case out of
     Committed l \<Rightarrow> debug_tuple ''Committed'' [debug_lineage l]
   | DuplicateReceipt l \<Rightarrow> debug_tuple ''Duplicate'' [debug_lineage l]
   | StaleReceipt l r \<Rightarrow> debug_struct ''Stale'' [(''lineage'', debug_lineage l), (''reason'', debug_stale_reason r)]
   | RejectedReceipt r \<Rightarrow> debug_tuple ''Rejected'' [debug_application_rejection r])"

definition debug_receipt :: "application_receipt_observation \<Rightarrow> string" where
  "debug_receipt a = debug_struct ''ApplicationReceiptObservation''
     [(''coordinates'', debug_coordinates (ar_coordinates a)), (''event'', debug_reference ''EventRef''),
      (''ingress_envelope'', debug_reference ''IngressEnvelopeRef''), (''outcome'', debug_receipt_outcome (ar_outcome a)),
      (''committed_at'', debug_unix_timestamp (ar_committed_at a))]"

section \<open>The client\<close>

definition debug_prepared_request :: "prepared_request \<Rightarrow> string" where
  "debug_prepared_request p = debug_struct ''PreparedRequest''
     [(''method'', debug_text (pr_method p)), (''path'', debug_text ''[REDACTED]''),
      (''body'', debug_option (\<lambda>_. debug_text ''[REDACTED]'') (pr_body p))]"

definition debug_diagnostic_kind :: "diagnostic_kind \<Rightarrow> string" where
  "debug_diagnostic_kind k = (case k of
     Validation \<Rightarrow> ''Validation'' | KindNotFound \<Rightarrow> ''NotFound'' | KindConflict \<Rightarrow> ''Conflict''
   | Unauthorized \<Rightarrow> ''Unauthorized'' | Forbidden \<Rightarrow> ''Forbidden'' | RateLimited \<Rightarrow> ''RateLimited''
   | Upstream \<Rightarrow> ''Upstream'' | Malformed \<Rightarrow> ''Malformed'' | UnknownStatus \<Rightarrow> ''UnknownStatus'')"

definition debug_diagnostic :: "diagnostic \<Rightarrow> string" where
  "debug_diagnostic d = debug_struct ''Diagnostic''
     [(''kind'', debug_diagnostic_kind (dg_kind d)),
      (''request_id'', debug_option (\<lambda>_. debug_text ''[REDACTED]'') (dg_request_id d)),
      (''retryable'', debug_bool (dg_retryable d))]"

definition debug_mapping_context :: "mapping_context \<Rightarrow> string" where
  "debug_mapping_context c = debug_struct ''MappingContext''
     [(''coordinates'', debug_coordinates (mx_coordinates c)), (''expected_device_id'', debug_text ''[REDACTED]'')]"

definition debug_mapping_error :: "mapping_error \<Rightarrow> string" where
  "debug_mapping_error e = (case e of
     DeviceMismatch _ _ \<Rightarrow> ''MappingError::DeviceMismatch([REDACTED])''
   | NegativeDeviceSequence _ \<Rightarrow> ''MappingError::NegativeDeviceSequence([REDACTED])''
   | InvalidProductReference _ \<Rightarrow> ''MappingError::InvalidProductReference([REDACTED])'')"

section \<open>The agent and the applications\<close>

definition debug_device_identity :: "device_identity \<Rightarrow> string" where
  "debug_device_identity i = ''DeviceIdentity(<redacted>)''"

definition debug_artifact_id :: "artifact_id \<Rightarrow> string" where
  "debug_artifact_id a = ''ArtifactId(<redacted>)''"

definition debug_sha256_digest :: "sha256_digest \<Rightarrow> string" where
  "debug_sha256_digest d = ''Sha256Digest(<redacted>)''"

definition debug_command_id :: "command_id \<Rightarrow> string" where
  "debug_command_id c = ''CommandId(<redacted>)''"

definition debug_assertion_verifier :: "broker_assertion_verifier \<Rightarrow> string" where
  "debug_assertion_verifier v = ''BrokerAssertionVerifier(<public-key>)''"

definition debug_assertion_error :: "broker_assertion_error \<Rightarrow> string" where
  "debug_assertion_error e = ''BrokerAssertionError('' @ debug_text ''MQTT broker assertion rejected'' @ '')''"

definition debug_agent :: "reference_device_agent \<Rightarrow> string" where
  "debug_agent a = ''ReferenceDeviceAgent(<durable>)''"

definition debug_mqtt_error :: "mqtt_error \<Rightarrow> string" where
  "debug_mqtt_error e = debug_struct ''MqttError'' [(''kind'', debug_text (mqtt_error_kind e))]"

definition debug_command_delivery :: "command_delivery \<Rightarrow> string" where
  "debug_command_delivery d = ''CommandDelivery(<authenticated>)''"

definition debug_mqtt_session :: "mqtt_session \<Rightarrow> string" where
  "debug_mqtt_session s = ''MqttSession(<mTLS-persistent>)''"

definition debug_token_set :: "token_set \<Rightarrow> string" where
  "debug_token_set t = ''TokenSet([REDACTED])''"

section \<open>What shows\<close>

text \<open>Facts that agree in their numbers and outcomes have the same text, whatever rotation, tenant,
  device, event, command, receipt, envelope, hash and digest they name.\<close>

lemmas debug_defs = debug_credential_report_def debug_acknowledgement_def debug_receipt_def debug_rotation_accepted_def
  debug_coordinates_def debug_mapping_context_def

lemma debug_report_public:
  "cr_position r = cr_position s \<Longrightarrow> cr_expires_at r = cr_expires_at s \<Longrightarrow> debug_credential_report r = debug_credential_report s"
  by (simp add: debug_defs)

lemma debug_acknowledgement_public:
  "ca_position a = ca_position b \<Longrightarrow> ca_outcome a = ca_outcome b \<Longrightarrow> debug_acknowledgement a = debug_acknowledgement b"
  by (simp add: debug_defs)

definition without_receipt :: "application_receipt_outcome \<Rightarrow> application_receipt_outcome" where
  "without_receipt out =
     (let hide = (\<lambda>l. l\<lparr> rl_authorization_receipt := AuthorizationReceiptRef [] \<rparr>) in
      case out of Committed l \<Rightarrow> Committed (hide l) | DuplicateReceipt l \<Rightarrow> DuplicateReceipt (hide l)
      | StaleReceipt l r \<Rightarrow> StaleReceipt (hide l) r | RejectedReceipt r \<Rightarrow> RejectedReceipt r)"

lemma debug_without_receipt: "debug_receipt_outcome (without_receipt out) = debug_receipt_outcome out"
  by (cases out) (simp_all add: without_receipt_def debug_receipt_outcome_def debug_lineage_def Let_def)

lemma debug_receipt_public:
  assumes "without_receipt (ar_outcome a) = without_receipt (ar_outcome b)" "ar_committed_at a = ar_committed_at b"
  shows "debug_receipt a = debug_receipt b"
proof -
  have "debug_receipt_outcome (ar_outcome a) = debug_receipt_outcome (ar_outcome b)"
    using assms(1) debug_without_receipt by metis
  then show ?thesis using assms(2) by (simp add: debug_defs)
qed

text \<open>Requests and diagnostics show a method or kind, and whether there is a body or a request id.\<close>

lemma debug_request_public:
  "pr_method p = pr_method q \<Longrightarrow> pr_body p = None \<longleftrightarrow> pr_body q = None \<Longrightarrow> debug_prepared_request p = debug_prepared_request q"
  by (auto simp: debug_prepared_request_def debug_option_def split: option.splits)

lemma debug_diagnostic_public:
  "dg_kind d = dg_kind e \<Longrightarrow> dg_retryable d = dg_retryable e \<Longrightarrow> dg_request_id d = None \<longleftrightarrow> dg_request_id e = None
     \<Longrightarrow> debug_diagnostic d = debug_diagnostic e"
  by (auto simp: debug_diagnostic_def debug_option_def split: option.splits)

text \<open>A prepared rotation shows neither the device nor the policy it is for.\<close>

lemma debug_policy_put_hidden:
  assumes "prepare_policy_put x d g k p = Inr q" "prepare_policy_put x d' g' k' p' = Inr q'"
  shows "debug_prepared_request q = debug_prepared_request q'"
  by (rule debug_request_public) (use assms in \<open>auto simp: prepare_policy_put_def Let_def\<close>)

text \<open>The errors of the connection show their kind, and so whether they come from the transport, but
  nothing of what the broker answered beyond it.\<close>

lemma debug_mqtt_error_public: "mqtt_error_kind e = mqtt_error_kind f \<Longrightarrow> debug_mqtt_error e = debug_mqtt_error f"
  by (simp add: debug_mqtt_error_def)

end
