(* ===== verification/Consumers.thy ===== *)
theory Consumers
  imports Prelude
begin

text \<open>
  The two crates that use the published platform as an outside product would.
  \<^verbatim>\<open>crates/rss-consumer-smoke/src/lib.rs\<close>: a Tower layer that binds the diagnostic and the trace context
  of a request around the future of the inner service. \<^verbatim>\<open>crates/platform-authoring-smoke/src/lib.rs\<close>: the
  acceptance of public foundation values, and an asynchronous handler. The types of the platform
  crates are type variables and their functions fields of \<open>observation_externals\<close> and
  \<open>foundation_externals\<close>.
\<close>

section \<open>Observation of requests\<close>

text \<open>A request, with its headers in order; header names are lower case, as \<open>HeaderName\<close> keeps them.\<close>

record 'b tower_request =
  tr_headers :: "(string \<times> bytes) list"
  tr_content :: 'b

record ('correlation, 'parent, 'remote) observation_externals =
  header_to_str :: "bytes \<Rightarrow> string option"
  correlation_id_parse :: "string \<Rightarrow> 'correlation option"
  trace_parent_parse :: "string \<Rightarrow> 'parent option"
  restore_remote_parent :: "'parent \<Rightarrow> string option \<Rightarrow> 'remote option"

definition single_header ::
  "('c, 'p, 'r, 'z) observation_externals_scheme \<Rightarrow> 'b tower_request \<Rightarrow> string \<Rightarrow> string option" where
  "single_header x request name =
     (case map snd (filter (\<lambda>(n, _). n = name) (tr_headers request)) of
        [] \<Rightarrow> None
      | value # [] \<Rightarrow> header_to_str x value
      | _ # _ # _ \<Rightarrow> None)"

definition diagnostic_context ::
  "('c, 'p, 'r, 'z) observation_externals_scheme \<Rightarrow> 'b tower_request \<Rightarrow> 'c option" where
  "diagnostic_context x request = Option.bind (single_header x request ''x-correlation-id'') (correlation_id_parse x)"

definition traceparent ::
  "('c, 'p, 'r, 'z) observation_externals_scheme \<Rightarrow> 'b tower_request \<Rightarrow> 'p option" where
  "traceparent x request = Option.bind (single_header x request ''traceparent'') (trace_parent_parse x)"

text \<open>What a future sees while it is polled: the diagnostic context in scope and the remote parent of
  the current span. A service gives a future for a request, and a future an outcome.\<close>

record ('c, 'r) ambient =
  am_diagnostic :: "'c option"
  am_remote_parent :: "'r option"

type_synonym ('c, 'r, 'b, 'e, 'a) service = "'b tower_request \<Rightarrow> ('c, 'r) ambient \<Rightarrow> ('e, 'a) result"

text \<open>The span is a root span: it has no parent but the one restored. Without a diagnostic context the
  future stays in the scope it is awaited in.\<close>

definition observation_call ::
  "('c, 'p, 'r, 'z) observation_externals_scheme \<Rightarrow> ('c, 'r, 'b, 'e, 'a) service \<Rightarrow> ('c, 'r, 'b, 'e, 'a) service" where
  "observation_call x inner request outer =
     (let diagnostic = diagnostic_context x request;
          parent = traceparent x request;
          tracestate = single_header x request ''tracestate'';
          span = Option.bind parent (\<lambda>p. restore_remote_parent x p tracestate);
          future = (\<lambda>scoped. inner request (scoped\<lparr> am_remote_parent := span \<rparr>))
      in case diagnostic of
           Some context \<Rightarrow> future (outer\<lparr> am_diagnostic := Some context \<rparr>)
         | None \<Rightarrow> future outer)"

text \<open>A header counts only when the request carries it once.\<close>

lemma single_header_Some:
  "single_header x request name = Some v \<longleftrightarrow>
     (\<exists>before raw after. tr_headers request = before @ (name, raw) # after \<and> header_to_str x raw = Some v
        \<and> name \<notin> fst ` set (before @ after))"
proof
  assume a: "single_header x request name = Some v"
  then obtain raw where f: "filter (\<lambda>(n, _). n = name) (tr_headers request) = [(name, raw)]" "header_to_str x raw = Some v"
    unfolding single_header_def by (auto split: list.splits simp: map_eq_Cons_conv dest: filter_eq_ConsD)
  then obtain us vs where "tr_headers request = us @ (name, raw) # vs" "\<forall>u\<in>set us. \<not> (case u of (n, _) \<Rightarrow> n = name)"
      "filter (\<lambda>(n, _). n = name) vs = []"
    by (auto dest!: filter_eq_ConsD)
  then show "\<exists>before raw after. tr_headers request = before @ (name, raw) # after \<and> header_to_str x raw = Some v
        \<and> name \<notin> fst ` set (before @ after)"
    using f(2) by (intro exI [of _ us] exI [of _ raw] exI [of _ vs]) (auto simp: filter_empty_conv)
next
  assume "\<exists>before raw after. tr_headers request = before @ (name, raw) # after \<and> header_to_str x raw = Some v
        \<and> name \<notin> fst ` set (before @ after)"
  then obtain before raw after where h: "tr_headers request = before @ (name, raw) # after" "header_to_str x raw = Some v"
      "name \<notin> fst ` set (before @ after)" by blast
  have "filter (\<lambda>(n, _). n = name) before = []" "filter (\<lambda>(n, _). n = name) after = []"
    using h(3) by (force simp: filter_empty_conv)+
  with h(1,2) show "single_header x request name = Some v" by (simp add: single_header_def)
qed

text \<open>The layer is transparent: the request, the response and the error are those of the inner
  service, which differs from a direct call only in its ambient context.\<close>

lemma observation_call_transparent:
  "observation_call x inner request outer = inner request
     \<lparr> am_diagnostic = (case diagnostic_context x request of Some d \<Rightarrow> Some d | None \<Rightarrow> am_diagnostic outer),
       am_remote_parent = Option.bind (traceparent x request)
         (\<lambda>p. restore_remote_parent x p (single_header x request ''tracestate'')) \<rparr>"
  by (cases outer) (simp add: observation_call_def Let_def split: option.split)

text \<open>Layers compose: an inner layer finds the same context again.\<close>

lemma observation_call_idem: "observation_call x (observation_call x inner) = observation_call x inner"
  by (intro ext) (simp add: observation_call_transparent split: option.splits)

section \<open>Foundation values\<close>

record ('t, 'te, 'c, 'ce, 'd, 'code, 'safe) foundation_externals =
  timepoint_try_from :: "i64 \<Rightarrow> ('te, 't) result"
  page_cursor_parse :: "string \<Rightarrow> ('ce, 'c) result"
  cursor_stale :: 'ce
  data_class_public :: 'd
  safe_error_new :: "'code \<Rightarrow> 'safe"
  code_forbidden :: 'code
  code_internal :: 'code

record ('t, 'c, 'd) foundation_record =
  fr_recorded_at :: 't
  fr_next_cursor :: 'c
  fr_data_class :: 'd

datatype ('te, 'ce, 'safe) foundation_input_error =
    TimepointError 'te
  | CursorError 'ce
  | UnsafeData 'safe

definition accept_foundation_record ::
  "('t, 'te, 'c, 'ce, 'd, 'code, 'safe, 'z) foundation_externals_scheme \<Rightarrow> i64 \<Rightarrow> string \<Rightarrow> 'd \<Rightarrow> bool
     \<Rightarrow> (('te, 'ce, 'safe) foundation_input_error, ('t, 'c, 'd) foundation_record) result" where
  "accept_foundation_record x unix_seconds raw_cursor data_class cursor_is_current =
     rbind (map_err TimepointError (timepoint_try_from x unix_seconds)) (\<lambda>recorded_at.
     rbind (map_err CursorError (page_cursor_parse x raw_cursor)) (\<lambda>next_cursor.
     if \<not> cursor_is_current then Inl (CursorError (cursor_stale x))
     else if data_class \<noteq> data_class_public x then Inl (UnsafeData (safe_error_new x (code_forbidden x)))
     else Inr \<lparr> fr_recorded_at = recorded_at, fr_next_cursor = next_cursor, fr_data_class = data_class \<rparr>))"

definition project_provider_failure ::
  "('t, 'te, 'c, 'ce, 'd, 'code, 'safe, 'z) foundation_externals_scheme \<Rightarrow> 'provider \<Rightarrow> 'safe" where
  "project_provider_failure x _ = safe_error_new x (code_internal x)"

text \<open>A record is accepted exactly from valid values, a current cursor and public data, and then holds
  what was parsed. Data that is not public is only reported when everything else is in order, and what
  a provider failed with never shows.\<close>

lemma accept_foundation_record_Inr:
  "accept_foundation_record x s raw d current = Inr r \<longleftrightarrow> current \<and> d = data_class_public x
     \<and> timepoint_try_from x s = Inr (fr_recorded_at r) \<and> page_cursor_parse x raw = Inr (fr_next_cursor r) \<and> fr_data_class r = d"
  by (cases r) (auto simp: accept_foundation_record_def)

lemma accept_foundation_record_UnsafeData:
  "accept_foundation_record x s raw d current = Inl (UnsafeData e) \<longleftrightarrow> current \<and> d \<noteq> data_class_public x
     \<and> is_ok (timepoint_try_from x s) \<and> is_ok (page_cursor_parse x raw) \<and> e = safe_error_new x (code_forbidden x)"
  by (auto simp: accept_foundation_record_def rbind_def map_err_def is_ok_def split: sum.splits)

lemma project_provider_failure_hides: "project_provider_failure x e = project_provider_failure x f"
  by (simp add: project_provider_failure_def)

section \<open>An asynchronous handler\<close>

datatype create_widget_request = CreateWidget string | FailWidget | WaitWidget

record ('kind, 'scope) create_widget_response =
  wr_name :: string
  wr_tenant :: "string option"
  wr_request_id :: string
  wr_principal_kind :: 'kind
  wr_row_scope :: "'scope option"
  wr_name_visible :: bool
  wr_deadline_active :: bool
  wr_cancellation_observed :: bool

text \<open>What a \<open>RequestContextView\<close> answers; the tenant as its text, and the time left of the deadline as
  a function of the clock.\<close>

record ('kind, 'scope, 'instant, 'duration) request_context =
  cx_tenant :: "string option"
  cx_request_id :: string
  cx_principal_kind :: 'kind
  cx_row_scope :: "'scope option"
  cx_field_allowed :: "string \<Rightarrow> bool"
  cx_remaining :: "'instant \<Rightarrow> 'duration option"
  cx_cancelled :: bool

datatype handler_failure = HandlerRejected

text \<open>\<open>None\<close>: the future never completes.\<close>

definition create_widget_handle ::
  "create_widget_request \<Rightarrow> ('kind, 'scope, 'instant, 'duration) request_context \<Rightarrow> 'instant
     \<Rightarrow> (handler_failure, ('kind, 'scope) create_widget_response) result option" where
  "create_widget_handle request context now = (case request of
     FailWidget \<Rightarrow> Some (Inl HandlerRejected)
   | WaitWidget \<Rightarrow> None
   | CreateWidget name \<Rightarrow> Some (Inr \<lparr>
       wr_name = name, wr_tenant = cx_tenant context, wr_request_id = cx_request_id context,
       wr_principal_kind = cx_principal_kind context, wr_row_scope = cx_row_scope context,
       wr_name_visible = cx_field_allowed context ''name'',
       wr_deadline_active = (cx_remaining context now \<noteq> None),
       wr_cancellation_observed = cx_cancelled context \<rparr>))"

lemma create_widget_completes: "create_widget_handle request context now \<noteq> None \<longleftrightarrow> request \<noteq> WaitWidget"
  by (cases request) (simp_all add: create_widget_handle_def)

end
