(* ===== verification/Spec2Isabelle.thy ===== *)
theory Spec2Isabelle
  imports App_Samples Control_Samples Defects Redaction Consumers
begin

text \<open>
  \<^bold>\<open>Secure device rotation: a verified model of the device agent, its controller and its operator.\<close>

  \<^bold>\<open>The program.\<close> A device holds a TLS credential and rotates it when a controller asks it to. The
  \<^emph>\<open>device agent\<close> (\<^verbatim>\<open>crates/reference-device-agent-core\<close>) keeps the protocol state on disk: the current
  credential, an outbox of facts to publish, a journal of commands seen and the delivery being
  settled. An \<^emph>\<open>application\<close> (\<^verbatim>\<open>apps/reference-device-agent\<close>) connects it to an MQTT broker. The
  \<^emph>\<open>rotation model\<close> (\<^verbatim>\<open>crates/rotation-model\<close>) is the shared vocabulary, the \<^emph>\<open>client\<close>
  (\<^verbatim>\<open>crates/rss-device-security-client\<close>) maps canonical payloads to it, the \<^emph>\<open>operator's command line\<close>
  (\<^verbatim>\<open>apps/rotation-control\<close>) logs in and asks for rotations, and the \<^emph>\<open>journey\<close>
  (\<^verbatim>\<open>journeys/secure-device-rotation\<close>) checks the public trace of a rotation from outside.

  \<^bold>\<open>A rotation.\<close> The operator's request makes the server send a command. The broker delivers it, the
  driver decodes it and the agent refuses it durably or accepts it: it installs the new material as
  the next revision, saves the new state and queues an acknowledgement and a blocked report. The
  driver leaves the command topic, confirms the delivery, publishes the acknowledgement and
  reconnects with the new credential; the connection releases the report. When the delivery is
  settled and the report published, the rotation is over.

  \<^bold>\<open>The theories and the code.\<close>
  \<^item> \<open>Prelude\<close>: machine integers, results, UTF-8 strings, and what the standard library does with them.
    \<open>Externals\<close>: the record of third-party functions, which later theories extend (\<open>tls_externals\<close>,
    \<open>store_externals\<close>, \<open>catalog_externals\<close>, \<open>assertion_externals\<close>, \<open>contract_externals\<close>,
    \<open>transport_externals\<close>, \<open>config_externals\<close>, \<open>url_externals\<close>, \<open>control_externals\<close>), and their
    documented behaviour as predicates.
  \<^item> \<open>File_System\<close>: a disk with files, directories and links, calls that may fail or crash half way, and
    what a crash may leave of writes that were not synchronised.
  \<^item> \<open>Rotation_Model\<close>: \<^verbatim>\<open>rotation-model/src/lib.rs\<close>. \<open>Agent_Types\<close>: \<^verbatim>\<open>types.rs\<close>. \<open>State_V1\<close>: the
    protocol state of \<^verbatim>\<open>state.rs\<close>, its queries, transitions and \<open>verify\<close>. \<open>State_Store\<close>: the store of
    \<^verbatim>\<open>state.rs\<close>. \<open>Material\<close>: \<^verbatim>\<open>material.rs\<close>. \<open>Catalog\<close>: \<^verbatim>\<open>catalog.rs\<close>. \<open>Agent\<close>: \<^verbatim>\<open>agent.rs\<close>, one
    definition per public operation, over the agent value and the disk. \<open>Assertion\<close>: \<^verbatim>\<open>assertion.rs\<close>
    and the connection settings of \<^verbatim>\<open>types.rs\<close>.
  \<^item> \<open>Client\<close>: the device-security client. \<open>Wire\<close>: \<^verbatim>\<open>wire.rs\<close>. \<open>Mqtt\<close>: \<^verbatim>\<open>mqtt.rs\<close>. \<open>Driver\<close>: the session
    driver and the reconnection loop of \<^verbatim>\<open>main.rs\<close>. \<open>Config\<close>: \<^verbatim>\<open>config.rs\<close> and the head of \<open>main\<close>.
  \<^item> \<open>Control_Url\<close>, \<open>Control_Callback\<close>, \<open>Control\<close>: the operator's command line, \<^verbatim>\<open>rotation-control/src/lib.rs\<close>:
    errors and addresses, the callback listener, login, requests, audit and \<open>main_entry\<close>. \<open>Journey\<close>: the
    journey checker. \<open>Redaction\<close>: the \<open>Debug\<close> implementations of all crates. \<open>Consumers\<close>: the crates
    \<^verbatim>\<open>rss-consumer-smoke\<close> and \<^verbatim>\<open>platform-authoring-smoke\<close>.
  \<^item> Proofs: \<open>State_Invariant\<close>, \<open>State_Transitions\<close>, \<open>State_Phase\<close> (the protocol state), \<open>Agent_Machine\<close>,
    \<open>Agent_Progress\<close>, \<open>Agent_Facts\<close>, \<open>Agent_Accepts\<close>, \<open>Agent_Recovery\<close>, \<open>Agent_Sending\<close> (the agent),
    \<open>Driver_Facts\<close>, \<open>Driver_Safety\<close> (the driver), \<open>Control_Facts\<close>, \<open>Control_Secrecy\<close> (the operator), \<open>Defects\<close> (behaviour
    that is likely not meant). Witnesses: \<open>Samples\<close>, \<open>App_Samples\<close>, \<open>Control_Samples\<close>.

  \<^bold>\<open>State and effects.\<close> Rust results are sums with the error on the left. Stateful code passes its
  state: the agent and the driver run over a value and a \<open>world\<close> (the disk, its script of faults, its
  locks); \<open>pbind\<close> is the question mark. The driver's \<open>select!\<close> is an input, so that every interleaving
  of transport events, shutdown and clock readings is a list of inputs. The operator's program runs
  over a \<open>console\<close> whose trace records what it sends, opens, serves and draws; the environment is a
  function of that trace.

  \<^bold>\<open>Interfaces.\<close> \<open>durable_cell\<close> (what saving promises about crashes; interpreted by \<open>persist\<close>),
  \<open>guarded_machine\<close> and \<open>monotone_machine\<close> (a step relation with an invariant and a quantity it never
  lowers; interpreted by the validated steps of the agent), \<open>correlated_transport\<close> (publications and
  their acknowledgements; interpreted by the MQTT session) and \<open>faithful_ports\<close> (an HTTP port that
  sends what it is asked to; interpreted by the ports of the command line).

  \<^bold>\<open>What is shown.\<close> Memory and disk agree after every crash and restart, and saving refines an atomic
  cell (C1, C16, C17). \<open>verify\<close> decides a declarative invariant that every transition keeps and that
  refines a phase machine (C9 to C15). Commands are accepted exactly when authorised, once, and a
  rotation completes (C2 to C8). Artifacts and credentials are checked, files confined, topics of
  devices disjoint and policies well-formed (C18 to C23), and start-up gives a valid agent (C24).
  Deliveries are authenticated (C25 to C27); the driver never loses track of a publication,
  speaks to the broker only of durable state, holds acknowledgements, reconnects only when settled and
  stops when told to (C28 to C32). Facts can be encoded and reach the controller unchanged, and the
  journey checker accepts what the agent sends (C33 to C35). The operator's token stays confined and
  secret, logins follow the protocol, and audit accepts what rotate prints (C36 to C40). Further
  lemmas: what debugging output may show (\<open>Redaction\<close>), the observation layer and the acceptance of
  foundation values (\<open>Consumers\<close>), and the bounds of the retry delay (\<open>Driver_Safety\<close>).

  \<^bold>\<open>Bounds and fuel.\<close> Loops of the code are recursions that end on their own: \<open>read_request\<close> on the room
  left of 8192 bytes, \<open>fs_walk\<close> on the 40 links Linux follows. The driver's loops consume a list of
  inputs and return \<open>None\<close> when it is used up, as the program then waits; \<open>receive_callback\<close> does so with
  its sockets. \<open>run_rounds\<close> takes a number of rounds, and C2 and C15 show that as many rounds as
  \<open>work_left\<close>, at most twice the outbox and two, are enough.

  \<^bold>\<open>Assumptions\<close> are named predicates about third-party code (\<open>codec_roundtrip\<close>, \<open>digest_contract\<close>,
  \<open>uuid_contract\<close>, \<open>collision_free_on\<close>, \<open>contracts_accept\<close>, \<open>deadlines_positive\<close>,
  \<open>generations_positive\<close>, \<open>url_contract\<close>, \<open>contract_paths\<close>, \<open>record_codec\<close>). The witnesses instantiate
  them with concrete functions.

  \<^bold>\<open>Not modelled\<close>: field accessors, which are record selectors here; derived \<open>Debug\<close> implementations that
  no redacted value is part of; logging; scheduling inside the asynchronous runtime, beyond the
  outcome of each \<open>select!\<close> and timeout; the variants of file access for systems other than Unix;
  generated contract types, of which only the fields in use are named; and the conformance fixture, scripts,
  broker plugin and deployment files around the program.
\<close>

section \<open>Crashes, restarts, completion\<close>

text \<open>C1. An operation of the agent interrupted at any system call: the state it works towards is the
  present one or one validated step away; whatever disk the crash leaves, a restart loads the old or
  the new state, never a mixture; and after an operation that reported success, memory and disk hold
  the new state.\<close>

theorem crash_recovery:
  assumes "codec_total x" "\<forall>s. codec_roundtrip x s" "valid_state x i (ag_state ag)"
    and "shows_state (ag_store ag) w {state_image x (ag_state ag)}"
    and "run_op x op (ag, w) = ((ag', w'), r)" "may_recover w' f"
    and "fs_resolve f (state_path (ss_root (ag_store ag))) = Some (state_path (ss_root (ag_store ag)))"
  shows "\<exists>t u. (t = ag_state ag \<or> validated_step x (ag_state ag) t)
    \<and> ag_state ag' \<in> {ag_state ag, t} \<and> u \<in> {ag_state ag, t}
    \<and> read_state x (ag_store ag) i (reboot f []) = (reboot f [], Inr u)
    \<and> (is_ok r \<longrightarrow> ag_state ag' = t \<and> u = t)"
  by (rule run_op_restart [OF assms])

theorem crash_recovery_witness:
  "\<exists>u. read_state sample_x \<lparr> ss_root = sample_root \<rparr> sample_identity (reboot (sample_disk sample_accepted) [])
     = (reboot (sample_disk sample_accepted) [], Inr u)"
proof -
  let ?run = "run_op sample_x (ConfirmOutbound ''e'') (sample_agent sample_accepted, sample_world sample_accepted [Crash 0])"
  have "?run = ((fst (fst ?run), snd (fst ?run)), snd ?run)" by simp
  from crash_recovery [OF sample_x_contracts(2) _ _ _ this sample_recovers [OF sample_crash], of sample_identity]
  show ?thesis
    using sample_shows [of sample_accepted] linked_stateD(1) [OF sample_accepted_linked] sample_state_path
    by (auto simp: sample_x_contracts(3) sample_agent_def)
qed

text \<open>C2. On a working disk a connected session that publishes the next fact, reconnects with the
  installed credential and settles its delivery drives any rotation to completion: within a number
  of rounds bounded by the pending work the outbox is empty, no rotation is in flight and the
  invariant holds.\<close>

theorem rotation_completes:
  assumes "linked_state x i (ag_state (fst aw))" "wf_identity x i"
    and "healthy (ag_store (fst aw)) (snd aw)" "codec_total x" "work_left (ag_state (fst aw)) \<le> n"
  shows "linked_state x i (ag_state (fst (run_rounds x n aw)))
    \<and> st_outbox (ag_state (fst (run_rounds x n aw))) = []
    \<and> rotation_phase (ag_state (fst (run_rounds x n aw))) = Idle"
  by (rule session_completes [OF assms])

theorem rotation_completes_witness:
  "rotation_phase (ag_state (fst (run_rounds sample_x 5 (sample_agent sample_accepted, sample_world sample_accepted [])))) = Idle"
  using rotation_completes [of sample_x sample_identity "(sample_agent sample_accepted, sample_world sample_accepted [])" 5]
    sample_accepted_linked sample_healthy sample_x_contracts(2) accept_fields(2,7,9) [OF sample_accepts]
  by (simp add: work_left_def)

section \<open>Commands\<close>



text \<open>C4. A command is accepted only by an idle agent that has not seen it, on the topic of the device's
  current identity, for this device, before its deadline, with a fence not older and a generation
  and a credential generation newer than the installed ones, and with an artifact from the catalogue
  that is not revoked, bound to the command, matches its digest and carries a credential of the
  target identity.\<close>

theorem accepted_only_if_authorised:
  assumes "apply_command x topic c now (ag, w) = (aw', Inr Accepted)"
  shows "\<exists>a r t. acceptance x topic c now ag (w_fs w) a r
    \<and> accept x (commit_command ag c (command_fingerprint x c) a (observed now) r)
        (expire_command_journal (ag_state ag) (unwrap_or (u64_try_from_i64 (observed now)) u64_max)) = Inr t
    \<and> fst aw' = ag\<lparr> ag_state := t \<rparr>"
  by (rule apply_command_Accepted [OF assms])

theorem accepted_only_if_authorised_witness:
  "\<exists>a r. acceptance sample_x sample_topic sample_command 10 (sample_agent sample_initial) (sample_disk sample_initial) a r"
proof -
  obtain aw' where "apply_command sample_x sample_topic sample_command 10
      (sample_agent sample_initial, sample_world sample_initial []) = (aw', Inr Accepted)"
    using sample_applies by blast
  from accepted_only_if_authorised [OF this] show ?thesis by auto
qed

text \<open>C5. Until its retention deadline an accepted command is recognised when it is delivered again, on
  whatever topic: the agent answers Duplicate and neither its state nor the disk changes while the
  acknowledgement is pending.\<close>

theorem accepted_command_idempotent:
  assumes "valid_state x i (ag_state ag)" "uint now \<le> i64_max"
    and "apply_command x topic c now (ag, w) = ((ag', w'), Inr Accepted)"
    and "later < retention_deadline ag (observed now)"
  shows "apply_command x topic' c later (ag', w'') = ((ag', w''), Inr Duplicate)"
  by (rule duplicate_after_accept [OF assms])

theorem accepted_command_idempotent_witness:
  "\<exists>ag'. apply_command sample_x ''elsewhere'' sample_command 60 (ag', sample_world sample_initial [])
     = ((ag', sample_world sample_initial []), Inr Duplicate)"
proof -
  obtain ag' w' where "apply_command sample_x sample_topic sample_command 10
      (sample_agent sample_initial, sample_world sample_initial []) = ((ag', w'), Inr Accepted)"
    using sample_applies by auto
  from accepted_command_idempotent [OF _ _ this, of sample_identity 60 "''elsewhere''" "sample_world sample_initial []"]
  show ?thesis using linked_stateD(1) [OF sample_initial_linked] by (simp add: sample_retention) (auto simp: i64_max_def)
qed

text \<open>C6. While a rotation is in flight a command the agent does not know is refused with
  RotationInFlight and nothing changes, in memory or on disk.\<close>

theorem in_flight_backpressure:
  assumes "rotation_in_flight (ag_state ag)"
    and "command_match (ag_state ag) (command_id_expose (dc_command_id c)) (command_fingerprint x c) now = None"
  shows "apply_command x topic c now (ag, w) = ((ag, w), Inl RotationInFlight)"
  by (rule backpressure [OF assms])

theorem in_flight_backpressure_witness:
  "apply_command sample_x sample_topic (sample_command\<lparr> dc_command_id := CommandId ''command-9'' \<rparr>) 20
      (sample_agent sample_accepted, sample_world sample_accepted [])
     = ((sample_agent sample_accepted, sample_world sample_accepted []), Inl RotationInFlight)"
  by (rule in_flight_backpressure)
    (simp_all add: rotation_in_flight_def command_match_def accept_fields(2,3) [OF sample_accepts]
      sample_accepted_command_def)

text \<open>C7. When command_intake_open admits a command, no later step of apply_command fails for lack of
  room: neither OutboxFull nor CommandJournalFull is returned.\<close>

theorem open_intake_never_full:
  assumes "command_intake_open ag now" "valid_state x i (ag_state ag)" "uint now \<le> i64_max"
  shows "no_room_error (apply_command x topic c now) (ag, w)"
  by (rule apply_command_room [OF assms])

theorem open_intake_never_full_witness:
  "no_room_error (apply_command sample_x sample_topic sample_command 10) (sample_agent sample_initial, sample_world sample_initial [])"
  by (rule open_intake_never_full [OF _ _, of _ _ sample_x sample_identity])
    (use sample_ready linked_stateD(1) [OF sample_initial_linked] in \<open>simp_all add: ready_to_accept_def i64_max_def\<close>)

text \<open>C8. Two well-formed commands have the same fingerprint only if they are the same command, as long
  as SHA-256 does not collide on their canonical encodings.\<close>

theorem fingerprint_binds_command:
  assumes "uuid_contract x" "wf_command c" "wf_command d"
    and "collision_free_on x {command_preimage x c, command_preimage x d}"
  shows "command_fingerprint x c = command_fingerprint x d \<longleftrightarrow> c = d"
  using fingerprint_binds [OF assms] by blast

theorem fingerprint_binds_command_witness:
  "command_fingerprint sample_two sample_command = command_fingerprint sample_two sample_other_command
     \<longleftrightarrow> sample_command = sample_other_command"
  by (rule fingerprint_binds_command [OF sample_two_uuid sample_command_wf sample_other_wf sample_two_separates])

section \<open>Protocol state\<close>

text \<open>C9. StateV1::verify, a pass of loops with early returns, accepts exactly the states that satisfy
  the declarative invariant.\<close>

theorem verify_decides_invariant:
  "verify x s i = Inr () \<longleftrightarrow> valid_state x i s"
  by (rule verify_iff_valid)



text \<open>C11. The protocol state refines a small phase machine (idle, acknowledgement, reconnect, report,
  each with the delivery settled or not): acceptance, the publication of facts, the reconnect and
  the settlement are its steps, other publications leave the phase alone.\<close>

theorem rotation_refines_phases:
  assumes "linked_state x i s"
  shows "(\<not> rotation_in_flight s \<and> accept x c s = Inr t \<longrightarrow>
        phase_step (rotation_phase s) AcceptRotation (rotation_phase t))
    \<and> (publishable event s \<and> confirm_outbound event s = (True, t) \<longrightarrow> linked_state x i t
        \<and> (rotation_phase t = rotation_phase s \<or> phase_step (rotation_phase s) AckPublished (rotation_phase t)
           \<or> phase_step (rotation_phase s) ReportPublished (rotation_phase t)))
    \<and> (mark_reconnected rv s = (True, t) \<longrightarrow>
        linked_state x i t \<and> phase_step (rotation_phase s) Reconnected (rotation_phase t))
    \<and> (mark_inbound_settled token s = (True, t) \<longrightarrow>
        linked_state x i t \<and> phase_step (rotation_phase s) DeliverySettled (rotation_phase t))"
  using phase_accept [OF linked_stateD(1) [OF assms]] linked_confirm [OF assms] phase_confirm [OF assms]
    linked_reconnected [OF assms] phase_reconnected [OF linked_stateD(1) [OF assms]] linked_settled [OF assms] phase_settled
  by metis

theorem rotation_refines_phases_witness:
  "phase_step (rotation_phase sample_initial) AcceptRotation (rotation_phase sample_accepted)"
  using rotation_refines_phases [OF sample_initial_linked] sample_accepts
  by (simp add: rotation_in_flight_def)

text \<open>C12. The certificate report is offered for publication only after the activating acknowledgement
  was published, the device reconnected with the new credential and the delivery was settled.\<close>

theorem report_comes_last:
  assumes "valid_state x i s" "next_outbound s = Some (CertificateReported eid r)"
  shows "rotation_phase s = AwaitingReport True \<and> st_reconnect_revision s = None \<and> pending_settled s
    \<and> (\<forall>e a. Ack e a \<in> set (st_outbox s) \<longrightarrow> ak_activates_revision a = None)"
  using next_report_phase [OF assms] by simp

theorem report_comes_last_witness:
  "rotation_phase sample_reporting = AwaitingReport True"
  using report_comes_last [OF linked_stateD(1) [OF sample_reporting_linked] sample_reporting_next] by simp

text \<open>C13. Whatever sequence of operations is run, on whatever disk: the state stays valid for the
  configured device, and the generation, the fence, the credential generation, the revision and the
  device sequence never decrease.\<close>

theorem runs_keep_order:
  assumes "valid_state x i (ag_state (fst aw))" "wf_identity x i"
    and "s = ag_state (fst aw)" "t = ag_state (fst (run_ops x ops aw))"
  shows "valid_state x i t \<and> current_generation s \<le> current_generation t \<and> current_fence s \<le> current_fence t
    \<and> current_credential_generation s \<le> current_credential_generation t
    \<and> current_revision s \<le> current_revision t \<and> st_device_sequence s \<le> st_device_sequence t"
proof -
  have r: "(validated_step x)\<^sup>*\<^sup>* s t" unfolding assms(3,4) by (rule run_ops_reach)
  have v: "validated x s" unfolding assms(3) by (rule valid_state_validates [OF assms(1,2)])
  show ?thesis
    using device_machine.reach_inv [OF r] generation_machine.reach_mono [OF r v] fence_machine.reach_mono [OF r v]
      credential_machine.reach_mono [OF r v] revision_machine.reach_mono [OF r v]
      sequence_machine.reach_mono [OF r v] assms(1,3) by blast
qed

theorem runs_keep_order_witness:
  "1 \<le> current_generation (ag_state (fst (run_ops sample_x
      [ApplyCommand sample_topic sample_command 10, SettleAbsent] (sample_agent sample_initial, sample_world sample_initial [Fail 3]))))"
  using runs_keep_order [of sample_x sample_identity _ sample_initial, OF _ _ _ refl] linked_stateD(1) [OF sample_initial_linked]
  by (metis fst_conv sample_agent_simps(1) sample_current(1) sample_identity_wf)



text \<open>C15. Each round of a connected session on a working disk succeeds, keeps the invariant and
  strictly decreases the pending work, so a session cannot go on for ever.\<close>

theorem session_rounds_decrease:
  assumes "linked_state x i (ag_state (fst aw))" "wf_identity x i"
    and "healthy (ag_store (fst aw)) (snd aw)" "codec_total x" "session_op (fst aw) = Some op"
  shows "\<exists>ag' w'. run_op x op aw = ((ag', w'), Inr ()) \<and> linked_state x i (ag_state ag')
    \<and> work_left (ag_state ag') < work_left (ag_state (fst aw))"
  using session_round [OF assms] by metis

theorem session_rounds_decrease_witness:
  "\<exists>op ag' w'. run_op sample_x op (sample_agent sample_accepted, sample_world sample_accepted []) = ((ag', w'), Inr ())
     \<and> work_left (ag_state ag') < work_left sample_accepted"
proof -
  obtain op where "session_op (sample_agent sample_accepted) = Some op"
    using session_done(1) [of sample_x sample_identity "sample_agent sample_accepted"]
      sample_accepted_outbox linked_stateD(1) [OF sample_accepted_linked]
    by fastforce
  then show ?thesis
    using session_rounds_decrease [of sample_x sample_identity "(sample_agent sample_accepted, sample_world sample_accepted [])" op]
      sample_accepted_linked sample_healthy sample_x_contracts(2)
    by auto
qed

section \<open>The store\<close>

text \<open>C16. Saving a state refines a durable cell: whatever a crash can leave before the save, during it
  only the new image is added, and after a save that reported success only the new image is left.\<close>

theorem persist_is_durable_cell:
  assumes "shows_state store w C"
  shows "shows_state store (fst (persist x store s w)) (insert (state_image x s) C)
    \<and> (\<forall>w'. persist x store s w = (w', Inr ()) \<longrightarrow> shows_state store w' {state_image x s})"
  using state_cell.save_atomic [OF assms] state_cell.save_durable [OF assms] by blast

theorem persist_is_durable_cell_witness:
  "shows_state \<lparr> ss_root = sample_root \<rparr>
     (fst (persist sample_x \<lparr> ss_root = sample_root \<rparr> sample_accepted (sample_world sample_initial [Proceed, Crash 2])))
     {state_image sample_x sample_accepted, state_image sample_x sample_initial}"
  using persist_is_durable_cell [OF sample_shows [of sample_initial "[Proceed, Crash 2]"], of sample_x sample_accepted]
  by (simp add: sample_agent_def)



section \<open>Artifacts and credentials\<close>



text \<open>C19. A file read through a catalogue entry is a regular file below the canonical directory of the
  catalogue, reached without following a symbolic link, and readable only by its owner when it is a
  private key.\<close>

theorem catalog_files_confined:
  assumes "read_catalog_file root raw key w = (w', Inr b)"
  shows "\<exists>top names mode synced. fs_resolve (w_fs w) root = Some top \<and> path_components raw = map Normal names
    \<and> fs_get (w_fs w) (top @ names) = Some (File b mode synced) \<and> (key \<longrightarrow> private_mode mode)
    \<and> (\<forall>k. 0 < k \<and> k \<le> length names \<longrightarrow> (\<forall>t. fs_get (w_fs w) (top @ take k names) \<noteq> Some (Symlink t)))"
  by (rule read_catalog_file_confined [OF assms])

theorem catalog_files_confined_witness:
  "\<exists>top names mode synced. path_components ''key.pem'' = map Normal names
     \<and> fs_get (sample_disk sample_initial) (top @ names) = Some (File ''key'' mode synced) \<and> private_mode mode"
  using catalog_files_confined [OF sample_key_read] by auto

text \<open>C20. Validated credential material parses, its key belongs to its leaf certificate, the chain
  verifies against the roots at the given time and the leaf names the device identity; the record
  keeps the bytes that were checked.\<close>

theorem credential_validation_sound:
  assumes "validate_credential_bytes x ca cert key i now = Inr v"
  shows "credential_sound x i now v \<and> vc_ca v = ca \<and> vc_certificate v = cert \<and> vc_private_key v = key"
  using validate_credential_bytes_sound [OF assms] by simp

theorem credential_validation_sound_witness:
  "credential_sound sample_x sample_rotated_identity 10 (ra_credential sample_artifact)"
  using credential_validation_sound [of sample_x "''ca''" "''certificate''" "''key''" sample_rotated_identity 10 "ra_credential sample_artifact"]
  by (simp add: material_defs sample_artifact_def)

text \<open>C21. The message hashed for an artifact determines its three files: the length prefixes make the
  encoding injective.\<close>

theorem artifact_encoding_injective:
  assumes "length a < 2 ^ 64" "length b < 2 ^ 64" "length c < 2 ^ 64"
    and "length a' < 2 ^ 64" "length b' < 2 ^ 64" "length c' < 2 ^ 64"
  shows "artifact_preimage a b c = artifact_preimage a' b' c' \<longleftrightarrow> a = a' \<and> b = b' \<and> c = c'"
  using artifact_preimage_inj [OF assms] by blast

theorem artifact_encoding_injective_witness:
  "artifact_preimage ''ab'' ''c'' ''d'' \<noteq> artifact_preimage ''a'' ''bc'' ''d''"
  using artifact_encoding_injective [of "''ab''" "''c''" "''d''" "''a''" "''bc''" "''d''"] by simp

section \<open>Identities, topics, values\<close>

text \<open>C22. Two device identities that differ in tenant, device or credential generation share no MQTT
  topic.\<close>

theorem topics_of_identities_disjoint:
  assumes "uuid_contract x" "i \<noteq> j"
  shows "set (topic_names (topic_set_new x i)) \<inter> set (topic_names (topic_set_new x j)) = {}"
  by (rule topic_names_disjoint [OF assms])

theorem topics_of_identities_disjoint_witness:
  "set (topic_names (topic_set_new sample_x sample_identity))
     \<inter> set (topic_names (topic_set_new sample_x sample_rotated_identity)) = {}"
  by (rule topics_of_identities_disjoint [OF sample_x_contracts(4)])
    (simp add: sample_rotated_identity_def sample_identity_def)


section \<open>Start-up\<close>



section \<open>The transport session\<close>

text \<open>C25. The session hands a command to the driver only when the event loop delivered it, on the
  command topic of the session's identity or as the one command being recovered, with a canonical
  command id, and with a broker signature over this principal, topic, command id and payload that
  verifies under the configured key.\<close>

theorem command_delivery_authenticated:
  assumes "poll x polled s = (t, Inr (Command d))"
  shows "t = s \<and> polled = Inr (IncomingPublish (cd_publish d)) \<and> delivery_scoped s d \<and> wf_command_id (cd_command_id d)
    \<and> frame_authentic x (ms_assertion_verifier s) (cd_identity d) (delivery_frame d)"
  using poll_command [OF assms] by simp

theorem command_delivery_authenticated_witness:
  "delivery_scoped (sample_session ''commands'') (sample_delivery ''commands'')
     \<and> frame_authentic sample_x (BrokerAssertionVerifier sample_key) sample_identity (delivery_frame (sample_delivery ''commands''))"
  using command_delivery_authenticated [OF sample_polls] by (simp add: sample_session_def sample_delivery_def)

text \<open>C26. Verification of a broker assertion, a chain of early returns over parsed properties, accepts
  exactly the authentic frames: QoS 1, not retained, one version, principal and signature property
  and no other reserved one, the principal of the device, and a signature that verifies over the
  canonical bytes.\<close>

theorem verify_frame_exact:
  "verify_frame x verifier identity frame = Inr () \<longleftrightarrow> frame_authentic x verifier identity frame"
  by (rule verify_frame_iff)

text \<open>C27. The signed bytes determine the principal, the topic, the command id, the payload digest, the
  QoS and the retain flag: frames that share a signature agree on all of them.\<close>

theorem signature_binds_frame:
  assumes "canonical_bytes x p f = Inr b" "canonical_bytes x q g = Inr b"
  shows "p = q \<and> bf_topic f = bf_topic g \<and> bf_correlation f = bf_correlation g
    \<and> sha256_raw x (bf_payload f) = sha256_raw x (bf_payload g) \<and> bf_qos f = bf_qos g \<and> bf_retain f = bf_retain g"
  using canonical_bytes_inj [OF assms] by simp

theorem signature_binds_frame_witness:
  "\<exists>b. canonical_bytes sample_x ''p'' sample_frame = Inr b \<and> canonical_bytes sample_x ''q'' sample_frame \<noteq> Inr b"
proof -
  obtain b where b: "canonical_bytes sample_x ''p'' sample_frame = Inr b"
    by (simp add: canonical_bytes_def append_field_def Let_def sample_frame_def delivery_frame_def sample_delivery_def
        sample_packet_def VERSION_def)
  moreover have "canonical_bytes sample_x ''q'' sample_frame \<noteq> Inr b"
    using signature_binds_frame [OF b, of "''q''" sample_frame] by auto
  ultimately show ?thesis by blast
qed

text \<open>C28. Whatever a session has gone through, when the broker acknowledges a packet the driver never
  fails with UnknownOutbound: at most one fact is on the wire, the packet id leads back to it, and
  the agent still holds it.\<close>

theorem puback_always_recognised:
  assumes "fresh_session session" "valid_state x i (ag_state ag)"
    and "driver_run x inputs (driver_new ag session identity recovery delay, w) = (dw, None)"
    and "end_turn x (TransportReady (Inr (IncomingPubAck k))) ck dw = (dw', r)"
  shows "r \<noteq> Inl (SessionAgent UnknownOutbound)"
proof -
  have "driver_sending x i (fst dw)"
    by (rule driver_run_sending [OF _ assms(3)]) (use driver_new_sending [OF assms(1,2)] in simp)
  from post_Inl [OF end_turn_sending [OF this]] assms(4) show ?thesis by fastforce
qed

theorem puback_always_recognised_witness:
  "\<exists>dw. sn_publish (dv_state (fst dw)) = PublishPending
     \<and> snd (end_turn sample_x (TransportReady (Inr (IncomingPubAck 1))) sample_clock dw) \<noteq> Inl (SessionAgent UnknownOutbound)"
proof -
  obtain dw where "driver_run sample_x (take 2 sample_inputs)
        (driver_new (sample_agent sample_settled) (sample_session ''commands'') sample_identity None 1000, sample_world sample_settled []) = (dw, None)"
      "sn_publish (dv_state (fst dw)) = PublishPending"
    using sample_publishes by (auto simp: sample_driver_def)
  then show ?thesis
    using puback_always_recognised [OF sample_session_fresh _ _ surjective_pairing, of sample_x sample_identity "sample_agent sample_settled"]
      linked_stateD(1) [OF sample_settled_linked] by fastforce
qed

text \<open>C29. A session that starts with memory and disk in agreement keeps them so after every turn that
  succeeds; and a turn that asks anything of the broker, even one that fails later, has first made
  the agent's state durable, so that no command is acknowledged and no topic entered or left on the
  strength of a state a crash could lose.\<close>

theorem broker_told_after_durable:
  assumes "driver_durable x dw" "driver_run x inputs dw = (dw1, None)" "end_turn x input ck dw1 = (dw2, r)"
  shows "driver_durable x dw1 \<and> (is_ok r \<or> asked dw2 \<noteq> asked dw1 \<longrightarrow> driver_durable x dw2)"
proof -
  have d: "driver_durable x dw1" by (rule driver_run_durable [OF assms(1,2)])
  then show ?thesis
    using end_turn_durable [OF d, of input ck] assms(3) by (auto simp: post_def split: sum.splits)
qed

theorem broker_told_after_durable_witness:
  "\<exists>dw. asked dw = [Subscribe ''commands'' AtLeastOnce] \<and> driver_durable sample_x dw"
proof -
  let ?turn = "end_turn sample_x (TransportReady (Inr IncomingConnAck)) sample_clock (sample_driver ''commands'' sample_initial, sample_world sample_initial [])"
  have e: "?turn = (fst ?turn, snd ?turn)" by simp
  from broker_told_after_durable [OF sample_durable sample_waits e] sample_subscribes [OF e] show ?thesis
    by (intro exI [of _ "fst ?turn"]) simp
qed

text \<open>C30. A session whose transport connects once ends with a reconnect only when the acknowledgement
  of an accepted command has been published, so that the new credential is the one to reconnect
  with, the command's delivery is settled, and no unsubscription is outstanding.\<close>

theorem reconnect_only_when_settled:
  assumes "connacks inputs \<le> 1"
    and "driver_run x inputs (driver_new ag session identity recovery delay, w) = (dw, Some (Inr CompletionReconnect))"
  shows "st_reconnect_revision (ag_state (dv_agent (fst dw))) \<noteq> None \<and> pending_inbound_settled (dv_agent (fst dw))
    \<and> \<not> unsubscribe_pending (dv_state (fst dw))"
  using driver_run_reconnect [OF assms] by (simp add: reconnect_allowed_def activated_def)

theorem reconnect_only_when_settled_witness:
  "\<exists>dw. driver_run sample_x sample_inputs (sample_driver ''commands'' sample_settled, sample_world sample_settled []) = (dw, Some (Inr CompletionReconnect))
     \<and> st_reconnect_revision (ag_state (dv_agent (fst dw))) \<noteq> None"
proof -
  obtain dw where r: "driver_run sample_x sample_inputs (sample_driver ''commands'' sample_settled, sample_world sample_settled []) = (dw, Some (Inr CompletionReconnect))"
    using sample_reconnects_session by blast
  have "connacks sample_inputs \<le> 1" by (simp add: connacks_def sample_inputs_def)
  from reconnect_only_when_settled [OF this r [unfolded sample_driver_def]] r show ?thesis by blast
qed

text \<open>C31. When a command is accepted the driver leaves the command topic and holds the broker
  acknowledgement of the delivery; it is sent, and registered with the settlement token of the
  pending command, only when the broker confirms that the topic was left.\<close>

theorem accepted_ack_held:
  assumes "on_command x ck delivery dw = (dw1, Inr ())"
    and "decode_command x (cd_identity delivery) (cd_command_id delivery) (pk_payload (cd_publish delivery)) = Inr command"
    and "apply_command x (cd_topic delivery) command (ck_now ck) (dv_agent (fst dw), snd dw) = ((ag, w), Inr Accepted)"
  shows "asked dw1 = asked dw @ [Unsubscribe (ts_command (ms_topics (dv_session (fst dw))))]
    \<and> unsubscribe_pending (dv_state (fst dw1))
    \<and> (\<forall>ck' dw2 c. on_unsubscribed x ck' dw1 = (dw2, Inr c) \<longrightarrow> asked dw2 = asked dw1 @ [AckPublish (cd_publish delivery)]
        \<and> ms_inbound_acknowledgements (dv_session (fst dw2)) (pk_pkid (cd_publish delivery))
            = Some (pending_delivery_settlement_token ag (cd_topic delivery) (cd_command_id delivery)))"
  using on_command_accepted [OF assms] on_unsubscribed_releases [of x _ dw1]
  by (simp add: unsubscribe_pending_def)

theorem accepted_ack_held_witness:
  "\<exists>dw. asked dw = [Unsubscribe sample_topic] \<and> unsubscribe_pending (dv_state (fst dw))"
proof -
  obtain dw ag w where r: "on_command sample_x sample_clock (sample_delivery sample_topic)
        (sample_driver sample_topic sample_initial, sample_world sample_initial []) = (dw, Inr ())"
      and a: "apply_command sample_x sample_topic sample_command 10 (sample_agent sample_initial, sample_world sample_initial []) = ((ag, w), Inr Accepted)"
    using sample_takes_command by blast
  from accepted_ack_held [OF r, of sample_command ag w] a sample_decodes show ?thesis
    by (auto simp: sample_delivery_def sample_packet_def sample_clock_def sample_driver_defs asked_def)
qed

text \<open>C32. Once a shutdown has begun no turn of the session subscribes to the command topic again,
  whatever happens.\<close>

theorem shutdown_stops_intake:
  assumes "shutting_down dw" "driver_run x inputs dw = (dw', r)"
  shows "intake_requests dw' = intake_requests dw"
  by (rule driver_run_shutdown [OF assms])

theorem shutdown_stops_intake_witness:
  "\<exists>dw. shutting_down dw \<and> intake_requests (fst (driver_run sample_x sample_inputs dw)) = intake_requests dw"
proof -
  let ?d = "(sample_driver ''commands'' sample_initial)\<lparr> dv_state := session_state_default\<lparr> sn_shutdown_deadline := Some 10 \<rparr> \<rparr>"
  have "shutting_down (?d, sample_world sample_initial [])" by simp
  then show ?thesis using shutdown_stops_intake [OF _ surjective_pairing] by blast
qed

section \<open>The wire\<close>





section \<open>The rotation from end to end\<close>

text \<open>C35. End to end: what the agent sends for an accepted command, encoded for the wire and mapped by
  the controller's client, satisfies the journey checker whenever the server confirms the rotation;
  the device's part of the trace (outcome, coordinates, generation, fence, order of the sequence
  numbers, distinct events) is never what fails.\<close>

theorem journey_accepts_agent:
  assumes "accept x c s = Inr t" "valid_state x i t" "contracts_accept x"
    and "ack_command_id_ok x (ac_command_id c)" "wf_reference (ac_command_id c)" "uint (st_device_sequence t) \<le> i64_max"
    and "mx_expected_device_id context = di_device identity"
    and "rotation_accepted.ra_coordinates accepted = mx_coordinates context"
      "generation_get (ra_accepted_generation accepted) = ac_generation c"
    and "server_confirms x accepted (ac_fence c) s1 receipt s2"
      "event_ref_expose (ar_event receipt) \<notin> outbound_event_id ` set (st_outbox t)"
  shows "\<exists>e1 e2 p q ack report.
      Ack e1 (accepted_ack c s) \<in> set (st_outbox t) \<and> ReportBlocked e2 (accepted_report x c s) \<in> set (st_outbox t)
    \<and> ack_payload x identity (ack_fact_of (accepted_ack c s)) = Inr p
    \<and> report_payload_of x identity (report_fact_of (accepted_report x c s)) = Inr q
    \<and> map_acknowledgement context (EventRef e1) p = Inr ack \<and> map_report context (EventRef e2) q = Inr report
    \<and> verify_positive_trace x accepted ack s1 report receipt s2 = Inr ()"
  by (rule accepted_trace_verifies [OF assms])

theorem journey_accepts_agent_witness:
  "\<exists>ack report. verify_positive_trace sample_x sample_rotation ack sample_status_received report sample_receipt sample_status_ready = Inr ()"
proof -
  have "ack_command_id_ok sample_x (ac_command_id sample_accepted_command)" "wf_reference (ac_command_id sample_accepted_command)"
    "server_confirms sample_x sample_rotation (ac_fence sample_accepted_command) sample_status_received sample_receipt sample_status_ready"
    "generation_get (ra_accepted_generation sample_rotation) = ac_generation sample_accepted_command"
    using sample_reference(1) sample_server_confirms by (simp_all add: sample_journey)
  then show ?thesis
    using journey_accepts_agent [OF sample_accepts linked_stateD(1) [OF sample_accepted_linked] sample_wire_contracts(2) _ _
        sample_journey(4) sample_context_device sample_journey(6) _ _ sample_journey(5)] by blast
qed

section \<open>The operator\<close>

text \<open>C36. Whatever the identity provider, the browser, the callbacks and the service answer, a command
  of the operator sends every request over TLS, and a request that carries the access token goes to
  the scheme, host and port of the configured service and nowhere else.\<close>

theorem token_confined:
  assumes "url_contract x" "contract_paths x" "run_command x env command c = (c', r)"
  shows "\<exists>qs. sent c' = sent c @ qs \<and> (\<forall>q \<in> set qs. ur_scheme (hq_url q) = ''https''
    \<and> (carries_token q \<longrightarrow> (\<exists>b. command_base command = Some b \<and> same_origin (hq_url q) b)))"
proof -
  obtain qs where "sent (fst (run_command x env command c)) = sent c @ qs" "list_all (token_confined_to (command_base command)) qs"
    using run_command_confined [OF assms(1,2), of command env] unfolding adds_def by blast
  then show ?thesis using assms(3) by (auto simp: token_confined_to_def list_all_iff)
qed

theorem token_confined_witness:
  "\<exists>c' qs. run_command sample_cx sample_env (RotateCommand sample_rotate_args) sample_console
       = (c', Inr (rotate_record_json sample_cx sample_record))
     \<and> sent c' = qs @ [sample_put] \<and> carries_token sample_put
     \<and> same_origin (hq_url sample_put) (ro_rss_base_url sample_rotate_args)"
proof -
  obtain c' where r: "run_command sample_cx sample_env (RotateCommand sample_rotate_args) sample_console
        = (c', Inr (rotate_record_json sample_cx sample_record))"
      and s: "\<exists>qs. sent c' = qs @ [sample_put]" "sent sample_console = []"
    using sample_operator_rotates by (auto simp: run_command_def)
  have t: "carries_token sample_put" by (simp add: carries_token_def sample_put_def)
  moreover have "same_origin (hq_url sample_put) (ro_rss_base_url sample_rotate_args)"
    using token_confined [OF sample_url_contract sample_contract_paths r] s t by (auto simp: command_base_def)
  ultimately show ?thesis using r s by blast
qed

text \<open>C37. The access token and the PKCE verifier are secret: when two environments answer alike but for
  these values, a run of the program prints the same, ends with the same exit code and does the
  same, apart from the value of the authorization header and of the code_verifier field of what it
  sends.\<close>

theorem token_stays_secret:
  assumes "environments_alike x env env'" "public_view c = public_view c'"
  shows "snd (main_entry x env cli built c) = snd (main_entry x env' cli built c')
    \<and> public_view (fst (main_entry x env cli built c)) = public_view (fst (main_entry x env' cli built c'))"
  using main_entry_indistinguishable [OF assms] by blast

theorem token_stays_secret_witness:
  "\<exists>c'. main_entry sample_cx other_secrets (CliParsed (RotateCommand sample_rotate_args)) True sample_console
       = (c', rotate_record_json sample_cx sample_record, 0)
     \<and> en_pkce other_secrets [] \<noteq> en_pkce sample_env []"
proof -
  have "snd (main_entry sample_cx sample_env (CliParsed (RotateCommand sample_rotate_args)) True sample_console)
      = (rotate_record_json sample_cx sample_record, 0)"
    using sample_operator_rotates by (auto simp: main_entry_def run_command_def)
  then have "snd (main_entry sample_cx other_secrets (CliParsed (RotateCommand sample_rotate_args)) True sample_console)
      = (rotate_record_json sample_cx sample_record, 0)"
    using token_stays_secret [OF other_secrets_alike refl, of "CliParsed (RotateCommand sample_rotate_args)" True sample_console] by simp
  then show ?thesis by (metis (no_types, lifting) other_secrets_pkce prod.collapse)
qed




text \<open>C40. What the rotate command prints, the audit command accepts from its standard input, and it
  reports the same record.\<close>

theorem audit_accepts_rotate:
  assumes "rotate_main x env args c1 = (c2, Inr output)" "generations_positive x"
    and "\<forall>r. output = rotate_record_json x r \<longrightarrow> record_codec x display r"
    and "en_stdin env' = Some (printed display output)" "length (printed display output) \<le> MAX_RESPONSE_BYTES"
  shows "\<exists>r. output = rotate_record_json x r \<and> audit x env' ''-'' c = (c, Inr (audit_json x r))"
proof -
  obtain r where "output = rotate_record_json x r" "rotate_record_valid r" using rotate_output [OF assms(1,2)] by blast
  then show ?thesis using audit_printed [of x display r env' c] assms(3-5) by auto
qed

theorem audit_accepts_rotate_witness:
  "\<exists>r. rotate_record_json sample_cx sample_record = rotate_record_json sample_cx r
     \<and> audit sample_cx (sample_env\<lparr> en_stdin := Some (printed (\<lambda>_. ''record'') JNull) \<rparr>) ''-'' sample_console
         = (sample_console, Inr (audit_json sample_cx r))"
proof -
  obtain c' where r: "rotate_main sample_cx sample_env sample_rotate_args sample_console = (c', Inr (rotate_record_json sample_cx sample_record))"
    using sample_operator_rotates by blast
  show ?thesis
    by (rule audit_accepts_rotate [OF r sample_generations, of "\<lambda>_. ''record''"])
      (use sample_record_codec in \<open>simp_all add: printed_def MAX_RESPONSE_BYTES_def\<close>)
qed

end
